(* ===== verification/Prelude.thy ===== *)
theory Prelude
  imports Main "HOL-Library.Word" "HOL-Library.Signed_Division"
begin

text \<open>
  Shared vocabulary of the development: Rust's \<open>Result\<close> with the panic made a value, the
  machine integers of the source, big-endian packing, and the generic notion of a labelled
  transition system whose invariants the components instantiate.

  A Rust function that mutates \<open>&mut self\<close> and returns a \<open>Result\<close> is modelled as a function
  to \<open>state \<times> outcome\<close>: the state component is the (possibly partially) mutated receiver, also
  on an \<open>Err\<close>. Plain arithmetic that overflows is \<open>Panic\<close>, as in a build with overflow
  checks; \<open>checked_\<close>, \<open>wrapping_\<close>, \<open>overflowing_\<close> and \<open>saturating_\<close> operations are written
  out as the source uses them.
\<close>

unbundle bit_operations_syntax

named_theorems outcome_simps \<open>rewriting of outcomes and their sequencing\<close>
named_theorems wire_simps \<open>unfolding of wire encoders and decoders\<close>

section \<open>Outcomes\<close>

datatype ('a, 'e) outcome = Ok 'a | Err 'e | Panic

text \<open>Sequencing as the \<open>?\<close> operator does it: the first error or panic is the result.\<close>

fun and_then :: "('a, 'e) outcome \<Rightarrow> ('a \<Rightarrow> ('b, 'e) outcome) \<Rightarrow> ('b, 'e) outcome" where
  "and_then (Ok x) f = f x"
| "and_then (Err e) f = Err e"
| "and_then Panic f = Panic"

fun map_out :: "('a \<Rightarrow> 'b) \<Rightarrow> ('a, 'e) outcome \<Rightarrow> ('b, 'e) outcome" where
  "map_out f (Ok x) = Ok (f x)"
| "map_out f (Err e) = Err e"
| "map_out f Panic = Panic"

fun is_Ok :: "('a, 'e) outcome \<Rightarrow> bool" where
  "is_Ok (Ok x) = True"
| "is_Ok (Err e) = False"
| "is_Ok Panic = False"

definition assert_out :: "bool \<Rightarrow> (unit, 'e) outcome" where
  "assert_out b = (if b then Ok () else Panic)"

fun out_option :: "('a, 'e) outcome \<Rightarrow> 'a option" where
  "out_option (Ok x) = Some x"
| "out_option _ = None"

lemma out_option_Some_iff [simp, outcome_simps]: "out_option m = Some x \<longleftrightarrow> m = Ok x"
  by (cases m) auto

lemma bind_SomeE:
  assumes "Option.bind m f = Some y"
  obtains x where "m = Some x" "f x = Some y"
  using assms by (cases m) auto

text \<open>\<open>collect\<close> over fallible elements.\<close>

lemma those_Some_iff: "those xs = Some ys \<longleftrightarrow> xs = map Some ys"
  by (induction xs arbitrary: ys) (auto split: option.splits)

lemma those_map_Some_iff:
  "those (map f xs) = Some ys \<longleftrightarrow> length ys = length xs \<and> (\<forall>i < length xs. f (xs ! i) = Some (ys ! i))"
  by (auto simp: those_Some_iff list_eq_iff_nth_eq)

lemma and_then_Ok_iff [outcome_simps]:
  "and_then m f = Ok y \<longleftrightarrow> (\<exists>x. m = Ok x \<and> f x = Ok y)"
  by (cases m) auto

lemma and_then_assoc: "and_then (and_then m f) g = and_then m (\<lambda>x. and_then (f x) g)"
  by (cases m) auto

lemma map_out_Ok_iff [outcome_simps]: "map_out f m = Ok y \<longleftrightarrow> (\<exists>x. m = Ok x \<and> y = f x)"
  by (cases m) auto

lemma map_out_other_iff [simp]:
  "map_out f m = Err e \<longleftrightarrow> m = Err e" "map_out f m = Panic \<longleftrightarrow> m = Panic"
  by (cases m; simp)+

lemma is_Ok_iff [outcome_simps]: "is_Ok m \<longleftrightarrow> (\<exists>x. m = Ok x)"
  by (cases m) auto

lemma assert_out_Ok_iff [outcome_simps]: "assert_out b = Ok u \<longleftrightarrow> b"
  by (auto simp: assert_out_def)

section \<open>Machine integers\<close>

type_synonym byte = "8 word"
type_synonym u16 = "16 word"
type_synonym u32 = "32 word"
type_synonym u64 = "64 word"

text \<open>
  An \<open>i32\<close> is an \<open>int\<close> in range; \<open>as i32\<close> of a \<open>u32\<close> is the two's complement reading and
  \<open>as u32\<close> the reduction modulo \<open>2 ^ 32\<close>.
\<close>

definition i32_ok :: "int \<Rightarrow> bool" where
  "i32_ok v \<longleftrightarrow> - (2 ^ 31) \<le> v \<and> v < 2 ^ 31"

definition as_i32 :: "u32 \<Rightarrow> int" where
  "as_i32 w = sint w"

definition as_u32 :: "int \<Rightarrow> u32" where
  "as_u32 v = word_of_int v"

definition checked_sub_i32 :: "int \<Rightarrow> int \<Rightarrow> int option" where
  "checked_sub_i32 a b = (if i32_ok (a - b) then Some (a - b) else None)"

definition checked_add_i32 :: "int \<Rightarrow> int \<Rightarrow> int option" where
  "checked_add_i32 a b = (if i32_ok (a + b) then Some (a + b) else None)"

text \<open>\<open>overflowing_add\<close>: the wrapped sum and whether it wrapped.\<close>

definition overflowing_add_i32 :: "int \<Rightarrow> int \<Rightarrow> int \<times> bool" where
  "overflowing_add_i32 a b = (as_i32 (as_u32 (a + b)), \<not> i32_ok (a + b))"

text \<open>The plain \<open>-\<close> of two \<open>i32\<close>s: overflow panics.\<close>

definition sub_i32 :: "int \<Rightarrow> int \<Rightarrow> (int, 'e) outcome" where
  "sub_i32 a b = (if i32_ok (a - b) then Ok (a - b) else Panic)"

definition USIZE_MAX :: nat where
  "USIZE_MAX = 2 ^ 64 - 1"

lemma i32_ok_as_i32 [simp]: "i32_ok (as_i32 w)"
  using sint_ge [of w] sint_lt [of w] by (simp add: i32_ok_def as_i32_def)

lemma i32_ok_0 [simp]: "i32_ok 0"
  by (simp add: i32_ok_def)

lemma as_i32_as_u32: "i32_ok v \<Longrightarrow> as_i32 (as_u32 v) = v"
  by (simp add: as_i32_def as_u32_def i32_ok_def signed_of_int signed_take_bit_int_eq_self)

lemma uint_as_u32: "0 \<le> v \<Longrightarrow> i32_ok v \<Longrightarrow> uint (as_u32 v) = v"
  by (simp add: as_u32_def i32_ok_def unsigned_of_int take_bit_int_eq_self)

lemma unat_u8_bound: "unat (w :: byte) < 256"
  using unsigned_less [of w, where ?'a = nat] by simp

lemma unat_u32_bound: "unat (w :: u32) < 4294967296"
  using unsigned_less [of w, where ?'a = nat] by simp

lemma uint_nonneg: "0 \<le> uint w"
  by simp

text \<open>Adding an unsigned amount cannot leave the \<open>i32\<close> range at the bottom.\<close>

lemma i32_ok_add_uint: "i32_ok v \<Longrightarrow> i32_ok (v + uint w) \<longleftrightarrow> v + uint w < 2 ^ 31"
  using uint_nonneg [of w] unfolding i32_ok_def by linarith

text \<open>Below \<open>2 ^ 31\<close> the two readings of a \<open>u32\<close> agree.\<close>

lemma as_i32_small: "uint w < 2 ^ 31 \<Longrightarrow> as_i32 w = uint w"
proof -
  assume small: "uint w < 2 ^ 31"
  have "0 \<le> uint w" by simp
  then have "- 2147483648 \<le> uint w" by linarith
  then have "signed_take_bit 31 (uint w) = uint w"
    using small signed_take_bit_int_eq_self [of 31 "uint w"] by simp
  then show ?thesis
    by (simp add: as_i32_def sint_uint)
qed

lemma overflowing_add_i32_fits:
  "i32_ok (a + b) \<Longrightarrow> overflowing_add_i32 a b = (a + b, False)"
  by (simp add: overflowing_add_i32_def as_i32_as_u32)

section \<open>Big-endian packing\<close>

text \<open>\<open>unpack_octets_4!\<close> and \<open>u32::from_be_bytes\<close> on four octets; \<open>put_u32\<close> and its 16 and 24
  bit relatives.\<close>

definition be32 :: "byte \<Rightarrow> byte \<Rightarrow> byte \<Rightarrow> byte \<Rightarrow> u32" where
  "be32 a b c d =
     push_bit 24 (ucast a) OR push_bit 16 (ucast b) OR push_bit 8 (ucast c) OR ucast d"

definition be16 :: "byte \<Rightarrow> byte \<Rightarrow> u16" where
  "be16 a b = push_bit 8 (ucast a) OR ucast b"

definition put_u32 :: "u32 \<Rightarrow> byte list" where
  "put_u32 w = [ucast (drop_bit 24 w), ucast (drop_bit 16 w), ucast (drop_bit 8 w), ucast w]"

definition put_u16 :: "u16 \<Rightarrow> byte list" where
  "put_u16 w = [ucast (drop_bit 8 w), ucast w]"

definition put_uint3 :: "u64 \<Rightarrow> byte list" where
  "put_uint3 w = [ucast (drop_bit 16 w), ucast (drop_bit 8 w), ucast w]"

lemma unat_inj_iff: "unat v = unat w \<longleftrightarrow> v = w"
  by (auto intro: unsigned_word_eqI)

lemma and_or_distr: "(a OR b) AND c = (a AND c) OR (b AND c :: 'a::len word)"
  by (rule bit_word_eqI) (auto simp: bit_simps)

lemma or_and_absorb: "(m OR w) AND m = (m :: 'a::len word)"
  by (rule bit_word_eqI) (auto simp: bit_simps)

lemma and_push_bit_one: "(w :: 'a::len word) AND push_bit n 1 \<noteq> 0 \<longleftrightarrow> bit w n"
proof -
  have "w AND push_bit n 1 = (if bit w n then push_bit n 1 else 0)"
    by (rule bit_word_eqI) (auto simp: bit_simps)
  moreover have "bit w n \<Longrightarrow> push_bit n 1 \<noteq> (0 :: 'a word)"
  proof
    assume "bit w n" "push_bit n 1 = (0 :: 'a word)"
    then have "n < LENGTH('a)" "\<not> bit (push_bit n 1 :: 'a word) n" using bit_imp_le_length [of w n] by simp_all
    then show False by (simp add: bit_simps)
  qed
  ultimately show ?thesis by auto
qed

lemma be32_put_u32 [wire_simps]:
  "be32 (ucast (drop_bit 24 w)) (ucast (drop_bit 16 w)) (ucast (drop_bit 8 w)) (ucast w) = w"
proof (rule bit_word_eqI)
  fix n assume "n < LENGTH(32)"
  then consider "n < 8" | "8 \<le> n" "n < 16" | "16 \<le> n" "n < 24" | "24 \<le> n" "n < 32"
    by force
  then show "bit (be32 (ucast (drop_bit 24 w)) (ucast (drop_bit 16 w))
      (ucast (drop_bit 8 w)) (ucast w)) n = bit w n"
    by cases (simp_all add: be32_def bit_simps, linarith+)
qed

lemma byte_bit_beyond: "8 \<le> m \<Longrightarrow> \<not> bit (a :: byte) m"
  using bit_imp_le_length [of a m] by force

lemma octet_bits:
  assumes "n < 8"
  shows "bit (be32 a b c d) (24 + n) = bit a n" "bit (be32 a b c d) (16 + n) = bit b n"
    "bit (be32 a b c d) (8 + n) = bit c n" "bit (be32 a b c d) n = bit d n"
  using assms by (simp_all add: be32_def bit_simps byte_bit_beyond)

lemma octets_be32:
  "ucast (drop_bit 24 (be32 a b c d)) = a" "ucast (drop_bit 16 (be32 a b c d)) = b"
  "ucast (drop_bit 8 (be32 a b c d)) = c" "ucast (be32 a b c d) = d"
  by (rule bit_word_eqI; simp add: bit_unsigned_iff bit_drop_bit_eq octet_bits)+

lemma be16_put_u16 [wire_simps]: "be16 (ucast (drop_bit 8 w)) (ucast w) = w"
  unfolding be16_def
  by (rule bit_word_eqI)
     (auto simp: bit_simps)

lemma length_put_u32 [simp]: "length (put_u32 w) = 4"
  by (simp add: put_u32_def)

lemma length_put_u16 [simp]: "length (put_u16 w) = 2"
  by (simp add: put_u16_def)

lemma length_put_uint3 [simp]: "length (put_uint3 w) = 3"
  by (simp add: put_uint3_def)

text \<open>The bytes of a string literal.\<close>

definition bytes_of :: "string \<Rightarrow> byte list" where
  "bytes_of s = map of_char s"

lemma length_bytes_of [simp]: "length (bytes_of s) = length s"
  by (simp add: bytes_of_def)

section \<open>Labelled transition systems\<close>

text \<open>
  A component with state is a partial step function: \<open>None\<close> means that the operation is refused
  or panics. A run is a sequence of operations that are all accepted. The locale is the
  interface every stateful component implements: an invariant of the initial states that every
  accepted operation keeps. Its lemmas lift the invariant to runs.
\<close>

fun run :: "('s \<Rightarrow> 'op \<Rightarrow> 's option) \<Rightarrow> 's \<Rightarrow> 'op list \<Rightarrow> 's option" where
  "run step s [] = Some s"
| "run step s (x # xs) = (case step s x of None \<Rightarrow> None | Some t \<Rightarrow> run step t xs)"

lemma run_append:
  "run step s (xs @ ys) = (case run step s xs of None \<Rightarrow> None | Some t \<Rightarrow> run step t ys)"
  by (induction xs arbitrary: s) (auto split: option.splits)

locale invariant_system =
  fixes step :: "'s \<Rightarrow> 'op \<Rightarrow> 's option"
    and inv :: "'s \<Rightarrow> bool"
  assumes step_inv: "inv s \<Longrightarrow> step s x = Some t \<Longrightarrow> inv t"
begin

lemma run_inv: "inv s \<Longrightarrow> run step s xs = Some t \<Longrightarrow> inv t"
  by (induction xs arbitrary: s) (auto split: option.splits dest: step_inv)

text \<open>Every intermediate state of a run satisfies the invariant too.\<close>

lemma run_prefix_inv:
  assumes "inv s" and "run step s (xs @ ys) = Some t"
  shows "\<exists>u. run step s xs = Some u \<and> inv u"
  using assms by (auto simp: run_append split: option.splits intro: run_inv)

end

text \<open>
  A measured system counts, per accepted operation, what the operation takes from a resource;
  the resource never goes below what has been taken.
\<close>

locale budget_system = invariant_system step inv
  for step :: "'s \<Rightarrow> 'op \<Rightarrow> 's option" and inv :: "'s \<Rightarrow> bool" +
  fixes credit :: "'op \<Rightarrow> int"
    and debit :: "'op \<Rightarrow> int"
    and level :: "'s \<Rightarrow> int"
  assumes step_level: "inv s \<Longrightarrow> step s x = Some t \<Longrightarrow> level t \<le> level s + credit x - debit x"
begin

lemma run_level:
  "inv s \<Longrightarrow> run step s xs = Some t \<Longrightarrow>
     level t \<le> level s + sum_list (map credit xs) - sum_list (map debit xs)"
proof (induction xs arbitrary: s)
  case Nil
  then show ?case by simp
next
  case (Cons x xs)
  then obtain u where u: "step s x = Some u" "run step u xs = Some t"
    by (auto split: option.splits)
  with Cons.prems have "inv u" by (blast intro: step_inv)
  with u have "level t \<le> level u + sum_list (map credit xs) - sum_list (map debit xs)"
    by (intro Cons.IH)
  moreover have "level u \<le> level s + credit x - debit x"
    using Cons.prems(1) u(1) by (rule step_level)
  ultimately show ?case by simp
qed

end

end
