(* ===== verification/Errors.thy ===== *)
theory Errors
  imports Prelude
begin

text \<open>
  The error vocabulary of the HTTP/2 stack: \<open>frame/reason.rs\<close> (\<open>Reason\<close>), \<open>proto/error.rs\<close>
  (\<open>Error\<close>, \<open>Initiator\<close>), \<open>codec/error.rs\<close> (\<open>UserError\<close>) and the frame errors of
  \<open>frame/mod.rs\<close>.
\<close>

text \<open>\<open>Reason(u32)\<close>: the code space is open, the constants are the RFC's names.\<close>

datatype reason = Reason u32

definition NO_ERROR :: reason where "NO_ERROR = Reason 0"
definition PROTOCOL_ERROR :: reason where "PROTOCOL_ERROR = Reason 1"
definition INTERNAL_ERROR :: reason where "INTERNAL_ERROR = Reason 2"
definition FLOW_CONTROL_ERROR :: reason where "FLOW_CONTROL_ERROR = Reason 3"
definition SETTINGS_TIMEOUT :: reason where "SETTINGS_TIMEOUT = Reason 4"
definition STREAM_CLOSED :: reason where "STREAM_CLOSED = Reason 5"
definition FRAME_SIZE_ERROR :: reason where "FRAME_SIZE_ERROR = Reason 6"
definition REFUSED_STREAM :: reason where "REFUSED_STREAM = Reason 7"
definition CANCEL :: reason where "CANCEL = Reason 8"
definition COMPRESSION_ERROR :: reason where "COMPRESSION_ERROR = Reason 9"
definition CONNECT_ERROR :: reason where "CONNECT_ERROR = Reason 10"
definition ENHANCE_YOUR_CALM :: reason where "ENHANCE_YOUR_CALM = Reason 11"
definition INADEQUATE_SECURITY :: reason where "INADEQUATE_SECURITY = Reason 12"
definition HTTP_1_1_REQUIRED :: reason where "HTTP_1_1_REQUIRED = Reason 13"

fun reason_code :: "reason \<Rightarrow> u32" where
  "reason_code (Reason c) = c"

datatype initiator = User | Library | Remote

fun initiator_is_local :: "initiator \<Rightarrow> bool" where
  "initiator_is_local User = True"
| "initiator_is_local Library = True"
| "initiator_is_local Remote = False"

fun initiator_is_library :: "initiator \<Rightarrow> bool" where
  "initiator_is_library Library = True"
| "initiator_is_library _ = False"

text \<open>The I/O error kinds the stack itself constructs; every other kind is carried by name.\<close>

datatype io_kind = BrokenPipe | OtherIo string

datatype proto_error =
    Reset u32 reason initiator
  | GoAway "byte list" reason initiator
  | Io io_kind "string option"

fun error_is_local :: "proto_error \<Rightarrow> bool" where
  "error_is_local (Reset _ _ i) = initiator_is_local i"
| "error_is_local (GoAway _ _ i) = initiator_is_local i"
| "error_is_local (Io _ _) = True"

definition user_go_away :: "reason \<Rightarrow> proto_error" where
  "user_go_away r = GoAway [] r User"

definition library_reset :: "u32 \<Rightarrow> reason \<Rightarrow> proto_error" where
  "library_reset sid r = Reset sid r Library"

definition library_go_away :: "reason \<Rightarrow> proto_error" where
  "library_go_away r = GoAway [] r Library"

definition library_go_away_data :: "reason \<Rightarrow> byte list \<Rightarrow> proto_error" where
  "library_go_away_data r d = GoAway d r Library"

definition remote_reset :: "u32 \<Rightarrow> reason \<Rightarrow> proto_error" where
  "remote_reset sid r = Reset sid r Remote"

definition remote_go_away :: "byte list \<Rightarrow> reason \<Rightarrow> proto_error" where
  "remote_go_away d r = GoAway d r Remote"

datatype user_error =
    InactiveStreamId
  | UnexpectedFrameType
  | PayloadTooBig
  | Rejected
  | ReleaseCapacityTooBig
  | OverflowedStreamId
  | MalformedHeaders
  | MissingUriSchemeAndAuthority
  | PollResetAfterSendResponse
  | SendPingWhilePending
  | SendSettingsWhilePending
  | PeerDisabledServerPush
  | InvalidInformationalStatusCode

text \<open>\<open>frame::Error\<close>; the HPACK error it wraps is a type parameter.\<close>

datatype 'h frame_error =
    BadFrameSize
  | TooMuchPadding
  | InvalidSettingValue
  | InvalidWindowUpdateValue
  | InvalidPayloadLength
  | InvalidPayloadAckSettings
  | InvalidStreamId
  | MalformedMessage
  | InvalidDependencyId
  | Hpack 'h

lemmas error_ctor_defs =
  user_go_away_def library_reset_def library_go_away_def library_go_away_data_def
  remote_reset_def remote_go_away_def

end
