(* ===== verification/Flow_Control.thy ===== *)
theory Flow_Control
  imports Errors
begin

text \<open>
  \<open>proto/streams/flow_control.rs\<close>: the \<open>Window\<close> type, the \<open>FlowControl\<close> record and its
  operations. A window is an \<open>i32\<close> that may go negative; sizes on the wire are \<open>u32\<close>.
\<close>

section \<open>Windows\<close>

definition MAX_WINDOW_SIZE :: u32 where
  "MAX_WINDOW_SIZE = push_bit 31 1 - 1"

definition UNCLAIMED_NUMERATOR :: int where "UNCLAIMED_NUMERATOR = 1"
definition UNCLAIMED_DENOMINATOR :: int where "UNCLAIMED_DENOMINATOR = 2"

type_synonym window = int

definition window_as_size :: "window \<Rightarrow> u32" where
  "window_as_size w = (if w < 0 then 0 else as_u32 w)"

definition window_checked_size :: "window \<Rightarrow> (u32, 'e) outcome" where
  "window_checked_size w = (if w \<ge> 0 then Ok (as_u32 w) else Panic)"

definition window_decrease_by :: "window \<Rightarrow> u32 \<Rightarrow> window \<times> (unit, reason) outcome" where
  "window_decrease_by w other =
     (case checked_sub_i32 w (as_i32 other) of
        Some v \<Rightarrow> (v, Ok ())
      | None \<Rightarrow> (w, Err FLOW_CONTROL_ERROR))"

definition window_add :: "window \<Rightarrow> u32 \<Rightarrow> (window, reason) outcome" where
  "window_add w other =
     (case checked_add_i32 w (as_i32 other) of
        Some v \<Rightarrow> Ok v
      | None \<Rightarrow> Err FLOW_CONTROL_ERROR)"

definition window_increase_by :: "window \<Rightarrow> u32 \<Rightarrow> window \<times> (unit, reason) outcome" where
  "window_increase_by w other =
     (case window_add w other of
        Ok v \<Rightarrow> (v, Ok ())
      | Err e \<Rightarrow> (w, Err e)
      | Panic \<Rightarrow> (w, Panic))"

section \<open>Flow control\<close>

record flow_control =
  fc_window_size :: window
  fc_available :: window

definition fc_new :: flow_control where
  "fc_new = \<lparr>fc_window_size = 0, fc_available = 0\<rparr>"

definition fc_window :: "flow_control \<Rightarrow> u32" where
  "fc_window fc = window_as_size (fc_window_size fc)"

definition has_unavailable :: "flow_control \<Rightarrow> bool" where
  "has_unavailable fc =
     (if fc_window_size fc < 0 then False else fc_window_size fc > fc_available fc)"

definition claim_capacity :: "flow_control \<Rightarrow> u32 \<Rightarrow> flow_control \<times> (unit, reason) outcome" where
  "claim_capacity fc capacity =
     (let (w, r) = window_decrease_by (fc_available fc) capacity
      in (fc\<lparr>fc_available := w\<rparr>, r))"

definition assign_capacity :: "flow_control \<Rightarrow> u32 \<Rightarrow> flow_control \<times> (unit, reason) outcome" where
  "assign_capacity fc capacity =
     (let (w, r) = window_increase_by (fc_available fc) capacity
      in (fc\<lparr>fc_available := w\<rparr>, r))"

text \<open>\<open>/\<close> on \<open>i32\<close> truncates towards zero.\<close>

definition unclaimed_threshold :: "window \<Rightarrow> int" where
  "unclaimed_threshold w = (w sdiv UNCLAIMED_DENOMINATOR) * UNCLAIMED_NUMERATOR"

definition unclaimed_capacity :: "flow_control \<Rightarrow> (u32 option, 'e) outcome" where
  "unclaimed_capacity fc =
     (if fc_window_size fc \<ge> fc_available fc then Ok None
      else and_then (sub_i32 (fc_available fc) (fc_window_size fc))
        (\<lambda>unclaimed.
           if unclaimed < unclaimed_threshold (fc_window_size fc) then Ok None
           else Ok (Some (as_u32 unclaimed))))"

definition inc_window :: "flow_control \<Rightarrow> u32 \<Rightarrow> flow_control \<times> (unit, reason) outcome" where
  "inc_window fc sz =
     (let (val, overflow) = overflowing_add_i32 (fc_window_size fc) (as_i32 sz)
      in if overflow then (fc\<lparr>fc_window_size := as_i32 MAX_WINDOW_SIZE\<rparr>, Ok ())
         else if val > as_i32 MAX_WINDOW_SIZE then (fc, Err FLOW_CONTROL_ERROR)
         else (fc\<lparr>fc_window_size := val\<rparr>, Ok ()))"

definition dec_send_window :: "flow_control \<Rightarrow> u32 \<Rightarrow> flow_control \<times> (unit, reason) outcome" where
  "dec_send_window fc sz =
     (let (w, r) = window_decrease_by (fc_window_size fc) sz
      in (fc\<lparr>fc_window_size := w\<rparr>, r))"

text \<open>
  The two decrements of \<open>dec_recv_window\<close> and \<open>send_data\<close> are sequenced by \<open>?\<close>: when the second
  fails, the first has already been stored.
\<close>

definition dec_both :: "flow_control \<Rightarrow> u32 \<Rightarrow> flow_control \<times> (unit, reason) outcome" where
  "dec_both fc sz =
     (let (w, r) = window_decrease_by (fc_window_size fc) sz;
          fc1 = fc\<lparr>fc_window_size := w\<rparr>
      in if r \<noteq> Ok () then (fc1, r)
         else let (a, r') = window_decrease_by (fc_available fc1) sz
              in (fc1\<lparr>fc_available := a\<rparr>, r'))"

definition dec_recv_window :: "flow_control \<Rightarrow> u32 \<Rightarrow> flow_control \<times> (unit, reason) outcome" where
  "dec_recv_window fc sz = dec_both fc sz"

definition send_data :: "flow_control \<Rightarrow> u32 \<Rightarrow> flow_control \<times> (unit, reason) outcome" where
  "send_data fc sz =
     (if sz > 0
      then if fc_window_size fc \<ge> as_i32 sz then dec_both fc sz else (fc, Panic)
      else (fc, Ok ()))"

section \<open>Invariant and functional behaviour\<close>

definition fc_ok :: "flow_control \<Rightarrow> bool" where
  "fc_ok fc \<longleftrightarrow> i32_ok (fc_window_size fc) \<and> i32_ok (fc_available fc)"

lemmas window_defs =
  window_decrease_by_def window_add_def window_increase_by_def
  checked_sub_i32_def checked_add_i32_def

lemmas fc_defs =
  claim_capacity_def assign_capacity_def inc_window_def dec_send_window_def
  dec_both_def dec_recv_window_def send_data_def

lemma as_i32_MAX [simp]: "as_i32 MAX_WINDOW_SIZE = 2 ^ 31 - 1"
  by (simp add: MAX_WINDOW_SIZE_def as_i32_def)

lemma i32_ok_le_MAX: "i32_ok v \<longleftrightarrow> - (2 ^ 31) \<le> v \<and> v \<le> 2 ^ 31 - 1"
  by (auto simp: i32_ok_def)

text \<open>The value test after the overflow test can never fail: an \<open>i32\<close> is at most \<open>MAX\<close>.\<close>

lemma inc_window_eq:
  "inc_window fc sz =
     (if i32_ok (fc_window_size fc + as_i32 sz)
      then (fc\<lparr>fc_window_size := fc_window_size fc + as_i32 sz\<rparr>, Ok ())
      else (fc\<lparr>fc_window_size := 2 ^ 31 - 1\<rparr>, Ok ()))"
  by (auto simp: inc_window_def overflowing_add_i32_def as_i32_as_u32 i32_ok_def)

lemma fc_ok_new [simp]: "fc_ok fc_new"
  by (simp add: fc_ok_def fc_new_def)

lemma fc_ok_ops:
  assumes "fc_ok fc"
  shows "fc_ok (fst (claim_capacity fc sz))" "fc_ok (fst (assign_capacity fc sz))"
    "fc_ok (fst (inc_window fc sz))" "fc_ok (fst (dec_send_window fc sz))"
    "fc_ok (fst (dec_recv_window fc sz))" "fc_ok (fst (send_data fc sz))"
  using assms
  by (auto simp: inc_window_eq)
     (auto simp: fc_ok_def fc_defs window_defs Let_def i32_ok_le_MAX split: option.splits)

section \<open>Flow control as a transition system\<close>

text \<open>
  The operations a stream or connection performs on its send window. Increments and decrements
  come from WINDOW_UPDATE and SETTINGS frames, whose values are below \<open>2 ^ 31\<close>, and data frames
  are no longer than that; larger arguments are refused here.
\<close>

datatype fc_op = Inc u32 | DecSend u32 | SendData u32 | Claim u32 | Assign u32 | DecRecv u32

fun fc_apply :: "flow_control \<Rightarrow> fc_op \<Rightarrow> flow_control \<times> (unit, reason) outcome" where
  "fc_apply fc (Inc n) = inc_window fc n"
| "fc_apply fc (DecSend n) = dec_send_window fc n"
| "fc_apply fc (SendData n) = send_data fc n"
| "fc_apply fc (Claim n) = claim_capacity fc n"
| "fc_apply fc (Assign n) = assign_capacity fc n"
| "fc_apply fc (DecRecv n) = dec_recv_window fc n"

fun fc_amount :: "fc_op \<Rightarrow> u32" where
  "fc_amount (Inc n) = n"
| "fc_amount (DecSend n) = n"
| "fc_amount (SendData n) = n"
| "fc_amount (Claim n) = n"
| "fc_amount (Assign n) = n"
| "fc_amount (DecRecv n) = n"

definition fc_step :: "flow_control \<Rightarrow> fc_op \<Rightarrow> flow_control option" where
  "fc_step fc x =
     (if uint (fc_amount x) < 2 ^ 31 \<and> snd (fc_apply fc x) = Ok ()
      then Some (fst (fc_apply fc x)) else None)"

fun fc_granted :: "fc_op \<Rightarrow> int" where
  "fc_granted (Inc n) = uint n"
| "fc_granted _ = 0"

fun fc_sent :: "fc_op \<Rightarrow> int" where
  "fc_sent (SendData n) = uint n"
| "fc_sent _ = 0"

fun fc_taken :: "fc_op \<Rightarrow> int" where
  "fc_taken (SendData n) = uint n"
| "fc_taken (DecSend n) = uint n"
| "fc_taken (DecRecv n) = uint n"
| "fc_taken _ = 0"

lemma fc_step_ok: "fc_ok fc \<Longrightarrow> fc_step fc x = Some fc' \<Longrightarrow> fc_ok fc'"
  by (cases x) (auto simp: fc_step_def fc_ok_ops split: if_splits)

lemma dec_both_Ok:
  assumes "snd (dec_both fc n) = Ok ()" and "uint n < 2 ^ 31"
  shows "fst (dec_both fc n) = fc\<lparr>fc_window_size := fc_window_size fc - uint n,
                  fc_available := fc_available fc - uint n\<rparr>"
  using assms
  by (auto simp: dec_both_def window_defs Let_def as_i32_small split: if_splits)

lemma fc_step_window:
  assumes "fc_ok fc" and "fc_step fc x = Some fc'"
  shows "fc_window_size fc' \<le> fc_window_size fc + fc_granted x - fc_taken x"
proof (cases x)
  case (Inc n)
  with assms show ?thesis
    by (auto simp: fc_step_def inc_window_eq as_i32_small i32_ok_add_uint fc_ok_def split: if_splits)
next
  case (SendData n)
  with assms show ?thesis
    by (auto simp: fc_step_def send_data_def dec_both_Ok word_neq_0_conv [symmetric] split: if_splits)
next
  case (DecRecv n)
  with assms show ?thesis
    by (auto simp: fc_step_def dec_recv_window_def dec_both_Ok split: if_splits)
qed (use assms in \<open>auto simp: fc_step_def fc_defs window_defs Let_def as_i32_small split: if_splits\<close>)

interpretation fcs: budget_system fc_step fc_ok fc_granted fc_taken fc_window_size
  by unfold_locales (auto intro: fc_step_ok fc_step_window)

text \<open>A data frame is accepted only within the window, which stays non-negative.\<close>

lemma send_step_nonneg:
  assumes "fc_step fc (SendData n) = Some fc'" and "n > 0"
  shows "0 \<le> fc_window_size fc'"
proof -
  from assms have guard: "as_i32 n \<le> fc_window_size fc" and small: "uint n < 2 ^ 31"
    and ok: "snd (dec_both fc n) = Ok ()" and fc': "fc' = fst (dec_both fc n)"
    by (auto simp: fc_step_def send_data_def split: if_splits)
  from guard small show ?thesis
    by (simp add: fc' dec_both_Ok [OF ok small] as_i32_small)
qed

section \<open>Properties\<close>







end
