(* ===== verification/Stream_State.thy ===== *)
theory Stream_State
  imports Errors
begin

text \<open>
  \<open>proto/streams/state.rs\<close>: the state machine of one HTTP/2 stream. Every method of \<open>State\<close> is a
  function; \<open>recv_open\<close> receives what it reads of the HEADERS frame, the END_STREAM flag and
  whether the status is informational. The machine refines the stream diagram of RFC 9113,
  section 5.1, which the source reproduces as a comment.
\<close>

section \<open>States\<close>

datatype peer = AwaitingHeaders | Streaming

datatype cause = EndStream | Error proto_error | ScheduledLibraryReset reason

datatype inner =
    Idle
  | ReservedLocal
  | ReservedRemote
  | Open peer peer \<comment> \<open>local, remote\<close>
  | HalfClosedLocal peer
  | HalfClosedRemote peer
  | Closed cause

section \<open>Transitions\<close>

fun send_open :: "inner \<Rightarrow> bool \<Rightarrow> (inner, user_error) outcome" where
  "send_open Idle eos =
     Ok (if eos then HalfClosedLocal AwaitingHeaders else Open Streaming AwaitingHeaders)"
| "send_open (Open AwaitingHeaders remote) eos =
     Ok (if eos then HalfClosedLocal remote else Open Streaming remote)"
| "send_open (HalfClosedRemote AwaitingHeaders) eos =
     Ok (if eos then Closed EndStream else HalfClosedRemote Streaming)"
| "send_open ReservedLocal eos =
     Ok (if eos then Closed EndStream else HalfClosedRemote Streaming)"
| "send_open _ eos = Err UnexpectedFrameType"

text \<open>The boolean result tells whether the frame opened the stream (\<open>initial\<close>).\<close>

fun recv_open :: "inner \<Rightarrow> bool \<Rightarrow> bool \<Rightarrow> (inner \<times> bool, proto_error) outcome" where
  "recv_open Idle eos informational =
     Ok (if eos then HalfClosedRemote AwaitingHeaders
         else Open AwaitingHeaders (if informational then AwaitingHeaders else Streaming), True)"
| "recv_open ReservedRemote eos informational =
     Ok (if eos then Closed EndStream
         else if informational then ReservedRemote
         else HalfClosedLocal Streaming, True)"
| "recv_open (Open local AwaitingHeaders) eos informational =
     Ok (if eos then HalfClosedRemote local
         else Open local (if informational then AwaitingHeaders else Streaming), False)"
| "recv_open (HalfClosedLocal AwaitingHeaders) eos informational =
     Ok (if eos then Closed EndStream
         else if informational then HalfClosedLocal AwaitingHeaders
         else HalfClosedLocal Streaming, False)"
| "recv_open _ eos informational = Err (library_go_away PROTOCOL_ERROR)"

fun reserve_remote :: "inner \<Rightarrow> (inner, proto_error) outcome" where
  "reserve_remote Idle = Ok ReservedRemote"
| "reserve_remote _ = Err (library_go_away PROTOCOL_ERROR)"

fun reserve_local :: "inner \<Rightarrow> (inner, user_error) outcome" where
  "reserve_local Idle = Ok ReservedLocal"
| "reserve_local _ = Err UnexpectedFrameType"

fun recv_close :: "inner \<Rightarrow> (inner, proto_error) outcome" where
  "recv_close (Open local _) = Ok (HalfClosedRemote local)"
| "recv_close (HalfClosedLocal _) = Ok (Closed EndStream)"
| "recv_close _ = Err (library_go_away PROTOCOL_ERROR)"

fun recv_reset :: "inner \<Rightarrow> u32 \<Rightarrow> reason \<Rightarrow> bool \<Rightarrow> inner" where
  "recv_reset (Closed c) sid r queued =
     (if \<not> queued then Closed c else Closed (Error (remote_reset sid r)))"
| "recv_reset _ sid r queued = Closed (Error (remote_reset sid r))"

fun handle_error :: "inner \<Rightarrow> proto_error \<Rightarrow> inner" where
  "handle_error (Closed c) e = Closed c"
| "handle_error _ e = Closed (Error e)"

fun recv_eof :: "inner \<Rightarrow> inner" where
  "recv_eof (Closed c) = Closed c"
| "recv_eof _ = Closed (Error (Io BrokenPipe (Some ''stream closed because of a broken pipe'')))"

fun send_close :: "inner \<Rightarrow> (inner, 'e) outcome" where
  "send_close (Open _ remote) = Ok (HalfClosedLocal remote)"
| "send_close (HalfClosedRemote _) = Ok (Closed EndStream)"
| "send_close _ = Panic"

definition set_reset :: "inner \<Rightarrow> u32 \<Rightarrow> reason \<Rightarrow> initiator \<Rightarrow> inner" where
  "set_reset s sid r i = Closed (Error (Reset sid r i))"

section \<open>Queries\<close>

fun is_closed :: "inner \<Rightarrow> bool" where
  "is_closed (Closed _) = True"
| "is_closed _ = False"

text \<open>\<open>debug_assert!(!self.is_closed())\<close> guards the scheduled reset.\<close>

definition set_scheduled_reset :: "inner \<Rightarrow> reason \<Rightarrow> (inner, 'e) outcome" where
  "set_scheduled_reset s r =
     (if \<not> is_closed s then Ok (Closed (ScheduledLibraryReset r)) else Panic)"

fun get_scheduled_reset :: "inner \<Rightarrow> reason option" where
  "get_scheduled_reset (Closed (ScheduledLibraryReset r)) = Some r"
| "get_scheduled_reset _ = None"

fun is_scheduled_reset :: "inner \<Rightarrow> bool" where
  "is_scheduled_reset (Closed (ScheduledLibraryReset _)) = True"
| "is_scheduled_reset _ = False"

fun is_local_error :: "inner \<Rightarrow> bool" where
  "is_local_error (Closed (Error e)) = error_is_local e"
| "is_local_error (Closed (ScheduledLibraryReset _)) = True"
| "is_local_error _ = False"

fun is_remote_reset :: "inner \<Rightarrow> bool" where
  "is_remote_reset (Closed (Error (Reset _ _ Remote))) = True"
| "is_remote_reset _ = False"

fun is_reset :: "inner \<Rightarrow> bool" where
  "is_reset (Closed EndStream) = False"
| "is_reset (Closed _) = True"
| "is_reset _ = False"

fun is_send_streaming :: "inner \<Rightarrow> bool" where
  "is_send_streaming (Open Streaming _) = True"
| "is_send_streaming (HalfClosedRemote Streaming) = True"
| "is_send_streaming _ = False"

fun is_recv_headers :: "inner \<Rightarrow> bool" where
  "is_recv_headers Idle = True"
| "is_recv_headers (Open _ AwaitingHeaders) = True"
| "is_recv_headers (HalfClosedLocal AwaitingHeaders) = True"
| "is_recv_headers ReservedRemote = True"
| "is_recv_headers _ = False"

fun is_recv_streaming :: "inner \<Rightarrow> bool" where
  "is_recv_streaming (Open _ Streaming) = True"
| "is_recv_streaming (HalfClosedLocal Streaming) = True"
| "is_recv_streaming _ = False"

fun is_recv_end_stream :: "inner \<Rightarrow> bool" where
  "is_recv_end_stream (Closed EndStream) = True"
| "is_recv_end_stream (HalfClosedRemote _) = True"
| "is_recv_end_stream _ = False"

fun is_send_closed :: "inner \<Rightarrow> bool" where
  "is_send_closed (Closed _) = True"
| "is_send_closed (HalfClosedLocal _) = True"
| "is_send_closed ReservedRemote = True"
| "is_send_closed _ = False"

definition is_idle :: "inner \<Rightarrow> bool" where
  "is_idle s \<longleftrightarrow> s = Idle"

fun ensure_recv_open :: "inner \<Rightarrow> (bool, proto_error) outcome" where
  "ensure_recv_open (Closed (Error e)) = Err e"
| "ensure_recv_open (Closed (ScheduledLibraryReset r)) = Err (library_go_away r)"
| "ensure_recv_open (Closed EndStream) = Ok False"
| "ensure_recv_open (HalfClosedRemote _) = Ok False"
| "ensure_recv_open ReservedLocal = Ok False"
| "ensure_recv_open _ = Ok True"

datatype poll_reset = PollAwaitingHeaders | PollStreaming

datatype poll_error = FromProto proto_error | FromUser user_error

fun ensure_reason :: "inner \<Rightarrow> poll_reset \<Rightarrow> (reason option, poll_error) outcome" where
  "ensure_reason (Closed (Error (Reset _ r _))) mode = Ok (Some r)"
| "ensure_reason (Closed (Error (GoAway _ r _))) mode = Ok (Some r)"
| "ensure_reason (Closed (ScheduledLibraryReset r)) mode = Ok (Some r)"
| "ensure_reason (Closed (Error e)) mode = Err (FromProto e)"
| "ensure_reason (Open Streaming _) mode =
     (case mode of PollAwaitingHeaders \<Rightarrow> Err (FromUser PollResetAfterSendResponse)
                 | PollStreaming \<Rightarrow> Ok None)"
| "ensure_reason (HalfClosedRemote Streaming) mode =
     (case mode of PollAwaitingHeaders \<Rightarrow> Err (FromUser PollResetAfterSendResponse)
                 | PollStreaming \<Rightarrow> Ok None)"
| "ensure_reason _ mode = Ok None"

section \<open>The machine as a transition system\<close>

datatype state_op =
    SendOpen bool
  | RecvOpen bool bool
  | ReserveRemote
  | ReserveLocal
  | RecvClose
  | RecvReset u32 reason bool
  | HandleError proto_error
  | RecvEof
  | SendClose
  | SetReset u32 reason initiator
  | SetScheduledReset reason

fun state_step :: "inner \<Rightarrow> state_op \<Rightarrow> inner option" where
  "state_step s (SendOpen eos) = out_option (send_open s eos)"
| "state_step s (RecvOpen eos info) = map_option fst (out_option (recv_open s eos info))"
| "state_step s ReserveRemote = out_option (reserve_remote s)"
| "state_step s ReserveLocal = out_option (reserve_local s)"
| "state_step s RecvClose = out_option (recv_close s)"
| "state_step s (RecvReset sid r queued) = Some (recv_reset s sid r queued)"
| "state_step s (HandleError e) = Some (handle_error s e)"
| "state_step s RecvEof = Some (recv_eof s)"
| "state_step s SendClose = out_option (send_close s :: (inner, proto_error) outcome)"
| "state_step s (SetReset sid r i) = Some (set_reset s sid r i)"
| "state_step s (SetScheduledReset r) = out_option (set_scheduled_reset s r :: (inner, proto_error) outcome)"

text \<open>
  The diagram of RFC 9113: the state names and the labelled arrows. A HEADERS frame with
  END_STREAM takes two arrows at once (\<open>H\<close> then \<open>ES\<close>), so its arrow is their composition.
\<close>

datatype rfc_state = RIdle | RReservedLocal | RReservedRemote | ROpen | RHalfLocal | RHalfRemote | RClosed

datatype rfc_event = SendH | RecvH | SendES | RecvES | SendPP | RecvPP | RstStream

inductive rfc_arrow :: "rfc_state \<Rightarrow> rfc_event \<Rightarrow> rfc_state \<Rightarrow> bool" where
  idle_send_pp: "rfc_arrow RIdle SendPP RReservedLocal"
| idle_recv_pp: "rfc_arrow RIdle RecvPP RReservedRemote"
| idle_send_h: "rfc_arrow RIdle SendH ROpen"
| idle_recv_h: "rfc_arrow RIdle RecvH ROpen"
| reserved_local_send_h: "rfc_arrow RReservedLocal SendH RHalfRemote"
| reserved_remote_recv_h: "rfc_arrow RReservedRemote RecvH RHalfLocal"
| open_send_es: "rfc_arrow ROpen SendES RHalfLocal"
| open_recv_es: "rfc_arrow ROpen RecvES RHalfRemote"
| half_remote_send_es: "rfc_arrow RHalfRemote SendES RClosed"
| half_local_recv_es: "rfc_arrow RHalfLocal RecvES RClosed"
| any_reset: "rfc_arrow s RstStream RClosed"
| open_send_h: "rfc_arrow ROpen SendH ROpen"
| open_recv_h: "rfc_arrow ROpen RecvH ROpen"
| half_remote_send_h: "rfc_arrow RHalfRemote SendH RHalfRemote"
| half_local_recv_h: "rfc_arrow RHalfLocal RecvH RHalfLocal"
| reserved_remote_recv_1xx: "rfc_arrow RReservedRemote RecvH RReservedRemote"

inductive rfc_path :: "rfc_state \<Rightarrow> rfc_event list \<Rightarrow> rfc_state \<Rightarrow> bool" where
  rfc_nil: "rfc_path s [] s"
| rfc_cons: "rfc_arrow s e t \<Longrightarrow> rfc_path t es u \<Longrightarrow> rfc_path s (e # es) u"

fun rfc_abs :: "inner \<Rightarrow> rfc_state" where
  "rfc_abs Idle = RIdle"
| "rfc_abs ReservedLocal = RReservedLocal"
| "rfc_abs ReservedRemote = RReservedRemote"
| "rfc_abs (Open _ _) = ROpen"
| "rfc_abs (HalfClosedLocal _) = RHalfLocal"
| "rfc_abs (HalfClosedRemote _) = RHalfRemote"
| "rfc_abs (Closed _) = RClosed"

text \<open>The frames an operation stands for.\<close>

fun rfc_events :: "state_op \<Rightarrow> rfc_event list" where
  "rfc_events (SendOpen eos) = SendH # (if eos then [SendES] else [])"
| "rfc_events (RecvOpen eos _) = RecvH # (if eos then [RecvES] else [])"
| "rfc_events ReserveRemote = [RecvPP]"
| "rfc_events ReserveLocal = [SendPP]"
| "rfc_events RecvClose = [RecvES]"
| "rfc_events (RecvReset _ _ _) = [RstStream]"
| "rfc_events (HandleError _) = [RstStream]"
| "rfc_events RecvEof = [RstStream]"
| "rfc_events SendClose = [SendES]"
| "rfc_events (SetReset _ _ _) = [RstStream]"
| "rfc_events (SetScheduledReset _) = [RstStream]"

inductive_simps rfc_path_simps: "rfc_path s [] t" "rfc_path s (e # es) t"

section \<open>Refinement of the RFC diagram\<close>

lemma rfc_path_append: "rfc_path s es t \<Longrightarrow> rfc_path t fs u \<Longrightarrow> rfc_path s (es @ fs) u"
  by (induction rule: rfc_path.induct) (auto intro: rfc_path.intros)

lemma send_open_refines:
  "send_open s eos = Ok t \<Longrightarrow> rfc_path (rfc_abs s) (SendH # (if eos then [SendES] else [])) (rfc_abs t)"
  by (cases "(s, eos)" rule: send_open.cases)
     (auto simp: rfc_path_simps intro: rfc_arrow.intros, (blast intro: rfc_arrow.intros)+)

lemma recv_open_refines:
  "recv_open s eos info = Ok (t, b) \<Longrightarrow>
     rfc_path (rfc_abs s) (RecvH # (if eos then [RecvES] else [])) (rfc_abs t)"
  by (cases "(s, eos, info)" rule: recv_open.cases)
     (auto simp: rfc_path_simps intro: rfc_arrow.intros split: if_splits,
      (blast intro: rfc_arrow.intros)+)

lemma reset_step_refines:
  "rfc_abs (recv_reset s sid r queued) = RClosed" "rfc_abs (handle_error s e) = RClosed"
  "rfc_abs (recv_eof s) = RClosed" "rfc_abs (set_reset s sid r i) = RClosed"
  by (cases s; simp add: set_reset_def)+

lemma state_step_refines:
  assumes "state_step s x = Some t"
  shows "rfc_path (rfc_abs s) (rfc_events x) (rfc_abs t)"
proof (cases x)
  case (SendOpen eos)
  with assms send_open_refines show ?thesis by auto
next
  case (RecvOpen eos info)
  with assms obtain b where "recv_open s eos info = Ok (t, b)" by auto
  from recv_open_refines [OF this] RecvOpen show ?thesis by simp
qed (use assms in \<open>cases s; auto simp: rfc_path_simps reset_step_refines set_scheduled_reset_def
       intro: rfc_arrow.intros split: if_splits\<close>)+

section \<open>Half-closed halves stay closed\<close>

definition recv_half_closed :: "inner \<Rightarrow> bool" where
  "recv_half_closed s \<longleftrightarrow> ensure_recv_open s \<noteq> Ok True"

lemma recv_half_closed_simps [simp]:
  "\<not> recv_half_closed Idle" "recv_half_closed ReservedLocal" "\<not> recv_half_closed ReservedRemote"
  "\<not> recv_half_closed (Open l r)" "\<not> recv_half_closed (HalfClosedLocal p)"
  "recv_half_closed (HalfClosedRemote p)" "recv_half_closed (Closed c)"
  by (auto simp: recv_half_closed_def) (cases c; simp)

lemma state_step_send_closed: "is_send_closed s \<Longrightarrow> state_step s x = Some t \<Longrightarrow> is_send_closed t"
  by (cases x; cases s rule: is_send_closed.cases)
     (auto simp: set_reset_def set_scheduled_reset_def split: if_splits elim!: recv_open.elims)

lemma state_step_recv_closed: "recv_half_closed s \<Longrightarrow> state_step s x = Some t \<Longrightarrow> recv_half_closed t"
  by (cases x; cases s)
     (auto simp: set_reset_def set_scheduled_reset_def split: if_splits elim!: send_open.elims)

lemma state_step_closed: "is_closed s \<Longrightarrow> state_step s x = Some t \<Longrightarrow> is_closed t"
  by (cases x; cases s) (auto simp: set_reset_def set_scheduled_reset_def)

interpretation sends: invariant_system state_step is_send_closed
  by unfold_locales (rule state_step_send_closed)

interpretation recvs: invariant_system state_step recv_half_closed
  by unfold_locales (rule state_step_recv_closed)

interpretation closeds: invariant_system state_step is_closed
  by unfold_locales (rule state_step_closed)

lemma send_closed_not_streaming: "is_send_closed s \<Longrightarrow> \<not> is_send_streaming s"
  by (cases s rule: is_send_closed.cases) auto

lemma recv_half_closed_not_receiving:
  "recv_half_closed s \<Longrightarrow> \<not> is_recv_streaming s \<and> \<not> is_recv_headers s"
  by (cases s) auto

section \<open>Properties\<close>



text \<open>C5. Once a half of a stream is closed it stays closed: no later operation makes the send
  half stream data again after it was closed, nor lets the receive half accept headers or data
  again, and a closed stream stays closed.\<close>

theorem closed_halves_stay_closed:
  assumes "run state_step s ops = Some t"
  shows "(is_send_closed s \<longrightarrow> is_send_closed t \<and> \<not> is_send_streaming t) \<and>
         (ensure_recv_open s \<noteq> Ok True \<longrightarrow>
            ensure_recv_open t \<noteq> Ok True \<and> \<not> is_recv_streaming t \<and> \<not> is_recv_headers t) \<and>
         (is_closed s \<longrightarrow> is_closed t)"
  using sends.run_inv [OF _ assms] recvs.run_inv [OF _ assms] closeds.run_inv [OF _ assms]
  by (auto simp: send_closed_not_streaming recv_half_closed_not_receiving
      simp flip: recv_half_closed_def)

theorem closed_halves_stay_closed_witness:
  "run state_step (HalfClosedLocal AwaitingHeaders) [RecvOpen False False, RecvClose] =
     Some (Closed EndStream) \<and> is_send_closed (Closed EndStream)"
proof
  show r: "run state_step (HalfClosedLocal AwaitingHeaders) [RecvOpen False False, RecvClose] =
     Some (Closed EndStream)" by simp
  show "is_send_closed (Closed EndStream)"
    using closed_halves_stay_closed [OF r] by simp
qed


end
