(* ===== verification/Text.thy ===== *)
theory Text
  imports Prelude
begin

text \<open>
  The string operations of the Rust standard library the control plane uses. A \<open>String\<close> is its
  list of bytes (\<open>char\<close> is a byte in HOL); case folding is the ASCII one, which is what HTTP
  header names, host names and the literals of the source consist of.
\<close>

section \<open>Splitting, joining, replacing\<close>

text \<open>\<open>s.split(c)\<close> for a single character: always at least one piece.\<close>

fun split_on :: "char \<Rightarrow> string \<Rightarrow> string list" where
  "split_on c [] = [[]]"
| "split_on c (x # xs) =
     (if x = c then [] # split_on c xs
      else case split_on c xs of [] \<Rightarrow> [[x]] | p # ps \<Rightarrow> (x # p) # ps)"

fun join :: "string \<Rightarrow> string list \<Rightarrow> string" where
  "join sep [] = []"
| "join sep [x] = x"
| "join sep (x # y # xs) = x @ sep @ join sep (y # xs)"

definition starts_with :: "string \<Rightarrow> string \<Rightarrow> bool" where
  "starts_with pat s \<longleftrightarrow> take (length pat) s = pat"

text \<open>\<open>s.replace(pat, rep)\<close> with a non-empty pattern: non-overlapping matches from the left.\<close>

function str_replace :: "string \<Rightarrow> string \<Rightarrow> string \<Rightarrow> string" where
  "str_replace pat rep s =
     (if pat = [] \<or> s = [] then s
      else if starts_with pat s then rep @ str_replace pat rep (drop (length pat) s)
      else hd s # str_replace pat rep (tl s))"
  by pat_completeness auto
termination
  by (relation "measure (\<lambda>(pat, rep, s). length s)") (auto simp: neq_Nil_conv)

declare str_replace.simps [simp del]

text \<open>\<open>s.split(pat)\<close> for a non-empty string pattern; the accumulator is the current piece.\<close>

function split_str :: "string \<Rightarrow> string \<Rightarrow> string \<Rightarrow> string list" where
  "split_str pat acc s =
     (if pat = [] \<or> s = [] then [acc @ s]
      else if starts_with pat s then acc # split_str pat [] (drop (length pat) s)
      else split_str pat (acc @ [hd s]) (tl s))"
  by pat_completeness auto
termination
  by (relation "measure (\<lambda>(pat, acc, s). length s)") (auto simp: neq_Nil_conv)

declare split_str.simps [simp del]

section \<open>Case\<close>

definition ascii_lower :: "char \<Rightarrow> char" where
  "ascii_lower c = (if 65 \<le> (of_char c :: nat) \<and> (of_char c :: nat) \<le> 90
                    then char_of ((of_char c :: nat) + 32) else c)"

definition to_lowercase :: "string \<Rightarrow> string" where
  "to_lowercase s = map ascii_lower s"

definition eq_ignore_ascii_case :: "string \<Rightarrow> string \<Rightarrow> bool" where
  "eq_ignore_ascii_case s t \<longleftrightarrow> map ascii_lower s = map ascii_lower t"

section \<open>Decimal numbers\<close>

definition digit_char :: "nat \<Rightarrow> char" where
  "digit_char d = char_of (48 + d)"

definition digit_val :: "char \<Rightarrow> nat option" where
  "digit_val c = (let n = of_char c :: nat in if 48 \<le> n \<and> n \<le> 57 then Some (n - 48) else None)"

fun dec_string :: "nat \<Rightarrow> string" where
  "dec_string n = (if n < 10 then [digit_char n] else dec_string (n div 10) @ [digit_char (n mod 10)])"

declare dec_string.simps [simp del]

fun dec_value :: "nat \<Rightarrow> string \<Rightarrow> nat option" where
  "dec_value acc [] = Some acc"
| "dec_value acc (c # cs) =
     (case digit_val c of None \<Rightarrow> None | Some d \<Rightarrow> dec_value (10 * acc + d) cs)"

text \<open>\<open>str::parse\<close> for an unsigned integer with the given bound: an optional plus sign, at least
  one digit, no overflow.\<close>

definition parse_uint :: "nat \<Rightarrow> string \<Rightarrow> nat option" where
  "parse_uint bound s =
     (let ds = (case s of [] \<Rightarrow> [] | c # cs \<Rightarrow> if c = CHR ''+'' then cs else s)
      in if ds = [] then None
         else case dec_value 0 ds of
             None \<Rightarrow> None
           | Some n \<Rightarrow> if n < bound then Some n else None)"

section \<open>Lemmas\<close>

lemma split_on_not_Nil [simp]: "split_on c s \<noteq> []"
  by (induction s) (auto split: list.splits)

lemma split_on_append:
  "c \<notin> set s \<Longrightarrow> split_on c (s @ c # t) = s # split_on c t"
  by (induction s) auto

lemma split_on_single: "c \<notin> set s \<Longrightarrow> split_on c s = [s]"
  by (induction s) auto

lemma digit_val_digit_char [simp]: "d < 10 \<Longrightarrow> digit_val (digit_char d) = Some d"
  by (simp add: digit_val_def digit_char_def)

lemma of_char_digit_char: "d < 10 \<Longrightarrow> of_char (digit_char d) = 48 + d"
  by (simp add: digit_char_def)

lemma dec_value_append:
  "dec_value acc (s @ t) = (case dec_value acc s of None \<Rightarrow> None | Some a \<Rightarrow> dec_value a t)"
  by (induction s arbitrary: acc) (auto split: option.splits)

lemma dec_value_dec_string: "dec_value 0 (dec_string n) = Some n"
proof (induction n rule: dec_string.induct)
  case (1 n)
  show ?case
  proof (cases "n < 10")
    case True
    then show ?thesis by (simp add: dec_string.simps [of n])
  next
    case False
    with "1.IH" have "dec_value 0 (dec_string (n div 10)) = Some (n div 10)" by simp
    then show ?thesis using False
      by (simp add: dec_string.simps [of n] dec_value_append)
  qed
qed

lemma dec_string_not_Nil [simp]: "dec_string n \<noteq> []"
  by (simp add: dec_string.simps [of n])

lemma set_dec_string: "set (dec_string n) \<subseteq> digit_char ` {..<10}"
proof (induction n rule: dec_string.induct)
  case (1 n)
  then show ?case by (cases "n < 10") (auto simp: dec_string.simps [of n])
qed

lemma dec_string_digits: "c \<in> set (dec_string n) \<Longrightarrow> digit_val c \<noteq> None"
  using set_dec_string [of n] by auto

lemma dec_string_only_digits:
  "CHR ''/'' \<notin> set (dec_string n)" "CHR ''.'' \<notin> set (dec_string n)" "CHR ''+'' \<notin> set (dec_string n)"
  using dec_string_digits [of "CHR ''/''" n] dec_string_digits [of "CHR ''.''" n]
    dec_string_digits [of "CHR ''+''" n]
  by (auto simp: digit_val_def)

lemma parse_uint_dec_string: "n < bound \<Longrightarrow> parse_uint bound (dec_string n) = Some n"
proof -
  assume n: "n < bound"
  obtain c cs where s: "dec_string n = c # cs" by (cases "dec_string n") auto
  moreover have "c \<noteq> CHR ''+''"
    using dec_string_only_digits(3) [of n] s by auto
  ultimately show ?thesis
    using n dec_value_dec_string [of n] by (simp add: parse_uint_def)
qed

lemma str_replace_Nil [simp]: "str_replace pat rep [] = []"
  by (simp add: str_replace.simps)

lemma length_to_lowercase [simp]: "length (to_lowercase s) = length s"
  by (simp add: to_lowercase_def)

end
