(* ===== verification/Net.thy ===== *)
theory Net
  imports Prelude
begin

text \<open>
  \<open>common/src/net.rs\<close> and \<open>beeline/src/bpf/mod.rs\<close>: IP addresses, the gateway address of a
  container network, and the keys under which the control plane stores sockets in the BPF maps.
  \<open>u32::from_ne_bytes\<close> depends on the byte order of the machine, which is a parameter.
\<close>

section \<open>Addresses\<close>

datatype ipv4 = Ipv4Addr byte byte byte byte

datatype ip_addr = IpV4 ipv4 | IpV6 "128 word"

text \<open>A \<open>SocketAddr\<close>; the flow label and scope of an IPv6 one are carried along.\<close>

datatype socket_addr = SockV4 ipv4 u16 | SockV6 "128 word" u16 u32 u32

fun sock_ip :: "socket_addr \<Rightarrow> ip_addr" where
  "sock_ip (SockV4 ip _) = IpV4 ip"
| "sock_ip (SockV6 ip _ _ _) = IpV6 ip"

fun sock_port :: "socket_addr \<Rightarrow> u16" where
  "sock_port (SockV4 _ p) = p"
| "sock_port (SockV6 _ p _ _) = p"

fun is_loopback :: "ipv4 \<Rightarrow> bool" where
  "is_loopback (Ipv4Addr a _ _ _) \<longleftrightarrow> a = 127"

fun get_gw_ip :: "ipv4 \<Rightarrow> ipv4" where
  "get_gw_ip (Ipv4Addr a b c d) =
     (if is_loopback (Ipv4Addr a b c d) then Ipv4Addr a b c d else Ipv4Addr a b c 1)"

section \<open>Native byte order\<close>

datatype endian = LittleEndian | BigEndian

fun from_ne_bytes :: "endian \<Rightarrow> ipv4 \<Rightarrow> u32" where
  "from_ne_bytes BigEndian (Ipv4Addr a b c d) = be32 a b c d"
| "from_ne_bytes LittleEndian (Ipv4Addr a b c d) = be32 d c b a"

fun to_ne_bytes :: "endian \<Rightarrow> u32 \<Rightarrow> ipv4" where
  "to_ne_bytes BigEndian w =
     Ipv4Addr (ucast (drop_bit 24 w)) (ucast (drop_bit 16 w)) (ucast (drop_bit 8 w)) (ucast w)"
| "to_ne_bytes LittleEndian w =
     Ipv4Addr (ucast w) (ucast (drop_bit 8 w)) (ucast (drop_bit 16 w)) (ucast (drop_bit 24 w))"

text \<open>\<open>TryIntoRawOctets\<close>: only IPv4 is supported.\<close>

datatype net_error = OnlyIPv4

fun sock_ne_octets :: "endian \<Rightarrow> socket_addr \<Rightarrow> (u32, net_error) outcome" where
  "sock_ne_octets e (SockV4 ip _) = Ok (from_ne_bytes e ip)"
| "sock_ne_octets e (SockV6 _ _ _ _) = Err OnlyIPv4"

fun ip_ne_octets :: "endian \<Rightarrow> ip_addr \<Rightarrow> (u32, net_error) outcome" where
  "ip_ne_octets e (IpV4 ip) = Ok (from_ne_bytes e ip)"
| "ip_ne_octets e (IpV6 _) = Err OnlyIPv4"

definition ipv4_ne_octets :: "endian \<Rightarrow> ipv4 \<Rightarrow> (u32, net_error) outcome" where
  "ipv4_ne_octets e ip = Ok (from_ne_bytes e ip)"

section \<open>Map keys\<close>

record addr_key =
  ak_ip4 :: u32
  ak_port :: u32

record sock_key =
  sk_local :: addr_key
  sk_remote :: addr_key

record data_stream =
  ds_conn :: sock_key
  ds_stream_id :: u32

record fib_key =
  fk_addr :: addr_key
  fk_sk_msg :: u32

definition addr_key_eq :: "addr_key \<Rightarrow> addr_key \<Rightarrow> bool" where
  "addr_key_eq a b \<longleftrightarrow> ak_ip4 a = ak_ip4 b \<and> ak_port a = ak_port b"

definition addr_key_into_socket_addr :: "endian \<Rightarrow> addr_key \<Rightarrow> socket_addr" where
  "addr_key_into_socket_addr e k = SockV4 (to_ne_bytes e (ak_ip4 k)) (ucast (ak_port k))"

definition addr_key_try_from :: "endian \<Rightarrow> socket_addr \<Rightarrow> (addr_key, net_error) outcome" where
  "addr_key_try_from e addr =
     and_then (sock_ne_octets e addr)
       (\<lambda>ip. Ok \<lparr>ak_ip4 = ip, ak_port = ucast (sock_port addr)\<rparr>)"

definition sock_key_invert :: "sock_key \<Rightarrow> sock_key" where
  "sock_key_invert k = \<lparr>sk_local = sk_remote k, sk_remote = sk_local k\<rparr>"

definition sock_key_try_from :: "endian \<Rightarrow> socket_addr \<Rightarrow> socket_addr \<Rightarrow> (sock_key, net_error) outcome" where
  "sock_key_try_from e local remote =
     and_then (addr_key_try_from e local)
       (\<lambda>l. and_then (addr_key_try_from e remote)
         (\<lambda>r. Ok \<lparr>sk_local = l, sk_remote = r\<rparr>))"

text \<open>The actions of the BPF filters.\<close>

datatype pr_action = PR_DROP | PR_PASS | PR_UTRN

section \<open>Lemmas\<close>

lemma to_from_ne_bytes [simp]: "to_ne_bytes e (from_ne_bytes e ip) = ip"
  by (cases ip; cases e) (simp_all add: octets_be32)

lemma from_to_ne_bytes [simp]: "from_ne_bytes e (to_ne_bytes e w) = w"
  by (cases e) (simp_all add: be32_put_u32)

lemma ucast_u16_u32 [simp]: "(ucast (ucast (p :: u16) :: u32) :: u16) = p"
  by (rule bit_word_eqI) (auto simp: bit_simps)

lemma addr_key_try_from_V4 [simp]:
  "addr_key_try_from e (SockV4 ip p) = Ok \<lparr>ak_ip4 = from_ne_bytes e ip, ak_port = ucast p\<rparr>"
  by (simp add: addr_key_try_from_def)

lemma addr_key_try_from_Ok_iff:
  "addr_key_try_from e a = Ok k \<longleftrightarrow>
     (\<exists>ip p. a = SockV4 ip p \<and> k = \<lparr>ak_ip4 = from_ne_bytes e ip, ak_port = ucast p\<rparr>)"
  by (cases a) (auto simp: addr_key_try_from_def)

lemma addr_key_inverse: "addr_key_try_from e a = Ok k \<Longrightarrow> addr_key_into_socket_addr e k = a"
  by (auto simp: addr_key_try_from_Ok_iff addr_key_into_socket_addr_def)

lemma sock_key_try_from_Ok_iff:
  "sock_key_try_from e l r = Ok k \<longleftrightarrow>
     addr_key_try_from e l = Ok (sk_local k) \<and> addr_key_try_from e r = Ok (sk_remote k)"
  by (auto simp: sock_key_try_from_def and_then_Ok_iff)

lemma sock_key_invert_invert [simp]: "sock_key_invert (sock_key_invert k) = k"
  by (simp add: sock_key_invert_def)

lemma sock_key_try_from_swap:
  "sock_key_try_from e l r = Ok k \<Longrightarrow> sock_key_try_from e r l = Ok (sock_key_invert k)"
  by (simp add: sock_key_try_from_Ok_iff sock_key_invert_def)

section \<open>Properties\<close>

text \<open>C7. The BPF map key of a connection determines both of its socket addresses: converting
  the two halves of the key back yields the addresses it was made from, on either byte order, so
  distinct IPv4 connections never share a map entry; and the key of the reversed connection is
  the inverted key.\<close>

theorem sock_key_roundtrip:
  assumes "sock_key_try_from e l r = Ok k"
  shows "addr_key_into_socket_addr e (sk_local k) = l \<and>
         addr_key_into_socket_addr e (sk_remote k) = r \<and>
         sock_key_try_from e r l = Ok (sock_key_invert k) \<and>
         (sock_key_try_from e l' r' = Ok k \<longrightarrow> l' = l \<and> r' = r)"
  using assms by (auto simp: sock_key_try_from_Ok_iff sock_key_invert_def dest: addr_key_inverse)

theorem sock_key_roundtrip_witness:
  "sock_key_try_from LittleEndian (SockV4 (Ipv4Addr 10 0 0 1) 80) (SockV4 (Ipv4Addr 10 0 0 2) 4000) =
     Ok \<lparr>sk_local = \<lparr>ak_ip4 = 0x0100000A, ak_port = 80\<rparr>, sk_remote = \<lparr>ak_ip4 = 0x0200000A, ak_port = 4000\<rparr>\<rparr> \<and>
   addr_key_into_socket_addr LittleEndian \<lparr>ak_ip4 = 0x0100000A, ak_port = 80\<rparr> = SockV4 (Ipv4Addr 10 0 0 1) 80"
proof -
  let ?k = "\<lparr>sk_local = \<lparr>ak_ip4 = 0x0100000A, ak_port = 80\<rparr>, sk_remote = \<lparr>ak_ip4 = 0x0200000A, ak_port = 4000\<rparr>\<rparr>"
  have k: "sock_key_try_from LittleEndian (SockV4 (Ipv4Addr 10 0 0 1) 80) (SockV4 (Ipv4Addr 10 0 0 2) 4000) = Ok ?k"
    by (simp add: sock_key_try_from_def be32_def)
  show ?thesis
    using k sock_key_roundtrip [OF k, THEN conjunct1] by (simp only: sock_key.select_convs simp_thms)
qed

end
