(* ===== verification/Config.thy ===== *)
theory Config
  imports Text Net
begin

text \<open>
  \<open>common/src/config/beeline.rs\<close>: the policy language of Beeline. The records mirror the structs
  the YAML file deserializes to; deserialization itself is serde's. A \<open>HashMap\<close> is the list of
  its entries in iteration order, an order the code may not rely on.
\<close>

section \<open>Data\<close>

type_synonym headers = "(string \<times> string) list"

record tls_config =
  tls_socket :: socket_addr
  tls_cert :: string
  tls_key :: string

record cidr =
  cidr_addr :: ipv4
  cidr_mask :: u32

record policy =
  pol_name :: string
  pol_method :: "string option"
  pol_path :: "string option"
  pol_dest_ip4 :: "ip_addr option"
  pol_dest_port :: "u16 option"
  pol_src_ip4 :: "ip_addr option"
  pol_headers :: "headers option"
  pol_allow :: bool

record jwt_filter =
  jwt_secret :: string
  jwt_audience :: "string option"
  jwt_issuer :: "string option"

record mutate_filter =
  mf_add :: "headers option"
  mf_remove :: "string list option"

datatype cfilter = Jwt jwt_filter | Mutate mutate_filter

fun is_jwt :: "cfilter \<Rightarrow> bool" where
  "is_jwt (Jwt _) = True"
| "is_jwt _ = False"

fun is_mutate :: "cfilter \<Rightarrow> bool" where
  "is_mutate (Mutate _) = True"
| "is_mutate _ = False"

record pattern =
  pat_path :: "string option"
  pat_headers :: "headers option"

record croute =
  rt_pattern :: pattern
  rt_dest :: string
  rt_filters :: "cfilter list"

datatype load_balancer = Ring nat

record host =
  host_name :: string
  host_load_balancer :: "load_balancer option"
  host_instances :: "socket_addr list"
  host_http2 :: bool

record config =
  cfg_socket :: "socket_addr option"
  cfg_tls :: "tls_config option"
  cfg_proxy :: "socket_addr option"
  cfg_stats :: bool
  cfg_hosts :: "host list"
  cfg_network :: "cidr option"
  cfg_policies :: "policy list"
  cfg_routes :: "croute list"

section \<open>CIDR ranges\<close>

text \<open>\<open>2u32.pow(32 - mask)\<close>: both the subtraction and the power are overflow-checked.\<close>

definition cidr_len :: "cidr \<Rightarrow> (u32, 'e) outcome" where
  "cidr_len c =
     (if uint (cidr_mask c) > 32 then Panic
      else let p = 2 ^ nat (32 - uint (cidr_mask c)) :: int
           in if p < 2 ^ 32 then Ok (word_of_int p) else Panic)"

fun ipv4_to_string :: "ipv4 \<Rightarrow> string" where
  "ipv4_to_string (Ipv4Addr a b c d) =
     dec_string (unat a) @ ''.'' @ dec_string (unat b) @ ''.'' @
     dec_string (unat c) @ ''.'' @ dec_string (unat d)"

definition cidr_to_string :: "cidr \<Rightarrow> string" where
  "cidr_to_string c = ipv4_to_string (cidr_addr c) @ ''/'' @ dec_string (unat (cidr_mask c))"

text \<open>An octet of \<open>Ipv4Addr::from_str\<close>: one to three digits, no leading zero, at most 255.\<close>

definition parse_octet :: "string \<Rightarrow> byte option" where
  "parse_octet s =
     (if s = [] \<or> length s > 3 \<or> (length s > 1 \<and> hd s = CHR ''0'') then None
      else case dec_value 0 s of
          None \<Rightarrow> None
        | Some n \<Rightarrow> if n < 256 then Some (word_of_nat n) else None)"

definition parse_ipv4 :: "string \<Rightarrow> ipv4 option" where
  "parse_ipv4 s =
     (case map parse_octet (split_on CHR ''.'' s) of
        [Some a, Some b, Some c, Some d] \<Rightarrow> Some (Ipv4Addr a b c d)
      | _ \<Rightarrow> None)"

datatype cidr_error = CidrParseRangeError

text \<open>
  The address part is parsed as an \<open>IpAddr\<close>; an IPv6 address and a string that is no address
  both end in the same error, so only the IPv4 parser is needed.
\<close>

definition cidr_from_str :: "string \<Rightarrow> (cidr, cidr_error) outcome" where
  "cidr_from_str s =
     (case split_on CHR ''/'' s of
        [addr_text, mask_text] \<Rightarrow>
          (case parse_ipv4 addr_text of
             None \<Rightarrow> Err CidrParseRangeError
           | Some a \<Rightarrow>
             (case parse_uint 4294967296 mask_text of
                None \<Rightarrow> Err CidrParseRangeError
              | Some m \<Rightarrow> Ok \<lparr>cidr_addr = a, cidr_mask = word_of_nat m\<rparr>))
      | _ \<Rightarrow> Err CidrParseRangeError)"

section \<open>Hosts\<close>

definition resolve_host :: "config \<Rightarrow> string \<Rightarrow> host option" where
  "resolve_host cfg name =
     (case (if eq_ignore_ascii_case name ''proxy'' then cfg_proxy cfg else None) of
        Some addr \<Rightarrow> Some \<lparr>host_name = ''proxy'', host_load_balancer = None,
                         host_instances = [addr], host_http2 = False\<rparr>
      | None \<Rightarrow> find (\<lambda>h. host_name h = name) (cfg_hosts cfg))"

definition all_backend_instances :: "config \<Rightarrow> string \<Rightarrow> socket_addr list option" where
  "all_backend_instances cfg backend =
     map_option host_instances (find (\<lambda>h. host_name h = backend) (cfg_hosts cfg))"

section \<open>Lemmas\<close>

lemma dec_string_short: "n < 256 \<Longrightarrow> length (dec_string n) \<le> 3"
  by (simp add: dec_string.simps [of n] dec_string.simps [of "n div 10"]
      dec_string.simps [of "n div 10 div 10"])

lemma dec_string_no_leading_zero: "hd (dec_string n) = CHR ''0'' \<Longrightarrow> n = 0"
proof (induction n rule: dec_string.induct)
  case (1 n)
  show ?case
  proof (cases "n < 10")
    case True
    then have "digit_val (hd (dec_string n)) = Some n"
      by (simp add: dec_string.simps [of n])
    with "1.prems" show ?thesis by (simp add: digit_val_def)
  next
    case False
    with "1.prems" have "hd (dec_string (n div 10)) = CHR ''0''"
      by (simp add: dec_string.simps [of n])
    with "1.IH" False have "n div 10 = 0" by simp
    with False show ?thesis by simp
  qed
qed

lemma parse_octet_dec_string [simp]: "parse_octet (dec_string (unat b)) = Some b"
proof -
  note lt = unat_u8_bound [of b]
  have "\<not> (length (dec_string (unat b)) > 1 \<and> hd (dec_string (unat b)) = CHR ''0'')"
    using dec_string_no_leading_zero [of "unat b"] by (auto simp: dec_string.simps [of 0])
  with lt dec_string_short [OF lt] show ?thesis
    by (simp add: parse_octet_def dec_value_dec_string)
qed

lemma split_ipv4_to_string:
  "split_on CHR ''.'' (ipv4_to_string (Ipv4Addr a b c d)) =
     map (\<lambda>x. dec_string (unat x)) [a, b, c, d]"
  by (simp add: split_on_append split_on_single dec_string_only_digits)

lemma parse_ipv4_to_string [simp]: "parse_ipv4 (ipv4_to_string ip) = Some ip"
  by (cases ip) (simp add: parse_ipv4_def split_ipv4_to_string del: ipv4_to_string.simps)

lemma slash_notin_ipv4: "CHR ''/'' \<notin> set (ipv4_to_string ip)"
  by (cases ip) (auto simp: dec_string_only_digits)

section \<open>Properties\<close>

text \<open>C8. Serializing a CIDR range and parsing the text again gives the same range.\<close>

theorem cidr_roundtrip: "cidr_from_str (cidr_to_string c) = Ok c"
proof -
  have "split_on CHR ''/'' (cidr_to_string c) =
      [ipv4_to_string (cidr_addr c), dec_string (unat (cidr_mask c))]"
    by (simp add: cidr_to_string_def split_on_append split_on_single slash_notin_ipv4
        dec_string_only_digits)
  then show ?thesis
    by (simp add: cidr_from_str_def parse_uint_dec_string unat_u32_bound)
qed


end
