(* ===== verification/Compiler_Vars.thy ===== *)
theory Compiler_Vars
  imports Config
begin

text \<open>
  \<open>common/src/compiler.rs\<close>, the variables of the data plane's filter context: \<open>Variable\<close>,
  \<open>sanitize_var_name\<close> and \<open>get_ctx_vars\<close>, which decides what the generated parsers capture. The
  Huffman encoder comes from the crate \<open>httlib_huffman\<close> and is the parameter \<open>henc\<close>; \<open>None\<close> is
  the error the code unwraps, a panic.
\<close>

section \<open>Variables\<close>

datatype variable = Buffer string string "nat option" | Range string

fun var_name :: "variable \<Rightarrow> string" where
  "var_name (Buffer name _ _) = name"
| "var_name (Range name) = name"

fun is_buffer :: "variable \<Rightarrow> bool" where
  "is_buffer (Buffer _ _ _) = True"
| "is_buffer (Range _) = False"

definition sanitize_var_name :: "string \<Rightarrow> string" where
  "sanitize_var_name var = to_lowercase (str_replace ''-'' ''_'' var)"

type_synonym huffman = "string \<Rightarrow> byte list option"

section \<open>Collecting the context variables\<close>

definition ctx_insert :: "variable list \<Rightarrow> variable \<Rightarrow> variable list" where
  "ctx_insert ctx var =
     (if list_ex (\<lambda>v. var_name v = var_name var \<and> (is_buffer v \<or> is_buffer v = is_buffer var)) ctx
      then ctx else ctx @ [var])"

text \<open>The patterns of the routes, then those of the RBAC policies.\<close>

definition ctx_patterns :: "config \<Rightarrow> (string option \<times> headers option) list" where
  "ctx_patterns cfg =
     map (\<lambda>r. (pat_path (rt_pattern r), pat_headers (rt_pattern r))) (cfg_routes cfg) @
     map (\<lambda>p. (pol_path p, pol_headers p)) (cfg_policies cfg)"

fun scan_headers :: "huffman \<Rightarrow> variable list \<Rightarrow> headers \<Rightarrow> variable list option" where
  "scan_headers henc ctx [] = Some ctx"
| "scan_headers henc ctx ((key, val) # hs) =
     (case henc val of
        None \<Rightarrow> None
      | Some enc \<Rightarrow>
          scan_headers henc
            (ctx_insert ctx (Buffer key ''char'' (Some (max (length val) (length enc))))) hs)"

definition path_len :: "nat \<Rightarrow> string option \<Rightarrow> nat" where
  "path_len m path = (case path of None \<Rightarrow> m | Some p \<Rightarrow> max m (length p + 12))"

definition opt_headers :: "headers option \<Rightarrow> headers" where
  "opt_headers hs = (case hs of None \<Rightarrow> [] | Some h \<Rightarrow> h)"

fun scan_patterns ::
  "huffman \<Rightarrow> variable list \<Rightarrow> nat \<Rightarrow> (string option \<times> headers option) list \<Rightarrow>
     (variable list \<times> nat) option" where
  "scan_patterns henc ctx max_path_len [] = Some (ctx, max_path_len)"
| "scan_patterns henc ctx max_path_len ((path, headers) # ps) =
     (case scan_headers henc ctx (opt_headers headers) of
        None \<Rightarrow> None
      | Some ctx' \<Rightarrow> scan_patterns henc ctx' (path_len max_path_len path) ps)"

definition remove_keys :: "cfilter list \<Rightarrow> string list" where
  "remove_keys fs =
     concat (map (\<lambda>f. case f of Jwt _ \<Rightarrow> []
                    | Mutate m \<Rightarrow> (case mf_remove m of None \<Rightarrow> [] | Some ks \<Rightarrow> ks)) fs)"

definition all_filters :: "config \<Rightarrow> cfilter list" where
  "all_filters cfg = concat (map rt_filters (cfg_routes cfg))"

definition uses_jwt :: "config \<Rightarrow> bool" where
  "uses_jwt cfg = list_ex is_jwt (all_filters cfg)"

definition builtin_vars :: "nat \<Rightarrow> variable list" where
  "builtin_vars max_path_len =
     [Buffer ''method'' ''char'' (Some 7),
      Buffer ''path'' ''char'' (Some max_path_len),
      Buffer ''status_code'' ''u32'' None,
      Buffer ''content-length'' ''u32'' None]"

definition jwt_vars :: "variable list" where
  "jwt_vars = [Buffer ''jwt_claims'' ''char'' (Some 4095), Buffer ''jwt_sig'' ''char'' (Some 63)]"

definition get_ctx_vars :: "huffman \<Rightarrow> config \<Rightarrow> variable list option" where
  "get_ctx_vars henc cfg =
     (case scan_patterns henc (ctx_insert [] (Buffer ''preface'' ''char'' (Some 24))) 16
             (ctx_patterns cfg) of
        None \<Rightarrow> None
      | Some (ctx, max_path_len) \<Rightarrow>
          Some (foldl ctx_insert ctx
            (map Range (remove_keys (all_filters cfg)) @ builtin_vars max_path_len @
             (if uses_jwt cfg then jwt_vars else []))))"

section \<open>Inserting\<close>

lemma str_replace_char: "str_replace [c] [d] s = map (\<lambda>x. if x = c then d else x) s"
  by (induction s) (auto simp: str_replace.simps [of "[c]"] starts_with_def)

lemma sanitize_var_name_map:
  "sanitize_var_name s = map (\<lambda>x. ascii_lower (if x = CHR ''-'' then CHR ''_'' else x)) s"
  by (simp add: sanitize_var_name_def to_lowercase_def str_replace_char)

text \<open>A name occurs twice only as a range followed by a buffer.\<close>

definition ctx_ok :: "variable list \<Rightarrow> bool" where
  "ctx_ok ctx = sorted_wrt (\<lambda>v w. var_name v = var_name w \<longrightarrow> \<not> is_buffer v \<and> is_buffer w) ctx"

definition has_buffer :: "string \<Rightarrow> variable list \<Rightarrow> bool" where
  "has_buffer name ctx = (\<exists>v \<in> set ctx. is_buffer v \<and> var_name v = name)"

definition has_var :: "string \<Rightarrow> variable list \<Rightarrow> bool" where
  "has_var name ctx = (name \<in> var_name ` set ctx)"

lemma ctx_ok_insert: "ctx_ok ctx \<Longrightarrow> ctx_ok (ctx_insert ctx var)"
  by (auto simp: ctx_ok_def ctx_insert_def sorted_wrt_append list_ex_iff)

lemma ctx_insert_mono: "\<exists>vs. ctx_insert ctx var = ctx @ vs"
  by (auto simp: ctx_insert_def)

lemma has_var_insert: "has_var (var_name var) (ctx_insert ctx var)"
  by (auto simp: has_var_def ctx_insert_def list_ex_iff intro: rev_image_eqI)

lemma has_buffer_insert: "is_buffer var \<Longrightarrow> has_buffer (var_name var) (ctx_insert ctx var)"
  by (auto simp: has_buffer_def ctx_insert_def list_ex_iff)

text \<open>A buffer enters with its own type and size unless a buffer of that name is there already.\<close>

lemma ctx_insert_fresh_buffer:
  "is_buffer var \<Longrightarrow> \<not> has_buffer (var_name var) ctx \<Longrightarrow> var \<in> set (ctx_insert ctx var)"
  by (auto simp: has_buffer_def ctx_insert_def list_ex_iff)

lemma foldl_ctx_insert_ok: "ctx_ok ctx \<Longrightarrow> ctx_ok (foldl ctx_insert ctx vs)"
  by (induction vs arbitrary: ctx) (auto intro: ctx_ok_insert)

lemma foldl_ctx_insert_mono: "\<exists>ws. foldl ctx_insert ctx vs = ctx @ ws"
  by (induction vs arbitrary: ctx) (auto, metis append_assoc ctx_insert_mono)

lemma foldl_ctx_insert_subset: "set ctx \<subseteq> set (foldl ctx_insert ctx vs)"
  using foldl_ctx_insert_mono [of ctx vs] by auto

lemma has_buffer_mono: "set ctx \<subseteq> set ctx' \<Longrightarrow> has_buffer n ctx \<Longrightarrow> has_buffer n ctx'"
  by (auto simp: has_buffer_def)

lemma has_var_mono: "set ctx \<subseteq> set ctx' \<Longrightarrow> has_var n ctx \<Longrightarrow> has_var n ctx'"
  by (auto simp: has_var_def)

lemma foldl_ctx_insert_has:
  "v \<in> set vs \<Longrightarrow> has_var (var_name v) (foldl ctx_insert ctx vs) \<and>
     (is_buffer v \<longrightarrow> has_buffer (var_name v) (foldl ctx_insert ctx vs))"
proof (induction vs arbitrary: ctx)
  case (Cons w ws)
  show ?case
  proof (cases "v = w")
    case True
    then show ?thesis
      using foldl_ctx_insert_subset [of "ctx_insert ctx w" ws]
      by (auto intro: has_var_mono has_buffer_mono has_var_insert has_buffer_insert)
  next
    case False
    with Cons show ?thesis by simp
  qed
qed simp

section \<open>Scanning the patterns\<close>

lemma scan_headers_ok:
  "scan_headers henc ctx hs = Some ctx' \<Longrightarrow> ctx_ok ctx \<Longrightarrow> ctx_ok ctx'"
  by (induction henc ctx hs rule: scan_headers.induct)
    (auto split: option.splits intro: ctx_ok_insert)

lemma scan_headers_mono:
  "scan_headers henc ctx hs = Some ctx' \<Longrightarrow> \<exists>vs. ctx' = ctx @ vs"
  by (induction henc ctx hs rule: scan_headers.induct)
    (auto split: option.splits, metis append_assoc ctx_insert_mono)

lemma scan_headers_has:
  assumes "scan_headers henc ctx hs = Some ctx'" "(k, v) \<in> set hs"
  shows "has_buffer k ctx'"
  using assms
proof (induction henc ctx hs rule: scan_headers.induct)
  case (2 henc ctx key val hs)
  then obtain enc where e: "henc val = Some enc" by (auto split: option.splits)
  let ?v = "Buffer key ''char'' (Some (max (length val) (length enc)))"
  from 2 e have s: "scan_headers henc (ctx_insert ctx ?v) hs = Some ctx'" by simp
  from scan_headers_mono [OF s] has_buffer_insert [of ?v ctx] have "has_buffer key ctx'"
    by (auto simp: has_buffer_def)
  with 2 e s show ?case by auto
qed simp

text \<open>Scanning the patterns is scanning the concatenation of their header lists.\<close>

definition pattern_headers :: "config \<Rightarrow> headers" where
  "pattern_headers cfg = concat (map (\<lambda>(path, hs). opt_headers hs) (ctx_patterns cfg))"

lemma scan_headers_append:
  "scan_headers henc ctx (hs @ hs') =
     (case scan_headers henc ctx hs of None \<Rightarrow> None | Some c \<Rightarrow> scan_headers henc c hs')"
  by (induction henc ctx hs rule: scan_headers.induct) (auto split: option.splits)

lemma scan_patterns_headers:
  "scan_patterns henc ctx m ps =
     map_option (\<lambda>c. (c, foldl path_len m (map fst ps)))
       (scan_headers henc ctx (concat (map (\<lambda>(path, hs). opt_headers hs) ps)))"
  by (induction henc ctx m ps rule: scan_patterns.induct)
    (auto simp: scan_headers_append split: option.splits)

lemma foldl_path_len:
  "m \<le> foldl path_len m ps \<and> (\<forall>p. Some p \<in> set ps \<longrightarrow> length p + 12 \<le> foldl path_len m ps)"
proof (induction ps arbitrary: m)
  case (Cons q ps)
  from Cons [of "path_len m q"] show ?case by (auto simp: path_len_def split: option.splits)
qed simp

text \<open>Only the keys of the patterns become buffers while the patterns are scanned.\<close>

lemma scan_headers_only:
  "scan_headers henc ctx hs = Some ctx' \<Longrightarrow> n \<notin> fst ` set hs \<Longrightarrow>
     has_buffer n ctx' = has_buffer n ctx"
  by (induction henc ctx hs rule: scan_headers.induct)
    (auto simp: has_buffer_def ctx_insert_def split: option.splits if_splits)

lemma foldl_range_only: "has_buffer n (foldl ctx_insert ctx (map Range ks)) = has_buffer n ctx"
  by (induction ks arbitrary: ctx) (auto simp: has_buffer_def ctx_insert_def)

text \<open>The first value of a key decides the size of its buffer.\<close>

fun first_value :: "string \<Rightarrow> headers \<Rightarrow> string option" where
  "first_value k [] = None"
| "first_value k ((key, val) # hs) = (if key = k then Some val else first_value k hs)"

lemma scan_headers_first:
  assumes "scan_headers henc ctx hs = Some ctx'" "\<not> has_buffer k ctx" "first_value k hs = Some v"
  shows "\<exists>enc. henc v = Some enc \<and> Buffer k ''char'' (Some (max (length v) (length enc))) \<in> set ctx'"
  using assms
proof (induction henc ctx hs rule: scan_headers.induct)
  case (2 henc ctx key val hs)
  then obtain enc where e: "henc val = Some enc" by (auto split: option.splits)
  let ?v = "Buffer key ''char'' (Some (max (length val) (length enc)))"
  from 2 e have s: "scan_headers henc (ctx_insert ctx ?v) hs = Some ctx'" by simp
  show ?case
  proof (cases "key = k")
    case True
    with "2.prems"(2) have "?v \<in> set (ctx_insert ctx ?v)" by (intro ctx_insert_fresh_buffer) auto
    then have "?v \<in> set ctx'" using scan_headers_mono [OF s] by auto
    moreover have "v = val" using True "2.prems"(3) by simp
    ultimately show ?thesis using True e by blast
  next
    case False
    with "2.prems"(2) have "\<not> has_buffer k (ctx_insert ctx ?v)"
      by (auto simp: has_buffer_def ctx_insert_def)
    from "2.IH" [OF e s this] False "2.prems"(3) show ?thesis by simp
  qed
qed simp

lemma ctx_ok_buffer_unique:
  assumes "ctx_ok ctx" "v \<in> set ctx" "w \<in> set ctx" "is_buffer v" "is_buffer w" "var_name v = var_name w"
  shows "v = w"
  using assms unfolding ctx_ok_def
proof (induction ctx)
  case (Cons x xs)
  then have tl: "v \<in> set xs \<Longrightarrow> w \<in> set xs \<Longrightarrow> v = w" by simp
  from Cons.prems have no: "\<forall>y \<in> set xs. var_name x = var_name y \<longrightarrow> \<not> is_buffer x" by simp
  show ?case using Cons.prems tl no by (metis set_ConsD)
qed simp

lemma get_ctx_varsE:
  assumes "get_ctx_vars henc cfg = Some ctx"
  obtains c0 where
    "scan_headers henc [Buffer ''preface'' ''char'' (Some 24)] (pattern_headers cfg) = Some c0"
    "ctx = foldl ctx_insert c0 (map Range (remove_keys (all_filters cfg)) @
             builtin_vars (foldl path_len 16 (map fst (ctx_patterns cfg))) @
             (if uses_jwt cfg then jwt_vars else []))"
  using assms
  by (auto simp: get_ctx_vars_def ctx_insert_def scan_patterns_headers pattern_headers_def
      split: option.splits)

lemma get_ctx_vars_ok:
  assumes "get_ctx_vars henc cfg = Some ctx"
  shows "ctx_ok ctx"
proof -
  from assms obtain c0 vs where
    s: "scan_headers henc [Buffer ''preface'' ''char'' (Some 24)] (pattern_headers cfg) = Some c0"
    and c: "ctx = foldl ctx_insert c0 vs" by (rule get_ctx_varsE)
  from s have "ctx_ok c0" by (rule scan_headers_ok) (simp add: ctx_ok_def)
  then show ?thesis unfolding c by (rule foldl_ctx_insert_ok)
qed

section \<open>Properties\<close>

text \<open>C10. The filter context has everything the generated filters read: the connection preface
  comes first, the request line, status and length fields are buffers, so is every header key
  that a route or an RBAC policy matches on; every header that a mutate filter removes has a
  range; a JWT filter brings the buffers for claims and signature. No name occurs twice, except
  for a removed header that later gets a buffer.\<close>

theorem ctx_vars_complete:
  assumes "get_ctx_vars henc cfg = Some ctx"
  shows "ctx \<noteq> [] \<and> hd ctx = Buffer ''preface'' ''char'' (Some 24) \<and> ctx_ok ctx \<and>
    has_buffer ''method'' ctx \<and> has_buffer ''path'' ctx \<and> has_buffer ''status_code'' ctx \<and>
    has_buffer ''content-length'' ctx \<and>
    (\<forall>r \<in> set (cfg_routes cfg). \<forall>(k, v) \<in> set (opt_headers (pat_headers (rt_pattern r))). has_buffer k ctx) \<and>
    (\<forall>p \<in> set (cfg_policies cfg). \<forall>(k, v) \<in> set (opt_headers (pol_headers p)). has_buffer k ctx) \<and>
    (\<forall>k \<in> set (remove_keys (all_filters cfg)). has_var k ctx) \<and>
    (uses_jwt cfg \<longrightarrow> has_buffer ''jwt_claims'' ctx \<and> has_buffer ''jwt_sig'' ctx)"
proof -
  let ?m = "foldl path_len 16 (map fst (ctx_patterns cfg))"
  let ?vs = "map Range (remove_keys (all_filters cfg)) @ builtin_vars ?m @
    (if uses_jwt cfg then jwt_vars else [])"
  obtain c0 where s: "scan_headers henc [Buffer ''preface'' ''char'' (Some 24)] (pattern_headers cfg) = Some c0"
    and c: "ctx = foldl ctx_insert c0 ?vs" using assms by (rule get_ctx_varsE)
  obtain us ws where pre: "c0 = [Buffer ''preface'' ''char'' (Some 24)] @ us" "ctx = c0 @ ws"
    using scan_headers_mono [OF s] foldl_ctx_insert_mono [of c0 ?vs] c by auto
  have buf: "has_buffer (var_name v) ctx" if "v \<in> set ?vs" "is_buffer v" for v
    using foldl_ctx_insert_has [OF that(1), of c0] that(2) c by simp
  have var: "has_var k ctx" if "k \<in> set (remove_keys (all_filters cfg))" for k
    using foldl_ctx_insert_has [of "Range k" ?vs c0] that c by simp
  have hdr: "has_buffer k ctx" if "(k, v) \<in> set (pattern_headers cfg)" for k v
    using scan_headers_has [OF s that] pre by (auto simp: has_buffer_def)
  have b: "\<forall>v \<in> set (builtin_vars ?m). has_buffer (var_name v) ctx"
    by (intro ballI buf) (auto simp: builtin_vars_def)
  have j: "\<forall>v \<in> set jwt_vars. has_buffer (var_name v) ctx" if "uses_jwt cfg"
    by (intro ballI buf) (use that in \<open>auto simp: jwt_vars_def\<close>)
  have routes: "has_buffer k ctx"
    if "r \<in> set (cfg_routes cfg)" "(k, v) \<in> set (opt_headers (pat_headers (rt_pattern r)))" for r k v
    by (rule hdr [of k v]) (use that in \<open>force simp: pattern_headers_def ctx_patterns_def\<close>)
  have pols: "has_buffer k ctx"
    if "p \<in> set (cfg_policies cfg)" "(k, v) \<in> set (opt_headers (pol_headers p))" for p k v
    by (rule hdr [of k v]) (use that in \<open>force simp: pattern_headers_def ctx_patterns_def\<close>)
  have builtin: "has_buffer ''method'' ctx \<and> has_buffer ''path'' ctx \<and>
      has_buffer ''status_code'' ctx \<and> has_buffer ''content-length'' ctx"
    using b by (simp add: builtin_vars_def)
  have jwt: "has_buffer ''jwt_claims'' ctx \<and> has_buffer ''jwt_sig'' ctx" if "uses_jwt cfg"
    using j [OF that] by (simp add: jwt_vars_def)
  have hd: "ctx \<noteq> [] \<and> hd ctx = Buffer ''preface'' ''char'' (Some 24)" using pre by simp
  show ?thesis
    using hd get_ctx_vars_ok [OF assms] builtin routes pols var jwt by blast
qed


text \<open>C12. The buffer of a header holds the first value any pattern compares it with, plain or
  Huffman encoded, and that first value alone decides its size: a longer value of the same header
  in a later route or policy does not enlarge it.\<close>

theorem header_buffer_first_value:
  assumes "get_ctx_vars henc cfg = Some ctx" "k \<noteq> ''preface''"
    and "first_value k (pattern_headers cfg) = Some v"
  shows "\<exists>enc. henc v = Some enc \<and>
    (\<forall>ty n. Buffer k ty n \<in> set ctx \<longleftrightarrow> ty = ''char'' \<and> n = Some (max (length v) (length enc)))"
proof -
  obtain c0 vs where
    s: "scan_headers henc [Buffer ''preface'' ''char'' (Some 24)] (pattern_headers cfg) = Some c0"
    and c: "ctx = foldl ctx_insert c0 vs" using assms(1) by (rule get_ctx_varsE)
  obtain enc where e: "henc v = Some enc"
    and m: "Buffer k ''char'' (Some (max (length v) (length enc))) \<in> set c0"
    using scan_headers_first [OF s _ assms(3)] assms(2) by (auto simp: has_buffer_def)
  have "Buffer k ''char'' (Some (max (length v) (length enc))) \<in> set ctx"
    using m foldl_ctx_insert_subset c by blast
  moreover have "w = Buffer k ''char'' (Some (max (length v) (length enc)))"
    if "w \<in> set ctx" "is_buffer w" "var_name w = k" for w
    using ctx_ok_buffer_unique [OF get_ctx_vars_ok [OF assms(1)] that(1) calculation] that by simp
  ultimately show ?thesis using e by (intro exI [of _ enc]) fastforce
qed

section \<open>Witnesses\<close>

text \<open>Two routes match on the same header with values of different lengths; the identity stands
  for the Huffman encoder.\<close>

definition sample_route :: "string \<Rightarrow> cfilter list \<Rightarrow> croute" where
  "sample_route v fs =
     \<lparr>rt_pattern = \<lparr>pat_path = Some ''/a'', pat_headers = Some [(''x-user'', v)]\<rparr>,
      rt_dest = ''h'', rt_filters = fs\<rparr>"

definition sample_config :: config where
  "sample_config =
     \<lparr>cfg_socket = None, cfg_tls = None, cfg_proxy = None, cfg_stats = False, cfg_hosts = [],
      cfg_network = None, cfg_policies = [],
      cfg_routes = [sample_route ''ab'' [Mutate \<lparr>mf_add = None, mf_remove = Some [''content-length'']\<rparr>],
                    sample_route ''abcdefgh'' [Jwt \<lparr>jwt_secret = ''s'', jwt_audience = None, jwt_issuer = None\<rparr>]]\<rparr>"

definition plain_huffman :: huffman where
  "plain_huffman s = Some (map of_char s)"

definition sample_ctx :: "variable list" where
  "sample_ctx =
     [Buffer ''preface'' ''char'' (Some 24), Buffer ''x-user'' ''char'' (Some 2),
      Range ''content-length'',
      Buffer ''method'' ''char'' (Some 7), Buffer ''path'' ''char'' (Some 16),
      Buffer ''status_code'' ''u32'' None, Buffer ''content-length'' ''u32'' None,
      Buffer ''jwt_claims'' ''char'' (Some 4095), Buffer ''jwt_sig'' ''char'' (Some 63)]"

lemma sample_ctx_vars: "get_ctx_vars plain_huffman sample_config = Some sample_ctx"
  by (simp add: get_ctx_vars_def sample_config_def sample_route_def plain_huffman_def sample_ctx_def
      ctx_patterns_def ctx_insert_def opt_headers_def path_len_def remove_keys_def all_filters_def
      uses_jwt_def builtin_vars_def jwt_vars_def)

theorem ctx_vars_complete_witness:
  "get_ctx_vars plain_huffman sample_config = Some sample_ctx \<and> ctx_ok sample_ctx \<and>
   has_buffer ''x-user'' sample_ctx \<and> has_var ''content-length'' sample_ctx"
proof -
  have r: "sample_route ''ab'' [Mutate \<lparr>mf_add = None, mf_remove = Some [''content-length'']\<rparr>]
      \<in> set (cfg_routes sample_config)" by (simp add: sample_config_def)
  show ?thesis
    using ctx_vars_complete [OF sample_ctx_vars] r sample_ctx_vars
    by (simp add: sample_config_def sample_route_def opt_headers_def all_filters_def remove_keys_def)
qed


text \<open>The header buffer has two bytes although the second route compares eight.\<close>

theorem header_buffer_first_value_witness:
  "(''x-user'', ''abcdefgh'') \<in> set (pattern_headers sample_config) \<and>
   (\<forall>ty n. Buffer ''x-user'' ty n \<in> set sample_ctx \<longleftrightarrow> ty = ''char'' \<and> n = Some 2)"
proof -
  have f: "first_value ''x-user'' (pattern_headers sample_config) = Some ''ab''"
    by (simp add: pattern_headers_def ctx_patterns_def sample_config_def sample_route_def opt_headers_def)
  have m: "(''x-user'', ''abcdefgh'') \<in> set (pattern_headers sample_config)"
    by (simp add: pattern_headers_def ctx_patterns_def sample_config_def sample_route_def opt_headers_def)
  from header_buffer_first_value [OF sample_ctx_vars _ f] m show ?thesis
    by (simp add: plain_huffman_def numeral_2_eq_2)
qed

end
