(* ===== verification/Compiler_Text.thy ===== *)
theory Compiler_Text
  imports Compiler_Vars "HOL-Library.Monad_Syntax"
begin

text \<open>
  \<open>common/src/compiler.rs\<close>, the code generator: every \<open>format!\<close> of the source with its exact
  text. What the generated C decides on is kept as a small abstract syntax, the conditions
  \<open>cexpr\<close> and the calls of a route's filter chain \<open>ccall\<close>, from which the text is rendered. The
  filter templates are files of the crate that runs the compiler, a parameter \<open>tm\<close> from the name
  to the contents; \<open>None\<close> is a panic (a missing file, an \<open>unwrap\<close> or an assertion).
\<close>

section \<open>Templates\<close>

record gfilter =
  f_defs :: string
  f_code :: string

type_synonym templates = "string \<Rightarrow> string option"

definition gfilter_default :: gfilter where
  "gfilter_default = \<lparr>f_defs = [], f_code = []\<rparr>"

definition replace_key :: "string \<Rightarrow> string \<Rightarrow> string \<Rightarrow> string" where
  "replace_key key value text = str_replace (''{'' @ key @ ''}'') value text"

definition replace_defs :: "string \<Rightarrow> string \<Rightarrow> gfilter \<Rightarrow> gfilter" where
  "replace_defs key value f = f\<lparr>f_defs := replace_key key value (f_defs f)\<rparr>"

definition replace_code :: "string \<Rightarrow> string \<Rightarrow> gfilter \<Rightarrow> gfilter" where
  "replace_code key value f = f\<lparr>f_code := replace_key key value (f_code f)\<rparr>"

definition gfilter_from :: "string \<Rightarrow> gfilter option" where
  "gfilter_from text =
     (case split_str ''// ---'' [] text of
        d # c # _ \<Rightarrow> Some \<lparr>f_defs = d, f_code = c\<rparr>
      | _ \<Rightarrow> None)"

definition read_filter :: "templates \<Rightarrow> string \<Rightarrow> gfilter option" where
  "read_filter tm name = Option.bind (tm name) gfilter_from"

section \<open>Literals\<close>

definition nl :: string where "nl = [CHR 0x0A]"
definition bslash :: string where "bslash = [CHR 0x5C]"
definition squote :: string where "squote = [CHR 0x27]"

definition c_array :: "byte list \<Rightarrow> string \<times> nat" where
  "c_array data =
     (''(u8['' @ dec_string (length data) @ '']){'' @
      join '', '' (map (\<lambda>b. dec_string (unat b)) data) @ ''}'', length data)"

definition hex_digit :: "nat \<Rightarrow> char" where
  "hex_digit d = (if d < 10 then char_of (48 + d) else char_of (87 + d))"

definition hex_escape :: "byte \<Rightarrow> string" where
  "hex_escape b = bslash @ ''x'' @ [hex_digit (unat b div 16), hex_digit (unat b mod 16)]"

text \<open>The bytes of \<open>h2_hdr\<close>; the length is narrowed to \<open>u8\<close> before it is checked.\<close>

definition h2_len :: "byte list \<Rightarrow> byte option" where
  "h2_len enc =
     (let len = word_of_nat (length enc) :: byte
      in if len < 127 then Some (or len 128) else None)"

definition h2_hdr_bytes :: "huffman \<Rightarrow> string \<Rightarrow> string \<Rightarrow> byte list option" where
  "h2_hdr_bytes henc key val =
     do {
       key_encoded \<leftarrow> henc key;
       key_len \<leftarrow> h2_len key_encoded;
       val_encoded \<leftarrow> henc val;
       val_len \<leftarrow> h2_len val_encoded;
       Some (64 # key_len # key_encoded @ val_len # val_encoded)
     }"

definition h2_hdr :: "huffman \<Rightarrow> string \<Rightarrow> string \<Rightarrow> (string \<times> nat) option" where
  "h2_hdr henc key val = map_option c_array (h2_hdr_bytes henc key val)"

section \<open>Conditions\<close>

datatype cexpr =
    CTrue
  | CStrEq string string "byte list" \<comment> \<open>variable, value, Huffman encoding of the value\<close>
  | CRemoteIp4 u32
  | CRemotePort u16
  | CLocalIp4 u32
  | CAll "cexpr list"
  | CParen cexpr

definition str_eq :: "huffman \<Rightarrow> string \<Rightarrow> string \<Rightarrow> cexpr option" where
  "str_eq henc var val = map_option (CStrEq var val) (henc val)"

fun render_expr :: "cexpr \<Rightarrow> string" where
  "render_expr CTrue = ''true''"
| \<open>render_expr (CStrEq var val enc) =
     ''(bpf_strncmp(ctx->'' @ sanitize_var_name var @ '', '' @ dec_string (length val) @ '', "'' @
     val @ ''") == 0 || __builtin_memcmp(ctx->'' @ sanitize_var_name var @ '', "'' @
     concat (map hex_escape enc) @ ''", '' @ dec_string (length enc) @ '') == 0)''\<close>
| "render_expr (CRemoteIp4 ip) = ''ikey->remote.ip4 == '' @ dec_string (unat ip)"
| "render_expr (CRemotePort port) = ''ikey->remote.port == '' @ dec_string (unat port)"
| "render_expr (CLocalIp4 ip) = ''ikey->local.ip4 == '' @ dec_string (unat ip)"
| "render_expr (CAll es) = join '' && '' (map render_expr es)"
| "render_expr (CParen e) = ''('' @ render_expr e @ '')''"

section \<open>The filter context\<close>

definition var_def :: "variable \<Rightarrow> string option" where
  "var_def var =
     (case var of
        Buffer name ty sz \<Rightarrow>
          if ty = ''char'' then
            map_option (\<lambda>n. ''struct http_match '' @ sanitize_var_name name @ ''_range;'' @ nl @
              ''u8 '' @ sanitize_var_name name @ ''['' @ dec_string (n + 1) @ ''];'') sz
          else Some (''struct http_match '' @ sanitize_var_name name @ ''_range;'' @ nl @
              ty @ '' '' @ sanitize_var_name name @ '';'')
      | Range name \<Rightarrow> Some (''struct http_match '' @ sanitize_var_name name @ ''_range;''))"

definition stats_only :: "string \<Rightarrow> string \<Rightarrow> string" where
  "stats_only name code =
     (if name = ''status_code'' then ''#if STATS == 1'' @ nl @ code @ nl @ ''#endif'' else code)"

definition jwt_split_text :: "nat \<Rightarrow> string" where
  \<open>jwt_split_text i =
     ''m = _pres_match(pres, h1_mids['' @ dec_string i @ '']);'' @ nl @
     ''                        ctx->jwt_claims_range = (struct http_match){ 0 };'' @ nl @
     ''                        ctx->jwt_sig_range = (struct http_match){ 0 };'' @ nl @
     ''                        if (m.len > 7) {'' @ nl @
     ''                            bpf_probe_read_kernel(buf, 7, data + m.idx);'' @ nl @
     ''                            u32 k = 0, dots = 0, dot = 0;'' @ nl @
     ''                            bool bearer = true;'' @ nl @
     ''                            bpf_for(k, 0, 7) {'' @ nl @
     ''                                if ((buf[k] | 0x20) != "bearer "[k]) bearer = false;'' @
     nl @ ''                            }'' @ nl @ nl @
     ''                            u32 len = m.len - 7;'' @ nl @
     ''                            if (len > 4095) len = 4095;'' @ nl @
     ''                            if (bearer) bpf_probe_read_kernel(ctx->jwt_claims, len, data + m.idx + 7);'' @
     nl @ nl @ ''                            bpf_for(k, 0, len) {'' @ nl @
     ''                                if (!bearer || k >= 4095) break;'' @ nl @
     ''                                if (ctx->jwt_claims[k] == '' @ squote @ ''.'' @ squote @
     '' && ++dots == 2) {'' @ nl @ ''                                    dot = k;'' @ nl @
     ''                                    break;'' @ nl @ ''                                }'' @
     nl @ ''                            }'' @ nl @ nl @
     ''                            if (dot > 0) {'' @ nl @
     ''                                ctx->jwt_claims_range = (struct http_match){ .idx = m.idx + 7, .len = dot };'' @
     nl @
     ''                                ctx->jwt_sig_range = (struct http_match){ .idx = m.idx + 8 + dot, .len = m.len - 8 - dot };'' @
     nl @ nl @ ''                                u32 sig_len = ctx->jwt_sig_range.len;'' @ nl @
     ''                                if (sig_len > 63) sig_len = 63;'' @ nl @
     ''                                bpf_probe_read_kernel(ctx->jwt_sig, sig_len, data + ctx->jwt_sig_range.idx);'' @
     nl @ ''                            }'' @ nl @ ''                        }'' @ nl @
     ''                        bpf_log("jwt inited to (%d, %d)", ctx->jwt_claims_range.len, ctx->jwt_sig_range.len);''\<close>

definition h1_char_text :: "nat \<Rightarrow> string \<Rightarrow> nat \<Rightarrow> string" where
  \<open>h1_char_text i name len =
     ''m = _pres_match(pres, h1_mids['' @ dec_string i @ '']);'' @ nl @
     ''                                ctx->'' @ name @ ''_range = m;'' @ nl @
     ''                                m.len = (m.len > '' @ dec_string len @ '') ? '' @
     dec_string len @ '' : m.len;'' @ nl @
     ''                                bpf_probe_read_kernel(ctx->'' @ name @
     '', m.len, data + m.idx);'' @ nl @ ''                                ctx->'' @ name @
     ''[m.len] = '' @ squote @ bslash @ ''0'' @ squote @ '';'' @ nl @
     ''                                bpf_log("'' @ name @ '' inited to %s", ctx->'' @ name @
     '');''\<close>

definition h1_u32_text :: "nat \<Rightarrow> string \<Rightarrow> string" where
  \<open>h1_u32_text i name =
     ''m = _pres_match(pres, h1_mids['' @ dec_string i @ '']);'' @ nl @
     ''                                ctx->'' @ name @ ''_range = m;'' @ nl @
     ''                                m.len &= 0x3f;'' @ nl @
     ''                                bpf_probe_read_kernel(buf, m.len, data + m.idx);'' @ nl @
     ''                                buf[m.len] = '' @ squote @ bslash @ ''0'' @ squote @
     ''; // this way, we don'' @ squote @ ''t need an if-clause'' @ nl @
     ''                                bpf_strtoul(buf, m.len + 1, 10, &tmp);'' @ nl @
     ''                                ctx->'' @ name @ '' = tmp;'' @ nl @
     ''                                bpf_log("'' @ name @ '' inited to %d", ctx->'' @ name @
     '');''\<close>

definition h1_range_text :: "nat \<Rightarrow> string \<Rightarrow> string" where
  \<open>h1_range_text i name =
     ''ctx->'' @ name @ ''_range = _pres_match(pres, h1_mids['' @ dec_string i @ '']);'' @ nl @
     ''                            bpf_log("'' @ name @ '' inited to (%d, %d)", ctx->'' @ name @
     ''_range.idx, ctx->'' @ name @ ''_range.len);''\<close>

definition init_h1_var :: "nat \<Rightarrow> variable \<Rightarrow> string option" where
  "init_h1_var i var =
     (case var of
        Buffer name ty len \<Rightarrow>
          if name = ''jwt_claims'' then Some (jwt_split_text i)
          else if name = ''jwt_sig'' then Some []
          else
            let sname = sanitize_var_name name in
            map_option (stats_only sname)
              (if ty = ''char'' then map_option (h1_char_text i sname) len
               else if ty = ''u32'' then Some (h1_u32_text i sname)
               else None)
      | Range name \<Rightarrow> Some (h1_range_text i (sanitize_var_name name)))"

definition h2_get_text :: "nat \<Rightarrow> string \<Rightarrow> string" where
  \<open>h2_get_text i name =
     ''m = (struct http_match){ 0 };'' @ nl @ ''                            str.len = 0;'' @ nl @
     ''                            if (_h2_match(msg, is_skb, pres, h2_mids['' @ dec_string i @
     ''], &str) == 0) m = _pres_match(pres, h2_mids['' @ dec_string i @ '']);'' @ nl @
     ''                            ctx->'' @ name @ ''_range = m;''\<close>

definition h2_char_text :: "nat \<Rightarrow> string \<Rightarrow> nat \<Rightarrow> string" where
  \<open>h2_char_text i name len =
     h2_get_text i name @ nl @ ''                                str.len = (str.len > '' @
     dec_string len @ '') ? '' @ dec_string len @ '' : str.len;'' @ nl @
     ''                                bpf_probe_read_kernel(ctx->'' @ name @
     '', str.len, str.ptr);'' @ nl @ ''                                ctx->'' @ name @
     ''[str.len] = '' @ squote @ bslash @ ''0'' @ squote @ '';'' @ nl @
     ''                                bpf_log("'' @ name @ '' inited to %s", ctx->'' @ name @
     '');''\<close>

definition h2_u32_text :: "nat \<Rightarrow> string \<Rightarrow> string" where
  \<open>h2_u32_text i name =
     h2_get_text i name @ nl @ ''                                str.len &= 0x3f;'' @ nl @
     ''                                bpf_probe_read_kernel(buf, str.len, str.ptr);'' @ nl @
     ''                                buf[str.len] = '' @ squote @ bslash @ ''0'' @ squote @
     ''; // this way, we don'' @ squote @ ''t need an if-clause'' @ nl @
     ''                                bpf_strtoul(buf, str.len + 1, 10, &tmp);'' @ nl @
     ''                                ctx->'' @ name @ '' = tmp;'' @ nl @
     ''                                bpf_log("'' @ name @ '' inited to %d", ctx->'' @ name @
     '');''\<close>

definition h2_range_text :: "nat \<Rightarrow> string \<Rightarrow> string" where
  \<open>h2_range_text i name =
     ''ctx->'' @ name @ ''_range = _pres_match(pres, h2_mids['' @ dec_string i @ '']);'' @ nl @
     ''                            bpf_log("'' @ name @ '' inited to (%d, %d)", ctx->'' @ name @
     ''_range.idx, ctx->'' @ name @ ''_range.len);''\<close>

definition init_h2_var :: "nat \<Rightarrow> variable \<Rightarrow> string option" where
  "init_h2_var i var =
     (case var of
        Buffer name ty len \<Rightarrow>
          let sname = sanitize_var_name name in
          map_option (stats_only sname)
            (if ty = ''char'' then map_option (h2_char_text i sname) len
             else if ty = ''u32'' then Some (h2_u32_text i sname)
             else None)
      | Range name \<Rightarrow> Some (h2_range_text i (sanitize_var_name name)))"

definition enumerate_with :: "(nat \<Rightarrow> 'a \<Rightarrow> 'b option) \<Rightarrow> 'a list \<Rightarrow> 'b list option" where
  "enumerate_with f xs = those (map (\<lambda>(i, x). f i x) (zip [0..<length xs] xs))"

definition generate_ctx :: "templates \<Rightarrow> variable list \<Rightarrow> gfilter option" where
  "generate_ctx tm vars =
     do {
       flt \<leftarrow> read_filter tm ''ctx'';
       var_defs \<leftarrow> those (map var_def vars);
       init_h1 \<leftarrow> enumerate_with init_h1_var vars;
       init_h2 \<leftarrow> enumerate_with init_h2_var vars;
       Some (replace_code ''init_h2'' (join nl init_h2)
         (replace_code ''init_h1'' (join nl init_h1)
           (replace_defs ''vars'' (join nl var_defs) flt)))
     }"

section \<open>Calls\<close>

datatype ccall =
    VerifySig
  | Admission nat
  | CallMutate nat
  | SetDest u32 u16
  | LoadBalance nat

fun render_call :: "ccall \<Rightarrow> string" where
  \<open>render_call VerifySig =
     ''if (_validate_jwt_signature(ctx->jwt_claims, ctx->jwt_claims_range.len, ctx->jwt_sig, ctx->jwt_sig_range.len, ctx->tmp) != PR_PASS) return PR_DROP;''\<close>
| \<open>render_call (Admission idx) =
     ''if (_validate_jwt_admission_'' @ dec_string idx @ ''(ctx) != PR_PASS) return PR_DROP;''\<close>
| \<open>render_call (CallMutate idx) =
     ''if (_mutate_'' @ dec_string idx @
     ''(msg, ctx, is_skb, is_h2) != PR_PASS) return PR_DROP;''\<close>
| \<open>render_call (SetDest ip4 port) =
     ''ctx->dest.ip4 = '' @ dec_string (unat ip4) @ '';'' @ nl @
     ''                        ctx->dest.port = '' @ dec_string (unat port) @ '';''\<close>
| \<open>render_call (LoadBalance idx) =
     ''_load_balance_'' @ dec_string idx @ ''(ctx, ikey);''\<close>

section \<open>JWT filters\<close>

definition adm_templ :: string where
  \<open>adm_templ =
     nl @ ''            adm = "{adm}";'' @ nl @ ''            adm_len = {adm_len};'' @ nl @
     ''            admitted = false;'' @ nl @ nl @
     ''            bpf_for(i, 0, claims_len-adm_len) {'' @ nl @
     ''                bpf_clamp_uminmax(i, 0, 3072-{adm_len});'' @ nl @
     ''                if (bpf_strncmp(ctx->tmp + i, adm_len, adm) == 0) {'' @ nl @
     ''                    admitted = true;'' @ nl @ ''                    break;'' @ nl @
     ''                }'' @ nl @ ''            }'' @ nl @ nl @ ''            if (!admitted) {'' @
     nl @ ''                bpf_log("JWT admission failed");'' @ nl @
     ''                return PR_DROP;'' @ nl @ ''            }''\<close>

definition admission_text :: "string \<Rightarrow> string \<Rightarrow> string" where
  \<open>admission_text claim value =
     (let adm = bslash @ ''"'' @ claim @ bslash @ ''":'' @ bslash @ ''"'' @ value @ bslash @ ''"''
      in str_replace ''{adm_len}'' (dec_string (length adm - 4)) (str_replace ''{adm}'' adm adm_templ))\<close>

definition generate_jwt_filter :: "templates \<Rightarrow> nat \<Rightarrow> jwt_filter \<Rightarrow> (gfilter \<times> ccall list) option" where
  "generate_jwt_filter tm idx jwt =
     (if jwt_audience jwt = None \<and> jwt_issuer jwt = None then Some (gfilter_default, [VerifySig])
      else
        let aud = (case jwt_audience jwt of None \<Rightarrow> [] | Some a \<Rightarrow> admission_text ''aud'' a @ nl);
            iss = (case jwt_issuer jwt of None \<Rightarrow> [] | Some i \<Rightarrow> admission_text ''iss'' i)
        in map_option (\<lambda>f. (replace_code ''admission'' (aud @ iss) (replace_code ''idx'' (dec_string idx) f),
                            [VerifySig, Admission idx]))
             (read_filter tm ''jwt''))"

section \<open>Mutate filters\<close>

definition offset_text :: "variable list \<Rightarrow> string \<Rightarrow> string \<Rightarrow> string" where
  \<open>offset_text ctx idx off =
     join nl (map (\<lambda>v. let name = sanitize_var_name (var_name v) in
     ''if (ctx->'' @ name @ ''_range.idx >= '' @ idx @ '') {'' @ nl @
     ''                            ctx->'' @ name @ ''_range.idx += '' @ off @ '';'' @ nl @
     ''                        }'') ctx)\<close>

definition remove_text :: "variable list \<Rightarrow> string \<Rightarrow> string" where
  \<open>remove_text ctx raw =
     (let key = sanitize_var_name raw in
     ''if (ctx->'' @ key @ ''_range.len > 0) {'' @ nl @
     ''                        remove_range.idx = ctx->'' @ key @ ''_range.idx-'' @
     dec_string (length key + 2) @ '';'' @ nl @
     ''                        remove_range.len = ctx->'' @ key @ ''_range.len+'' @
     dec_string (length key + 4) @ '';'' @ nl @
     ''                        if (_mutate(msg, remove_range, NULL, 0, is_skb, is_h2) < 0) {'' @
     nl @ ''                            bpf_err("ERROR: Failed to remove '' @ key @ ''");'' @ nl @
     ''                            return PR_DROP;'' @ nl @ ''                        }'' @ nl @
     ''                        ctx->done_idx -= remove_range.len;'' @ nl @
     ''                        '' @ offset_text ctx ''remove_range.idx'' ''-remove_range.len'' @
     nl @ ''                    }'')\<close>

definition add_text :: "string \<Rightarrow> nat \<Rightarrow> string \<Rightarrow> nat \<Rightarrow> string" where
  \<open>add_text new_hdr_h2 hdr_len_h2 new_hdr_h1 hdr_len_h1 =
     ''if (is_h2) {'' @ nl @ ''                        append_range.idx = ctx->done_idx;'' @ nl @
     ''                        new_hdr = '' @ new_hdr_h2 @ '';'' @ nl @
     ''                        if (_mutate(msg, append_range, new_hdr, '' @
     dec_string hdr_len_h2 @ '', is_skb, is_h2) < 0) {'' @ nl @
     ''                            bpf_err("ERROR: Failed to add %s", new_hdr);'' @ nl @
     ''                            return PR_DROP;'' @ nl @ ''                        }'' @ nl @
     ''                        ctx->done_idx += '' @ dec_string hdr_len_h2 @ '';'' @ nl @
     ''                    }'' @ nl @ ''                    else {'' @ nl @
     ''                        append_range.idx = ctx->done_idx - 2;'' @ nl @
     ''                        new_hdr = (u8*)"'' @ new_hdr_h1 @ ''";'' @ nl @
     ''                        if (_mutate(msg, append_range, new_hdr, '' @
     dec_string hdr_len_h1 @ '', is_skb, is_h2) < 0) {'' @ nl @
     ''                            bpf_err("ERROR: Failed to add %s", new_hdr);'' @ nl @
     ''                            return PR_DROP;'' @ nl @ ''                        }'' @ nl @
     ''                        ctx->done_idx += '' @ dec_string hdr_len_h1 @ '';'' @ nl @
     ''                    }''\<close>

definition add_header :: "huffman \<Rightarrow> string \<times> string \<Rightarrow> string option" where
  "add_header henc kv =
     (case kv of (key, val) \<Rightarrow>
        let new_hdr_h1 = key @ '': '' @ val @ bslash @ ''r'' @ bslash @ ''n'' in
        map_option (\<lambda>(new_hdr_h2, hdr_len_h2).
            add_text new_hdr_h2 hdr_len_h2 new_hdr_h1 (length new_hdr_h1 - 2))
          (h2_hdr henc key val))"

definition generate_mutate_filter ::
  "templates \<Rightarrow> huffman \<Rightarrow> config \<Rightarrow> nat \<Rightarrow> mutate_filter \<Rightarrow> (gfilter \<times> ccall list) option" where
  "generate_mutate_filter tm henc cfg idx mutate =
     (if mf_add mutate = None \<and> mf_remove mutate = None then Some (gfilter_default, [])
      else do {
        ctx \<leftarrow> get_ctx_vars henc cfg;
        let removed = (case mf_remove mutate of None \<Rightarrow> [] | Some ks \<Rightarrow> concat (map (remove_text ctx) ks));
        added \<leftarrow> those (map (add_header henc) (case mf_add mutate of None \<Rightarrow> [] | Some kvs \<Rightarrow> kvs));
        flt \<leftarrow> read_filter tm ''mutate'';
        Some (replace_code ''mutation'' (removed @ concat added)
                (replace_code ''idx'' (dec_string idx) flt), [CallMutate idx])
      })"

section \<open>Load balancing\<close>

text \<open>The ring lists every instance the same number of times.\<close>

definition ring_slots :: "endian \<Rightarrow> nat \<Rightarrow> socket_addr list \<Rightarrow> (u32 \<times> u16) list option" where
  "ring_slots e sz instances =
     (let hashes_per_instance = sz div length instances in
      map_option (\<lambda>keys. concat (map (replicate hashes_per_instance) keys))
        (those (map (\<lambda>a. map_option (\<lambda>ip. (ip, sock_port a)) (out_option (ip_ne_octets e (sock_ip a))))
          instances)))"

definition slot_text :: "u32 \<times> u16 \<Rightarrow> string" where
  "slot_text s = ''{.ip4 = '' @ dec_string (unat (fst s)) @ '', .port = '' @ dec_string (unat (snd s)) @ ''},''"

fun ring_size :: "load_balancer \<Rightarrow> nat" where
  "ring_size (Ring n) = n"

definition generate_load_balancing ::
  "templates \<Rightarrow> endian \<Rightarrow> nat \<Rightarrow> load_balancer \<Rightarrow> socket_addr list \<Rightarrow> (gfilter \<times> ccall) option" where
  "generate_load_balancing tm e idx lb instances =
     (if instances = [] then None
      else do {
        flt \<leftarrow> read_filter tm ''lb'';
        let flt = replace_defs ''idx'' (dec_string idx) (replace_code ''idx'' (dec_string idx) flt);
        ring \<leftarrow> ring_slots e (ring_size lb) instances;
        let ring_len = (ring_size lb div length instances) * length instances;
        Some (replace_defs ''ring'' (concat (map slot_text ring))
                (replace_code ''ring_len'' (dec_string ring_len) flt),
              LoadBalance idx)
      })"

section \<open>Routes\<close>

definition path_condition :: "huffman \<Rightarrow> string option \<Rightarrow> cexpr option" where
  "path_condition henc path =
     (case path of
        Some p \<Rightarrow> if p = ''*'' then Some CTrue else str_eq henc ''path'' p
      | None \<Rightarrow> Some CTrue)"

definition headers_condition :: "huffman \<Rightarrow> headers option \<Rightarrow> cexpr option" where
  "headers_condition henc hs =
     (case hs of
        Some h \<Rightarrow> map_option CAll (those (map (\<lambda>(key, val). str_eq henc key val) h))
      | None \<Rightarrow> Some CTrue)"

definition route_cond_text :: "nat \<Rightarrow> cexpr \<Rightarrow> cexpr \<Rightarrow> string" where
  \<open>route_cond_text idx path headers =
     (if idx > 0 then ''else '' else []) @ ''if ('' @ render_expr path @ '' && '' @
     render_expr headers @ '') {'' @ nl @ ''                    if (route_ds_'' @ dec_string idx @
     ''(msg, ctx, ikey, is_skb, is_h2) != PR_PASS) {'' @ nl @
     ''                            bpf_err("ERROR: route_'' @ dec_string idx @ '' failed.");'' @
     nl @ ''                            return PR_DROP;'' @ nl @ ''                        }'' @
     nl @ ''                    }''\<close>

definition generate_filter ::
  "templates \<Rightarrow> huffman \<Rightarrow> config \<Rightarrow> nat \<Rightarrow> cfilter \<Rightarrow> (gfilter \<times> ccall list) option" where
  "generate_filter tm henc cfg idx f =
     (case f of
        Jwt j \<Rightarrow> generate_jwt_filter tm idx j
      | Mutate m \<Rightarrow> generate_mutate_filter tm henc cfg idx m)"

text \<open>How a route reaches its host: the filters it adds and the last call of its chain.\<close>

definition route_dest ::
  "templates \<Rightarrow> endian \<Rightarrow> config \<Rightarrow> nat \<Rightarrow> croute \<Rightarrow> (gfilter list \<times> ccall) option" where
  "route_dest tm e cfg idx route =
     (case resolve_host cfg (rt_dest route) of
        None \<Rightarrow> None
      | Some h \<Rightarrow>
          (case host_instances h of
             [] \<Rightarrow> None
           | [addr] \<Rightarrow>
               map_option (\<lambda>ip4. ([], SetDest ip4 (sock_port addr))) (out_option (ip_ne_octets e (sock_ip addr)))
           | instances \<Rightarrow>
               (case host_load_balancer h of
                  Some lb \<Rightarrow> map_option (\<lambda>(f, c). ([f], c)) (generate_load_balancing tm e idx lb instances)
                | None \<Rightarrow> None)))"

record groute =
  gr_idx :: nat
  gr_path :: cexpr
  gr_headers :: cexpr
  gr_chain :: "ccall list"
  gr_cond :: string
  gr_filters :: "gfilter list"

definition chain_text :: "ccall list list \<Rightarrow> ccall \<Rightarrow> string" where
  \<open>chain_text calls route_code =
     nl @ ''                    '' @
     join nl (map (\<lambda>cs. join nl (map render_call cs)) calls) @ nl @
     ''                    '' @ render_call route_code @ nl @ ''                ''\<close>

definition generate_ds_route ::
  "templates \<Rightarrow> huffman \<Rightarrow> endian \<Rightarrow> config \<Rightarrow> nat \<Rightarrow> croute \<Rightarrow> groute option" where
  "generate_ds_route tm henc e cfg idx route =
     do {
       path_cond \<leftarrow> path_condition henc (pat_path (rt_pattern route));
       header_cond \<leftarrow> headers_condition henc (pat_headers (rt_pattern route));
       fcs \<leftarrow> those (map (generate_filter tm henc cfg idx) (rt_filters route));
       (lbs, dest) \<leftarrow> route_dest tm e cfg idx route;
       r \<leftarrow> read_filter tm ''route'';
       Some \<lparr>gr_idx = idx, gr_path = path_cond, gr_headers = header_cond,
             gr_chain = concat (map snd fcs) @ [dest],
             gr_cond = route_cond_text idx path_cond header_cond,
             gr_filters = map fst fcs @ lbs @
               [replace_code ''route'' (chain_text (map snd fcs) dest) (replace_code ''idx'' (dec_string idx) r)]\<rparr>
     }"

definition generate_ds_routes ::
  "templates \<Rightarrow> huffman \<Rightarrow> endian \<Rightarrow> config \<Rightarrow> groute list option" where
  "generate_ds_routes tm henc e cfg = enumerate_with (generate_ds_route tm henc e cfg) (cfg_routes cfg)"

section \<open>RBAC\<close>

record rbac_rule =
  rr_conds :: "cexpr list"
  rr_name :: string
  rr_allow :: bool

definition opt_cond :: "('a \<Rightarrow> cexpr option) \<Rightarrow> 'a option \<Rightarrow> cexpr option" where
  "opt_cond f x = (case x of None \<Rightarrow> Some CTrue | Some v \<Rightarrow> f v)"

definition rbac_rule_of :: "huffman \<Rightarrow> endian \<Rightarrow> policy \<Rightarrow> rbac_rule option" where
  "rbac_rule_of henc e p =
     do {
       method_cond \<leftarrow> opt_cond (str_eq henc ''method'') (pol_method p);
       path_cond \<leftarrow> opt_cond (str_eq henc ''path'') (pol_path p);
       dest_ip4_cond \<leftarrow> opt_cond (\<lambda>ip. map_option CRemoteIp4 (out_option (ip_ne_octets e ip))) (pol_dest_ip4 p);
       dest_port_cond \<leftarrow> opt_cond (\<lambda>port. Some (CRemotePort port)) (pol_dest_port p);
       src_ip4_cond \<leftarrow> opt_cond (\<lambda>ip. map_option CLocalIp4 (out_option (ip_ne_octets e ip))) (pol_src_ip4 p);
       hdrs_cond \<leftarrow> opt_cond (\<lambda>hs. map_option (\<lambda>es. CParen (CAll es))
                       (those (map (\<lambda>(key, val). str_eq henc key val) hs))) (pol_headers p);
       Some \<lparr>rr_conds = [method_cond, path_cond, dest_ip4_cond, dest_port_cond, src_ip4_cond, hdrs_cond],
             rr_name = pol_name p, rr_allow = pol_allow p\<rparr>
     }"

definition rbac_action_text :: "rbac_rule \<Rightarrow> string" where
  \<open>rbac_action_text r =
     (if rr_allow r then
     ''bpf_log("RBAC: '' @ rr_name r @ ''");'' @ nl @
     ''                    bpf_stats_add(http_rbac_allowed, 1);'' @ nl @
     ''                    return PR_PASS;''
      else
     ''bpf_log("RBAC '' @ rr_name r @ '' denied");'' @ nl @
     ''                    bpf_stats_add(http_rbac_denied, 1);'' @ nl @
     ''                    return SK_DROP;'')\<close>

definition rbac_rule_text :: "rbac_rule \<Rightarrow> string" where
  \<open>rbac_rule_text r =
     ''if ('' @ join '' && '' (map (\<lambda>c. ''('' @ render_expr c @ '')'') (rr_conds r)) @
     '') {'' @ nl @ ''                       '' @ rbac_action_text r @ nl @
     ''                    }''\<close>

definition rbac_no_match_text :: "rbac_rule list \<Rightarrow> string" where
  \<open>rbac_no_match_text rules =
     (if join nl (map rbac_rule_text rules) = [] then ''return PR_PASS;''
      else ''bpf_stats_add(http_rbac_denied, 1);'' @ nl @ ''                return PR_DROP;'')\<close>

definition generate_rbac :: "templates \<Rightarrow> huffman \<Rightarrow> endian \<Rightarrow> policy list \<Rightarrow> gfilter option" where
  "generate_rbac tm henc e policies =
     do {
       flt \<leftarrow> read_filter tm ''rbac'';
       rules \<leftarrow> those (map (rbac_rule_of henc e) policies);
       Some (replace_code ''no_match_action'' (rbac_no_match_text rules)
         (replace_code ''policies'' (join nl (map rbac_rule_text rules)) flt))
     }"

section \<open>The program\<close>

definition no_match_text :: string where
  \<open>no_match_text =
     ''else { bpf_err("ERROR: No match for [%pI4:%u->%pI4:%u] (h2: %d)", &ikey->local.ip4, ikey->local.port, &ikey->remote.ip4, ikey->remote.port, is_h2); }''\<close>

definition generate_match :: "templates \<Rightarrow> groute list \<Rightarrow> groute list \<Rightarrow> gfilter option" where
  "generate_match tm downstream upstream =
     map_option (\<lambda>f. replace_code ''upstream'' (join nl (map gr_cond upstream))
         (replace_code ''downstream'' (join nl (map gr_cond downstream) @ no_match_text) f))
       (read_filter tm ''match'')"

definition generate_filters :: "templates \<Rightarrow> huffman \<Rightarrow> endian \<Rightarrow> config \<Rightarrow> gfilter list option" where
  "generate_filters tm henc e cfg =
     do {
       vars \<leftarrow> get_ctx_vars henc cfg;
       ctx \<leftarrow> generate_ctx tm vars;
       rbac \<leftarrow> generate_rbac tm henc e (cfg_policies cfg);
       ds_routes \<leftarrow> generate_ds_routes tm henc e cfg;
       match_reqs \<leftarrow> generate_match tm ds_routes [];
       Some (ctx # rbac # concat (map gr_filters ds_routes) @ [match_reqs])
     }"

text \<open>The contents of the output file, from those of the base file.\<close>

definition generate :: "templates \<Rightarrow> huffman \<Rightarrow> endian \<Rightarrow> config \<Rightarrow> string \<Rightarrow> string option" where
  "generate tm henc e cfg base =
     map_option (\<lambda>filters.
         str_replace ''{{FILTERS}}'' (join nl (map f_code filters))
           (str_replace ''{{DEFS}}'' (join nl (map f_defs filters)) base))
       (generate_filters tm henc e cfg)"

end
