(* ===== verification/Compiler_Sem.thy ===== *)
theory Compiler_Sem
  imports Compiler_Text "HOL-Library.Sublist" "HOL-Library.Multiset"
begin

text \<open>
  What the generated data plane decides. The conditions and filter chains that
  \<open>Compiler_Text\<close> renders get the meaning the C text has in the templates of
  \<open>beeline/src/bpf/filter\<close>: \<open>_match\<close> tries the routes in order, \<open>_check_rbac\<close> the policies. The
  theorems compare this with the configuration: the first matching route and policy decide, a
  request only leaves through an instance of its route's host, and the ring is balanced.
\<close>

section \<open>Conditions\<close>

text \<open>What a condition reads: the buffers of the filter context by field name, and the two
  addresses of the connection.\<close>

record cview =
  cv_buf :: "string \<Rightarrow> byte list"
  cv_remote_ip4 :: u32
  cv_remote_port :: u32
  cv_local_ip4 :: u32

text \<open>\<open>bpf_strncmp(s1, n, s2) == 0\<close>; a buffer that ends early differs.\<close>

fun strncmp_eq :: "nat \<Rightarrow> byte list \<Rightarrow> byte list \<Rightarrow> bool" where
  "strncmp_eq 0 s1 s2 = True"
| "strncmp_eq (Suc n) (a # s1) (b # s2) = (a = b \<and> (a = 0 \<or> strncmp_eq n s1 s2))"
| "strncmp_eq (Suc n) s1 s2 = False"

definition memcmp_eq :: "byte list \<Rightarrow> byte list \<Rightarrow> nat \<Rightarrow> bool" where
  "memcmp_eq s1 s2 n \<longleftrightarrow> take n s1 = take n s2"

fun eval_expr :: "cview \<Rightarrow> cexpr \<Rightarrow> bool" where
  "eval_expr v CTrue = True"
| "eval_expr v (CStrEq var val enc) =
     (let buf = cv_buf v (sanitize_var_name var)
      in strncmp_eq (length val) buf (bytes_of val @ [0]) \<or> memcmp_eq buf enc (length enc))"
| "eval_expr v (CRemoteIp4 ip) = (cv_remote_ip4 v = ip)"
| "eval_expr v (CRemotePort port) = (cv_remote_port v = ucast port)"
| "eval_expr v (CLocalIp4 ip) = (cv_local_ip4 v = ip)"
| "eval_expr v (CAll es) = list_all (eval_expr v) es"
| "eval_expr v (CParen e) = eval_expr v e"

text \<open>The joined conditions are C only when no conjunction is empty.\<close>

fun wf_expr :: "cexpr \<Rightarrow> bool" where
  "wf_expr (CAll es) = (es \<noteq> [] \<and> list_all wf_expr es)"
| "wf_expr (CParen e) = wf_expr e"
| "wf_expr _ = True"

section \<open>Chains\<close>

text \<open>The outcomes of the helper calls of a request, and the rings of the routes.\<close>

record cenv =
  ce_sig :: bool
  ce_admit :: "nat \<Rightarrow> bool"
  ce_mutate :: "nat \<Rightarrow> bool"
  ce_hash :: nat
  ce_ring :: "nat \<Rightarrow> (u32 \<times> u16) list"

text \<open>\<open>route_ds_<idx>\<close>; \<open>None\<close> is \<open>PR_DROP\<close>. An empty ring is a division by zero in the generated
  code and has no destination either.\<close>

fun exec_chain :: "cenv \<Rightarrow> ccall list \<Rightarrow> (u32 \<times> u16) option \<Rightarrow> (u32 \<times> u16) option option" where
  "exec_chain env [] dest = Some dest"
| "exec_chain env (VerifySig # cs) dest = (if ce_sig env then exec_chain env cs dest else None)"
| "exec_chain env (Admission i # cs) dest = (if ce_admit env i then exec_chain env cs dest else None)"
| "exec_chain env (CallMutate i # cs) dest = (if ce_mutate env i then exec_chain env cs dest else None)"
| "exec_chain env (SetDest ip port # cs) dest = exec_chain env cs (Some (ip, port))"
| "exec_chain env (LoadBalance i # cs) dest =
     (if ce_ring env i = [] then None
      else exec_chain env cs (Some (ce_ring env i ! (ce_hash env mod length (ce_ring env i)))))"

text \<open>The \<open>if ... else if\<close> cascade of \<open>_match\<close>; without a matching route the destination stays
  unset and the request goes on to the RBAC check.\<close>

fun exec_routes :: "cenv \<Rightarrow> groute list \<Rightarrow> cview \<Rightarrow> (u32 \<times> u16) option option" where
  "exec_routes env [] v = Some None"
| "exec_routes env (r # rs) v =
     (if eval_expr v (gr_path r) \<and> eval_expr v (gr_headers r) then exec_chain env (gr_chain r) None
      else exec_routes env rs v)"

fun exec_rbac :: "rbac_rule list \<Rightarrow> rbac_rule list \<Rightarrow> cview \<Rightarrow> pr_action" where
  "exec_rbac all [] v = (if all = [] then PR_PASS else PR_DROP)"
| "exec_rbac all (r # rs) v =
     (if list_all (eval_expr v) (rr_conds r) then (if rr_allow r then PR_PASS else PR_DROP)
      else exec_rbac all rs v)"

definition exec_match ::
  "rbac_rule list \<Rightarrow> groute list \<Rightarrow> cenv \<Rightarrow> cview \<Rightarrow> pr_action \<times> (u32 \<times> u16) option" where
  "exec_match rules routes env v =
     (case exec_routes env routes v of
        None \<Rightarrow> (PR_DROP, None)
      | Some dest \<Rightarrow> (exec_rbac rules rules v, dest))"

section \<open>What the configuration asks for\<close>

text \<open>A field matches a value when it begins with it, plain or Huffman encoded.\<close>

definition field_matches :: "huffman \<Rightarrow> cview \<Rightarrow> string \<Rightarrow> string \<Rightarrow> bool" where
  "field_matches henc v var val \<longleftrightarrow>
     prefix (bytes_of val) (cv_buf v (sanitize_var_name var)) \<or>
     (case henc val of None \<Rightarrow> False | Some enc \<Rightarrow> prefix enc (cv_buf v (sanitize_var_name var)))"

definition headers_match :: "huffman \<Rightarrow> cview \<Rightarrow> headers option \<Rightarrow> bool" where
  "headers_match henc v hs \<longleftrightarrow> (\<forall>kv \<in> set (opt_headers hs). field_matches henc v (fst kv) (snd kv))"

definition route_matches :: "huffman \<Rightarrow> cview \<Rightarrow> croute \<Rightarrow> bool" where
  "route_matches henc v r \<longleftrightarrow>
     (case pat_path (rt_pattern r) of
        None \<Rightarrow> True | Some p \<Rightarrow> p = ''*'' \<or> field_matches henc v ''path'' p) \<and>
     headers_match henc v (pat_headers (rt_pattern r))"

definition policy_matches :: "huffman \<Rightarrow> endian \<Rightarrow> cview \<Rightarrow> policy \<Rightarrow> bool" where
  "policy_matches henc e v p \<longleftrightarrow>
     (\<forall>m. pol_method p = Some m \<longrightarrow> field_matches henc v ''method'' m) \<and>
     (\<forall>q. pol_path p = Some q \<longrightarrow> field_matches henc v ''path'' q) \<and>
     (\<forall>ip. pol_dest_ip4 p = Some ip \<longrightarrow> ip_ne_octets e ip = Ok (cv_remote_ip4 v)) \<and>
     (\<forall>port. pol_dest_port p = Some port \<longrightarrow> cv_remote_port v = ucast port) \<and>
     (\<forall>ip. pol_src_ip4 p = Some ip \<longrightarrow> ip_ne_octets e ip = Ok (cv_local_ip4 v)) \<and>
     headers_match henc v (pol_headers p)"

fun rbac_decision :: "huffman \<Rightarrow> endian \<Rightarrow> cview \<Rightarrow> policy list \<Rightarrow> bool option" where
  "rbac_decision henc e v [] = None"
| "rbac_decision henc e v (p # ps) =
     (if policy_matches henc e v p then Some (pol_allow p) else rbac_decision henc e v ps)"

definition rbac_spec :: "huffman \<Rightarrow> endian \<Rightarrow> cview \<Rightarrow> policy list \<Rightarrow> pr_action" where
  "rbac_spec henc e v ps =
     (case rbac_decision henc e v ps of
        Some allow \<Rightarrow> if allow then PR_PASS else PR_DROP
      | None \<Rightarrow> if ps = [] then PR_PASS else PR_DROP)"

text \<open>The literals are C string literals: no value contains a NUL.\<close>

definition no_nul :: "string \<Rightarrow> bool" where
  "no_nul s \<longleftrightarrow> 0 \<notin> set (bytes_of s)"

definition route_texts :: "croute \<Rightarrow> string list" where
  "route_texts r = (case pat_path (rt_pattern r) of None \<Rightarrow> [] | Some p \<Rightarrow> [p]) @
     map snd (opt_headers (pat_headers (rt_pattern r)))"

definition policy_texts :: "policy \<Rightarrow> string list" where
  "policy_texts p = (case pol_method p of None \<Rightarrow> [] | Some m \<Rightarrow> [m]) @
     (case pol_path p of None \<Rightarrow> [] | Some q \<Rightarrow> [q]) @ map snd (opt_headers (pol_headers p))"

section \<open>Conditions are correct\<close>

lemma strncmp_eq_prefix:
  "0 \<notin> set val \<Longrightarrow> strncmp_eq (length val) buf (val @ [0]) \<longleftrightarrow> prefix val buf"
proof (induction val arbitrary: buf)
  case (Cons b val)
  then show ?case by (cases buf) auto
qed simp

lemma memcmp_eq_prefix: "memcmp_eq buf enc (length enc) \<longleftrightarrow> prefix enc buf"
proof
  assume "memcmp_eq buf enc (length enc)"
  then show "prefix enc buf"
    using take_is_prefix [of "length enc" buf] by (simp add: memcmp_eq_def)
next
  assume "prefix enc buf"
  then obtain zs where "buf = enc @ zs" by (rule prefixE)
  then show "memcmp_eq buf enc (length enc)" by (simp add: memcmp_eq_def)
qed

lemma eval_str_eq:
  assumes "str_eq henc var val = Some c" "no_nul val"
  shows "eval_expr v c \<longleftrightarrow> field_matches henc v var val"
proof -
  from assms(1) obtain enc where e: "henc val = Some enc" "c = CStrEq var val enc"
    by (auto simp: str_eq_def)
  have "strncmp_eq (length val) buf (bytes_of val @ [0]) \<longleftrightarrow> prefix (bytes_of val) buf" for buf
    using strncmp_eq_prefix [of "bytes_of val" buf] assms(2) by (simp add: no_nul_def)
  then show ?thesis by (simp add: e field_matches_def memcmp_eq_prefix Let_def)
qed

lemma eval_str_eqs:
  assumes "those (map (\<lambda>(key, val). str_eq henc key val) hs) = Some cs"
    and "\<forall>kv \<in> set hs. no_nul (snd kv)"
  shows "list_all (eval_expr v) cs \<longleftrightarrow> (\<forall>kv \<in> set hs. field_matches henc v (fst kv) (snd kv))"
  using assms
proof (induction hs arbitrary: cs)
  case (Cons h hs)
  obtain key val where h: "h = (key, val)" by (cases h)
  from Cons.prems h obtain c cs' where c: "str_eq henc key val = Some c"
    "those (map (\<lambda>(key, val). str_eq henc key val) hs) = Some cs'" "cs = c # cs'"
    by (auto split: option.splits)
  with Cons.IH [of cs'] Cons.prems(2) h eval_str_eq [OF c(1)] show ?case by simp
qed simp

lemma eval_headers_condition:
  assumes "headers_condition henc hs = Some c" "\<forall>x \<in> set (opt_headers hs). no_nul (snd x)"
  shows "eval_expr v c \<longleftrightarrow> headers_match henc v hs"
proof (cases hs)
  case (Some h)
  with assms(1) obtain cs where c: "those (map (\<lambda>(key, val). str_eq henc key val) h) = Some cs" "c = CAll cs"
    by (auto simp: headers_condition_def)
  with Some assms(2) eval_str_eqs [OF c(1)] show ?thesis
    by (simp add: headers_match_def opt_headers_def)
qed (use assms in \<open>auto simp: headers_condition_def headers_match_def opt_headers_def\<close>)

lemma eval_path_condition:
  assumes "path_condition henc path = Some c" "\<forall>p. path = Some p \<longrightarrow> no_nul p"
  shows "eval_expr v c \<longleftrightarrow>
    (case path of None \<Rightarrow> True | Some p \<Rightarrow> p = ''*'' \<or> field_matches henc v ''path'' p)"
  using assms by (auto simp: path_condition_def eval_str_eq split: option.splits if_splits)

lemma eval_opt_cond:
  assumes "opt_cond f x = Some c" "\<And>a c. x = Some a \<Longrightarrow> f a = Some c \<Longrightarrow> eval_expr v c \<longleftrightarrow> P a"
  shows "eval_expr v c \<longleftrightarrow> (\<forall>a. x = Some a \<longrightarrow> P a)"
  using assms by (cases x) (auto simp: opt_cond_def)

lemma rbac_rule_ofE:
  assumes "rbac_rule_of henc e p = Some r"
  obtains m q di dp si h where
    "opt_cond (str_eq henc ''method'') (pol_method p) = Some m"
    "opt_cond (str_eq henc ''path'') (pol_path p) = Some q"
    "opt_cond (\<lambda>ip. map_option CRemoteIp4 (out_option (ip_ne_octets e ip))) (pol_dest_ip4 p) = Some di"
    "opt_cond (\<lambda>port. Some (CRemotePort port)) (pol_dest_port p) = Some dp"
    "opt_cond (\<lambda>ip. map_option CLocalIp4 (out_option (ip_ne_octets e ip))) (pol_src_ip4 p) = Some si"
    "opt_cond (\<lambda>hs. map_option (\<lambda>es. CParen (CAll es))
       (those (map (\<lambda>(key, val). str_eq henc key val) hs))) (pol_headers p) = Some h"
    "rr_conds r = [m, q, di, dp, si, h]" "rr_allow r = pol_allow p"
proof -
  from assms show ?thesis
    unfolding rbac_rule_of_def
    by (elim bind_SomeE) (rule that, assumption+, simp_all only: option.inject, auto)
qed

lemma eval_rbac_rule:
  assumes "rbac_rule_of henc e p = Some r" "\<forall>s \<in> set (policy_texts p). no_nul s"
  shows "list_all (eval_expr v) (rr_conds r) \<longleftrightarrow> policy_matches henc e v p"
proof -
  obtain m q di dp si h where c:
    "opt_cond (str_eq henc ''method'') (pol_method p) = Some m"
    "opt_cond (str_eq henc ''path'') (pol_path p) = Some q"
    "opt_cond (\<lambda>ip. map_option CRemoteIp4 (out_option (ip_ne_octets e ip))) (pol_dest_ip4 p) = Some di"
    "opt_cond (\<lambda>port. Some (CRemotePort port)) (pol_dest_port p) = Some dp"
    "opt_cond (\<lambda>ip. map_option CLocalIp4 (out_option (ip_ne_octets e ip))) (pol_src_ip4 p) = Some si"
    "opt_cond (\<lambda>hs. map_option (\<lambda>es. CParen (CAll es))
       (those (map (\<lambda>(key, val). str_eq henc key val) hs))) (pol_headers p) = Some h"
    and r: "rr_conds r = [m, q, di, dp, si, h]" by (rule rbac_rule_ofE [OF assms(1)])
  have "eval_expr v m \<longleftrightarrow> (\<forall>a. pol_method p = Some a \<longrightarrow> field_matches henc v ''method'' a)"
    by (rule eval_opt_cond [OF c(1)]) (use assms(2) in \<open>auto simp: eval_str_eq policy_texts_def\<close>)
  moreover have "eval_expr v q \<longleftrightarrow> (\<forall>a. pol_path p = Some a \<longrightarrow> field_matches henc v ''path'' a)"
    by (rule eval_opt_cond [OF c(2)]) (use assms(2) in \<open>auto simp: eval_str_eq policy_texts_def\<close>)
  moreover have "eval_expr v di \<longleftrightarrow> (\<forall>a. pol_dest_ip4 p = Some a \<longrightarrow> ip_ne_octets e a = Ok (cv_remote_ip4 v))"
    by (rule eval_opt_cond [OF c(3)]) auto
  moreover have "eval_expr v dp \<longleftrightarrow> (\<forall>a. pol_dest_port p = Some a \<longrightarrow> cv_remote_port v = ucast a)"
    by (rule eval_opt_cond [OF c(4)]) auto
  moreover have "eval_expr v si \<longleftrightarrow> (\<forall>a. pol_src_ip4 p = Some a \<longrightarrow> ip_ne_octets e a = Ok (cv_local_ip4 v))"
    by (rule eval_opt_cond [OF c(5)]) auto
  moreover have "eval_expr v h \<longleftrightarrow>
      (\<forall>a. pol_headers p = Some a \<longrightarrow> (\<forall>kv \<in> set a. field_matches henc v (fst kv) (snd kv)))"
  proof (rule eval_opt_cond [OF c(6)])
    fix a c
    assume a: "pol_headers p = Some a"
      and "map_option (\<lambda>es. CParen (CAll es)) (those (map (\<lambda>(key, val). str_eq henc key val) a)) = Some c"
    then obtain es where es: "those (map (\<lambda>(key, val). str_eq henc key val) a) = Some es"
      "c = CParen (CAll es)" by auto
    have "\<forall>kv \<in> set a. no_nul (snd kv)" using assms(2) a by (auto simp: policy_texts_def opt_headers_def)
    from eval_str_eqs [OF es(1) this] es(2)
    show "eval_expr v c \<longleftrightarrow> (\<forall>kv \<in> set a. field_matches henc v (fst kv) (snd kv))" by simp
  qed
  moreover have "headers_match henc v (pol_headers p) \<longleftrightarrow>
      (\<forall>a. pol_headers p = Some a \<longrightarrow> (\<forall>kv \<in> set a. field_matches henc v (fst kv) (snd kv)))"
    by (cases "pol_headers p") (simp_all add: headers_match_def opt_headers_def)
  ultimately show ?thesis unfolding r policy_matches_def by (simp only: list.pred_inject simp_thms)
qed

lemma exec_rbac_rules:
  assumes "those (map (rbac_rule_of henc e) ps) = Some rules"
    and "\<forall>p \<in> set ps. \<forall>s \<in> set (policy_texts p). no_nul s"
  shows "exec_rbac all rules v =
    (case rbac_decision henc e v ps of
       Some allow \<Rightarrow> if allow then PR_PASS else PR_DROP
     | None \<Rightarrow> if all = [] then PR_PASS else PR_DROP)"
  using assms
proof (induction ps arbitrary: rules)
  case (Cons p ps)
  then obtain r rs where r: "rbac_rule_of henc e p = Some r"
    "those (map (rbac_rule_of henc e) ps) = Some rs" "rules = r # rs"
    by (auto split: option.splits)
  have "rr_allow r = pol_allow p" using rbac_rule_ofE [OF r(1)] by blast
  with Cons r eval_rbac_rule [OF r(1)] show ?case by simp
qed simp

section \<open>Chains are correct\<close>

lemma exec_chain_append:
  "exec_chain env (cs @ ds) d =
     (case exec_chain env cs d of None \<Rightarrow> None | Some d' \<Rightarrow> exec_chain env ds d')"
  by (induction env cs d rule: exec_chain.induct) auto

text \<open>What a filter demands of a request.\<close>

definition filter_passes :: "cenv \<Rightarrow> nat \<Rightarrow> cfilter \<Rightarrow> bool" where
  "filter_passes env idx f =
     (case f of
        Jwt j \<Rightarrow> ce_sig env \<and> (jwt_audience j = None \<and> jwt_issuer j = None \<or> ce_admit env idx)
      | Mutate m \<Rightarrow> mf_add m = None \<and> mf_remove m = None \<or> ce_mutate env idx)"

lemma exec_generate_filter:
  "generate_filter tm henc cfg idx f = Some (flt, cs) \<Longrightarrow>
     exec_chain env cs d = (if filter_passes env idx f then Some d else None)"
  by (cases f)
    (auto simp: generate_filter_def generate_jwt_filter_def generate_mutate_filter_def
      filter_passes_def Let_def split: if_splits elim!: bind_SomeE)

lemma exec_generate_filters:
  "those (map (generate_filter tm henc cfg idx) fs) = Some fcs \<Longrightarrow>
     exec_chain env (concat (map snd fcs)) d = (if list_all (filter_passes env idx) fs then Some d else None)"
proof (induction fs arbitrary: fcs)
  case (Cons f fs)
  then obtain fc fcs' where c: "generate_filter tm henc cfg idx f = Some fc"
    "those (map (generate_filter tm henc cfg idx) fs) = Some fcs'" "fcs = fc # fcs'"
    by (auto split: option.splits)
  with Cons.IH [OF c(2)] exec_generate_filter [of tm henc cfg idx f "fst fc" "snd fc"] show ?case
    by (simp add: exec_chain_append)
qed simp

definition inst_key :: "endian \<Rightarrow> socket_addr \<Rightarrow> (u32 \<times> u16) option" where
  "inst_key e a = map_option (\<lambda>ip. (ip, sock_port a)) (out_option (ip_ne_octets e (sock_ip a)))"

lemma ring_slotsE:
  assumes "ring_slots e sz instances = Some ring"
  obtains keys where "map (inst_key e) instances = map Some keys"
    "ring = concat (map (replicate (sz div length instances)) keys)"
  using assms by (auto simp: ring_slots_def Let_def those_Some_iff inst_key_def [abs_def])

lemma length_ring:
  "length (concat (map (replicate n) keys)) = n * length keys"
  by (induction keys) auto

lemma ring_slots_subset:
  assumes "ring_slots e sz instances = Some ring" "k \<in> set ring"
  shows "Some k \<in> inst_key e ` set instances"
proof -
  from assms(1) obtain keys where k: "map (inst_key e) instances = map Some keys"
    "ring = concat (map (replicate (sz div length instances)) keys)" by (rule ring_slotsE)
  from k(2) assms(2) have "k \<in> set keys" by auto
  then have "Some k \<in> set (map Some keys)" by simp
  then show ?thesis unfolding k(1) [symmetric] by simp
qed

text \<open>The rings of the environment are those the program defines.\<close>

definition rings_of :: "endian \<Rightarrow> config \<Rightarrow> cenv \<Rightarrow> bool" where
  "rings_of e cfg env \<longleftrightarrow>
     (\<forall>i < length (cfg_routes cfg). \<forall>h lb.
        resolve_host cfg (rt_dest (cfg_routes cfg ! i)) = Some h \<longrightarrow> host_load_balancer h = Some lb \<longrightarrow>
        ring_slots e (ring_size lb) (host_instances h) = Some (ce_ring env i))"

lemma exec_route_dest:
  assumes "route_dest tm e cfg idx route = Some (lbs, c)" "rings_of e cfg env"
    and "idx < length (cfg_routes cfg)" "route = cfg_routes cfg ! idx"
    and "exec_chain env [c] d = Some d'"
  shows "\<exists>h k. resolve_host cfg (rt_dest route) = Some h \<and> d' = Some k \<and>
    Some k \<in> inst_key e ` set (host_instances h)"
proof -
  from assms(1) obtain h where h: "resolve_host cfg (rt_dest route) = Some h"
    by (auto simp: route_dest_def split: option.splits)
  show ?thesis
  proof (cases "host_instances h")
    case Nil
    with assms(1) h show ?thesis by (simp add: route_dest_def)
  next
    case (Cons a as)
    show ?thesis
    proof (cases as)
      case Nil
      with assms(1) h Cons obtain ip where "ip_ne_octets e (sock_ip a) = Ok ip" "c = SetDest ip (sock_port a)"
        by (auto simp: route_dest_def)
      with assms(5) h Cons Nil show ?thesis by (auto simp: inst_key_def)
    next
      case C2: (Cons b bs)
      with assms(1) h Cons obtain lb f where lb: "host_load_balancer h = Some lb"
        and g: "generate_load_balancing tm e idx lb (host_instances h) = Some (f, c)"
        by (auto simp: route_dest_def split: option.splits)
      from g have c: "c = LoadBalance idx"
        by (auto simp: generate_load_balancing_def Let_def split: if_splits elim!: bind_SomeE)
      from assms(2-4) h lb have ring: "ring_slots e (ring_size lb) (host_instances h) = Some (ce_ring env idx)"
        unfolding rings_of_def by blast
      from assms(5) c have ne: "ce_ring env idx \<noteq> []"
        and d: "d' = Some (ce_ring env idx ! (ce_hash env mod length (ce_ring env idx)))"
        by (auto split: if_splits)
      then have "ce_ring env idx ! (ce_hash env mod length (ce_ring env idx)) \<in> set (ce_ring env idx)"
        by (intro nth_mem) simp
      from ring_slots_subset [OF ring this] h d show ?thesis by blast
    qed
  qed
qed

lemma enumerate_with_nth:
  "enumerate_with f xs = Some ys \<longleftrightarrow> length ys = length xs \<and> (\<forall>i < length xs. f i (xs ! i) = Some (ys ! i))"
  by (simp add: enumerate_with_def those_map_Some_iff)

lemma generate_ds_routeE:
  assumes "generate_ds_route tm henc e cfg idx route = Some g"
  obtains fcs lbs dest where
    "path_condition henc (pat_path (rt_pattern route)) = Some (gr_path g)"
    "headers_condition henc (pat_headers (rt_pattern route)) = Some (gr_headers g)"
    "those (map (generate_filter tm henc cfg idx) (rt_filters route)) = Some fcs"
    "route_dest tm e cfg idx route = Some (lbs, dest)"
    "gr_chain g = concat (map snd fcs) @ [dest]"
proof -
  from assms show ?thesis
    unfolding generate_ds_route_def
    by (elim bind_SomeE) (clarsimp, elim bind_SomeE, rule that, auto)
qed

lemma route_cond_correct:
  assumes "generate_ds_route tm henc e cfg idx route = Some g" "\<forall>s \<in> set (route_texts route). no_nul s"
  shows "eval_expr v (gr_path g) \<and> eval_expr v (gr_headers g) \<longleftrightarrow> route_matches henc v route"
proof -
  obtain fcs lbs dest where
    p: "path_condition henc (pat_path (rt_pattern route)) = Some (gr_path g)" and
    h: "headers_condition henc (pat_headers (rt_pattern route)) = Some (gr_headers g)"
    by (rule generate_ds_routeE [OF assms(1)])
  have "\<forall>q. pat_path (rt_pattern route) = Some q \<longrightarrow> no_nul q"
    "\<forall>x \<in> set (opt_headers (pat_headers (rt_pattern route))). no_nul (snd x)"
    using assms(2) by (auto simp: route_texts_def)
  then show ?thesis
    unfolding route_matches_def using eval_path_condition [OF p] eval_headers_condition [OF h] by simp
qed

lemma exec_routes_first:
  assumes "i < length rs" "eval_expr v (gr_path (rs ! i)) \<and> eval_expr v (gr_headers (rs ! i))"
    and "\<forall>j < i. \<not> (eval_expr v (gr_path (rs ! j)) \<and> eval_expr v (gr_headers (rs ! j)))"
  shows "exec_routes env rs v = exec_chain env (gr_chain (rs ! i)) None"
  using assms
proof (induction rs arbitrary: i)
  case (Cons r rs)
  show ?case
  proof (cases i)
    case 0
    with Cons.prems show ?thesis by simp
  next
    case (Suc k)
    with Cons.prems(3) have "\<not> (eval_expr v (gr_path r) \<and> eval_expr v (gr_headers r))" by force
    moreover have "exec_routes env rs v = exec_chain env (gr_chain (rs ! k)) None"
      using Cons.prems Suc by (intro Cons.IH) auto
    ultimately show ?thesis using Suc by (simp only: exec_routes.simps if_False nth_Cons_Suc)
  qed
qed simp

lemma exec_routes_none:
  "\<forall>r \<in> set rs. \<not> (eval_expr v (gr_path r) \<and> eval_expr v (gr_headers r)) \<Longrightarrow>
     exec_routes env rs v = Some None"
  by (induction rs) auto

lemma exec_dest_some:
  assumes "route_dest tm e cfg idx route = Some (lbs, c)" "rings_of e cfg env"
    and "idx < length (cfg_routes cfg)" "route = cfg_routes cfg ! idx"
    and "\<And>h lb. resolve_host cfg (rt_dest route) = Some h \<Longrightarrow> host_load_balancer h = Some lb \<Longrightarrow>
      length (host_instances h) \<le> ring_size lb"
  shows "exec_chain env [c] d \<noteq> None"
proof (cases c)
  case (LoadBalance i)
  from assms(1) LoadBalance obtain h lb f where h: "resolve_host cfg (rt_dest route) = Some h"
    "host_load_balancer h = Some lb"
    "generate_load_balancing tm e idx lb (host_instances h) = Some (f, c)"
    by (auto simp: route_dest_def split: option.splits list.splits)
  then have i: "i = idx" "host_instances h \<noteq> []"
    using LoadBalance by (auto simp: generate_load_balancing_def Let_def split: if_splits elim!: bind_SomeE)
  from assms(2-4) h have "ring_slots e (ring_size lb) (host_instances h) = Some (ce_ring env idx)"
    unfolding rings_of_def by blast
  then obtain keys where k: "map (inst_key e) (host_instances h) = map Some keys"
    "ce_ring env idx = concat (map (replicate (ring_size lb div length (host_instances h))) keys)"
    by (rule ring_slotsE)
  have "length keys = length (host_instances h)" using map_eq_imp_length_eq [OF k(1)] by simp
  moreover have "ring_size lb div length (host_instances h) > 0"
    using assms(5) [OF h(1,2)] i(2) by (simp add: div_greater_zero_iff)
  ultimately have "length (ce_ring env idx) > 0" using i(2) by (simp add: k(2) length_ring)
  then have "ce_ring env idx \<noteq> []" by simp
  then show ?thesis using LoadBalance i by simp
qed (use assms(1) in \<open>auto simp: route_dest_def generate_load_balancing_def Let_def
       split: option.splits list.splits if_splits elim!: bind_SomeE\<close>)

lemma exec_rbac_decides:
  assumes "those (map (rbac_rule_of henc e) ps) = Some rules"
    and "\<forall>p \<in> set ps. \<forall>s \<in> set (policy_texts p). no_nul s"
  shows "exec_rbac rules rules v = rbac_spec henc e v ps"
proof -
  have "rules = [] \<longleftrightarrow> ps = []" using assms(1) by (auto simp: those_Some_iff)
  then show ?thesis using exec_rbac_rules [OF assms] by (auto simp: rbac_spec_def split: option.splits)
qed

lemma generated_cond:
  assumes "generate_ds_routes tm henc e cfg = Some rs" "i < length (cfg_routes cfg)"
    and "\<forall>r \<in> set (cfg_routes cfg). \<forall>s \<in> set (route_texts r). no_nul s"
  shows "length rs = length (cfg_routes cfg)" "generate_ds_route tm henc e cfg i (cfg_routes cfg ! i) = Some (rs ! i)"
    "eval_expr v (gr_path (rs ! i)) \<and> eval_expr v (gr_headers (rs ! i)) \<longleftrightarrow> route_matches henc v (cfg_routes cfg ! i)"
proof -
  show "length rs = length (cfg_routes cfg)" and gen: "generate_ds_route tm henc e cfg i (cfg_routes cfg ! i) = Some (rs ! i)"
    using assms(1,2) by (auto simp: generate_ds_routes_def enumerate_with_nth)
  show "eval_expr v (gr_path (rs ! i)) \<and> eval_expr v (gr_headers (rs ! i)) \<longleftrightarrow> route_matches henc v (cfg_routes cfg ! i)"
    by (rule route_cond_correct [OF gen]) (use assms in auto)
qed

lemma exec_routes_no_match:
  assumes "generate_ds_routes tm henc e cfg = Some rs"
    and "\<forall>r \<in> set (cfg_routes cfg). \<forall>s \<in> set (route_texts r). no_nul s"
    and "\<forall>r \<in> set (cfg_routes cfg). \<not> route_matches henc v r"
  shows "exec_routes env rs v = Some None"
proof (rule exec_routes_none, rule ballI)
  fix r assume r: "r \<in> set rs"
  have "length rs = length (cfg_routes cfg)" using assms(1) by (auto simp: generate_ds_routes_def enumerate_with_nth)
  then obtain i where i: "i < length (cfg_routes cfg)" "r = rs ! i" using r by (auto simp: in_set_conv_nth)
  then show "\<not> (eval_expr v (gr_path r) \<and> eval_expr v (gr_headers r))"
    using generated_cond(3) [OF assms(1) i(1) assms(2)] assms(3) by simp
qed

lemma exec_routes_first_match:
  assumes g: "generate_ds_routes tm henc e cfg = Some rs" and rings: "rings_of e cfg env"
    and nn: "\<forall>r \<in> set (cfg_routes cfg). \<forall>s \<in> set (route_texts r). no_nul s"
    and i: "i < length (cfg_routes cfg)" "route_matches henc v (cfg_routes cfg ! i)"
      "\<forall>j < i. \<not> route_matches henc v (cfg_routes cfg ! j)"
  shows "(\<forall>d. exec_routes env rs v = Some d \<longrightarrow>
        list_all (filter_passes env i) (rt_filters (cfg_routes cfg ! i)) \<and>
        (\<exists>h k. resolve_host cfg (rt_dest (cfg_routes cfg ! i)) = Some h \<and> d = Some k \<and>
           Some k \<in> inst_key e ` set (host_instances h))) \<and>
      (list_all (filter_passes env i) (rt_filters (cfg_routes cfg ! i)) \<and>
        (\<forall>h lb. resolve_host cfg (rt_dest (cfg_routes cfg ! i)) = Some h \<and> host_load_balancer h = Some lb
           \<longrightarrow> length (host_instances h) \<le> ring_size lb) \<longrightarrow> exec_routes env rs v \<noteq> None)"
proof -
  have x: "exec_routes env rs v = exec_chain env (gr_chain (rs ! i)) None"
    by (rule exec_routes_first) (use i generated_cond [OF g _ nn] in auto)
  obtain fcs lbs dest where fc: "those (map (generate_filter tm henc cfg i) (rt_filters (cfg_routes cfg ! i))) = Some fcs"
    and rd: "route_dest tm e cfg i (cfg_routes cfg ! i) = Some (lbs, dest)"
    and ch: "gr_chain (rs ! i) = concat (map snd fcs) @ [dest]"
    by (rule generate_ds_routeE [OF generated_cond(2) [OF g i(1) nn]])
  have y: "exec_routes env rs v =
      (if list_all (filter_passes env i) (rt_filters (cfg_routes cfg ! i)) then exec_chain env [dest] None else None)"
    unfolding x ch exec_chain_append exec_generate_filters [OF fc] by simp
  show ?thesis
    using exec_route_dest [OF rd rings i(1) refl] exec_dest_some [OF rd rings i(1) refl] y
    by (auto split: if_splits)
qed

section \<open>Properties\<close>



text \<open>C15. The load-balancing ring is fair: its length is the largest multiple of the number of
  instances that is at most the configured size, which is positive exactly when the ring is at
  least as large as the host has instances, and every instance owns the same number of slots.\<close>

theorem ring_fair:
  assumes "ring_slots e sz instances = Some ring" "instances \<noteq> []"
  shows "length ring = (sz div length instances) * length instances \<and>
    (ring \<noteq> [] \<longleftrightarrow> length instances \<le> sz) \<and>
    (\<forall>k. count (mset ring) k =
       (sz div length instances) * count (mset (map (inst_key e) instances)) (Some k))"
proof -
  let ?n = "sz div length instances"
  obtain keys where k: "map (inst_key e) instances = map Some keys"
    "ring = concat (map (replicate ?n) keys)" using assms(1) by (rule ring_slotsE)
  have l: "length keys = length instances" using map_eq_imp_length_eq [OF k(1)] by simp
  then have len: "length ring = ?n * length instances" by (simp add: k(2) length_ring)
  have "ring \<noteq> [] \<longleftrightarrow> ?n > 0" using len assms(2) by (metis length_greater_0_conv nat_0_less_mult_iff)
  also have "\<dots> \<longleftrightarrow> length instances \<le> sz" using assms(2) by (simp add: div_greater_zero_iff)
  finally have ne: "ring \<noteq> [] \<longleftrightarrow> length instances \<le> sz" .
  have "count (mset (concat (map (replicate ?n) ks))) x = ?n * count (mset ks) x" for ks :: "(u32 \<times> u16) list" and x
    by (induction ks) (auto simp: algebra_simps)
  moreover have "count (mset (map Some keys)) (Some x) = count (mset keys) x" for x
    by (induction keys) auto
  ultimately show ?thesis using len ne by (simp add: k)
qed

section \<open>Witnesses\<close>

text \<open>Templates that consist of the separator only, a host with two instances behind a ring of
  five slots, and a policy that denies a method.\<close>

definition bare_templates :: templates where
  "bare_templates name = Some ''// ---''"

definition two_instances :: "socket_addr list" where
  "two_instances = [SockV4 (Ipv4Addr 10 0 0 1) 80, SockV4 (Ipv4Addr 10 0 0 2) 80]"

definition ring_config :: config where
  "ring_config =
     \<lparr>cfg_socket = None, cfg_tls = None, cfg_proxy = None, cfg_stats = False,
      cfg_hosts = [\<lparr>host_name = ''h'', host_load_balancer = Some (Ring 5), host_instances = two_instances,
                    host_http2 = False\<rparr>],
      cfg_network = None, cfg_policies = [],
      cfg_routes = [\<lparr>rt_pattern = \<lparr>pat_path = Some ''*'', pat_headers = None\<rparr>, rt_dest = ''h'', rt_filters = []\<rparr>]\<rparr>"

definition deny_policy :: policy where
  "deny_policy =
     \<lparr>pol_name = ''p'', pol_method = Some ''PUT'', pol_path = None, pol_dest_ip4 = None,
      pol_dest_port = None, pol_src_ip4 = None, pol_headers = None, pol_allow = False\<rparr>"

definition put_view :: cview where
  "put_view = \<lparr>cv_buf = (\<lambda>_. bytes_of ''PUT''), cv_remote_ip4 = 1, cv_remote_port = 80, cv_local_ip4 = 2\<rparr>"

definition ring_keys :: "(u32 \<times> u16) list" where
  "ring_keys = [(from_ne_bytes BigEndian (Ipv4Addr 10 0 0 1), 80), (from_ne_bytes BigEndian (Ipv4Addr 10 0 0 1), 80),
                (from_ne_bytes BigEndian (Ipv4Addr 10 0 0 2), 80), (from_ne_bytes BigEndian (Ipv4Addr 10 0 0 2), 80)]"

definition ring_env :: cenv where
  "ring_env = \<lparr>ce_sig = True, ce_admit = (\<lambda>_. True), ce_mutate = (\<lambda>_. True), ce_hash = 7,
     ce_ring = (\<lambda>_. ring_keys)\<rparr>"

lemma bare_read_filter: "read_filter bare_templates name = Some gfilter_default"
proof -
  have "split_str ''// ---'' [] ''// ---'' = [[], []]" by code_simp
  then show ?thesis by (simp add: read_filter_def bare_templates_def gfilter_from_def gfilter_default_def)
qed

lemma two_instances_ring: "ring_slots BigEndian 5 two_instances = Some ring_keys"
proof -
  have "length two_instances = 2" by (simp add: two_instances_def)
  then have "5 div length two_instances = 2" by simp
  then have "5 div length two_instances = Suc (Suc 0)" by (simp only: numeral_2_eq_2)
  then show ?thesis
    unfolding ring_slots_def Let_def by (simp add: two_instances_def ring_keys_def)
qed

lemma ring_config_fields:
  "length (cfg_routes ring_config) = 1" "rt_dest (cfg_routes ring_config ! 0) = ''h''"
  "rt_filters (cfg_routes ring_config ! 0) = []"
  "rt_pattern (cfg_routes ring_config ! 0) = \<lparr>pat_path = Some ''*'', pat_headers = None\<rparr>"
  "host_load_balancer (hd (cfg_hosts ring_config)) = Some (Ring 5)"
  "host_instances (hd (cfg_hosts ring_config)) = two_instances"
  by (simp_all add: ring_config_def)

lemma ring_config_host:
  "resolve_host ring_config ''h'' = Some (hd (cfg_hosts ring_config))"
  by (simp add: resolve_host_def ring_config_def)

lemma ring_config_rings: "rings_of BigEndian ring_config ring_env"
  using two_instances_ring
  by (simp add: rings_of_def ring_config_fields ring_config_host ring_env_def)

lemma ring_config_routes: "generate_ds_routes bare_templates plain_huffman BigEndian ring_config \<noteq> None"
proof -
  have "\<exists>f. generate_load_balancing bare_templates BigEndian 0 (Ring 5) two_instances = Some f"
    by (simp add: generate_load_balancing_def bare_read_filter two_instances_ring Let_def)
      (simp add: two_instances_def)
  then obtain f where "generate_load_balancing bare_templates BigEndian 0 (Ring 5) two_instances = Some f" ..
  then have "route_dest bare_templates BigEndian ring_config 0 (cfg_routes ring_config ! 0) =
      Some ([fst f], snd f)"
    by (simp add: route_dest_def ring_config_fields ring_config_host split: list.splits prod.splits)
      (simp add: two_instances_def split: prod.splits)
  then obtain g where "generate_ds_route bare_templates plain_huffman BigEndian ring_config 0
      (cfg_routes ring_config ! 0) = Some g"
    by (simp add: generate_ds_route_def path_condition_def headers_condition_def bare_read_filter
        ring_config_fields)
  then have "generate_ds_routes bare_templates plain_huffman BigEndian ring_config = Some [g]"
    by (simp add: generate_ds_routes_def enumerate_with_nth ring_config_fields)
  then show ?thesis by simp
qed



theorem ring_fair_witness:
  "ring_slots BigEndian 5 two_instances = Some ring_keys \<and> length ring_keys = (5 div 2) * 2"
proof -
  have "two_instances \<noteq> []" "length two_instances = 2" by (simp_all add: two_instances_def)
  with ring_fair [OF two_instances_ring] two_instances_ring show ?thesis by simp
qed

section \<open>Malformed programs\<close>

text \<open>The members of \<open>struct filter_ctx\<close> that a variable declares.\<close>

definition var_fields :: "variable \<Rightarrow> string list" where
  "var_fields var =
     (sanitize_var_name (var_name var) @ ''_range'') #
     (if is_buffer var then [sanitize_var_name (var_name var)] else [])"

text \<open>Removing the header \<open>content-length\<close> declares the same member twice, first for the range and
  then for the number that every context has.\<close>

lemma content_length_declared_twice:
  "get_ctx_vars plain_huffman sample_config = Some sample_ctx \<and>
   \<not> distinct (concat (map var_fields sample_ctx))"
proof -
  have "\<not> distinct (concat (map var_fields sample_ctx))" by code_simp
  with sample_ctx_vars show ?thesis ..
qed

lemma wf_str_eq: "str_eq henc var val = Some c \<Longrightarrow> wf_expr c"
  by (auto simp: str_eq_def)

lemma wf_str_eqs:
  "those (map (\<lambda>(key, val). str_eq henc key val) hs) = Some cs \<Longrightarrow> wf_expr (CAll cs) \<longleftrightarrow> hs \<noteq> []"
proof -
  have "list_all wf_expr cs \<and> (cs = [] \<longleftrightarrow> hs = [])"
    if "those (map (\<lambda>(key, val). str_eq henc key val) hs) = Some cs" for hs cs
    using that
    by (induction hs arbitrary: cs) (auto split: option.splits prod.splits intro: wf_str_eq)
  then show "those (map (\<lambda>(key, val). str_eq henc key val) hs) = Some cs \<Longrightarrow> wf_expr (CAll cs) \<longleftrightarrow> hs \<noteq> []"
    by auto
qed



end
