(* ===== verification/Frames.thy ===== *)
theory Frames
  imports Errors
begin

text \<open>
  \<open>http2/src/frame\<close>: the frame header and the frames of fixed layout. A stream identifier is a
  \<open>u32\<close> with the reserved bit clear (\<open>sid_ok\<close>), which \<open>StreamId::parse\<close> establishes. Every frame
  type has its \<open>load\<close> and \<open>encode\<close>; the locale \<open>frame_codec\<close> is the contract they share, with
  the round trip through the wire format and its consequences proved once.
\<close>

section \<open>Stream identifiers\<close>

definition STREAM_ID_MASK :: u32 where
  "STREAM_ID_MASK = push_bit 31 1"

definition STREAM_ID_MAX :: u32 where
  "STREAM_ID_MAX = drop_bit 1 (- 1)"

definition sid_ok :: "u32 \<Rightarrow> bool" where
  "sid_ok s \<longleftrightarrow> s AND STREAM_ID_MASK = 0"

text \<open>Slices are out of bounds, a panic, when fewer than four bytes are left.\<close>

fun stream_id_parse :: "byte list \<Rightarrow> (u32 \<times> bool, 'e) outcome" where
  "stream_id_parse (a # b # c # d # _) =
     (let unpacked = be32 a b c d
      in Ok (unpacked AND NOT STREAM_ID_MASK, unpacked AND STREAM_ID_MASK = STREAM_ID_MASK))"
| "stream_id_parse _ = Panic"

definition is_client_initiated :: "u32 \<Rightarrow> bool" where
  "is_client_initiated s \<longleftrightarrow> s \<noteq> 0 \<and> s mod 2 = 1"

definition is_server_initiated :: "u32 \<Rightarrow> bool" where
  "is_server_initiated s \<longleftrightarrow> s \<noteq> 0 \<and> s mod 2 = 0"

datatype stream_id_overflow = StreamIdOverflow

text \<open>The addition is overflow-checked.\<close>

definition next_id :: "u32 \<Rightarrow> (u32, stream_id_overflow) outcome" where
  "next_id s =
     (if uint s + 2 \<ge> 2 ^ 32 then Panic
      else if s + 2 > STREAM_ID_MAX then Err StreamIdOverflow
      else Ok (s + 2))"

definition stream_id_from :: "u32 \<Rightarrow> (u32, 'e) outcome" where
  "stream_id_from src = (if src AND STREAM_ID_MASK = 0 then Ok src else Panic)"

section \<open>The frame header\<close>

datatype kind =
    KData | KHeaders | KPriority | KReset | KSettings | KPushPromise | KPing | KGoAway
  | KWindowUpdate | KContinuation | KUnknown

definition kind_new :: "byte \<Rightarrow> kind" where
  "kind_new b =
     (if b = 0 then KData else if b = 1 then KHeaders else if b = 2 then KPriority
      else if b = 3 then KReset else if b = 4 then KSettings else if b = 5 then KPushPromise
      else if b = 6 then KPing else if b = 7 then KGoAway else if b = 8 then KWindowUpdate
      else if b = 9 then KContinuation else KUnknown)"

fun kind_as_u8 :: "kind \<Rightarrow> byte" where
  "kind_as_u8 KData = 0"
| "kind_as_u8 KHeaders = 1"
| "kind_as_u8 KPriority = 2"
| "kind_as_u8 KReset = 3"
| "kind_as_u8 KSettings = 4"
| "kind_as_u8 KPushPromise = 5"
| "kind_as_u8 KPing = 6"
| "kind_as_u8 KGoAway = 7"
| "kind_as_u8 KWindowUpdate = 8"
| "kind_as_u8 KContinuation = 9"
| "kind_as_u8 KUnknown = 10"

record head =
  hd_kind :: kind
  hd_flag :: byte
  hd_stream_id :: u32

definition HEADER_LEN :: nat where "HEADER_LEN = 9"

definition head_new :: "kind \<Rightarrow> byte \<Rightarrow> u32 \<Rightarrow> head" where
  "head_new k f s = \<lparr>hd_kind = k, hd_flag = f, hd_stream_id = s\<rparr>"

definition head_parse :: "byte list \<Rightarrow> (head, 'e) outcome" where
  "head_parse header =
     (if length header < 5 then Panic
      else and_then (stream_id_parse (drop 5 header))
        (\<lambda>(stream_id, _). Ok (head_new (kind_new (header ! 3)) (header ! 4) stream_id)))"

definition head_encode :: "head \<Rightarrow> nat \<Rightarrow> byte list" where
  "head_encode h payload_len =
     put_uint3 (word_of_nat payload_len) @ [kind_as_u8 (hd_kind h), hd_flag h] @ put_u32 (hd_stream_id h)"

text \<open>The length field of a frame, as the length-delimited codec below \<open>FramedRead\<close> reads it.\<close>

definition head_len :: "byte list \<Rightarrow> nat" where
  "head_len bytes = unat (bytes ! 0) * 65536 + unat (bytes ! 1) * 256 + unat (bytes ! 2)"

section \<open>Padding\<close>

definition strip_padding :: "byte list \<Rightarrow> byte list \<times> (byte, 'h frame_error) outcome" where
  "strip_padding payload =
     (if payload = [] then (payload, Err TooMuchPadding)
      else let pad_len = unat (payload ! 0) in
        if pad_len \<ge> length payload then (payload, Err TooMuchPadding)
        else (take (length payload - pad_len - 1) (drop 1 payload), Ok (payload ! 0)))"

section \<open>PING\<close>

definition PING_ACK_FLAG :: byte where "PING_ACK_FLAG = 1"

record ping =
  ping_ack :: bool
  ping_payload :: "byte list" \<comment> \<open>eight bytes\<close>

definition ping_new :: "byte list \<Rightarrow> ping" where
  "ping_new payload = \<lparr>ping_ack = False, ping_payload = payload\<rparr>"

definition ping_pong :: "byte list \<Rightarrow> ping" where
  "ping_pong payload = \<lparr>ping_ack = True, ping_payload = payload\<rparr>"

definition ping_load :: "head \<Rightarrow> byte list \<Rightarrow> (ping, 'h frame_error) outcome" where
  "ping_load h bytes =
     (if hd_stream_id h \<noteq> 0 then Err InvalidStreamId
      else if length bytes \<noteq> 8 then Err BadFrameSize
      else Ok \<lparr>ping_ack = (hd_flag h AND PING_ACK_FLAG \<noteq> 0), ping_payload = bytes\<rparr>)"

definition ping_encode :: "ping \<Rightarrow> byte list" where
  "ping_encode p =
     head_encode (head_new KPing (if ping_ack p then PING_ACK_FLAG else 0) 0) (length (ping_payload p)) @
     ping_payload p"

section \<open>RST_STREAM\<close>

record reset_frame =
  rst_stream_id :: u32
  rst_error_code :: reason

text \<open>\<open>unpack_octets_4!\<close> at an offset.\<close>

definition unpack_octets_4 :: "byte list \<Rightarrow> nat \<Rightarrow> u32" where
  "unpack_octets_4 buf off = be32 (buf ! off) (buf ! (off + 1)) (buf ! (off + 2)) (buf ! (off + 3))"

definition reset_load :: "head \<Rightarrow> byte list \<Rightarrow> (reset_frame, 'h frame_error) outcome" where
  "reset_load h payload =
     (if length payload \<noteq> 4 then Err InvalidPayloadLength
      else Ok \<lparr>rst_stream_id = hd_stream_id h, rst_error_code = Reason (unpack_octets_4 payload 0)\<rparr>)"

definition reset_encode :: "reset_frame \<Rightarrow> byte list" where
  "reset_encode r =
     head_encode (head_new KReset 0 (rst_stream_id r)) 4 @ put_u32 (reason_code (rst_error_code r))"

section \<open>WINDOW_UPDATE\<close>

definition SIZE_INCREMENT_MASK :: u32 where
  "SIZE_INCREMENT_MASK = push_bit 31 1"

record window_update =
  wu_stream_id :: u32
  wu_size_increment :: u32

definition window_update_load :: "head \<Rightarrow> byte list \<Rightarrow> (window_update, 'h frame_error) outcome" where
  "window_update_load h payload =
     (if length payload \<noteq> 4 then Err BadFrameSize
      else let size_increment = unpack_octets_4 payload 0 AND NOT SIZE_INCREMENT_MASK in
        if size_increment = 0 then Err InvalidWindowUpdateValue
        else Ok \<lparr>wu_stream_id = hd_stream_id h, wu_size_increment = size_increment\<rparr>)"

definition window_update_encode :: "window_update \<Rightarrow> byte list" where
  "window_update_encode w =
     head_encode (head_new KWindowUpdate 0 (wu_stream_id w)) 4 @ put_u32 (wu_size_increment w)"

section \<open>GOAWAY\<close>

record go_away_frame =
  ga_last_stream_id :: u32
  ga_error_code :: reason
  ga_debug_data :: "byte list"

definition go_away_load :: "byte list \<Rightarrow> (go_away_frame, 'h frame_error) outcome" where
  "go_away_load payload =
     (if length payload < 8 then Err BadFrameSize
      else and_then (stream_id_parse (take 4 payload))
        (\<lambda>(last_stream_id, _).
           Ok \<lparr>ga_last_stream_id = last_stream_id, ga_error_code = Reason (unpack_octets_4 payload 4),
               ga_debug_data = drop 8 payload\<rparr>))"

definition go_away_encode :: "go_away_frame \<Rightarrow> byte list" where
  "go_away_encode g =
     head_encode (head_new KGoAway 0 0) (8 + length (ga_debug_data g)) @
     put_u32 (ga_last_stream_id g) @ put_u32 (reason_code (ga_error_code g)) @ ga_debug_data g"

section \<open>PRIORITY\<close>

record stream_dependency =
  dep_dependency_id :: u32
  dep_weight :: byte
  dep_is_exclusive :: bool

definition dependency_load :: "byte list \<Rightarrow> (stream_dependency, 'h frame_error) outcome" where
  "dependency_load src =
     (if length src \<noteq> 5 then Err InvalidPayloadLength
      else and_then (stream_id_parse (take 4 src))
        (\<lambda>(dependency_id, is_exclusive).
           Ok \<lparr>dep_dependency_id = dependency_id, dep_weight = src ! 4, dep_is_exclusive = is_exclusive\<rparr>))"

definition dependency_encode :: "stream_dependency \<Rightarrow> byte list" where
  "dependency_encode d =
     put_u32 (if dep_is_exclusive d then dep_dependency_id d OR STREAM_ID_MASK else dep_dependency_id d) @
     [dep_weight d]"

record priority_frame =
  prio_stream_id :: u32
  prio_dependency :: stream_dependency

definition priority_load :: "head \<Rightarrow> byte list \<Rightarrow> (priority_frame, 'h frame_error) outcome" where
  "priority_load h payload =
     and_then (dependency_load payload)
       (\<lambda>dependency.
          if dep_dependency_id dependency = hd_stream_id h then Err InvalidDependencyId
          else Ok \<lparr>prio_stream_id = hd_stream_id h, prio_dependency = dependency\<rparr>)"

definition priority_encode :: "priority_frame \<Rightarrow> byte list" where
  "priority_encode p =
     head_encode (head_new KPriority 0 (prio_stream_id p)) 5 @ dependency_encode (prio_dependency p)"

record priorities_builder =
  pb_priorities :: "priority_frame list"
  pb_max_stream_id :: u32
  pb_inserted_bitmap :: u32

definition priorities_builder_new :: priorities_builder where
  "priorities_builder_new = \<lparr>pb_priorities = [], pb_max_stream_id = 0, pb_inserted_bitmap = 0\<rparr>"

definition priorities_push :: "priorities_builder \<Rightarrow> priority_frame \<Rightarrow> priorities_builder" where
  "priorities_push b p =
     (let sid = prio_stream_id p;
          add = (\<lambda>b. b\<lparr>pb_max_stream_id := (if sid > pb_max_stream_id b then sid else pb_max_stream_id b),
                      pb_priorities := pb_priorities b @ [p]\<rparr>)
      in
        if sid = 0 then b
        else if sid < 32 then
          let mask = push_bit (unat sid) 1 in
          if pb_inserted_bitmap b AND mask \<noteq> 0 then b
          else add (b\<lparr>pb_inserted_bitmap := pb_inserted_bitmap b OR mask\<rparr>)
        else if list_ex (\<lambda>q. prio_stream_id q = sid) (pb_priorities b) then b
        else add b)"

definition priorities_extend :: "priorities_builder \<Rightarrow> priority_frame list \<Rightarrow> priorities_builder" where
  "priorities_extend b ps = foldl priorities_push b ps"

section \<open>DATA\<close>

definition DATA_END_STREAM :: byte where "DATA_END_STREAM = 1"
definition DATA_PADDED :: byte where "DATA_PADDED = 8"
definition DATA_ALL :: byte where "DATA_ALL = DATA_END_STREAM OR DATA_PADDED"

record data_frame =
  data_stream_id :: u32
  data_data :: "byte list"
  data_flags :: byte
  data_pad_len :: "byte option"

definition data_new :: "u32 \<Rightarrow> byte list \<Rightarrow> (data_frame, 'e) outcome" where
  "data_new stream_id payload =
     (if stream_id = 0 then Panic
      else Ok \<lparr>data_stream_id = stream_id, data_data = payload, data_flags = 0, data_pad_len = None\<rparr>)"

definition data_flags_load :: "byte \<Rightarrow> byte" where
  "data_flags_load bits = bits AND DATA_ALL"

definition data_flags_is_end_stream :: "byte \<Rightarrow> bool" where
  "data_flags_is_end_stream f \<longleftrightarrow> f AND DATA_END_STREAM = DATA_END_STREAM"

definition data_flags_is_padded :: "byte \<Rightarrow> bool" where
  "data_flags_is_padded f \<longleftrightarrow> f AND DATA_PADDED = DATA_PADDED"

definition data_set_end_stream :: "data_frame \<Rightarrow> bool \<Rightarrow> data_frame" where
  "data_set_end_stream d val =
     d\<lparr>data_flags := (if val then data_flags d OR DATA_END_STREAM
                     else data_flags d AND NOT DATA_END_STREAM)\<rparr>"

definition data_load :: "head \<Rightarrow> byte list \<Rightarrow> (data_frame, 'h frame_error) outcome" where
  "data_load h payload =
     (let flags = data_flags_load (hd_flag h) in
      if hd_stream_id h = 0 then Err InvalidStreamId
      else if data_flags_is_padded flags then
        (case strip_padding payload of
           (payload', Ok len) \<Rightarrow>
             Ok \<lparr>data_stream_id = hd_stream_id h, data_data = payload', data_flags = flags,
                 data_pad_len = Some len\<rparr>
         | (_, Err e) \<Rightarrow> Err e
         | (_, Panic) \<Rightarrow> Panic)
      else Ok \<lparr>data_stream_id = hd_stream_id h, data_data = payload, data_flags = flags,
               data_pad_len = None\<rparr>)"

definition flow_controlled_len :: "data_frame \<Rightarrow> nat" where
  "flow_controlled_len d =
     (case data_pad_len d of
        Some pad_len \<Rightarrow> length (data_data d) + unat pad_len + 1
      | None \<Rightarrow> length (data_data d))"

text \<open>\<open>n + 1\<close> on a \<open>u8\<close> is overflow-checked.\<close>

definition padded_len :: "data_frame \<Rightarrow> (byte option, 'e) outcome" where
  "padded_len d =
     (case data_pad_len d of
        None \<Rightarrow> Ok None
      | Some n \<Rightarrow> if n = 255 then Panic else Ok (Some (n + 1)))"

definition data_encode_chunk :: "data_frame \<Rightarrow> byte list" where
  "data_encode_chunk d =
     head_encode (head_new KData (data_flags d) (data_stream_id d)) (length (data_data d)) @ data_data d"

section \<open>Bits\<close>

lemma masked_clear: "w AND m = 0 \<Longrightarrow> w AND NOT m = (w :: 'a::len word)"
proof (rule bit_word_eqI)
  fix n assume "w AND m = 0" "n < LENGTH('a)"
  then have "\<not> bit (w AND m) n" by simp
  with \<open>n < LENGTH('a)\<close> show "bit (w AND NOT m) n = bit w n" by (auto simp: bit_simps)
qed

lemma masked_set: "w AND m = 0 \<Longrightarrow> (w OR m) AND NOT m = (w :: 'a::len word)"
proof (rule bit_word_eqI)
  fix n assume "w AND m = 0" "n < LENGTH('a)"
  then have "\<not> bit (w AND m) n" by simp
  with \<open>n < LENGTH('a)\<close> show "bit ((w OR m) AND NOT m) n = bit w n" by (auto simp: bit_simps)
qed

lemma masked_or: "(w OR m) AND m = (m :: 'a::len word)"
  by (rule bit_word_eqI) (auto simp: bit_simps)

lemma masked_not: "(w AND NOT m) AND m = (0 :: 'a::len word)"
  by (rule bit_word_eqI) (auto simp: bit_simps)

lemma STREAM_ID_MASK_nonzero [simp]: "STREAM_ID_MASK \<noteq> 0"
  by (simp add: STREAM_ID_MASK_def)

lemma sid_ok_0 [simp]: "sid_ok 0"
  by (simp add: sid_ok_def)

lemma stream_id_parse_word:
  "stream_id_parse (put_u32 w @ rest) = Ok (w AND NOT STREAM_ID_MASK, w AND STREAM_ID_MASK = STREAM_ID_MASK)"
  by (simp add: put_u32_def be32_put_u32 Let_def)

lemma stream_id_parse_put [wire_simps]:
  "sid_ok s \<Longrightarrow> stream_id_parse (put_u32 s @ rest) = Ok (s, False)"
  by (simp add: stream_id_parse_word sid_ok_def masked_clear STREAM_ID_MASK_nonzero [symmetric])

lemma stream_id_parse_put_flag [wire_simps]:
  "sid_ok s \<Longrightarrow> stream_id_parse (put_u32 (s OR STREAM_ID_MASK) @ rest) = Ok (s, True)"
  by (simp only: stream_id_parse_word sid_ok_def masked_set masked_or simp_thms)

lemmas stream_id_parse_whole =
  stream_id_parse_put [where rest = "[]", simplified]
  stream_id_parse_put_flag [where rest = "[]", simplified]

lemma stream_id_parse_ok: "stream_id_parse bs = Ok (s, f) \<Longrightarrow> sid_ok s"
  by (cases bs rule: stream_id_parse.cases) (auto simp: sid_ok_def masked_not Let_def)

lemma unpack_put_u32 [wire_simps]:
  "unpack_octets_4 (put_u32 w @ rest) 0 = w"
  by (simp add: unpack_octets_4_def put_u32_def be32_put_u32 numeral_2_eq_2 numeral_3_eq_3)

lemma unpack_append: "length pre = off \<Longrightarrow> unpack_octets_4 (pre @ bs) off = unpack_octets_4 bs 0"
  by (auto simp: unpack_octets_4_def nth_append numeral_2_eq_2 numeral_3_eq_3)

section \<open>The header round trip\<close>

lemma kind_new_as_u8 [simp]: "kind_new (kind_as_u8 k) = k"
  by (cases k) (simp_all add: kind_new_def)

lemma length_head_encode [simp]: "length (head_encode h n) = HEADER_LEN"
  by (simp add: head_encode_def HEADER_LEN_def)

lemma head_parse_encode:
  assumes "sid_ok (hd_stream_id h)"
  shows "head_parse (head_encode h n @ p) = Ok h"
proof -
  have "drop 5 (head_encode h n @ p) = put_u32 (hd_stream_id h) @ p"
    by (simp add: head_encode_def put_uint3_def)
  moreover have "(head_encode h n @ p) ! 3 = kind_as_u8 (hd_kind h)" "(head_encode h n @ p) ! 4 = hd_flag h"
    by (simp_all add: head_encode_def put_uint3_def numeral_eq_Suc)
  ultimately show ?thesis
    using assms by (simp add: head_parse_def stream_id_parse_put head_new_def HEADER_LEN_def)
qed

lemma head_len_encode:
  assumes "n < 16777216"
  shows "head_len (head_encode h n @ p) = n"
proof -
  have "n < 2 ^ 64" by (rule less_le_trans [OF assms]) simp
  then have "take_bit 64 n = n" by (rule take_bit_nat_eq_self)
  then have u: "unat (word_of_nat n :: u64) = n" by (simp only: unsigned_of_nat len_num1 len_bit0 len_bit1) simp
  have b: "unat (ucast (w :: u64) :: byte) = unat w mod 256" for w
    by (simp add: unsigned_ucast_eq unsigned_take_bit_eq take_bit_eq_mod)
  have d: "unat (drop_bit k (w :: u64)) = unat w div 2 ^ k" for k w
  proof -
    have "unat (drop_bit k w) = drop_bit k (unat w)"
      by (rule unat_drop_bit_eq)
    then show ?thesis by (simp only: drop_bit_eq_div)
  qed
  let ?w = "word_of_nat n :: u64"
  have bytes: "(head_encode h n @ p) ! 0 = ucast (drop_bit 16 ?w)" "(head_encode h n @ p) ! 1 = ucast (drop_bit 8 ?w)"
    "(head_encode h n @ p) ! 2 = ucast ?w"
    by (simp_all add: head_encode_def put_uint3_def)
  have "unat (ucast (drop_bit 16 ?w) :: byte) = n div 65536 mod 256"
    "unat (ucast (drop_bit 8 ?w) :: byte) = n div 256 mod 256" "unat (ucast ?w :: byte) = n mod 256"
    unfolding b d u by simp_all
  moreover have "n div 65536 mod 256 = n div 65536"
    by (rule mod_less, rule less_mult_imp_div_less) (use assms in simp)
  moreover have "n div 65536 * 65536 + n div 256 mod 256 * 256 + n mod 256 = n"
  proof -
    have "n div 65536 = n div 256 div 256" by (simp flip: div_mult2_eq)
    then have "n div 65536 * 256 + n div 256 mod 256 = n div 256" by simp
    then have "n div 65536 * 65536 + n div 256 mod 256 * 256 = n div 256 * 256" by linarith
    then show ?thesis by simp
  qed
  ultimately show ?thesis unfolding head_len_def bytes by (simp only:)
qed

section \<open>The codec contract\<close>

text \<open>
  A codec is an encoder and a loader for the well-formed frames of one kind: the encoding is a
  header of that kind followed by the payload the header announces, and loading header and
  payload gives the frame back.
\<close>

definition wire_frame :: "kind \<Rightarrow> byte list \<Rightarrow> head \<Rightarrow> byte list \<Rightarrow> bool" where
  "wire_frame k bytes h p \<longleftrightarrow>
     bytes = head_encode h (length p) @ p \<and> hd_kind h = k \<and> sid_ok (hd_stream_id h)"

locale frame_codec =
  fixes k :: kind
    and encode :: "'f \<Rightarrow> byte list"
    and load :: "head \<Rightarrow> byte list \<Rightarrow> ('f, 'e) outcome"
    and ok :: "'f \<Rightarrow> bool"
  assumes encode_load: "ok f \<Longrightarrow> \<exists>h p. wire_frame k (encode f) h p \<and> load h p = Ok f"
begin

text \<open>Reading a frame off the wire: parse the header, load the rest.\<close>

lemma decode_encode:
  assumes "ok f"
  shows "and_then (head_parse (encode f)) (\<lambda>h. load h (drop HEADER_LEN (encode f))) = Ok f"
proof -
  from encode_load [OF assms] obtain h p where
    w: "encode f = head_encode h (length p) @ p" "sid_ok (hd_stream_id h)" and l: "load h p = Ok f"
    by (auto simp: wire_frame_def)
  from w(2) have "(head_parse (encode f) :: (head, 'e) outcome) = Ok h"
    unfolding w(1) by (rule head_parse_encode)
  with w l show ?thesis by simp
qed

lemma encode_inj:
  assumes "ok f" "ok g" "encode f = encode g"
  shows "f = g"
proof -
  have "Ok f = (Ok g :: ('f, 'e) outcome)"
    using decode_encode [OF assms(1)] decode_encode [OF assms(2)] unfolding assms(3) by (rule box_equals [OF refl])
  then show ?thesis by simp
qed

lemma encode_kind:
  assumes "ok f"
  shows "\<exists>h. (head_parse (encode f) :: (head, 'e) outcome) = Ok h \<and> hd_kind h = k"
proof -
  from encode_load [OF assms] obtain h p where
    w: "encode f = head_encode h (length p) @ p" "hd_kind h = k" "sid_ok (hd_stream_id h)"
    by (auto simp: wire_frame_def)
  from w(3) have "(head_parse (encode f) :: (head, 'e) outcome) = Ok h"
    unfolding w(1) by (rule head_parse_encode)
  with w(2) show ?thesis by blast
qed

text \<open>The announced length is the length of the payload, so frames can be concatenated.\<close>

lemma encode_len:
  assumes "ok f" "length (encode f) < HEADER_LEN + 16777216"
  shows "length (encode f) = HEADER_LEN + head_len (encode f @ rest)"
proof -
  from encode_load [OF assms(1)] obtain h p where
    w: "encode f = head_encode h (length p) @ p" by (auto simp: wire_frame_def)
  with assms(2) have "length p < 16777216" by simp
  then have "head_len (head_encode h (length p) @ p @ rest) = length p" by (rule head_len_encode)
  with w show ?thesis by simp
qed

end

section \<open>The codecs\<close>

definition ping_ok :: "ping \<Rightarrow> bool" where
  "ping_ok p \<longleftrightarrow> length (ping_payload p) = 8"

definition reset_ok :: "reset_frame \<Rightarrow> bool" where
  "reset_ok r \<longleftrightarrow> sid_ok (rst_stream_id r)"

definition window_update_ok :: "window_update \<Rightarrow> bool" where
  "window_update_ok w \<longleftrightarrow> sid_ok (wu_stream_id w) \<and>
     wu_size_increment w \<noteq> 0 \<and> wu_size_increment w AND SIZE_INCREMENT_MASK = 0"

definition go_away_ok :: "go_away_frame \<Rightarrow> bool" where
  "go_away_ok g \<longleftrightarrow> sid_ok (ga_last_stream_id g)"

definition priority_ok :: "priority_frame \<Rightarrow> bool" where
  "priority_ok p \<longleftrightarrow> sid_ok (prio_stream_id p) \<and> sid_ok (dep_dependency_id (prio_dependency p)) \<and>
     dep_dependency_id (prio_dependency p) \<noteq> prio_stream_id p"

text \<open>The encoder writes no padding.\<close>

definition data_ok :: "data_frame \<Rightarrow> bool" where
  "data_ok d \<longleftrightarrow> sid_ok (data_stream_id d) \<and> data_stream_id d \<noteq> 0 \<and> data_pad_len d = None \<and>
     data_flags d \<in> {0, DATA_END_STREAM}"

interpretation ping_codec: frame_codec KPing ping_encode "ping_load :: head \<Rightarrow> _ \<Rightarrow> (ping, 'h frame_error) outcome" ping_ok
proof
  fix f assume f: "ping_ok f"
  let ?h = "head_new KPing (if ping_ack f then PING_ACK_FLAG else 0) 0"
  have "wire_frame KPing (ping_encode f) ?h (ping_payload f)"
    by (simp add: wire_frame_def ping_encode_def head_new_def)
  moreover have "ping_load ?h (ping_payload f) = (Ok f :: (_, 'h frame_error) outcome)"
    using f by (cases f) (simp add: ping_load_def ping_ok_def head_new_def PING_ACK_FLAG_def)
  ultimately show "\<exists>h p. wire_frame KPing (ping_encode f) h p \<and> ping_load h p = (Ok f :: (_, 'h frame_error) outcome)"
    by blast
qed

interpretation reset_codec: frame_codec KReset reset_encode "reset_load :: head \<Rightarrow> _ \<Rightarrow> (reset_frame, 'h frame_error) outcome" reset_ok
proof
  fix f assume f: "reset_ok f"
  let ?h = "head_new KReset 0 (rst_stream_id f)"
  let ?p = "put_u32 (reason_code (rst_error_code f))"
  have "wire_frame KReset (reset_encode f) ?h ?p"
    using f by (simp add: wire_frame_def reset_encode_def reset_ok_def head_new_def)
  moreover have "reset_load ?h ?p = (Ok f :: (_, 'h frame_error) outcome)"
    using unpack_put_u32 [of "reason_code (rst_error_code f)" "[]"]
    by (cases "rst_error_code f") (simp add: reset_load_def head_new_def)
  ultimately show "\<exists>h p. wire_frame KReset (reset_encode f) h p \<and> reset_load h p = (Ok f :: (_, 'h frame_error) outcome)"
    by blast
qed

interpretation window_update_codec: frame_codec KWindowUpdate window_update_encode
  "window_update_load :: head \<Rightarrow> _ \<Rightarrow> (window_update, 'h frame_error) outcome" window_update_ok
proof
  fix f assume f: "window_update_ok f"
  let ?h = "head_new KWindowUpdate 0 (wu_stream_id f)"
  let ?p = "put_u32 (wu_size_increment f)"
  have "wire_frame KWindowUpdate (window_update_encode f) ?h ?p"
    using f by (simp add: wire_frame_def window_update_encode_def window_update_ok_def head_new_def)
  moreover have "window_update_load ?h ?p = (Ok f :: (_, 'h frame_error) outcome)"
    using f unpack_put_u32 [of "wu_size_increment f" "[]"]
    by (simp add: window_update_load_def window_update_ok_def head_new_def masked_clear Let_def)
  ultimately show "\<exists>h p. wire_frame KWindowUpdate (window_update_encode f) h p \<and>
      window_update_load h p = (Ok f :: (_, 'h frame_error) outcome)" by blast
qed

interpretation go_away_codec: frame_codec KGoAway go_away_encode
  "\<lambda>h. go_away_load :: _ \<Rightarrow> (go_away_frame, 'h frame_error) outcome" go_away_ok
proof
  fix f assume f: "go_away_ok f"
  let ?h = "head_new KGoAway 0 0"
  let ?p = "put_u32 (ga_last_stream_id f) @ put_u32 (reason_code (ga_error_code f)) @ ga_debug_data f"
  have "wire_frame KGoAway (go_away_encode f) ?h ?p"
    by (simp add: wire_frame_def go_away_encode_def head_new_def)
  moreover have "unpack_octets_4 ?p 4 = reason_code (ga_error_code f)"
    by (simp add: unpack_append unpack_put_u32)
  then have "go_away_load ?p = (Ok f :: (_, 'h frame_error) outcome)"
    using f by (cases "ga_error_code f") (simp add: go_away_load_def go_away_ok_def stream_id_parse_whole)
  ultimately show "\<exists>h p. wire_frame KGoAway (go_away_encode f) h p \<and> go_away_load p = (Ok f :: (_, 'h frame_error) outcome)"
    by blast
qed

lemma dependency_load_encode:
  assumes "sid_ok (dep_dependency_id d)"
  shows "dependency_load (dependency_encode d) = Ok d"
  using assms
  by (cases "dep_is_exclusive d")
    (simp_all add: dependency_load_def dependency_encode_def nth_append stream_id_parse_whole)

interpretation priority_codec: frame_codec KPriority priority_encode
  "priority_load :: head \<Rightarrow> _ \<Rightarrow> (priority_frame, 'h frame_error) outcome" priority_ok
proof
  fix f assume f: "priority_ok f"
  let ?h = "head_new KPriority 0 (prio_stream_id f)"
  let ?p = "dependency_encode (prio_dependency f)"
  have "length ?p = 5" by (simp add: dependency_encode_def)
  then have "wire_frame KPriority (priority_encode f) ?h ?p"
    using f by (simp add: wire_frame_def priority_encode_def priority_ok_def head_new_def)
  moreover have "priority_load ?h ?p = (Ok f :: (_, 'h frame_error) outcome)"
    using f by (simp add: priority_load_def priority_ok_def dependency_load_encode head_new_def)
  ultimately show "\<exists>h p. wire_frame KPriority (priority_encode f) h p \<and> priority_load h p = (Ok f :: (_, 'h frame_error) outcome)"
    by blast
qed

interpretation data_codec: frame_codec KData data_encode_chunk
  "data_load :: head \<Rightarrow> _ \<Rightarrow> (data_frame, 'h frame_error) outcome" data_ok
proof
  fix f assume f: "data_ok f"
  let ?h = "head_new KData (data_flags f) (data_stream_id f)"
  have "wire_frame KData (data_encode_chunk f) ?h (data_data f)"
    using f by (simp add: wire_frame_def data_encode_chunk_def data_ok_def head_new_def)
  moreover have "data_load ?h (data_data f) = (Ok f :: (_, 'h frame_error) outcome)"
    using f by (auto simp: data_load_def data_ok_def head_new_def Let_def data_flags_load_def
        data_flags_is_padded_def DATA_ALL_def DATA_END_STREAM_def DATA_PADDED_def)
  ultimately show "\<exists>h p. wire_frame KData (data_encode_chunk f) h p \<and> data_load h p = (Ok f :: (_, 'h frame_error) outcome)"
    by blast
qed

section \<open>Lemmas\<close>

lemma strip_padding_Ok:
  assumes "strip_padding payload = (rest, Ok n)"
  shows "payload \<noteq> [] \<and> n = payload ! 0 \<and> length rest + unat n + 1 = length payload \<and>
    (\<exists>pad. payload = n # rest @ pad \<and> length pad = unat n)"
proof (cases payload)
  case (Cons a bs)
  with assms have le: "unat a \<le> length bs" and n: "n = a" and r: "rest = take (length bs - unat a) bs"
    by (auto simp: strip_padding_def Let_def split: if_splits)
  have "bs = rest @ drop (length bs - unat a) bs" unfolding r by simp
  moreover have "length (drop (length bs - unat a) bs) = unat a" using le by simp
  moreover have "length rest + unat a = length bs" using le r by simp
  ultimately show ?thesis using Cons n by auto
qed (use assms in \<open>simp add: strip_padding_def\<close>)

text \<open>The bitmap of the priorities builder records exactly the small identifiers inserted.\<close>

definition bitmap_ok :: "priorities_builder \<Rightarrow> bool" where
  "bitmap_ok b \<longleftrightarrow>
     (\<forall>s. 0 < s \<and> s < 32 \<longrightarrow>
        (bit (pb_inserted_bitmap b) (unat s) \<longleftrightarrow> s \<in> prio_stream_id ` set (pb_priorities b)))"

lemma priorities_push_spec:
  assumes "bitmap_ok b"
  shows "bitmap_ok (priorities_push b p) \<and>
    pb_priorities (priorities_push b p) =
      (if prio_stream_id p = 0 \<or> prio_stream_id p \<in> prio_stream_id ` set (pb_priorities b)
       then pb_priorities b else pb_priorities b @ [p])"
proof -
  let ?s = "prio_stream_id p"
  consider "?s = 0" | "?s \<noteq> 0" "?s < 32" | "?s \<noteq> 0" "\<not> ?s < 32" by blast
  then show ?thesis
  proof cases
    case 2
    then have pos: "0 < ?s" by (simp add: word_greater_zero_iff)
    with assms 2 have b: "bit (pb_inserted_bitmap b) (unat ?s) \<longleftrightarrow> ?s \<in> prio_stream_id ` set (pb_priorities b)"
      by (simp add: bitmap_ok_def)
    have "unat ?s < 32" using 2 by (simp add: word_less_nat_alt)
    moreover have "unat s = unat ?s \<longleftrightarrow> s = ?s" for s by (auto intro: unsigned_word_eqI)
    ultimately have m: "bit (push_bit (unat ?s) 1 :: u32) (unat s) \<longleftrightarrow> s = ?s" for s
      by (auto simp: bit_simps)
    show ?thesis
    proof (cases "?s \<in> prio_stream_id ` set (pb_priorities b)")
      case True
      with 2 b have "priorities_push b p = b"
        unfolding priorities_push_def Let_def and_push_bit_one by simp
      with True assms show ?thesis by simp
    next
      case False
      with 2 b have "pb_priorities (priorities_push b p) = pb_priorities b @ [p]"
        "pb_inserted_bitmap (priorities_push b p) = pb_inserted_bitmap b OR push_bit (unat ?s) 1"
        unfolding priorities_push_def Let_def and_push_bit_one by simp_all
      with False 2 assms show ?thesis by (simp only: bitmap_ok_def bit_or_iff m) auto
    qed
  next
    case 3
    with assms show ?thesis
      by (auto simp: priorities_push_def Let_def bitmap_ok_def list_ex_iff intro: rev_image_eqI)
  qed (use assms in \<open>simp add: priorities_push_def\<close>)
qed

text \<open>The reference: keep the first frame of every stream but stream 0.\<close>

fun keep_first :: "u32 set \<Rightarrow> priority_frame list \<Rightarrow> priority_frame list" where
  "keep_first seen [] = []"
| "keep_first seen (p # ps) =
     (if prio_stream_id p = 0 \<or> prio_stream_id p \<in> seen then keep_first seen ps
      else p # keep_first (insert (prio_stream_id p) seen) ps)"

lemma priorities_extend_keep_first:
  "bitmap_ok b \<Longrightarrow>
     pb_priorities (priorities_extend b ps) =
       pb_priorities b @ keep_first (prio_stream_id ` set (pb_priorities b)) ps"
proof (induction ps arbitrary: b)
  case (Cons p ps)
  from priorities_push_spec [OF Cons.prems, of p] Cons.IH [of "priorities_push b p"] show ?case
    by (auto simp: priorities_extend_def)
qed (simp add: priorities_extend_def)

lemma priorities_push_max:
  assumes "\<forall>q \<in> set (pb_priorities b). prio_stream_id q \<le> pb_max_stream_id b"
  shows "\<forall>q \<in> set (pb_priorities (priorities_push b p)). prio_stream_id q \<le> pb_max_stream_id (priorities_push b p)"
  using assms by (auto simp: priorities_push_def Let_def)

lemma sid_ok_iff: "sid_ok s \<longleftrightarrow> uint s < 2147483648"
proof -
  have "0 \<le> uint s" "uint s < 2 ^ 32" using unsigned_less [of s, where ?'a = int] by simp_all
  then have "uint s div 2147483648 = (if uint s < 2147483648 then 0 else 1)" by auto
  then have "bit (uint s) 31 \<longleftrightarrow> \<not> uint s < 2147483648" by (simp add: bit_iff_odd)
  then show ?thesis using and_push_bit_one [of s 31] by (simp add: sid_ok_def STREAM_ID_MASK_def bit_unsigned_iff)
qed

lemma STREAM_ID_MAX_uint: "uint STREAM_ID_MAX = 2147483647"
  by (simp add: STREAM_ID_MAX_def mask_numeral)

lemma initiated_uint:
  "is_client_initiated s \<longleftrightarrow> uint s \<noteq> 0 \<and> uint s mod 2 = 1"
  "is_server_initiated s \<longleftrightarrow> uint s \<noteq> 0 \<and> uint s mod 2 = 0"
  by (simp_all add: is_client_initiated_def is_server_initiated_def word_uint_eq_iff uint_mod)

section \<open>Properties\<close>

text \<open>C17. Whatever a DATA frame carries, the length it is accounted with in flow control is the
  length of the whole frame payload, padding and pad-length field included; and asking for the
  padding of a loaded frame panics exactly when the sender chose the maximal pad length 255.\<close>

theorem data_flow_controlled_len:
  assumes "data_load h payload = (Ok d :: (_, 'h frame_error) outcome)"
  shows "flow_controlled_len d = length payload \<and>
    (padded_len d = (Panic :: (_, 'e) outcome) \<longleftrightarrow> data_flags_is_padded (hd_flag h) \<and> payload ! 0 = 255)"
proof -
  let ?f = "data_flags_load (hd_flag h)"
  have p: "data_flags_is_padded ?f \<longleftrightarrow> data_flags_is_padded (hd_flag h)"
  proof -
    have "(w AND DATA_ALL) AND DATA_PADDED = w AND DATA_PADDED" for w
      by (simp add: DATA_ALL_def DATA_PADDED_def DATA_END_STREAM_def and.assoc)
    then show ?thesis by (simp add: data_flags_is_padded_def data_flags_load_def)
  qed
  show ?thesis
  proof (cases "data_flags_is_padded ?f")
    case True
    with assms obtain rest n where s: "strip_padding payload = (rest, (Ok n :: (_, 'h frame_error) outcome))"
      and d: "data_data d = rest" "data_pad_len d = Some n"
      by (auto simp: data_load_def Let_def split: if_splits prod.splits outcome.splits)
    from strip_padding_Ok [OF s] d True p show ?thesis
      by (auto simp: flow_controlled_len_def padded_len_def)
  next
    case False
    with assms p show ?thesis
      by (auto simp: data_load_def Let_def flow_controlled_len_def padded_len_def split: if_splits)
  qed
qed

theorem data_flow_controlled_len_witness:
  "\<exists>d. data_load \<lparr>hd_kind = KData, hd_flag = 8, hd_stream_id = 1\<rparr> [2, 7, 0, 0] =
     (Ok d :: (_, unit frame_error) outcome) \<and> flow_controlled_len d = 4"
proof -
  have "data_load \<lparr>hd_kind = KData, hd_flag = 8, hd_stream_id = 1\<rparr> [2, 7, 0, 0] =
     (Ok \<lparr>data_stream_id = 1, data_data = [7], data_flags = 8, data_pad_len = Some 2\<rparr> :: (_, unit frame_error) outcome)"
    by (simp add: data_load_def data_flags_load_def data_flags_is_padded_def strip_padding_def Let_def
        DATA_ALL_def DATA_PADDED_def DATA_END_STREAM_def)
  from data_flow_controlled_len [OF this] this show ?thesis by auto
qed

text \<open>C18. The priorities builder, with its bitmap for small stream identifiers, keeps exactly the
  first frame of each stream and drops those of stream 0.\<close>

theorem priorities_builder_keep_first:
  "pb_priorities (priorities_extend priorities_builder_new ps) = keep_first {} ps"
proof -
  have "bitmap_ok priorities_builder_new"
    by (simp add: bitmap_ok_def priorities_builder_new_def)
  from priorities_extend_keep_first [OF this] show ?thesis by (simp add: priorities_builder_new_def)
qed

text \<open>C19. The next stream identifier of a peer is two larger, keeps the reserved bit clear and stays
  with the same initiator; the only failure is the overflow error, and only above the last two
  identifiers.\<close>

theorem next_id_correct:
  assumes "sid_ok s" "s \<noteq> 0"
  shows "(uint s < 2147483646 \<longrightarrow>
      (\<exists>t. next_id s = Ok t \<and> uint t = uint s + 2 \<and> sid_ok t \<and>
         (is_client_initiated t \<longleftrightarrow> is_client_initiated s) \<and> (is_server_initiated t \<longleftrightarrow> is_server_initiated s))) \<and>
    (uint s \<ge> 2147483646 \<longrightarrow> next_id s = Err StreamIdOverflow)"
proof -
  have b: "0 \<le> uint s" "uint s < 2147483648" using assms(1) by (simp_all add: sid_ok_iff)
  then have t: "uint (s + 2) = uint s + 2" by (simp add: uint_word_ariths)
  have "s + 2 > STREAM_ID_MAX \<longleftrightarrow> uint s \<ge> 2147483646"
    unfolding word_less_alt STREAM_ID_MAX_uint t by auto
  then have n: "next_id s = (if uint s \<ge> 2147483646 then Err StreamIdOverflow else Ok (s + 2))"
    using b by (simp add: next_id_def)
  have "uint s \<noteq> 0" using assms(2) by (simp add: word_uint_eq_iff)
  moreover have "uint (s + 2) \<noteq> 0" "uint (s + 2) mod 2 = uint s mod 2" using b t by (linarith, presburger)
  ultimately have "(is_client_initiated (s + 2) \<longleftrightarrow> is_client_initiated s) \<and>
      (is_server_initiated (s + 2) \<longleftrightarrow> is_server_initiated s)" by (simp add: initiated_uint)
  then show ?thesis using n t by (simp add: sid_ok_iff)
qed

theorem next_id_correct_witness:
  "next_id 5 = Ok 7 \<and> next_id 2147483647 = Err StreamIdOverflow \<and> sid_ok 5 \<and> sid_ok 2147483647"
proof -
  have "sid_ok 5" "sid_ok 2147483647" by (simp_all add: sid_ok_iff)
  moreover obtain t where "next_id 5 = Ok t" "uint t = 7"
    using next_id_correct [OF \<open>sid_ok 5\<close>] by auto
  moreover have "next_id 2147483647 = Err StreamIdOverflow"
    using next_id_correct [OF \<open>sid_ok 2147483647\<close>] by simp
  moreover have "t = 7" using \<open>uint t = 7\<close> by (simp add: word_uint_eq_iff)
  ultimately show ?thesis by simp
qed

end
