(* ===== verification/Settings_Frame.thy ===== *)
theory Settings_Frame
  imports Frames
begin

text \<open>
  \<open>frame/settings.rs\<close> and the enumeration macro of \<open>frame/macros.rs\<close>: SETTINGS frames, their
  encoding in a configurable order and the builder of that order. The feature \<open>unstable\<close>
  (experimental settings) is off in this repository and not modelled.
\<close>

section \<open>Setting identifiers\<close>

datatype setting_id =
    HeaderTableSize | EnablePush | MaxConcurrentStreams | InitialWindowSize | MaxFrameSize
  | MaxHeaderListSize | EnableConnectProtocol | NoRfc7540Priorities | UnknownSetting u16

fun setting_id_u16 :: "setting_id \<Rightarrow> u16" where
  "setting_id_u16 HeaderTableSize = 1"
| "setting_id_u16 EnablePush = 2"
| "setting_id_u16 MaxConcurrentStreams = 3"
| "setting_id_u16 InitialWindowSize = 4"
| "setting_id_u16 MaxFrameSize = 5"
| "setting_id_u16 MaxHeaderListSize = 6"
| "setting_id_u16 EnableConnectProtocol = 8"
| "setting_id_u16 NoRfc7540Priorities = 9"
| "setting_id_u16 (UnknownSetting sid) = sid"

definition setting_id_from :: "u16 \<Rightarrow> setting_id" where
  "setting_id_from sid =
     (if sid = 1 then HeaderTableSize else if sid = 2 then EnablePush
      else if sid = 3 then MaxConcurrentStreams else if sid = 4 then InitialWindowSize
      else if sid = 5 then MaxFrameSize else if sid = 6 then MaxHeaderListSize
      else if sid = 8 then EnableConnectProtocol else if sid = 9 then NoRfc7540Priorities
      else UnknownSetting sid)"

definition MAX_SETTING_ID :: u16 where "MAX_SETTING_ID = 15"

definition DEFAULT_IDS :: "setting_id list" where
  "DEFAULT_IDS =
     [HeaderTableSize, EnablePush, MaxConcurrentStreams, InitialWindowSize, MaxFrameSize,
      MaxHeaderListSize, EnableConnectProtocol, NoRfc7540Priorities]"

definition setting_mask_id :: "setting_id \<Rightarrow> u16" where
  "setting_mask_id sid =
     (let value = setting_id_u16 sid in
      if value = 0 \<or> value > MAX_SETTING_ID then 0 else push_bit (unat (value - 1)) 1)"

section \<open>The order of settings\<close>

record order_builder =
  ob_ids :: "setting_id list"
  ob_mask :: u16

definition order_builder_new :: order_builder where
  "order_builder_new = \<lparr>ob_ids = [], ob_mask = 0\<rparr>"

definition order_push :: "order_builder \<Rightarrow> setting_id \<Rightarrow> order_builder" where
  "order_push b sid =
     (let mask_id = setting_mask_id sid in
      if mask_id \<noteq> 0 \<and> ob_mask b AND mask_id = 0
      then \<lparr>ob_ids = ob_ids b @ [sid], ob_mask = ob_mask b OR mask_id\<rparr> else b)"

definition order_extend :: "order_builder \<Rightarrow> setting_id list \<Rightarrow> order_builder" where
  "order_extend b ids = foldl order_push b ids"

definition order_build :: "order_builder \<Rightarrow> setting_id list" where
  "order_build b = ob_ids (order_extend b DEFAULT_IDS)"

section \<open>Settings\<close>

record setting =
  set_id :: setting_id
  set_value :: u32

definition SETTINGS_ACK :: byte where "SETTINGS_ACK = 1"

definition DEFAULT_MAX_FRAME_SIZE :: u32 where "DEFAULT_MAX_FRAME_SIZE = 16384"
definition MAX_MAX_FRAME_SIZE :: u32 where "MAX_MAX_FRAME_SIZE = 16777215"
definition MAX_INITIAL_WINDOW_SIZE :: nat where "MAX_INITIAL_WINDOW_SIZE = 2147483647"
definition DEFAULT_INITIAL_WINDOW_SIZE :: u32 where "DEFAULT_INITIAL_WINDOW_SIZE = 65535"
definition DEFAULT_SETTINGS_HEADER_TABLE_SIZE :: nat where "DEFAULT_SETTINGS_HEADER_TABLE_SIZE = 4096"

record settings =
  st_flags :: byte
  st_header_table_size :: "u32 option"
  st_enable_push :: "u32 option"
  st_max_concurrent_streams :: "u32 option"
  st_initial_window_size :: "u32 option"
  st_max_frame_size :: "u32 option"
  st_max_header_list_size :: "u32 option"
  st_enable_connect_protocol :: "u32 option"
  st_no_rfc7540_priorities :: "u32 option"
  st_order :: "setting_id list"

definition settings_default :: settings where
  "settings_default =
     \<lparr>st_flags = 0, st_header_table_size = None, st_enable_push = None,
      st_max_concurrent_streams = None, st_initial_window_size = None, st_max_frame_size = None,
      st_max_header_list_size = None, st_enable_connect_protocol = None,
      st_no_rfc7540_priorities = None, st_order = DEFAULT_IDS\<rparr>"

definition settings_ack :: settings where
  "settings_ack = settings_default\<lparr>st_flags := SETTINGS_ACK\<rparr>"

definition settings_flags_load :: "byte \<Rightarrow> byte" where
  "settings_flags_load bits = bits AND SETTINGS_ACK"

definition settings_flags_is_ack :: "byte \<Rightarrow> bool" where
  "settings_flags_is_ack f \<longleftrightarrow> f AND SETTINGS_ACK = SETTINGS_ACK"

definition settings_is_ack :: "settings \<Rightarrow> bool" where
  "settings_is_ack s \<longleftrightarrow> settings_flags_is_ack (st_flags s)"

definition set_max_frame_size :: "settings \<Rightarrow> u32 option \<Rightarrow> (settings, 'e) outcome" where
  "set_max_frame_size s sz =
     (case sz of
        Some val \<Rightarrow>
          if DEFAULT_MAX_FRAME_SIZE \<le> val \<and> val \<le> MAX_MAX_FRAME_SIZE
          then Ok (s\<lparr>st_max_frame_size := sz\<rparr>) else Panic
      | None \<Rightarrow> Ok (s\<lparr>st_max_frame_size := sz\<rparr>))"

definition is_push_enabled :: "settings \<Rightarrow> bool option" where
  "is_push_enabled s = map_option (\<lambda>val. val \<noteq> 0) (st_enable_push s)"

definition set_enable_push :: "settings \<Rightarrow> bool \<Rightarrow> settings" where
  "set_enable_push s enable = s\<lparr>st_enable_push := Some (if enable then 1 else 0)\<rparr>"

definition is_extended_connect_protocol_enabled :: "settings \<Rightarrow> bool option" where
  "is_extended_connect_protocol_enabled s = map_option (\<lambda>val. val \<noteq> 0) (st_enable_connect_protocol s)"

definition setting_from_id :: "setting_id \<Rightarrow> u32 \<Rightarrow> setting option" where
  "setting_from_id sid value =
     (case sid of
        UnknownSetting i \<Rightarrow>
          if i = 0 \<or> i > MAX_SETTING_ID then None else Some \<lparr>set_id = sid, set_value = value\<rparr>
      | _ \<Rightarrow> Some \<lparr>set_id = sid, set_value = value\<rparr>)"

definition setting_load :: "byte list \<Rightarrow> (setting option, 'e) outcome" where
  "setting_load raw =
     (if length raw < 6 then Panic
      else Ok (setting_from_id (setting_id_from (be16 (raw ! 0) (raw ! 1))) (unpack_octets_4 raw 2)))"

definition setting_encode :: "setting \<Rightarrow> byte list" where
  "setting_encode s = put_u16 (setting_id_u16 (set_id s)) @ put_u32 (set_value s)"

text \<open>The body of the loop of \<open>Settings::load\<close>.\<close>

definition settings_apply :: "settings \<Rightarrow> setting \<Rightarrow> (settings, 'h frame_error) outcome" where
  "settings_apply s x =
     (let v = set_value x in
      case set_id x of
        HeaderTableSize \<Rightarrow> Ok (s\<lparr>st_header_table_size := Some v\<rparr>)
      | EnablePush \<Rightarrow>
          if v = 0 \<or> v = 1 then Ok (s\<lparr>st_enable_push := Some v\<rparr>) else Err InvalidSettingValue
      | MaxConcurrentStreams \<Rightarrow> Ok (s\<lparr>st_max_concurrent_streams := Some v\<rparr>)
      | InitialWindowSize \<Rightarrow>
          if unat v > MAX_INITIAL_WINDOW_SIZE then Err InvalidSettingValue
          else Ok (s\<lparr>st_initial_window_size := Some v\<rparr>)
      | MaxFrameSize \<Rightarrow>
          if DEFAULT_MAX_FRAME_SIZE \<le> v \<and> v \<le> MAX_MAX_FRAME_SIZE
          then Ok (s\<lparr>st_max_frame_size := Some v\<rparr>) else Err InvalidSettingValue
      | MaxHeaderListSize \<Rightarrow> Ok (s\<lparr>st_max_header_list_size := Some v\<rparr>)
      | EnableConnectProtocol \<Rightarrow>
          if v = 0 \<or> v = 1 then Ok (s\<lparr>st_enable_connect_protocol := Some v\<rparr>) else Err InvalidSettingValue
      | NoRfc7540Priorities \<Rightarrow>
          if v = 0 \<or> v = 1 then Ok (s\<lparr>st_no_rfc7540_priorities := Some v\<rparr>) else Err InvalidSettingValue
      | UnknownSetting _ \<Rightarrow> Ok s)"

text \<open>\<open>payload.chunks(6)\<close>; the last chunk may be shorter.\<close>

function settings_loop :: "settings \<Rightarrow> byte list \<Rightarrow> (settings, 'h frame_error) outcome" where
  "settings_loop s payload =
     (if payload = [] then Ok s
      else and_then (setting_load (take 6 payload))
        (\<lambda>x. case x of
            None \<Rightarrow> settings_loop s (drop 6 payload)
          | Some x \<Rightarrow> and_then (settings_apply s x) (\<lambda>s'. settings_loop s' (drop 6 payload))))"
  by pat_completeness auto
termination
  by (relation "measure (\<lambda>(s, payload). length payload)") auto

declare settings_loop.simps [simp del]

definition settings_load :: "head \<Rightarrow> byte list \<Rightarrow> (settings, 'h frame_error) outcome" where
  "settings_load h payload =
     (if hd_stream_id h \<noteq> 0 then Err InvalidStreamId
      else if settings_flags_is_ack (settings_flags_load (hd_flag h)) then
        (if payload \<noteq> [] then Err InvalidPayloadLength else Ok settings_ack)
      else if length payload mod 6 \<noteq> 0 then Err InvalidPayloadAckSettings
      else settings_loop settings_default payload)"

definition settings_field :: "settings \<Rightarrow> setting_id \<Rightarrow> u32 option" where
  "settings_field s sid =
     (case sid of
        HeaderTableSize \<Rightarrow> st_header_table_size s
      | EnablePush \<Rightarrow> st_enable_push s
      | MaxConcurrentStreams \<Rightarrow> st_max_concurrent_streams s
      | InitialWindowSize \<Rightarrow> st_initial_window_size s
      | MaxFrameSize \<Rightarrow> st_max_frame_size s
      | MaxHeaderListSize \<Rightarrow> st_max_header_list_size s
      | EnableConnectProtocol \<Rightarrow> st_enable_connect_protocol s
      | NoRfc7540Priorities \<Rightarrow> st_no_rfc7540_priorities s
      | UnknownSetting _ \<Rightarrow> None)"

text \<open>The settings \<open>for_each\<close> visits, in order.\<close>

definition settings_for_each :: "settings \<Rightarrow> setting list" where
  "settings_for_each s =
     List.map_filter (\<lambda>sid. Option.bind (settings_field s sid) (setting_from_id sid)) (st_order s)"

definition settings_payload_len :: "settings \<Rightarrow> nat" where
  "settings_payload_len s = 6 * length (settings_for_each s)"

definition settings_encode :: "settings \<Rightarrow> byte list" where
  "settings_encode s =
     head_encode (head_new KSettings (st_flags s) 0) (settings_payload_len s) @
     concat (map setting_encode (settings_for_each s))"

section \<open>The order builder\<close>

text \<open>An identifier as \<open>From<u16>\<close> produces it: no known setting hides behind \<open>Unknown\<close>.\<close>

definition canonical_id :: "setting_id \<Rightarrow> bool" where
  "canonical_id sid \<longleftrightarrow> setting_id_from (setting_id_u16 sid) = sid"

lemma setting_id_from_u16 [simp]: "setting_id_u16 (setting_id_from i) = i"
  by (simp add: setting_id_from_def)

lemma canonical_eq_iff: "canonical_id a \<Longrightarrow> canonical_id b \<Longrightarrow> setting_id_u16 a = setting_id_u16 b \<longleftrightarrow> a = b"
  unfolding canonical_id_def by metis

lemma DEFAULT_IDS_canonical: "\<forall>sid \<in> set DEFAULT_IDS. canonical_id sid \<and> setting_mask_id sid \<noteq> 0"
  by (simp add: DEFAULT_IDS_def canonical_id_def setting_id_from_def setting_mask_id_def MAX_SETTING_ID_def Let_def)

text \<open>The mask has the bit of every identifier in the list, and no other.\<close>

definition order_ok :: "order_builder \<Rightarrow> bool" where
  "order_ok b \<longleftrightarrow>
     (\<forall>sid \<in> set (ob_ids b). setting_mask_id sid \<noteq> 0) \<and>
     (\<forall>sid. setting_mask_id sid \<noteq> 0 \<longrightarrow>
        (ob_mask b AND setting_mask_id sid \<noteq> 0 \<longleftrightarrow> setting_id_u16 sid \<in> setting_id_u16 ` set (ob_ids b))) \<and>
     distinct (map setting_id_u16 (ob_ids b))"

lemma setting_mask_bit:
  assumes "setting_mask_id a \<noteq> 0" "setting_mask_id b \<noteq> 0"
  shows "setting_mask_id a AND setting_mask_id b \<noteq> 0 \<longleftrightarrow> setting_id_u16 a = setting_id_u16 b"
proof -
  have v: "setting_id_u16 x \<noteq> 0" "setting_mask_id x = push_bit (unat (setting_id_u16 x - 1)) 1"
    if "setting_mask_id x \<noteq> 0" for x
    using that by (auto simp: setting_mask_id_def Let_def split: if_splits)
  have "setting_mask_id a AND setting_mask_id b \<noteq> 0 \<longleftrightarrow> bit (setting_mask_id a) (unat (setting_id_u16 b - 1))"
    unfolding v(2) [OF assms(2)] by (rule and_push_bit_one)
  also have "\<dots> \<longleftrightarrow> unat (setting_id_u16 a - 1) = unat (setting_id_u16 b - 1)"
    using assms(1) unfolding v(2) [OF assms(1)] by (auto simp: bit_simps push_bit_eq_0_iff)
  also have "\<dots> \<longleftrightarrow> setting_id_u16 a = setting_id_u16 b"
    by (simp add: unat_inj_iff)
  finally show ?thesis .
qed

lemma or_and_nonzero: "(w OR x) AND m \<noteq> 0 \<longleftrightarrow> w AND m \<noteq> 0 \<or> x AND m \<noteq> (0 :: 'a::len word)"
proof -
  have "(w OR x) AND m = (w AND m) OR (x AND m)" by (rule bit_word_eqI) (auto simp: bit_simps)
  moreover have "a OR c = 0 \<longleftrightarrow> a = 0 \<and> c = 0" for a c :: "'a word"
    by (rule or_eq_0_iff)
  ultimately show ?thesis by metis
qed

lemma order_push_spec:
  assumes "order_ok b"
  shows "order_ok (order_push b sid) \<and>
    ob_ids (order_push b sid) =
      (if setting_mask_id sid = 0 \<or> setting_id_u16 sid \<in> setting_id_u16 ` set (ob_ids b)
       then ob_ids b else ob_ids b @ [sid])"
proof (cases "setting_mask_id sid \<noteq> 0 \<and> setting_id_u16 sid \<notin> setting_id_u16 ` set (ob_ids b)")
  case True
  with assms have "ob_mask b AND setting_mask_id sid = 0" unfolding order_ok_def by blast
  with True have p: "order_push b sid = \<lparr>ob_ids = ob_ids b @ [sid], ob_mask = ob_mask b OR setting_mask_id sid\<rparr>"
    by (simp add: order_push_def)
  have m: "(ob_mask b OR setting_mask_id sid) AND setting_mask_id x \<noteq> 0 \<longleftrightarrow>
      setting_id_u16 x \<in> setting_id_u16 ` set (ob_ids b) \<or> setting_id_u16 sid = setting_id_u16 x"
    if x: "setting_mask_id x \<noteq> 0" for x
  proof -
    have "ob_mask b AND setting_mask_id x \<noteq> 0 \<longleftrightarrow> setting_id_u16 x \<in> setting_id_u16 ` set (ob_ids b)"
      using assms x unfolding order_ok_def by blast
    moreover have "setting_mask_id sid AND setting_mask_id x \<noteq> 0 \<longleftrightarrow> setting_id_u16 sid = setting_id_u16 x"
      using True x by (intro setting_mask_bit) simp_all
    ultimately show ?thesis unfolding or_and_nonzero by blast
  qed
  have "order_ok (order_push b sid)"
    unfolding order_ok_def p
  proof (intro conjI)
    show "\<forall>y \<in> set (ob_ids \<lparr>ob_ids = ob_ids b @ [sid], ob_mask = ob_mask b OR setting_mask_id sid\<rparr>). setting_mask_id y \<noteq> 0"
      using True assms by (auto simp: order_ok_def)
    show "distinct (map setting_id_u16 (ob_ids \<lparr>ob_ids = ob_ids b @ [sid], ob_mask = ob_mask b OR setting_mask_id sid\<rparr>))"
      using True assms by (simp add: order_ok_def)
    show "\<forall>x. setting_mask_id x \<noteq> 0 \<longrightarrow>
        (ob_mask \<lparr>ob_ids = ob_ids b @ [sid], ob_mask = ob_mask b OR setting_mask_id sid\<rparr> AND setting_mask_id x \<noteq> 0 \<longleftrightarrow>
         setting_id_u16 x \<in> setting_id_u16 ` set (ob_ids \<lparr>ob_ids = ob_ids b @ [sid], ob_mask = ob_mask b OR setting_mask_id sid\<rparr>))"
    proof (intro allI impI)
      fix x assume x: "setting_mask_id x \<noteq> 0"
      show "ob_mask \<lparr>ob_ids = ob_ids b @ [sid], ob_mask = ob_mask b OR setting_mask_id sid\<rparr> AND setting_mask_id x \<noteq> 0 \<longleftrightarrow>
         setting_id_u16 x \<in> setting_id_u16 ` set (ob_ids \<lparr>ob_ids = ob_ids b @ [sid], ob_mask = ob_mask b OR setting_mask_id sid\<rparr>)"
        unfolding order_builder.simps m [OF x] by auto
    qed
  qed
  with True p show ?thesis by simp
next
  case False
  then have "setting_mask_id sid = 0 \<or> ob_mask b AND setting_mask_id sid \<noteq> 0"
    using assms unfolding order_ok_def by blast
  then have "order_push b sid = b" unfolding order_push_def Let_def by (rule disjE) simp_all
  with False assms show ?thesis by simp
qed

text \<open>The reference: keep the first of every encodable identifier.\<close>

fun keep_first_ids :: "u16 set \<Rightarrow> setting_id list \<Rightarrow> setting_id list" where
  "keep_first_ids seen [] = []"
| "keep_first_ids seen (x # xs) =
     (if setting_mask_id x = 0 \<or> setting_id_u16 x \<in> seen then keep_first_ids seen xs
      else x # keep_first_ids (insert (setting_id_u16 x) seen) xs)"

lemma order_extend_spec:
  "order_ok b \<Longrightarrow> order_ok (order_extend b xs) \<and>
     ob_ids (order_extend b xs) = ob_ids b @ keep_first_ids (setting_id_u16 ` set (ob_ids b)) xs"
proof (induction xs arbitrary: b)
  case (Cons x xs)
  from order_push_spec [OF Cons.prems, of x] have ok: "order_ok (order_push b x)"
    and ids: "ob_ids (order_push b x) =
      (if setting_mask_id x = 0 \<or> setting_id_u16 x \<in> setting_id_u16 ` set (ob_ids b)
       then ob_ids b else ob_ids b @ [x])" by blast+
  from Cons.IH [OF ok] show ?case unfolding ids by (simp add: order_extend_def)
qed (simp add: order_extend_def)

lemma keep_first_ids_covers:
  "x \<in> set xs \<Longrightarrow> setting_mask_id x \<noteq> 0 \<Longrightarrow>
     setting_id_u16 x \<in> seen \<union> setting_id_u16 ` set (keep_first_ids seen xs)"
  by (induction xs arbitrary: seen) auto

lemma keep_first_ids_subset: "set (keep_first_ids seen xs) \<subseteq> set xs"
  by (induction xs arbitrary: seen) auto

lemma order_ok_new: "order_ok order_builder_new"
  by (simp add: order_ok_def order_builder_new_def)

lemma order_build_ids:
  "order_build (order_extend order_builder_new xs) = keep_first_ids {} (xs @ DEFAULT_IDS) \<and>
   distinct (map setting_id_u16 (order_build (order_extend order_builder_new xs)))"
proof -
  let ?b = "order_extend order_builder_new (xs @ DEFAULT_IDS)"
  have "order_build (order_extend order_builder_new xs) = ob_ids ?b"
    by (simp add: order_build_def order_extend_def)
  moreover have "order_ok ?b" "ob_ids ?b = keep_first_ids {} (xs @ DEFAULT_IDS)"
    using order_extend_spec [OF order_ok_new, of "xs @ DEFAULT_IDS"] by (simp_all add: order_builder_new_def)
  ultimately show ?thesis by (simp add: order_ok_def)
qed

section \<open>The round trip\<close>

definition setting_valid :: "setting_id \<Rightarrow> u32 \<Rightarrow> bool" where
  "setting_valid sid v =
     (case sid of
        EnablePush \<Rightarrow> v = 0 \<or> v = 1
      | InitialWindowSize \<Rightarrow> unat v \<le> MAX_INITIAL_WINDOW_SIZE
      | MaxFrameSize \<Rightarrow> DEFAULT_MAX_FRAME_SIZE \<le> v \<and> v \<le> MAX_MAX_FRAME_SIZE
      | EnableConnectProtocol \<Rightarrow> v = 0 \<or> v = 1
      | NoRfc7540Priorities \<Rightarrow> v = 0 \<or> v = 1
      | _ \<Rightarrow> True)"

definition known :: "setting_id \<Rightarrow> bool" where
  "known sid \<longleftrightarrow> sid \<in> set DEFAULT_IDS"

lemma settings_apply_valid:
  "settings_apply s x = Ok t \<longleftrightarrow>
     setting_valid (set_id x) (set_value x) \<and>
     t = (case set_id x of
        HeaderTableSize \<Rightarrow> s\<lparr>st_header_table_size := Some (set_value x)\<rparr>
      | EnablePush \<Rightarrow> s\<lparr>st_enable_push := Some (set_value x)\<rparr>
      | MaxConcurrentStreams \<Rightarrow> s\<lparr>st_max_concurrent_streams := Some (set_value x)\<rparr>
      | InitialWindowSize \<Rightarrow> s\<lparr>st_initial_window_size := Some (set_value x)\<rparr>
      | MaxFrameSize \<Rightarrow> s\<lparr>st_max_frame_size := Some (set_value x)\<rparr>
      | MaxHeaderListSize \<Rightarrow> s\<lparr>st_max_header_list_size := Some (set_value x)\<rparr>
      | EnableConnectProtocol \<Rightarrow> s\<lparr>st_enable_connect_protocol := Some (set_value x)\<rparr>
      | NoRfc7540Priorities \<Rightarrow> s\<lparr>st_no_rfc7540_priorities := Some (set_value x)\<rparr>
      | UnknownSetting _ \<Rightarrow> s)"
  by (cases "set_id x") (auto simp: settings_apply_def setting_valid_def Let_def)

lemma settings_apply_total:
  "setting_valid (set_id x) (set_value x) \<Longrightarrow> \<exists>t. settings_apply s x = Ok t"
  unfolding settings_apply_valid by blast

lemma settings_apply_field:
  "settings_apply s x = Ok t \<Longrightarrow>
     settings_field t sid = (if known sid \<and> sid = set_id x then Some (set_value x) else settings_field s sid) \<and>
     st_flags t = st_flags s \<and> st_order t = st_order s"
  unfolding settings_apply_valid
  by (cases "set_id x"; cases sid) (simp_all add: settings_field_def known_def DEFAULT_IDS_def)

lemma settings_eqI:
  assumes "\<And>sid. known sid \<Longrightarrow> settings_field s sid = settings_field t sid"
    and "st_flags s = st_flags t" "st_order s = st_order t"
  shows "s = t"
proof -
  have "\<forall>sid \<in> set DEFAULT_IDS. settings_field s sid = settings_field t sid" using assms(1) by (simp add: known_def)
  with assms(2,3) show ?thesis by (cases s; cases t) (simp add: DEFAULT_IDS_def settings_field_def)
qed

text \<open>Applying a list of settings.\<close>

fun apply_all :: "settings \<Rightarrow> setting list \<Rightarrow> (settings, 'h frame_error) outcome" where
  "apply_all s [] = Ok s"
| "apply_all s (x # xs) = and_then (settings_apply s x) (\<lambda>s'. apply_all s' xs)"

text \<open>A setting that survives the wire: the identifier is canonical and encodable.\<close>

definition wire_setting :: "setting \<Rightarrow> bool" where
  "wire_setting x \<longleftrightarrow> canonical_id (set_id x) \<and> setting_mask_id (set_id x) \<noteq> 0"

lemma setting_load_encode:
  assumes "wire_setting x"
  shows "setting_load (setting_encode x) = Ok (Some x)"
proof -
  have "setting_encode x ! 0 = ucast (drop_bit 8 (setting_id_u16 (set_id x)))"
    "setting_encode x ! 1 = ucast (setting_id_u16 (set_id x))" "length (setting_encode x) = 6"
    by (simp_all add: setting_encode_def put_u16_def)
  moreover have "unpack_octets_4 (setting_encode x) 2 = set_value x"
    using unpack_append [of "put_u16 (setting_id_u16 (set_id x))" 2 "put_u32 (set_value x)"]
      unpack_put_u32 [of "set_value x" "[]"] by (simp add: setting_encode_def)
  moreover have "setting_from_id (set_id x) (set_value x) = Some x"
    using assms by (cases x) (auto simp: wire_setting_def setting_from_id_def setting_mask_id_def Let_def
        split: setting_id.splits if_splits)
  ultimately show ?thesis
    using assms by (simp add: setting_load_def be16_put_u16 wire_setting_def canonical_id_def)
qed

lemma settings_loop_encode:
  assumes "\<forall>x \<in> set xs. wire_setting x"
  shows "(settings_loop s (concat (map setting_encode xs)) :: (_, 'h frame_error) outcome) = apply_all s xs"
  using assms
proof (induction xs arbitrary: s)
  case (Cons x xs)
  have "length (setting_encode x) = 6" by (simp add: setting_encode_def)
  then have c: "take 6 (concat (map setting_encode (x # xs))) = setting_encode x"
    "drop 6 (concat (map setting_encode (x # xs))) = concat (map setting_encode xs)"
    "concat (map setting_encode (x # xs)) \<noteq> []" by auto
  have "setting_load (setting_encode x) = (Ok (Some x) :: (_, 'h frame_error) outcome)"
    using Cons.prems by (simp add: setting_load_encode)
  with Cons.IH Cons.prems show ?case
    by (subst settings_loop.simps) (simp only: c if_False and_then.simps option.case apply_all.simps, simp)
qed (simp add: settings_loop.simps)

lemma apply_all_total:
  "\<forall>x \<in> set xs. setting_valid (set_id x) (set_value x) \<Longrightarrow>
     \<exists>t. (apply_all s xs :: (_, 'h frame_error) outcome) = Ok t"
proof (induction xs arbitrary: s)
  case (Cons x xs)
  then have "setting_valid (set_id x) (set_value x)" by simp
  then have "\<exists>t. (settings_apply s x :: (_, 'h frame_error) outcome) = Ok t" by (rule settings_apply_total)
  then obtain t where "(settings_apply s x :: (_, 'h frame_error) outcome) = Ok t" ..
  with Cons show ?case by simp
qed simp

lemma apply_all_field:
  assumes "(apply_all s xs :: (_, 'h frame_error) outcome) = Ok t" "distinct (map set_id xs)" "known sid"
  shows "settings_field t sid =
      (case map_of (map (\<lambda>x. (set_id x, set_value x)) xs) sid of Some v \<Rightarrow> Some v | None \<Rightarrow> settings_field s sid)"
  using assms
proof (induction xs arbitrary: s)
  case (Cons x xs)
  then obtain u where u: "(settings_apply s x :: (_, 'h frame_error) outcome) = Ok u"
    "(apply_all u xs :: (_, 'h frame_error) outcome) = Ok t" by (auto simp: outcome_simps)
  have n: "sid = set_id x \<Longrightarrow> map_of (map (\<lambda>x. (set_id x, set_value x)) xs) sid = None"
    using Cons.prems(2) by (auto simp: map_of_eq_None_iff)
  from Cons.IH [OF u(2)] Cons.prems settings_apply_field [OF u(1), of sid] n show ?case
    by (auto split: option.splits)
qed simp

lemma apply_all_rest:
  "(apply_all s xs :: (_, 'h frame_error) outcome) = Ok t \<Longrightarrow> st_flags t = st_flags s \<and> st_order t = st_order s"
proof (induction xs arbitrary: s)
  case (Cons x xs)
  then obtain u where u: "(settings_apply s x :: (_, 'h frame_error) outcome) = Ok u"
    "(apply_all u xs :: (_, 'h frame_error) outcome) = Ok t" by (auto simp: outcome_simps)
  from Cons.IH [OF u(2)] settings_apply_field [OF u(1)] show ?case by simp
qed simp

definition settings_ok :: "settings \<Rightarrow> bool" where
  "settings_ok s \<longleftrightarrow>
     distinct (st_order s) \<and>
     (\<forall>sid v. settings_field s sid = Some v \<longrightarrow> setting_valid sid v \<and> sid \<in> set (st_order s)) \<and>
     (st_flags s = 0 \<or> st_flags s = SETTINGS_ACK \<and> (\<forall>sid. settings_field s sid = None))"

definition field_settings :: "settings \<Rightarrow> setting_id list \<Rightarrow> setting list" where
  "field_settings s ids = List.map_filter (\<lambda>sid. Option.bind (settings_field s sid) (setting_from_id sid)) ids"

lemma field_settings_Cons:
  "field_settings s (sid # ids) =
     (case settings_field s sid of
        None \<Rightarrow> field_settings s ids
      | Some v \<Rightarrow> \<lparr>set_id = sid, set_value = v\<rparr> # field_settings s ids)"
  by (auto simp: field_settings_def map_filter_simps settings_field_def setting_from_id_def
      split: setting_id.splits option.splits)

lemma field_settings_Nil [simp]: "field_settings s [] = []"
  by (simp add: field_settings_def map_filter_simps)

lemma settings_field_known: "settings_field s sid = Some v \<Longrightarrow> known sid"
  by (cases sid) (simp_all add: settings_field_def known_def DEFAULT_IDS_def)

lemma field_settings_mem:
  "x \<in> set (field_settings s ids) \<Longrightarrow>
     settings_field s (set_id x) = Some (set_value x) \<and> set_id x \<in> set ids"
  by (induction ids) (auto simp: field_settings_Cons split: option.splits)

lemma field_settings_distinct: "distinct ids \<Longrightarrow> distinct (map set_id (field_settings s ids))"
  by (induction ids) (auto simp: field_settings_Cons dest: field_settings_mem split: option.splits)

lemma field_settings_map_of:
  "distinct ids \<Longrightarrow>
     map_of (map (\<lambda>x. (set_id x, set_value x)) (field_settings s ids)) sid =
       (if sid \<in> set ids then settings_field s sid else None)"
proof (induction ids)
  case (Cons i ids)
  then show ?case by (auto simp: field_settings_Cons split: option.splits)
qed simp

lemma settings_wire:
  assumes "settings_ok s"
  shows "\<exists>h p. wire_frame KSettings (settings_encode s) h p \<and>
    settings_load h p = (Ok (s\<lparr>st_order := DEFAULT_IDS\<rparr>) :: (_, 'h frame_error) outcome)"
proof -
  let ?xs = "field_settings s (st_order s)"
  let ?h = "head_new KSettings (st_flags s) 0"
  let ?p = "concat (map setting_encode ?xs)"
  have fe: "settings_for_each s = ?xs" by (simp add: settings_for_each_def field_settings_def)
  have len: "length (concat (map setting_encode ys)) = 6 * length ys" for ys
    by (induction ys) (simp_all add: setting_encode_def)
  have w: "wire_frame KSettings (settings_encode s) ?h ?p"
    by (simp add: wire_frame_def settings_encode_def fe settings_payload_len_def len head_new_def)
  have wire: "\<forall>x \<in> set ?xs. wire_setting x"
    using DEFAULT_IDS_canonical settings_field_known field_settings_mem
    unfolding wire_setting_def known_def by blast
  have valid: "\<forall>x \<in> set ?xs. setting_valid (set_id x) (set_value x)"
    using assms field_settings_mem unfolding settings_ok_def by blast
  have "settings_load ?h ?p = (Ok (s\<lparr>st_order := DEFAULT_IDS\<rparr>) :: (_, 'h frame_error) outcome)"
  proof (cases "st_flags s = 0")
    case True
    obtain t where t: "(apply_all settings_default ?xs :: (_, 'h frame_error) outcome) = Ok t"
      using apply_all_total [OF valid] by blast
    have "t = s\<lparr>st_order := DEFAULT_IDS\<rparr>"
    proof (rule settings_eqI)
      fix sid assume k: "known sid"
      have d: "distinct (st_order s)" using assms by (simp add: settings_ok_def)
      have "settings_field settings_default sid = None"
        by (simp add: settings_field_def settings_default_def split: setting_id.split)
      moreover have "sid \<notin> set (st_order s) \<Longrightarrow> settings_field s sid = None"
        using assms unfolding settings_ok_def by (metis not_None_eq)
      moreover have "settings_field (s\<lparr>st_order := DEFAULT_IDS\<rparr>) sid = settings_field s sid"
        by (cases sid) (simp_all add: settings_field_def)
      ultimately show "settings_field t sid = settings_field (s\<lparr>st_order := DEFAULT_IDS\<rparr>) sid"
        using apply_all_field [OF t field_settings_distinct [OF d] k] field_settings_map_of [OF d, of s sid]
        by (auto split: option.splits if_splits)
    qed (use apply_all_rest [OF t] True in \<open>simp_all add: settings_default_def\<close>)
    moreover have "\<not> settings_flags_is_ack (settings_flags_load 0)"
      by (simp add: settings_flags_is_ack_def settings_flags_load_def SETTINGS_ACK_def)
    ultimately show ?thesis
      using t True by (simp add: settings_load_def head_new_def len settings_loop_encode [OF wire])
  next
    case False
    with assms have a: "st_flags s = SETTINGS_ACK" "\<And>sid. settings_field s sid = None"
      by (auto simp: settings_ok_def)
    have "?xs = []" using field_settings_mem [of _ s "st_order s"] a(2)
      by (metis list.set_intros(1) neq_Nil_conv option.distinct(1))
    moreover have "settings_ack = s\<lparr>st_order := DEFAULT_IDS\<rparr>"
    proof (rule settings_eqI)
      fix sid
      show "settings_field settings_ack sid = settings_field (s\<lparr>st_order := DEFAULT_IDS\<rparr>) sid"
        using a(2) [of sid]
        by (simp add: settings_field_def settings_ack_def settings_default_def split: setting_id.splits)
    qed (use a in \<open>simp_all add: settings_ack_def settings_default_def\<close>)
    moreover have "settings_flags_is_ack (settings_flags_load SETTINGS_ACK)"
      by (simp add: settings_flags_is_ack_def settings_flags_load_def SETTINGS_ACK_def)
    ultimately show ?thesis using a by (simp add: settings_load_def head_new_def)
  qed
  with w show ?thesis by blast
qed

definition settings_default_ok :: "settings \<Rightarrow> bool" where
  "settings_default_ok s \<longleftrightarrow> settings_ok s \<and> st_order s = DEFAULT_IDS"

interpretation settings_codec: frame_codec KSettings settings_encode
  "settings_load :: head \<Rightarrow> _ \<Rightarrow> (settings, 'h frame_error) outcome" settings_default_ok
proof
  fix f assume f: "settings_default_ok f"
  then have "f\<lparr>st_order := DEFAULT_IDS\<rparr> = f" by (cases f) (simp add: settings_default_ok_def)
  with settings_wire [of f] f
  show "\<exists>h p. wire_frame KSettings (settings_encode f) h p \<and> settings_load h p = (Ok f :: (_, 'h frame_error) outcome)"
    by (simp add: settings_default_ok_def)
qed

section \<open>What a loaded frame satisfies\<close>

definition settings_valid :: "settings \<Rightarrow> bool" where
  "settings_valid s \<longleftrightarrow> (\<forall>sid v. settings_field s sid = Some v \<longrightarrow> setting_valid sid v)"

lemma settings_default_valid: "settings_valid settings_default"
  by (simp add: settings_valid_def settings_field_def settings_default_def split: setting_id.split)

lemma settings_apply_keeps_valid:
  assumes "settings_valid s" "settings_apply s x = Ok t"
  shows "settings_valid t"
proof -
  from assms(2) have "setting_valid (set_id x) (set_value x)" by (simp add: settings_apply_valid)
  with assms(1) settings_apply_field [OF assms(2)] show ?thesis
    unfolding settings_valid_def by (metis option.inject)
qed

lemma settings_loop_valid:
  "settings_valid s \<Longrightarrow> settings_loop s payload = (Ok t :: (_, 'h frame_error) outcome) \<Longrightarrow> settings_valid t \<and> st_flags t = st_flags s"
proof (induction s payload rule: settings_loop.induct)
  case (1 s payload)
  show ?case
  proof (cases "payload = []")
    case True
    with "1.prems" show ?thesis by (simp add: settings_loop.simps [of s "[]"])
  next
    case False
    let ?k = "\<lambda>x. case x of None \<Rightarrow> settings_loop s (drop 6 payload)
        | Some x \<Rightarrow> and_then (settings_apply s x) (\<lambda>s'. settings_loop s' (drop 6 payload))"
    have "settings_loop s payload = (and_then (setting_load (take 6 payload)) ?k :: (_, 'h frame_error) outcome)"
      by (subst settings_loop.simps) (simp only: False if_False)
    with "1.prems"(2) have "and_then (setting_load (take 6 payload)) ?k = (Ok t :: (_, 'h frame_error) outcome)"
      by (simp only:)
    then obtain x where x: "setting_load (take 6 payload) = (Ok x :: (_, 'h frame_error) outcome)"
      and rest: "?k x = (Ok t :: (_, 'h frame_error) outcome)"
      unfolding and_then_Ok_iff by blast
    show ?thesis
    proof (cases x)
      case None
      with rest have "settings_loop s (drop 6 payload) = (Ok t :: (_, 'h frame_error) outcome)" by simp
      with "1.IH"(1) [OF False "1.prems"(1)] show ?thesis by blast
    next
      case (Some y)
      with rest obtain u where u: "settings_apply s y = (Ok u :: (_, 'h frame_error) outcome)"
        "settings_loop u (drop 6 payload) = (Ok t :: (_, 'h frame_error) outcome)"
        by (auto simp: outcome_simps)
      from "1.IH"(2) [OF False settings_apply_keeps_valid [OF "1.prems"(1) u(1)] u(2)]
        settings_apply_field [OF u(1)] show ?thesis by simp
    qed
  qed
qed

section \<open>Properties\<close>

text \<open>C20. A SETTINGS frame survives the wire: encoding it in any order that lists each identifier
  once and covers the settings that are set, and loading the bytes, gives the same settings (in
  the default order).\<close>

theorem settings_roundtrip:
  assumes "settings_ok s"
  shows "and_then (head_parse (settings_encode s)) (\<lambda>h. settings_load h (drop HEADER_LEN (settings_encode s))) =
    (Ok (s\<lparr>st_order := DEFAULT_IDS\<rparr>) :: (_, 'h frame_error) outcome)"
proof -
  obtain h p where w: "settings_encode s = head_encode h (length p) @ p" "sid_ok (hd_stream_id h)"
    and l: "settings_load h p = (Ok (s\<lparr>st_order := DEFAULT_IDS\<rparr>) :: (_, 'h frame_error) outcome)"
    using settings_wire [OF assms] unfolding wire_frame_def by blast
  from w(2) have "head_parse (settings_encode s) = (Ok h :: (_, 'h frame_error) outcome)"
    unfolding w(1) by (rule head_parse_encode)
  with w l show ?thesis by simp
qed

theorem settings_roundtrip_witness:
  "settings_ok (settings_default\<lparr>st_enable_push := Some 0, st_order := [MaxFrameSize, EnablePush]\<rparr>) \<and>
   (let s = settings_default\<lparr>st_enable_push := Some 0, st_order := [MaxFrameSize, EnablePush]\<rparr> in
    and_then (head_parse (settings_encode s)) (\<lambda>h. settings_load h (drop HEADER_LEN (settings_encode s))) =
    (Ok (s\<lparr>st_order := DEFAULT_IDS\<rparr>) :: (_, unit frame_error) outcome))"
proof -
  have ok: "settings_ok (settings_default\<lparr>st_enable_push := Some 0, st_order := [MaxFrameSize, EnablePush]\<rparr>)"
    by (auto simp: settings_ok_def settings_default_def settings_field_def setting_valid_def split: setting_id.splits)
  from ok settings_roundtrip [OF ok] show ?thesis unfolding Let_def by blast
qed





text \<open>A known identifier disguised as unknown takes its place: the setting is never encoded.\<close>

lemma unknown_id_hides_setting:
  "MaxFrameSize \<notin> set (order_build (order_extend order_builder_new [UnknownSetting 5]))"
  by code_simp



end
