(* ===== verification/Hpack_Int.thy ===== *)
theory Hpack_Int
  imports Errors
begin

text \<open>
  The integers of HPACK (RFC 7541, section 5.1): \<open>decode_int\<close> of \<open>hpack/decoder.rs\<close> and
  \<open>encode_int\<close> of \<open>hpack/encoder.rs\<close>. A \<open>usize\<close> is a natural number; the decoder reads at most
  five octets, so its sums stay below \<open>2 ^ 29\<close>.
\<close>

section \<open>Errors of the decoder\<close>

datatype need_more = UnexpectedEndOfStream | IntegerUnderflow | StringUnderflow

datatype decoder_error =
    InvalidRepresentation
  | InvalidIntegerPrefix
  | InvalidTableIndex
  | InvalidHuffmanCode
  | InvalidUtf8
  | InvalidStatusCode
  | InvalidPseudoheader
  | InvalidMaxDynamicSize
  | IntegerOverflow
  | NeedMore need_more

section \<open>Decoding\<close>

definition DECODE_MAX_BYTES :: nat where "DECODE_MAX_BYTES = 5"

text \<open>The loop over the continuation octets.\<close>

fun decode_varint :: "nat \<Rightarrow> nat \<Rightarrow> nat \<Rightarrow> byte list \<Rightarrow> (nat \<times> byte list, decoder_error) outcome" where
  "decode_varint bytes shift ret [] = Err (NeedMore IntegerUnderflow)"
| "decode_varint bytes shift ret (b # buf) =
     (let ret' = ret + unat (b AND 127) * 2 ^ shift in
      if b AND 128 = 0 then Ok (ret', buf)
      else if bytes + 1 = DECODE_MAX_BYTES then Err IntegerOverflow
      else decode_varint (bytes + 1) (shift + 7) ret' buf)"

definition prefix_mask :: "nat \<Rightarrow> byte" where
  "prefix_mask prefix_size = (if prefix_size = 8 then 255 else push_bit prefix_size 1 - 1)"

definition decode_int :: "byte list \<Rightarrow> nat \<Rightarrow> (nat \<times> byte list, decoder_error) outcome" where
  "decode_int buf prefix_size =
     (if prefix_size < 1 \<or> prefix_size > 8 then Err InvalidIntegerPrefix
      else case buf of
          [] \<Rightarrow> Err (NeedMore IntegerUnderflow)
        | b # rest \<Rightarrow>
            let ret = unat (b AND prefix_mask prefix_size) in
            if ret < unat (prefix_mask prefix_size) then Ok (ret, rest)
            else decode_varint 1 0 ret rest)"

section \<open>Encoding\<close>

definition encode_int_one_byte :: "nat \<Rightarrow> nat \<Rightarrow> bool" where
  "encode_int_one_byte value prefix_bits \<longleftrightarrow> value < 2 ^ prefix_bits - 1"

fun encode_varint :: "nat \<Rightarrow> byte list" where
  "encode_varint value =
     (if value \<ge> 128 then (128 OR word_of_nat value) # encode_varint (value div 128)
      else [word_of_nat value])"

declare encode_varint.simps [simp del]

definition encode_int :: "nat \<Rightarrow> nat \<Rightarrow> byte \<Rightarrow> byte list" where
  "encode_int value prefix_bits first_byte =
     (if encode_int_one_byte value prefix_bits then [first_byte OR word_of_nat value]
      else let low = 2 ^ prefix_bits - 1 in
        (first_byte OR word_of_nat low) # encode_varint (value - low))"

section \<open>Octets\<close>

lemma unat_take_bit_byte: "unat (take_bit n b :: byte) = unat b mod 2 ^ n"
proof -
  have "unat (take_bit n b) = take_bit n (unat b)" by (rule unsigned_take_bit_eq)
  then show ?thesis by (simp only: take_bit_eq_mod)
qed

lemma unat_bit_byte: "bit (b :: byte) n \<longleftrightarrow> unat b div 2 ^ n mod 2 = 1"
proof -
  have "bit b n \<longleftrightarrow> bit (unat b) n" by (simp add: bit_unsigned_iff)
  also have "\<dots> \<longleftrightarrow> odd (unat b div 2 ^ n)" by (rule bit_iff_odd)
  finally show ?thesis by (simp add: odd_iff_mod_2_eq_one)
qed

lemma and_127: "unat (b AND 127 :: byte) = unat b mod 128"
proof -
  have "b AND 127 = take_bit 7 b" by (simp only: take_bit_eq_mask) (simp add: mask_numeral)
  then show ?thesis by (simp only: unat_take_bit_byte) simp
qed

lemma and_128: "(b AND 128 = 0) \<longleftrightarrow> unat (b :: byte) < 128"
proof -
  have "b AND 128 = 0 \<longleftrightarrow> \<not> bit b 7" using and_push_bit_one [of b 7] by auto
  also have "\<dots> \<longleftrightarrow> unat b div 128 mod 2 \<noteq> 1" by (simp add: unat_bit_byte)
  also have "\<dots> \<longleftrightarrow> unat b < 128"
  proof -
    have "unat b div 128 < 2" using unat_u8_bound [of b] by (intro less_mult_imp_div_less) simp
    then show ?thesis by (auto simp: div_eq_0_iff less_2_cases_iff)
  qed
  finally show ?thesis .
qed

lemma prefix_mask_mask: "1 \<le> p \<Longrightarrow> p \<le> 8 \<Longrightarrow> prefix_mask p = mask p"
  by (auto simp: prefix_mask_def mask_eq_exp_minus_1 push_bit_of_1 mask_numeral)

lemma unat_prefix_mask: "1 \<le> p \<Longrightarrow> p \<le> 8 \<Longrightarrow> unat (prefix_mask p) = 2 ^ p - 1"
proof -
  assume "1 \<le> p" "p \<le> 8"
  then have "p = 1 \<or> p = 2 \<or> p = 3 \<or> p = 4 \<or> p = 5 \<or> p = 6 \<or> p = 7 \<or> p = 8" by linarith
  then show ?thesis by (elim disjE) (simp_all add: prefix_mask_def)
qed

lemma and_prefix_mask: "1 \<le> p \<Longrightarrow> p \<le> 8 \<Longrightarrow> unat (b AND prefix_mask p) = unat b mod 2 ^ p"
  by (simp only: prefix_mask_mask take_bit_eq_mask [symmetric] unat_take_bit_byte)

lemma unat_word_of_nat_byte: "unat (word_of_nat v :: byte) = v mod 256"
  by (simp add: unsigned_of_nat take_bit_eq_mod)

lemma continuation_octet:
  "unat ((128 OR word_of_nat v :: byte) AND 127) = v mod 128" "(128 OR word_of_nat v :: byte) AND 128 \<noteq> 0"
proof -
  have "(128 OR word_of_nat v :: byte) AND 127 = (128 AND 127) OR (word_of_nat v AND 127)"
    by (rule and_or_distr)
  then have "(128 OR word_of_nat v :: byte) AND 127 = word_of_nat v AND 127" by simp
  then have "unat ((128 OR word_of_nat v :: byte) AND 127) = (v mod 256) mod 128"
    by (simp only: and_127 unat_word_of_nat_byte)
  also have "\<dots> = v mod 128" by (rule mod_mod_cancel) simp
  finally show "unat ((128 OR word_of_nat v :: byte) AND 127) = v mod 128" .
  have "(128 OR word_of_nat v :: byte) AND 128 = 128" by (rule or_and_absorb)
  then show "(128 OR word_of_nat v :: byte) AND 128 \<noteq> 0" by simp
qed

section \<open>The round trip\<close>

lemma septets: "a * 2 ^ s + b * 2 ^ (s + 7) = (a + b * 128) * (2::nat) ^ s"
  by (simp add: power_add algebra_simps)

lemma decode_varint_encode:
  assumes "1 \<le> bytes" "bytes < DECODE_MAX_BYTES"
  shows "decode_varint bytes shift ret (encode_varint v @ rest) =
    (if v < 128 ^ (DECODE_MAX_BYTES - bytes) then Ok (ret + v * 2 ^ shift, rest) else Err IntegerOverflow)"
  using assms
proof (induction v arbitrary: bytes shift ret rule: encode_varint.induct)
  case (1 v)
  show ?case
  proof (cases "v \<ge> 128")
    case False
    then have e: "encode_varint v = [word_of_nat v]" by (simp add: encode_varint.simps [of v])
    from False have u: "unat (word_of_nat v :: byte) = v" by (simp add: unat_word_of_nat_byte)
    have "(128::nat) ^ 1 \<le> 128 ^ (DECODE_MAX_BYTES - bytes)"
      using "1.prems" by (intro power_increasing) simp_all
    with False have "v < 128 ^ (DECODE_MAX_BYTES - bytes)" by simp
    then show ?thesis using False u by (simp add: e and_127 and_128 Let_def)
  next
    case True
    then have e: "encode_varint v = (128 OR word_of_nat v) # encode_varint (v div 128)"
      by (simp add: encode_varint.simps [of v])
    show ?thesis
    proof (cases "bytes + 1 = DECODE_MAX_BYTES")
      case last: True
      then have "DECODE_MAX_BYTES - bytes = 1" by simp
      with True last show ?thesis by (simp add: e continuation_octet Let_def)
    next
      case False
      let ?d = "DECODE_MAX_BYTES - (bytes + 1)"
      have d: "DECODE_MAX_BYTES - bytes = Suc ?d" using "1.prems" False by simp
      have lt: "v div 128 < 128 ^ ?d \<longleftrightarrow> v < 128 ^ (DECODE_MAX_BYTES - bytes)"
        unfolding d power_Suc by (simp add: div_less_iff_less_mult mult.commute)
      have sum: "ret + v mod 128 * 2 ^ shift + v div 128 * 2 ^ (shift + 7) = ret + v * 2 ^ shift"
        unfolding add.assoc septets by simp
      have "decode_varint bytes shift ret (encode_varint v @ rest) =
          decode_varint (bytes + 1) (shift + 7) (ret + v mod 128 * 2 ^ shift) (encode_varint (v div 128) @ rest)"
        using False by (simp add: e continuation_octet Let_def)
      also have "\<dots> = (if v div 128 < 128 ^ ?d then Ok (ret + v mod 128 * 2 ^ shift + v div 128 * 2 ^ (shift + 7), rest)
          else Err IntegerOverflow)"
        using "1.prems" False by (intro "1.IH" [OF True]) simp_all
      finally show ?thesis unfolding lt sum .
    qed
  qed
qed

lemma first_octet:
  assumes "1 \<le> p" "p \<le> 8" "first_byte AND prefix_mask p = 0" "v < 2 ^ p"
  shows "unat ((first_byte OR word_of_nat v) AND prefix_mask p) = v"
proof -
  have "(first_byte OR word_of_nat v) AND prefix_mask p =
      (first_byte AND prefix_mask p) OR (word_of_nat v AND prefix_mask p)"
    by (rule and_or_distr)
  then have "unat ((first_byte OR word_of_nat v) AND prefix_mask p) = (v mod 256) mod 2 ^ p"
    using assms(3) by (simp add: and_prefix_mask [OF assms(1,2)] unat_word_of_nat_byte)
  moreover have "(2::nat) ^ p \<le> 2 ^ 8" using assms(2) by (intro power_increasing) simp_all
  ultimately show ?thesis using assms(4) by simp
qed

text \<open>The largest integer the decoder accepts behind a prefix of \<open>p\<close> bits.\<close>

definition max_int :: "nat \<Rightarrow> nat" where
  "max_int p = 2 ^ p - 1 + (2 ^ 28 - 1)"

lemma decode_encode_int:
  assumes "1 \<le> p" "p \<le> 8" "first_byte AND prefix_mask p = 0"
  shows "decode_int (encode_int v p first_byte @ rest) p =
    (if v \<le> max_int p then Ok (v, rest) else Err IntegerOverflow)"
proof (cases "encode_int_one_byte v p")
  case True
  then have v: "v < 2 ^ p - 1" by (simp add: encode_int_one_byte_def)
  then have "v < 2 ^ p" by linarith
  from first_octet [OF assms this] v True assms(1,2) show ?thesis
    by (simp add: decode_int_def encode_int_def unat_prefix_mask Let_def max_int_def)
next
  case False
  let ?low = "2 ^ p - 1 :: nat"
  have v: "?low \<le> v" using False by (simp add: encode_int_one_byte_def)
  have "?low < 2 ^ p" by simp
  from first_octet [OF assms this] assms(1,2)
  have "decode_int (encode_int v p first_byte @ rest) p = decode_varint 1 0 ?low (encode_varint (v - ?low) @ rest)"
    using False by (simp add: decode_int_def encode_int_def unat_prefix_mask Let_def)
  also have "\<dots> = (if v - ?low < 128 ^ 4 then Ok (?low + (v - ?low) * 2 ^ 0, rest) else Err IntegerOverflow)"
    by (subst decode_varint_encode) (simp_all add: DECODE_MAX_BYTES_def)
  also have "\<dots> = (if v \<le> max_int p then Ok (v, rest) else Err IntegerOverflow)"
  proof -
    have "v - ?low < 128 ^ 4 \<longleftrightarrow> v \<le> ?low + (2 ^ 28 - 1)" using v by (simp add: less_diff_conv2) linarith
    then show ?thesis using v by (simp add: max_int_def)
  qed
  finally show ?thesis .
qed

text \<open>The bits in front of the prefix reach the wire unchanged.\<close>

lemma first_octet_high:
  assumes "p \<le> 7" and "first_byte AND prefix_mask p = 0" and "m AND prefix_mask p = 0" and "1 \<le> p"
  shows "hd (encode_int v p first_byte @ ys) AND m = first_byte AND m"
proof -
  have low: "word_of_nat u AND m = 0" if "u < 2 ^ p" for u :: nat
  proof (rule bit_eqI)
    fix i assume "possible_bit TYPE(8 word) i"
    then have i: "i < 8" by simp
    show "bit (word_of_nat u AND m :: byte) i = bit (0 :: byte) i"
    proof (cases "i < p")
      case True
      have "bit (prefix_mask p) i" using True assms(1,4) i by (simp add: prefix_mask_mask bit_mask_iff)
      then have "\<not> bit m i" using assms(3) by (metis bit_0_eq bit_and_iff bot_apply bot_bool_def)
      then show ?thesis by (simp add: bit_and_iff)
    next
      case False
      then have "u < 2 ^ i" using that by (meson le_less_trans less_le_trans not_less one_le_numeral power_increasing)
      then have "\<not> bit u i" by (simp add: bit_iff_odd)
      then show ?thesis by (simp add: bit_and_iff bit_of_nat_iff)
    qed
  qed
  have h: "(first_byte OR word_of_nat u) AND m = first_byte AND m" if "u < 2 ^ p" for u :: nat
    using low[OF that] by (simp add: and_or_distr)
  show ?thesis
  proof (cases "encode_int_one_byte v p")
    case True
    then have "v < 2 ^ p" by (simp add: encode_int_one_byte_def)
    from h[OF this] True show ?thesis by (simp add: encode_int_def)
  next
    case False
    have "2 ^ p - 1 < (2 :: nat) ^ p" by simp
    from h[OF this] False show ?thesis by (simp add: encode_int_def Let_def)
  qed
qed

lemma decode_varint_append:
  assumes "decode_varint n s r bs = Ok (v, rest)"
  shows "length rest < length bs \<and> decode_varint n s r (bs @ ys) = Ok (v, rest @ ys)"
  using assms by (induction n s r bs rule: decode_varint.induct) (auto simp: Let_def split: if_splits)

lemma decode_int_append:
  assumes "decode_int bs p = Ok (v, rest)"
  shows "length rest < length bs \<and> decode_int (bs @ ys) p = Ok (v, rest @ ys)"
  using assms decode_varint_append
  by (fastforce simp: decode_int_def Let_def split: if_splits list.splits)

lemma decode_varint_no_panic: "decode_varint n s r bs \<noteq> Panic"
  by (induction n s r bs rule: decode_varint.induct) (auto simp: Let_def)

lemma decode_int_no_panic: "decode_int bs p \<noteq> Panic"
  by (auto simp: decode_int_def Let_def decode_varint_no_panic split: list.splits)

text \<open>An error other than missing input stays when more input arrives.\<close>

lemma decode_varint_error_append:
  assumes "decode_varint n s r bs = Err e" and "e \<noteq> NeedMore IntegerUnderflow"
  shows "decode_varint n s r (bs @ ys) = Err e"
  using assms by (induction n s r bs rule: decode_varint.induct) (auto simp: Let_def split: if_splits)

lemma decode_int_error_append:
  assumes "decode_int bs p = Err e" and "e \<noteq> NeedMore IntegerUnderflow"
  shows "decode_int (bs @ ys) p = Err e"
  using assms decode_varint_error_append
  by (auto simp: decode_int_def Let_def split: if_splits list.splits)

lemma decode_varint_suffix:
  "decode_varint n s r bs = Ok (v, rest) \<Longrightarrow> \<exists>pre. bs = pre @ rest"
  by (induction n s r bs rule: decode_varint.induct) (fastforce simp: Let_def split: if_splits)+

lemma decode_int_suffix: "decode_int bs p = Ok (v, rest) \<Longrightarrow> \<exists>pre. bs = pre @ rest"
  by (fastforce simp: decode_int_def Let_def split: if_splits list.splits dest: decode_varint_suffix)

lemma septet_step:
  assumes "d < 128"
  shows "d * 2 ^ s + (128 ^ k - 1) * 2 ^ (s + 7) \<le> (128 ^ Suc k - 1) * (2::nat) ^ s"
proof -
  have "1 \<le> (128::nat) ^ k" by simp
  then have "d + (128 ^ k - 1) * 128 \<le> 128 ^ Suc k - (1::nat)" using assms by (simp add: diff_mult_distrib)
  then have "(d + (128 ^ k - 1) * 128) * 2 ^ s \<le> (128 ^ Suc k - 1) * (2::nat) ^ s" by (rule mult_le_mono1)
  then show ?thesis unfolding septets .
qed

lemma decode_varint_bound:
  "decode_varint bytes shift ret buf = Ok (v, rest) \<Longrightarrow> 1 \<le> bytes \<Longrightarrow> bytes < DECODE_MAX_BYTES \<Longrightarrow>
     v \<le> ret + (128 ^ (DECODE_MAX_BYTES - bytes) - 1) * 2 ^ shift \<and>
     (\<exists>used. buf = used @ rest \<and> used \<noteq> [] \<and> length used + bytes \<le> DECODE_MAX_BYTES)"
proof (induction bytes shift ret buf rule: decode_varint.induct)
  case (2 bytes shift ret b buf)
  let ?ret = "ret + unat (b AND 127) * 2 ^ shift"
  have small: "unat (b AND 127) < 128" by (simp add: and_127)
  obtain k where k: "DECODE_MAX_BYTES - bytes = Suc k" using "2.prems" by (cases "DECODE_MAX_BYTES - bytes") auto
  show ?case
  proof (cases "b AND 128 = 0")
    case True
    with "2.prems" have v: "v = ?ret" "rest = buf" by (simp_all add: Let_def)
    have "v \<le> ret + (128 ^ (DECODE_MAX_BYTES - bytes) - 1) * 2 ^ shift"
      using septet_step [OF small, of shift k] unfolding v k by linarith
    then show ?thesis using v "2.prems" by (intro conjI exI [of _ "[b]"]) auto
  next
    case False
    with "2.prems" have n: "bytes + 1 \<noteq> DECODE_MAX_BYTES"
      and r: "decode_varint (bytes + 1) (shift + 7) ?ret buf = Ok (v, rest)"
      by (auto simp: Let_def split: if_splits)
    have k': "DECODE_MAX_BYTES - (bytes + 1) = k" using k by simp
    from "2.IH" [OF refl False n r] "2.prems" n obtain used where
      v: "v \<le> ?ret + (128 ^ k - 1) * 2 ^ (shift + 7)" and
      u: "buf = used @ rest" "length used + (bytes + 1) \<le> DECODE_MAX_BYTES" unfolding k' by auto
    have "v \<le> ret + (128 ^ (DECODE_MAX_BYTES - bytes) - 1) * 2 ^ shift"
      using v septet_step [OF small, of shift k] unfolding k by linarith
    then show ?thesis using u by (intro conjI exI [of _ "b # used"]) auto
  qed
qed simp

lemma decode_int_bound:
  assumes "decode_int buf p = Ok (v, rest)"
  shows "v \<le> max_int p \<and> (\<exists>used. buf = used @ rest \<and> used \<noteq> [] \<and> length used \<le> DECODE_MAX_BYTES)"
proof -
  from assms obtain b bs where p: "1 \<le> p" "p \<le> 8" and buf: "buf = b # bs"
    by (auto simp: decode_int_def split: if_splits list.splits)
  let ?m = "2 ^ p - 1 :: nat"
  let ?r = "unat (b AND prefix_mask p)"
  show ?thesis
  proof (cases "?r < ?m")
    case True
    with assms p buf have "v = ?r" "rest = bs"
      by (auto simp: decode_int_def unat_prefix_mask Let_def split: if_splits)
    with True buf show ?thesis by (intro conjI exI [of _ "[b]"]) (auto simp: max_int_def DECODE_MAX_BYTES_def)
  next
    case False
    with assms p buf have d: "decode_varint 1 0 ?r bs = Ok (v, rest)"
      by (auto simp: decode_int_def unat_prefix_mask Let_def split: if_splits)
    have "?r < 2 ^ p" unfolding and_prefix_mask [OF p] by simp
    then have "?r \<le> ?m" by linarith
    moreover from decode_varint_bound [OF d] obtain used where
      u: "v \<le> ?r + (2 ^ 28 - 1)" "bs = used @ rest" "length used + 1 \<le> DECODE_MAX_BYTES"
      by (auto simp: DECODE_MAX_BYTES_def)
    ultimately have "v \<le> max_int p" unfolding max_int_def by linarith
    then show ?thesis using buf u(2,3) by (intro conjI exI [of _ "b # used"]) auto
  qed
qed

section \<open>Properties\<close>

text \<open>C24. HPACK integers survive the wire: behind any first octet that leaves the prefix bits free,
  what the encoder writes is decoded to the same integer and nothing else is consumed, as long as
  the integer is at most \<open>2 ^ p - 2 + 2 ^ 28\<close>; a larger one, which the encoder does write, is
  rejected as an overflow. Whatever the decoder accepts is within that bound and takes at most
  five octets.\<close>

theorem hpack_int_roundtrip:
  assumes "1 \<le> p" "p \<le> 8" "first_byte AND prefix_mask p = 0"
  shows "decode_int (encode_int v p first_byte @ rest) p =
      (if v \<le> 2 ^ p - 1 + (2 ^ 28 - 1) then Ok (v, rest) else Err IntegerOverflow) \<and>
    (decode_int buf p = Ok (w, rest') \<longrightarrow>
      w \<le> 2 ^ p - 1 + (2 ^ 28 - 1) \<and> (\<exists>used. buf = used @ rest' \<and> used \<noteq> [] \<and> length used \<le> 5))"
  using decode_encode_int [OF assms, of v rest] decode_int_bound [of buf p w rest']
  unfolding max_int_def DECODE_MAX_BYTES_def by blast

theorem hpack_int_roundtrip_witness:
  "decode_int (encode_int 1337 5 32 @ [7]) 5 = Ok (1337, [7])"
proof -
  have "1 \<le> (5::nat)" "(5::nat) \<le> 8" "(32::byte) AND prefix_mask 5 = 0" by (simp_all add: prefix_mask_def)
  from hpack_int_roundtrip [OF this, of 1337 "[7]"] show ?thesis by simp
qed

end
