(* ===== verification/Hpack_Header.thy ===== *)
theory Hpack_Header
  imports Hpack_Int
begin

text \<open>
  \<open>hpack/header.rs\<close> and the static table of \<open>hpack/decoder.rs\<close>. The types of the crate \<open>http\<close> are
  the bytes they were made from; whether bytes are a valid method, status, name or value is that
  crate's decision, the parameter \<open>http_lib\<close>. A header value carries its sensitivity.
\<close>

section \<open>Headers\<close>

record http_lib =
  hl_method :: "byte list \<Rightarrow> bool"
  hl_status :: "byte list \<Rightarrow> bool"
  hl_name :: "byte list \<Rightarrow> bool" \<comment> \<open>\<open>HeaderName::from_lowercase\<close> accepts\<close>
  hl_value :: "byte list \<Rightarrow> bool"
  hl_utf8 :: "byte list \<Rightarrow> bool"

datatype header =
    HField "byte list" "byte list" bool \<comment> \<open>name, value, sensitive\<close>
  | HAuthority "byte list"
  | HMethod "byte list"
  | HScheme "byte list"
  | HPath "byte list"
  | HProtocol "byte list"
  | HStatus "byte list"

datatype hname = NField "byte list" | NAuthority | NMethod | NScheme | NPath | NProtocol | NStatus

definition check_value :: "bool \<Rightarrow> 'a \<Rightarrow> 'e \<Rightarrow> ('a, 'e) outcome" where
  "check_value b x e = (if b then Ok x else Err e)"

definition header_new :: "http_lib \<Rightarrow> byte list \<Rightarrow> byte list \<Rightarrow> (header, decoder_error) outcome" where
  "header_new L name value =
     (case name of
        [] \<Rightarrow> Err (NeedMore UnexpectedEndOfStream)
      | c # rest \<Rightarrow>
          if c = of_char CHR '':'' then
            if rest = bytes_of ''authority'' then check_value (hl_utf8 L value) (HAuthority value) InvalidUtf8
            else if rest = bytes_of ''method'' then check_value (hl_method L value) (HMethod value) InvalidUtf8
            else if rest = bytes_of ''scheme'' then check_value (hl_utf8 L value) (HScheme value) InvalidUtf8
            else if rest = bytes_of ''path'' then check_value (hl_utf8 L value) (HPath value) InvalidUtf8
            else if rest = bytes_of ''protocol'' then check_value (hl_utf8 L value) (HProtocol value) InvalidUtf8
            else if rest = bytes_of ''status'' then check_value (hl_status L value) (HStatus value) InvalidUtf8
            else Err InvalidPseudoheader
          else if \<not> hl_name L name then Err InvalidUtf8
          else check_value (hl_value L value) (HField name value False) InvalidUtf8)"

fun header_len :: "header \<Rightarrow> nat" where
  "header_len (HField name value _) = 32 + length name + length value"
| "header_len (HAuthority v) = 32 + 10 + length v"
| "header_len (HMethod v) = 32 + 7 + length v"
| "header_len (HScheme v) = 32 + 7 + length v"
| "header_len (HPath v) = 32 + 5 + length v"
| "header_len (HProtocol v) = 32 + 9 + length v"
| "header_len (HStatus _) = 32 + 7 + 3"

fun header_name :: "header \<Rightarrow> hname" where
  "header_name (HField name _ _) = NField name"
| "header_name (HAuthority _) = NAuthority"
| "header_name (HMethod _) = NMethod"
| "header_name (HScheme _) = NScheme"
| "header_name (HPath _) = NPath"
| "header_name (HProtocol _) = NProtocol"
| "header_name (HStatus _) = NStatus"

fun value_slice :: "header \<Rightarrow> byte list" where
  "value_slice (HField _ value _) = value"
| "value_slice (HAuthority v) = v"
| "value_slice (HMethod v) = v"
| "value_slice (HScheme v) = v"
| "value_slice (HPath v) = v"
| "value_slice (HProtocol v) = v"
| "value_slice (HStatus v) = v"

fun value_eq :: "header \<Rightarrow> header \<Rightarrow> bool" where
  "value_eq (HField _ a _) (HField _ b _) = (a = b)"
| "value_eq (HAuthority a) (HAuthority b) = (a = b)"
| "value_eq (HMethod a) (HMethod b) = (a = b)"
| "value_eq (HScheme a) (HScheme b) = (a = b)"
| "value_eq (HPath a) (HPath b) = (a = b)"
| "value_eq (HProtocol a) (HProtocol b) = (a = b)"
| "value_eq (HStatus a) (HStatus b) = (a = b)"
| "value_eq _ _ = False"

fun is_sensitive :: "header \<Rightarrow> bool" where
  "is_sensitive (HField _ _ s) = s"
| "is_sensitive _ = False"

definition skip_names :: "byte list list" where
  "skip_names = map bytes_of
     [''age'', ''authorization'', ''content-length'', ''etag'', ''if-modified-since'', ''if-none-match'',
      ''location'', ''cookie'', ''set-cookie'']"

fun skip_value_index :: "header \<Rightarrow> bool" where
  "skip_value_index (HField name _ _) = (name \<in> set skip_names)"
| "skip_value_index (HPath _) = True"
| "skip_value_index _ = False"

fun into_entry :: "http_lib \<Rightarrow> hname \<Rightarrow> byte list \<Rightarrow> (header, decoder_error) outcome" where
  "into_entry L (NField name) value = check_value (hl_value L value) (HField name value False) InvalidUtf8"
| "into_entry L NAuthority value = check_value (hl_utf8 L value) (HAuthority value) InvalidUtf8"
| "into_entry L NMethod value = check_value (hl_method L value) (HMethod value) InvalidUtf8"
| "into_entry L NScheme value = check_value (hl_utf8 L value) (HScheme value) InvalidUtf8"
| "into_entry L NPath value = check_value (hl_utf8 L value) (HPath value) InvalidUtf8"
| "into_entry L NProtocol value = check_value (hl_utf8 L value) (HProtocol value) InvalidUtf8"
| "into_entry L NStatus value = check_value (hl_status L value) (HStatus value) InvalidStatusCode"

fun name_slice :: "hname \<Rightarrow> byte list" where
  "name_slice (NField name) = name"
| "name_slice NAuthority = bytes_of '':authority''"
| "name_slice NMethod = bytes_of '':method''"
| "name_slice NScheme = bytes_of '':scheme''"
| "name_slice NPath = bytes_of '':path''"
| "name_slice NProtocol = bytes_of '':protocol''"
| "name_slice NStatus = bytes_of '':status''"

section \<open>The static table\<close>

definition static_pseudo :: "header list" where
  "static_pseudo =
     [HAuthority [], HMethod (bytes_of ''GET''), HMethod (bytes_of ''POST''), HPath (bytes_of ''/''),
      HPath (bytes_of ''/index.html''), HScheme (bytes_of ''http''), HScheme (bytes_of ''https''),
      HStatus (bytes_of ''200''), HStatus (bytes_of ''204''), HStatus (bytes_of ''206''),
      HStatus (bytes_of ''304''), HStatus (bytes_of ''400''), HStatus (bytes_of ''404''),
      HStatus (bytes_of ''500'')]"

definition static_fields :: "(string \<times> string) list" where
  "static_fields =
     [(''accept-charset'', ''''), (''accept-encoding'', ''gzip, deflate''),
      (''accept-language'', ''''), (''accept-ranges'', ''''), (''accept'', ''''),
      (''access-control-allow-origin'', ''''), (''age'', ''''), (''allow'', ''''),
      (''authorization'', ''''), (''cache-control'', ''''), (''content-disposition'', ''''),
      (''content-encoding'', ''''), (''content-language'', ''''), (''content-length'', ''''),
      (''content-location'', ''''), (''content-range'', ''''), (''content-type'', ''''),
      (''cookie'', ''''), (''date'', ''''), (''etag'', ''''), (''expect'', ''''),
      (''expires'', ''''), (''from'', ''''), (''host'', ''''), (''if-match'', ''''),
      (''if-modified-since'', ''''), (''if-none-match'', ''''), (''if-range'', ''''),
      (''if-unmodified-since'', ''''), (''last-modified'', ''''), (''link'', ''''),
      (''location'', ''''), (''max-forwards'', ''''), (''proxy-authenticate'', ''''),
      (''proxy-authorization'', ''''), (''range'', ''''), (''referer'', ''''), (''refresh'', ''''),
      (''retry-after'', ''''), (''server'', ''''), (''set-cookie'', ''''),
      (''strict-transport-security'', ''''), (''transfer-encoding'', ''''), (''user-agent'', ''''),
      (''vary'', ''''), (''via'', ''''), (''www-authenticate'', '''')]"

definition STATIC_TABLE :: "header list" where
  "STATIC_TABLE = static_pseudo @ map (\<lambda>(n, v). HField (bytes_of n) (bytes_of v) False) static_fields"

definition get_static :: "nat \<Rightarrow> (header, 'e) outcome" where
  "get_static idx = (if 1 \<le> idx \<and> idx \<le> 61 then Ok (STATIC_TABLE ! (idx - 1)) else Panic)"

section \<open>Lemmas\<close>

lemma length_STATIC_TABLE [simp]: "length STATIC_TABLE = 61"
  by (simp add: STATIC_TABLE_def static_pseudo_def static_fields_def)

lemma header_len_pos: "32 \<le> header_len h"
  by (cases h) simp_all

text \<open>A header that the \<open>http\<close> crate would hand out: its parts are valid.\<close>

fun header_ok :: "http_lib \<Rightarrow> header \<Rightarrow> bool" where
  "header_ok L (HField name value _) = (name \<noteq> [] \<and> hd name \<noteq> of_char CHR '':'' \<and> hl_name L name \<and> hl_value L value)"
| "header_ok L (HAuthority v) = hl_utf8 L v"
| "header_ok L (HMethod v) = hl_method L v"
| "header_ok L (HScheme v) = hl_utf8 L v"
| "header_ok L (HPath v) = hl_utf8 L v"
| "header_ok L (HProtocol v) = hl_utf8 L v"
| "header_ok L (HStatus v) = (hl_status L v \<and> length v = 3)"

text \<open>What the wire keeps of a header: everything but the sensitivity mark.\<close>

fun plain :: "header \<Rightarrow> header" where
  "plain (HField name value _) = HField name value False"
| "plain h = h"

lemma header_new_slices:
  assumes "header_ok L h"
  shows "header_new L (name_slice (header_name h)) (value_slice h) = Ok (plain h)"
proof (cases h)
  case (HField name v s)
  with assms show ?thesis by (cases name) (simp_all add: header_new_def check_value_def)
qed (use assms in \<open>simp_all add: header_new_def check_value_def bytes_of_def\<close>)

lemma into_entry_slice: "header_ok L h \<Longrightarrow> into_entry L (header_name h) (value_slice h) = Ok (plain h)"
  by (cases h) (simp_all add: check_value_def)

lemma header_eq_iff: "plain g = plain h \<longleftrightarrow> header_name g = header_name h \<and> value_slice g = value_slice h"
  by (cases g; cases h) simp_all

lemma value_eq_slices: "header_name g = header_name h \<Longrightarrow> value_eq g h \<longleftrightarrow> value_slice g = value_slice h"
  by (cases g; cases h) simp_all

lemma header_len_plain [simp]: "header_len (plain h) = header_len h"
  by (cases h) simp_all

end
