(* ===== verification/Hpack_Decoder.thy ===== *)
theory Hpack_Decoder
  imports Hpack_Header
begin

text \<open>
  \<open>hpack/decoder.rs\<close>: the dynamic table and the header block decoder. The input is a cursor into a
  byte buffer as in the source: \<open>take\<close> removes what has been decoded, so that after a partial
  block the rest can be decoded once more has arrived. The Huffman decoder is a function of the
  encoded bytes, the parameter \<open>hdec\<close>, \<open>None\<close> being its error.
\<close>

section \<open>The dynamic table\<close>

record dtable =
  dt_entries :: "header list" \<comment> \<open>newest first\<close>
  dt_size :: nat
  dt_max_size :: nat

definition table_new :: "nat \<Rightarrow> dtable" where
  "table_new max_size = \<lparr>dt_entries = [], dt_size = 0, dt_max_size = max_size\<rparr>"

definition table_get :: "dtable \<Rightarrow> nat \<Rightarrow> (header, decoder_error) outcome" where
  "table_get t index =
     (if index = 0 then Err InvalidTableIndex
      else if index \<le> 61 then get_static index
      else if index - 62 < length (dt_entries t) then Ok (dt_entries t ! (index - 62))
      else Err InvalidTableIndex)"

text \<open>Both loops pop the oldest entry; the subtraction is overflow-checked.\<close>

function table_reserve :: "dtable \<Rightarrow> nat \<Rightarrow> (dtable, 'e) outcome" where
  "table_reserve t sz =
     (if dt_size t + sz > dt_max_size t then
        if dt_entries t = [] then Ok t
        else if dt_size t < header_len (last (dt_entries t)) then Panic
        else table_reserve (t\<lparr>dt_entries := butlast (dt_entries t),
                             dt_size := dt_size t - header_len (last (dt_entries t))\<rparr>) sz
      else Ok t)"
  by pat_completeness auto
termination
  by (relation "measure (\<lambda>(t, sz). length (dt_entries t))") auto

declare table_reserve.simps [simp del]

function table_consolidate :: "dtable \<Rightarrow> (dtable, 'e) outcome" where
  "table_consolidate t =
     (if dt_size t > dt_max_size t then
        if dt_entries t = [] then Panic
        else if dt_size t < header_len (last (dt_entries t)) then Panic
        else table_consolidate (t\<lparr>dt_entries := butlast (dt_entries t),
                                 dt_size := dt_size t - header_len (last (dt_entries t))\<rparr>)
      else Ok t)"
  by pat_completeness auto
termination
  by (relation "measure (\<lambda>t. length (dt_entries t))") auto

declare table_consolidate.simps [simp del]

definition table_insert :: "dtable \<Rightarrow> header \<Rightarrow> (dtable, 'e) outcome" where
  "table_insert t entry =
     and_then (table_reserve t (header_len entry))
       (\<lambda>t. if dt_size t + header_len entry \<le> dt_max_size t
            then Ok (t\<lparr>dt_size := dt_size t + header_len entry, dt_entries := entry # dt_entries t\<rparr>)
            else Ok t)"

definition table_set_max_size :: "dtable \<Rightarrow> nat \<Rightarrow> (dtable, 'e) outcome" where
  "table_set_max_size t sz = table_consolidate (t\<lparr>dt_max_size := sz\<rparr>)"

section \<open>The cursor\<close>

record cursor =
  cu_buf :: "byte list"
  cu_pos :: nat

definition cu_rest :: "cursor \<Rightarrow> byte list" where
  "cu_rest c = drop (cu_pos c) (cu_buf c)"

text \<open>\<open>advance\<close>; its callers have checked that the bytes are there.\<close>

definition cu_advance :: "cursor \<Rightarrow> nat \<Rightarrow> cursor" where
  "cu_advance c n = c\<lparr>cu_pos := cu_pos c + n\<rparr>"

definition peek_u8 :: "cursor \<Rightarrow> byte option" where
  "peek_u8 c = (case cu_rest c of [] \<Rightarrow> None | b # _ \<Rightarrow> Some b)"

text \<open>\<open>split_to\<close> panics past the end.\<close>

definition cu_take :: "cursor \<Rightarrow> nat \<Rightarrow> (byte list \<times> cursor, 'e) outcome" where
  "cu_take c n =
     (if cu_pos c + n > length (cu_buf c) then Panic
      else Ok (take n (cu_rest c), \<lparr>cu_buf = drop (cu_pos c + n) (cu_buf c), cu_pos = 0\<rparr>))"

definition decode_int_at :: "cursor \<Rightarrow> nat \<Rightarrow> (nat \<times> cursor, decoder_error) outcome" where
  "decode_int_at c p =
     map_out (\<lambda>(v, rest). (v, c\<lparr>cu_pos := length (cu_buf c) - length rest\<rparr>)) (decode_int (cu_rest c) p)"

section \<open>Strings\<close>

record string_marker =
  sm_offset :: nat
  sm_len :: nat
  sm_string :: "byte list option"

type_synonym huff_decode = "byte list \<Rightarrow> byte list option"

definition try_decode_string ::
  "huff_decode \<Rightarrow> cursor \<Rightarrow> (string_marker \<times> cursor, decoder_error) outcome" where
  "try_decode_string hdec c =
     (case peek_u8 c of
        None \<Rightarrow> Err (NeedMore UnexpectedEndOfStream)
      | Some h \<Rightarrow>
          let huff = (h AND 128 = 128) in
          and_then (decode_int_at c 7)
            (\<lambda>(len, c').
               if len > length (cu_rest c') then Err (NeedMore StringUnderflow)
               else let offset = cu_pos c' - cu_pos c in
                 if huff then
                   (case hdec (take len (cu_rest c')) of
                      None \<Rightarrow> Err InvalidHuffmanCode
                    | Some s \<Rightarrow> Ok (\<lparr>sm_offset = offset, sm_len = len, sm_string = Some s\<rparr>, cu_advance c' len))
                 else Ok (\<lparr>sm_offset = offset, sm_len = len, sm_string = None\<rparr>, cu_advance c' len)))"

definition marker_consume :: "string_marker \<Rightarrow> cursor \<Rightarrow> (byte list \<times> cursor, 'e) outcome" where
  "marker_consume m c =
     (let c = cu_advance c (sm_offset m) in
      case sm_string m of
        Some s \<Rightarrow> Ok (s, cu_advance c (sm_len m))
      | None \<Rightarrow> cu_take c (sm_len m))"

definition decode_string :: "huff_decode \<Rightarrow> cursor \<Rightarrow> (byte list \<times> cursor, decoder_error) outcome" where
  "decode_string hdec c =
     and_then (try_decode_string hdec c) (\<lambda>(m, c'). marker_consume m (c'\<lparr>cu_pos := cu_pos c\<rparr>))"

section \<open>Representations\<close>

datatype representation =
    Indexed | LiteralWithIndexing | LiteralWithoutIndexing | LiteralNeverIndexed | SizeUpdate

definition representation_load :: "byte \<Rightarrow> (representation, decoder_error) outcome" where
  "representation_load b =
     (if b AND 128 = 128 then Ok Indexed
      else if b AND 64 = 64 then Ok LiteralWithIndexing
      else if b AND 240 = 0 then Ok LiteralWithoutIndexing
      else if b AND 240 = 16 then Ok LiteralNeverIndexed
      else if b AND 224 = 32 then Ok SizeUpdate
      else Err InvalidRepresentation)"

section \<open>The decoder\<close>

record decoder =
  de_max_size_update :: "nat option"
  de_last_max_update :: nat
  de_table :: dtable

definition decoder_new :: "nat \<Rightarrow> decoder" where
  "decoder_new sz = \<lparr>de_max_size_update = None, de_last_max_update = sz, de_table = table_new sz\<rparr>"

definition queue_size_update :: "decoder \<Rightarrow> nat \<Rightarrow> decoder" where
  "queue_size_update d sz =
     d\<lparr>de_max_size_update := Some (case de_max_size_update d of Some v \<Rightarrow> max v sz | None \<Rightarrow> sz)\<rparr>"

definition decode_indexed :: "decoder \<Rightarrow> cursor \<Rightarrow> (header \<times> cursor, decoder_error) outcome" where
  "decode_indexed d c =
     and_then (decode_int_at c 7) (\<lambda>(index, c'). map_out (\<lambda>h. (h, c')) (table_get (de_table d) index))"

text \<open>The two strings of a literal with a new name: both are located first, then taken.\<close>

definition decode_pair ::
  "huff_decode \<Rightarrow> cursor \<Rightarrow> (byte list \<times> byte list \<times> cursor, decoder_error) outcome" where
  "decode_pair hdec c1 =
     and_then (try_decode_string hdec c1)
       (\<lambda>(name_marker, c2). and_then (try_decode_string hdec c2)
         (\<lambda>(value_marker, c3). and_then (marker_consume name_marker (c3\<lparr>cu_pos := cu_pos c1\<rparr>))
           (\<lambda>(name, c4). and_then (marker_consume value_marker c4)
             (\<lambda>(val, c5). Ok (name, val, c5)))))"

text \<open>A literal: the cursor is returned in every case, because the strings are taken off the buffer
  before the header is validated.\<close>

definition decode_literal ::
  "http_lib \<Rightarrow> huff_decode \<Rightarrow> decoder \<Rightarrow> cursor \<Rightarrow> bool \<Rightarrow> cursor \<times> (header, decoder_error) outcome" where
  "decode_literal L hdec d c index =
     (case decode_int_at c (if index then 6 else 4) of
        Err e \<Rightarrow> (c, Err e)
      | Panic \<Rightarrow> (c, Panic)
      | Ok (table_idx, c1) \<Rightarrow>
          if table_idx = 0 then
            (case decode_pair hdec c1 of
               Ok (name, val, c5) \<Rightarrow> (c5, header_new L name val)
             | Err e \<Rightarrow> (c1, Err e)
             | Panic \<Rightarrow> (c1, Panic))
          else
            (case table_get (de_table d) table_idx of
               Err e \<Rightarrow> (c1, Err e)
             | Panic \<Rightarrow> (c1, Panic)
             | Ok e \<Rightarrow>
                 (case decode_string hdec c1 of
                    Err e \<Rightarrow> (c1, Err e)
                  | Panic \<Rightarrow> (c1, Panic)
                  | Ok (val, c2) \<Rightarrow> (c2, into_entry L (header_name e) val))))"

definition process_size_update :: "decoder \<Rightarrow> cursor \<Rightarrow> (decoder \<times> cursor, decoder_error) outcome" where
  "process_size_update d c =
     and_then (decode_int_at c 5)
       (\<lambda>(new_size, c').
          if new_size > de_last_max_update d then Err InvalidMaxDynamicSize
          else map_out (\<lambda>t. (d\<lparr>de_table := t\<rparr>, c')) (table_set_max_size (de_table d) new_size))"

text \<open>\<open>consume\<close>: drop what has been decoded.\<close>

definition cu_consume :: "cursor \<Rightarrow> cursor" where
  "cu_consume c = \<lparr>cu_buf = drop (cu_pos c) (cu_buf c), cu_pos = 0\<rparr>"

text \<open>One iteration of the loop of \<open>decode\<close>: the header it yields, if any.\<close>

definition decode_step ::
  "http_lib \<Rightarrow> huff_decode \<Rightarrow> decoder \<Rightarrow> bool \<Rightarrow> cursor \<Rightarrow> byte \<Rightarrow>
     cursor \<times> (decoder \<times> bool \<times> header option, decoder_error) outcome" where
  "decode_step L hdec d can_resize c ty =
     (case representation_load ty of
        Err e \<Rightarrow> (c, Err e)
      | Panic \<Rightarrow> (c, Panic)
      | Ok Indexed \<Rightarrow>
          (case decode_indexed d c of
             Ok (entry, c') \<Rightarrow> (cu_consume c', Ok (d, False, Some entry))
           | Err e \<Rightarrow> (c, Err e) | Panic \<Rightarrow> (c, Panic))
      | Ok LiteralWithIndexing \<Rightarrow>
          (case decode_literal L hdec d c True of
             (c', Ok entry) \<Rightarrow>
               (case table_insert (de_table d) entry of
                  Ok t \<Rightarrow> (cu_consume c', Ok (d\<lparr>de_table := t\<rparr>, False, Some entry))
                | Err e \<Rightarrow> (c', Err e) | Panic \<Rightarrow> (c', Panic))
           | (c', Err e) \<Rightarrow> (c', Err e) | (c', Panic) \<Rightarrow> (c', Panic))
      | Ok LiteralWithoutIndexing \<Rightarrow>
          (case decode_literal L hdec d c False of
             (c', Ok entry) \<Rightarrow> (cu_consume c', Ok (d, False, Some entry))
           | (c', Err e) \<Rightarrow> (c', Err e) | (c', Panic) \<Rightarrow> (c', Panic))
      | Ok LiteralNeverIndexed \<Rightarrow>
          (case decode_literal L hdec d c False of
             (c', Ok entry) \<Rightarrow> (cu_consume c', Ok (d, False, Some entry))
           | (c', Err e) \<Rightarrow> (c', Err e) | (c', Panic) \<Rightarrow> (c', Panic))
      | Ok SizeUpdate \<Rightarrow>
          if \<not> can_resize then (c, Err InvalidMaxDynamicSize)
          else (case process_size_update d c of
             Ok (d', c') \<Rightarrow> (cu_consume c', Ok (d', can_resize, None))
           | Err e \<Rightarrow> (c, Err e) | Panic \<Rightarrow> (c, Panic)))"

section \<open>A parser on byte lists\<close>

text \<open>
  The reference the cursor code is compared with: each function returns the input that is left. It
  has no positions, markers or second passes over the strings.
\<close>

definition parse_string :: "huff_decode \<Rightarrow> byte list \<Rightarrow> (byte list \<times> byte list, decoder_error) outcome" where
  "parse_string hdec bs =
     (case bs of
        [] \<Rightarrow> Err (NeedMore UnexpectedEndOfStream)
      | b # _ \<Rightarrow>
          and_then (decode_int bs 7)
            (\<lambda>(len, rest).
               if len > length rest then Err (NeedMore StringUnderflow)
               else if b AND 128 = 128 then
                 (case hdec (take len rest) of
                    None \<Rightarrow> Err InvalidHuffmanCode
                  | Some str \<Rightarrow> Ok (str, drop len rest))
               else Ok (take len rest, drop len rest)))"

definition parse_pair ::
  "huff_decode \<Rightarrow> byte list \<Rightarrow> (byte list \<times> byte list \<times> byte list, decoder_error) outcome" where
  "parse_pair hdec bs =
     and_then (parse_string hdec bs) (\<lambda>(n, r). and_then (parse_string hdec r) (\<lambda>(v, r'). Ok (n, v, r')))"

definition parse_literal ::
  "http_lib \<Rightarrow> huff_decode \<Rightarrow> decoder \<Rightarrow> bool \<Rightarrow> byte list \<Rightarrow> (header \<times> byte list, decoder_error) outcome" where
  "parse_literal L hdec d index bs =
     and_then (decode_int bs (if index then 6 else 4))
       (\<lambda>(i, r1).
          if i = 0 then
            and_then (parse_pair hdec r1) (\<lambda>(n, v, r3). map_out (\<lambda>h. (h, r3)) (header_new L n v))
          else
            and_then (table_get (de_table d) i) (\<lambda>e.
            and_then (parse_string hdec r1) (\<lambda>(v, r2).
            map_out (\<lambda>h. (h, r2)) (into_entry L (header_name e) v))))"

definition parse_step ::
  "http_lib \<Rightarrow> huff_decode \<Rightarrow> decoder \<Rightarrow> bool \<Rightarrow> byte list \<Rightarrow>
     (byte list \<times> decoder \<times> bool \<times> header option, decoder_error) outcome" where
  "parse_step L hdec d can_resize bs =
     and_then (representation_load (hd bs))
       (\<lambda>rep. case rep of
          Indexed \<Rightarrow>
            and_then (decode_int bs 7) (\<lambda>(i, rest).
            map_out (\<lambda>h. (rest, d, False, Some h)) (table_get (de_table d) i))
        | LiteralWithIndexing \<Rightarrow>
            and_then (parse_literal L hdec d True bs) (\<lambda>(h, rest).
            map_out (\<lambda>t. (rest, d\<lparr>de_table := t\<rparr>, False, Some h)) (table_insert (de_table d) h))
        | SizeUpdate \<Rightarrow>
            if can_resize then
              and_then (decode_int bs 5) (\<lambda>(n, rest).
              if n > de_last_max_update d then Err InvalidMaxDynamicSize
              else map_out (\<lambda>t. (rest, d\<lparr>de_table := t\<rparr>, True, None)) (table_set_max_size (de_table d) n))
            else Err InvalidMaxDynamicSize
        | _ \<Rightarrow>
            map_out (\<lambda>(h, rest). (rest, d, False, Some h)) (parse_literal L hdec d False bs))"

subsection \<open>The cursor code implements it\<close>

definition cur_ok :: "cursor \<Rightarrow> bool" where
  "cur_ok c \<longleftrightarrow> cu_pos c \<le> length (cu_buf c)"

lemma cu_rest_pos: "cu_rest (c\<lparr>cu_pos := n\<rparr>) = drop n (cu_buf c)"
  by (simp add: cu_rest_def)

lemma decode_int_at_rest:
  "map_out (\<lambda>(v, c'). (v, cu_rest c')) (decode_int_at c p) = decode_int (cu_rest c) p"
proof (cases "decode_int (cu_rest c) p")
  case (Ok r)
  obtain v rest where r: "r = (v, rest)" by (cases r)
  obtain pre where "cu_rest c = pre @ rest"
    using decode_int_suffix[OF Ok[unfolded r]] by blast
  moreover have "cu_buf c = take (cu_pos c) (cu_buf c) @ cu_rest c" by (simp add: cu_rest_def)
  ultimately have "cu_buf c = (take (cu_pos c) (cu_buf c) @ pre) @ rest" by simp
  then have "drop (length (cu_buf c) - length rest) (cu_buf c) = rest"
    by (metis append_eq_conv_conj diff_add_inverse2 length_append)
  then show ?thesis by (simp add: decode_int_at_def Ok r cu_rest_pos)
qed (auto simp: decode_int_at_def)

lemma decode_int_at_Ok:
  assumes "decode_int_at c p = Ok (v, c')" and "cur_ok c"
  shows "decode_int (cu_rest c) p = Ok (v, cu_rest c')" and "cu_buf c' = cu_buf c"
    and "cu_pos c < cu_pos c'" and "cur_ok c'"
proof -
  show d: "decode_int (cu_rest c) p = Ok (v, cu_rest c')"
    using decode_int_at_rest[of c p] assms(1) by simp
  show b: "cu_buf c' = cu_buf c" using assms(1) by (auto simp: decode_int_at_def outcome_simps)
  show "cur_ok c'" using assms(1) by (auto simp: decode_int_at_def outcome_simps cur_ok_def)
  have "length (cu_rest c') < length (cu_rest c)" using decode_int_append[OF d] by blast
  then show "cu_pos c < cu_pos c'" by (simp add: cu_rest_def b)
qed

lemma decode_int_at_Err:
  "decode_int_at c p = Err e \<longleftrightarrow> decode_int (cu_rest c) p = Err e"
  by (cases "decode_int (cu_rest c) p") (auto simp: decode_int_at_def)

lemma decode_int_at_no_panic: "decode_int_at c p \<noteq> Panic"
  using decode_int_no_panic[of "cu_rest c" p]
  by (cases "decode_int (cu_rest c) p") (auto simp: decode_int_at_def)

text \<open>A marker, consumed where the string began, gives the string and ends where it ended.\<close>

lemma try_decode_string_Ok:
  assumes "try_decode_string hdec c = Ok (m, c2)" and "cur_ok c"
  shows "cu_buf c2 = cu_buf c" and "cur_ok c2"
    and "cur_ok c0 \<Longrightarrow> cu_rest c0 = cu_rest c \<Longrightarrow>
      \<exists>str c1. (marker_consume m c0 :: (_, 'e) outcome) = Ok (str, c1) \<and> cur_ok c1 \<and> cu_rest c1 = cu_rest c2 \<and>
        parse_string hdec (cu_rest c) = Ok (str, cu_rest c2)"
proof -
  obtain h where h: "peek_u8 c = Some h"
    using assms(1) by (cases "peek_u8 c") (auto simp: try_decode_string_def)
  then obtain tl where tl: "cu_rest c = h # tl"
    by (auto simp: peek_u8_def split: list.splits)
  obtain len c' where i: "decode_int_at c 7 = Ok (len, c')"
    and k: "len \<le> length (cu_rest c')" and c2: "c2 = cu_advance c' len"
    and m: "sm_offset m = cu_pos c' - cu_pos c" "sm_len m = len"
    and str: "sm_string m = (if h AND 128 = 128 then hdec (take len (cu_rest c')) else None)"
      "h AND 128 = 128 \<Longrightarrow> hdec (take len (cu_rest c')) \<noteq> None"
    using assms(1) h
    by (auto simp: try_decode_string_def Let_def outcome_simps split: if_splits option.splits)
  note I = decode_int_at_Ok[OF i assms(2)]
  show "cu_buf c2 = cu_buf c" by (simp add: c2 cu_advance_def I(2))
  show "cur_ok c2" using k I(4) by (simp add: c2 cu_advance_def cur_ok_def cu_rest_def)
  have r2: "cu_rest c2 = drop len (cu_rest c')" by (simp add: c2 cu_advance_def cu_rest_def add.commute)
  have rc: "cu_rest c' = drop (sm_offset m) (cu_rest c)"
    using I(2,3) by (simp add: cu_rest_def m)
  show "\<exists>str c1. (marker_consume m c0 :: (_, 'e) outcome) = Ok (str, c1) \<and> cur_ok c1 \<and> cu_rest c1 = cu_rest c2 \<and>
        parse_string hdec (cu_rest c) = Ok (str, cu_rest c2)"
    if c0: "cur_ok c0" "cu_rest c0 = cu_rest c"
  proof -
    have l: "length (cu_rest c0) = length (cu_rest c)" using c0(2) by simp
    have "sm_offset m + len \<le> length (cu_rest c)"
      using k rc I(2,3,4) by (simp add: cur_ok_def cu_rest_def m)
    then have b: "cu_pos c0 + sm_offset m + len \<le> length (cu_buf c0)"
      using l c0(1) by (simp add: cu_rest_def cur_ok_def)
    have d: "drop (cu_pos c0 + sm_offset m) (cu_buf c0) = cu_rest c'"
      unfolding rc c0(2)[symmetric] by (simp add: cu_rest_def[of c0] add.commute)
    then have d2: "drop (cu_pos c0 + sm_offset m + len) (cu_buf c0) = cu_rest c2"
      unfolding r2 d[symmetric] by (simp add: add.commute)
    show ?thesis
      using b d d2 k str
      by (auto simp: marker_consume_def Let_def cu_advance_def cu_take_def cu_rest_def[of c0] m cur_ok_def
          parse_string_def tl I(1)[unfolded tl] r2 cu_rest_def[of "_\<lparr>cu_pos := _\<rparr>"] cu_rest_def[of "\<lparr>cu_buf = _, cu_pos = _\<rparr>"]
          split: option.splits)
  qed
qed

lemma try_decode_string_Err:
  assumes "try_decode_string hdec c = Err e" and "cur_ok c"
  shows "parse_string hdec (cu_rest c) = Err e"
proof (cases "cu_rest c")
  case (Cons b tl)
  then have p: "peek_u8 c = Some b" by (simp add: peek_u8_def)
  show ?thesis
  proof (cases "decode_int_at c 7")
    case (Ok r)
    obtain len c' where r: "r = (len, c')" by (cases r)
    show ?thesis
      using assms(1) decode_int_at_Ok(1)[OF Ok[unfolded r] assms(2)]
      by (auto simp: try_decode_string_def parse_string_def p Ok r Cons Let_def split: if_splits option.splits)
  next
    case (Err e')
    then show ?thesis using assms(1) Err[unfolded decode_int_at_Err]
      by (simp add: try_decode_string_def parse_string_def p Cons Let_def)
  qed (simp add: decode_int_at_no_panic)
qed (use assms in \<open>auto simp: try_decode_string_def peek_u8_def parse_string_def\<close>)

lemma try_decode_string_no_panic: "try_decode_string hdec c \<noteq> Panic"
  using decode_int_at_no_panic[of c 7]
  by (cases "decode_int_at c 7") (auto simp: try_decode_string_def Let_def split: option.splits prod.splits)

lemma decode_string_parse:
  assumes "cur_ok c"
  shows "parse_string hdec (cu_rest c) = map_out (\<lambda>(str, c'). (str, cu_rest c')) (decode_string hdec c)"
    and "decode_string hdec c = Ok (str, c') \<Longrightarrow> cur_ok c'"
proof -
  have "parse_string hdec (cu_rest c) = map_out (\<lambda>(str, c'). (str, cu_rest c')) (decode_string hdec c) \<and>
      (\<forall>str c'. decode_string hdec c = Ok (str, c') \<longrightarrow> cur_ok c')"
  proof (cases "try_decode_string hdec c")
    case (Ok r)
    obtain m c2 where r: "r = (m, c2)" by (cases r)
    note T = try_decode_string_Ok[OF Ok[unfolded r] assms]
    have "cur_ok (c2\<lparr>cu_pos := cu_pos c\<rparr>)" "cu_rest (c2\<lparr>cu_pos := cu_pos c\<rparr>) = cu_rest c"
      using assms T(1) by (simp_all add: cur_ok_def cu_rest_def)
    from T(3)[OF this] obtain str c1 where
      "(marker_consume m (c2\<lparr>cu_pos := cu_pos c\<rparr>) :: (_, decoder_error) outcome) = Ok (str, c1)"
      "cur_ok c1" "cu_rest c1 = cu_rest c2" "parse_string hdec (cu_rest c) = Ok (str, cu_rest c2)" by blast
    then show ?thesis by (auto simp: decode_string_def Ok r)
  qed (use try_decode_string_Err[OF _ assms] try_decode_string_no_panic in \<open>auto simp: decode_string_def\<close>)
  then show "parse_string hdec (cu_rest c) = map_out (\<lambda>(str, c'). (str, cu_rest c')) (decode_string hdec c)"
    and "decode_string hdec c = Ok (str, c') \<Longrightarrow> cur_ok c'" by auto
qed

lemma decode_pair_parse:
  assumes "cur_ok c"
  shows "parse_pair hdec (cu_rest c) = map_out (\<lambda>(n, v, c'). (n, v, cu_rest c')) (decode_pair hdec c) \<and>
      (\<forall>n v c'. decode_pair hdec c = Ok (n, v, c') \<longrightarrow> cur_ok c')"
proof (cases "try_decode_string hdec c")
  case (Ok r)
  obtain m c2 where r: "r = (m, c2)" by (cases r)
  note T = try_decode_string_Ok[OF Ok[unfolded r] assms]
  show ?thesis
  proof (cases "try_decode_string hdec c2")
    case (Ok r')
    obtain m' c3 where r': "r' = (m', c3)" by (cases r')
    note T' = try_decode_string_Ok[OF Ok[unfolded r'] T(2)]
    have "cur_ok (c3\<lparr>cu_pos := cu_pos c\<rparr>)" "cu_rest (c3\<lparr>cu_pos := cu_pos c\<rparr>) = cu_rest c"
      using assms T(1) T'(1) by (simp_all add: cur_ok_def cu_rest_def)
    from T(3)[OF this] obtain n c4 where
      n: "(marker_consume m (c3\<lparr>cu_pos := cu_pos c\<rparr>) :: (_, decoder_error) outcome) = Ok (n, c4)" "cur_ok c4"
        "cu_rest c4 = cu_rest c2" "parse_string hdec (cu_rest c) = Ok (n, cu_rest c2)" by blast
    from T'(3)[OF n(2,3)] obtain v c5 where
      v: "(marker_consume m' c4 :: (_, decoder_error) outcome) = Ok (v, c5)" "cur_ok c5"
        "cu_rest c5 = cu_rest c3" "parse_string hdec (cu_rest c2) = Ok (v, cu_rest c3)" by blast
    show ?thesis
      using n v by (auto simp: decode_pair_def parse_pair_def \<open>try_decode_string hdec c = Ok r\<close> r Ok r')
  next
    case (Err e)
    obtain n where "parse_string hdec (cu_rest c) = Ok (n, cu_rest c2)" using T(3)[OF assms refl] by blast
    then show ?thesis
      using try_decode_string_Err[OF Err T(2)] by (auto simp: decode_pair_def parse_pair_def Ok r Err)
  qed (simp add: try_decode_string_no_panic)
qed (use try_decode_string_Err[OF _ assms] try_decode_string_no_panic in \<open>auto simp: decode_pair_def parse_pair_def\<close>)

lemma decode_literal_parse:
  assumes "cur_ok c" and "decode_literal L hdec d c index = (c', r)"
  shows "parse_literal L hdec d index (cu_rest c) = map_out (\<lambda>h. (h, cu_rest c')) r"
    and "r = Ok h \<Longrightarrow> cur_ok c'"
proof -
  have "parse_literal L hdec d index (cu_rest c) = map_out (\<lambda>h. (h, cu_rest c')) r \<and> (\<forall>h. r = Ok h \<longrightarrow> cur_ok c')"
  proof (cases "decode_int_at c (if index then 6 else 4)")
    case (Ok q)
    obtain i c1 where q: "q = (i, c1)" by (cases q)
    note I = decode_int_at_Ok[OF Ok[unfolded q] assms(1)]
    show ?thesis
    proof (cases "i = 0")
      case True
      show ?thesis
        using assms(2) decode_pair_parse[OF I(4), of hdec]
        by (auto simp: decode_literal_def parse_literal_def Ok q I(1) True split: outcome.splits)
    next
      case False
      show ?thesis
      proof (cases "table_get (de_table d) i")
        case e: (Ok e)
        show ?thesis
          using assms(2) decode_string_parse[OF I(4), of hdec] False
          by (cases "decode_string hdec c1") (auto simp: decode_literal_def parse_literal_def Ok q I(1) e)
      next
        case e: (Err e)
        show ?thesis
          using assms(2) False by (auto simp: decode_literal_def parse_literal_def Ok q I(1) e)
      next
        case Panic
        show ?thesis
          using assms(2) False by (auto simp: decode_literal_def parse_literal_def Ok q I(1) Panic)
      qed
    qed
  next
    case (Err e)
    then show ?thesis using assms(2) Err[unfolded decode_int_at_Err]
      by (auto simp: decode_literal_def parse_literal_def)
  qed (simp add: decode_int_at_no_panic)
  then show "parse_literal L hdec d index (cu_rest c) = map_out (\<lambda>h. (h, cu_rest c')) r"
    and "r = Ok h \<Longrightarrow> cur_ok c'" by auto
qed

lemma cu_consume_rest: "cu_consume c = \<lparr>cu_buf = cu_rest c, cu_pos = 0\<rparr>"
  by (simp add: cu_consume_def cu_rest_def)

lemma start_cursor [simp]: "cur_ok \<lparr>cu_buf = bs, cu_pos = 0\<rparr>" "cu_rest \<lparr>cu_buf = bs, cu_pos = 0\<rparr> = bs"
  by (simp_all add: cur_ok_def cu_rest_def)

text \<open>Every field of the cursor code agrees with the reference parser, errors included.\<close>

lemma decode_step_parse:
  assumes "decode_step L hdec d can_resize \<lparr>cu_buf = bs, cu_pos = 0\<rparr> (hd bs) = (c', r)"
  shows "parse_step L hdec d can_resize bs = map_out (\<lambda>x. (cu_buf c', x)) r"
    and "r = Ok x \<Longrightarrow> cu_pos c' = 0"
proof -
  let ?c = "\<lparr>cu_buf = bs, cu_pos = 0\<rparr>"
  note int = decode_int_at_rest[of ?c, simplified]
  note lit = decode_literal_parse[of ?c L hdec d, simplified]
  have "parse_step L hdec d can_resize bs = map_out (\<lambda>x. (cu_buf c', x)) r \<and> (\<forall>x. r = Ok x \<longrightarrow> cu_pos c' = 0)"
  proof (cases "representation_load (hd bs)")
    case (Ok rep)
    show ?thesis
    proof (cases rep)
      case Indexed
      then show ?thesis
        using assms int[of 7, symmetric]
        by (cases "decode_int_at ?c 7")
          (auto simp: decode_step_def parse_step_def Ok decode_indexed_def cu_consume_rest outcome_simps
            split: outcome.splits)
    next
      case LiteralWithIndexing
      obtain c1 q where q: "decode_literal L hdec d ?c True = (c1, q)" by force
      show ?thesis
        using assms lit(1)[OF q] q
        by (cases q) (auto simp: decode_step_def parse_step_def Ok LiteralWithIndexing cu_consume_rest
            split: outcome.splits)
    next
      case LiteralWithoutIndexing
      obtain c1 q where q: "decode_literal L hdec d ?c False = (c1, q)" by force
      show ?thesis
        using assms lit(1)[OF q] q
        by (cases q) (auto simp: decode_step_def parse_step_def Ok LiteralWithoutIndexing cu_consume_rest)
    next
      case LiteralNeverIndexed
      obtain c1 q where q: "decode_literal L hdec d ?c False = (c1, q)" by force
      show ?thesis
        using assms lit(1)[OF q] q
        by (cases q) (auto simp: decode_step_def parse_step_def Ok LiteralNeverIndexed cu_consume_rest)
    next
      case SizeUpdate
      then show ?thesis
        using assms int[of 5, symmetric]
        by (cases "decode_int_at ?c 5")
          (auto simp: decode_step_def parse_step_def Ok process_size_update_def cu_consume_rest outcome_simps
            split: outcome.splits if_splits)
    qed
  qed (use assms in \<open>auto simp: decode_step_def parse_step_def\<close>)
  then show "parse_step L hdec d can_resize bs = map_out (\<lambda>x. (cu_buf c', x)) r"
    and "r = Ok x \<Longrightarrow> cu_pos c' = 0" by blast+
qed

subsection \<open>Every step consumes input, and more input does not change it\<close>

lemma parse_string_append:
  assumes "parse_string hdec bs = Ok (str, rest)"
  shows "length rest < length bs \<and> parse_string hdec (bs @ ys) = Ok (str, rest @ ys)"
proof -
  obtain b tl len r where b: "bs = b # tl" and i: "decode_int bs 7 = Ok (len, r)" and "len \<le> length r"
    and "rest = drop len r" and "if b AND 128 = 128 then hdec (take len r) = Some str else str = take len r"
    using assms by (auto simp: parse_string_def outcome_simps split: list.splits if_splits option.splits)
  then show ?thesis
    using decode_int_append[OF i, of ys] by (auto simp: parse_string_def)
qed

lemma parse_pair_append:
  assumes "parse_pair hdec bs = Ok (n, v, rest)"
  shows "length rest < length bs \<and> parse_pair hdec (bs @ ys) = Ok (n, v, rest @ ys)"
  using assms
  by (fastforce simp: parse_pair_def outcome_simps dest: parse_string_append[of _ _ _ _ ys])

lemma parse_literal_append:
  assumes "parse_literal L hdec d index bs = Ok (h, rest)"
  shows "length rest < length bs \<and> parse_literal L hdec d index (bs @ ys) = Ok (h, rest @ ys)"
proof -
  obtain i r1 where i: "decode_int bs (if index then 6 else 4) = Ok (i, r1)"
    and k: "if i = 0 then \<exists>n v. parse_pair hdec r1 = Ok (n, v, rest) \<and> header_new L n v = Ok h
      else \<exists>e v. table_get (de_table d) i = Ok e \<and> parse_string hdec r1 = Ok (v, rest) \<and>
        into_entry L (header_name e) v = Ok h"
    using assms by (fastforce simp: parse_literal_def outcome_simps split: if_splits)
  note I = decode_int_append[OF i, of ys]
  show ?thesis
  proof (cases "i = 0")
    case True
    with k obtain n v where "parse_pair hdec r1 = Ok (n, v, rest)" "header_new L n v = Ok h" by auto
    then show ?thesis using I True parse_pair_append[of hdec r1 n v rest ys] by (auto simp: parse_literal_def)
  next
    case False
    with k obtain e v where "table_get (de_table d) i = Ok e" "parse_string hdec r1 = Ok (v, rest)"
      "into_entry L (header_name e) v = Ok h" by auto
    then show ?thesis using I False parse_string_append[of hdec r1 v rest ys] by (auto simp: parse_literal_def)
  qed
qed

lemma parse_step_append:
  assumes "parse_step L hdec d can_resize bs = Ok (rest, x)" and "bs \<noteq> []"
  shows "length rest < length bs \<and> parse_step L hdec d can_resize (bs @ ys) = Ok (rest @ ys, x)"
proof -
  obtain rep where rep: "representation_load (hd bs) = Ok rep"
    using assms by (auto simp: parse_step_def outcome_simps)
  have hd: "hd (bs @ ys) = hd bs" using assms(2) by simp
  show ?thesis
    using assms(1) decode_int_append[of bs _ _ rest ys] parse_literal_append[of L hdec d _ bs _ rest ys]
    by (cases rep) (fastforce simp: parse_step_def rep hd outcome_simps split: if_splits)+
qed

section \<open>The decoding loop\<close>

lemma peek_start: "peek_u8 \<lparr>cu_buf = bs, cu_pos = 0\<rparr> = (if bs = [] then None else Some (hd bs))"
  by (cases bs) (auto simp: peek_u8_def)

text \<open>
  \<open>decode\<close>: the buffer is read from its start, and each iteration leaves the cursor there. The result
  has the decoder, the bytes left in the buffer, the headers passed to the callback and the outcome.
\<close>

function decode_loop ::
  "http_lib \<Rightarrow> huff_decode \<Rightarrow> decoder \<Rightarrow> bool \<Rightarrow> byte list \<Rightarrow>
     decoder \<times> byte list \<times> header list \<times> (unit, decoder_error) outcome" where
  "decode_loop L hdec d can_resize bs =
     (case peek_u8 \<lparr>cu_buf = bs, cu_pos = 0\<rparr> of
        None \<Rightarrow> (d, bs, [], Ok ())
      | Some ty \<Rightarrow>
          (case decode_step L hdec d can_resize \<lparr>cu_buf = bs, cu_pos = 0\<rparr> ty of
             (c', Ok (d', can_resize', h)) \<Rightarrow>
               (case decode_loop L hdec d' can_resize' (cu_buf c') of
                  (d'', left, hs, r) \<Rightarrow> (d'', left, (case h of Some h \<Rightarrow> h # hs | None \<Rightarrow> hs), r))
           | (c', Err e) \<Rightarrow> (d, cu_buf c', [], Err e)
           | (c', Panic) \<Rightarrow> (d, cu_buf c', [], Panic)))"
  by pat_completeness auto

termination
proof (relation "measure (\<lambda>(L, hdec, d, can_resize, bs). length bs)", goal_cases)
  case (2 L hdec d can_resize bs ty c' r x d' y can_resize' h)
  then have "parse_step L hdec d can_resize bs = Ok (cu_buf c', d', can_resize', h)" "bs \<noteq> []"
    using decode_step_parse(1)[of L hdec d can_resize bs c' r] by (auto simp: peek_start split: if_splits)
  then show ?case using parse_step_append by simp
qed simp

declare decode_loop.simps [simp del]

definition decode ::
  "http_lib \<Rightarrow> huff_decode \<Rightarrow> decoder \<Rightarrow> byte list \<Rightarrow>
     decoder \<times> byte list \<times> header list \<times> (unit, decoder_error) outcome" where
  "decode L hdec d src =
     decode_loop L hdec
       (case de_max_size_update d of
          Some sz \<Rightarrow> d\<lparr>de_max_size_update := None, de_last_max_update := sz\<rparr>
        | None \<Rightarrow> d) True src"

end
