(* ===== verification/Hpack_Decoder_Correct.thy ===== *)
theory Hpack_Decoder_Correct
  imports Hpack_Decoder
begin

text \<open>
  What the HPACK decoder guarantees: its table keeps exactly the newest entries that fit, it never
  panics, every byte sequence gives headers or an error, and a header block may be cut into
  frames anywhere.
\<close>

section \<open>The table keeps the newest entries that fit\<close>

text \<open>RFC 7541, section 4: the longest run of newest entries within the size.\<close>

primrec fit :: "nat \<Rightarrow> header list \<Rightarrow> header list" where
  "fit m [] = []"
| "fit m (h # hs) = (if header_len h \<le> m then h # fit (m - header_len h) hs else [])"

abbreviation tsize :: "header list \<Rightarrow> nat" where
  "tsize hs \<equiv> sum_list (map header_len hs)"

definition dt_ok :: "dtable \<Rightarrow> bool" where
  "dt_ok t \<longleftrightarrow> dt_size t = tsize (dt_entries t) \<and> dt_size t \<le> dt_max_size t"

lemma fit_all: "tsize hs \<le> m \<Longrightarrow> fit m hs = hs"
  by (induction hs arbitrary: m) auto

lemma fit_snoc: "m < tsize (hs @ [h]) \<Longrightarrow> fit m (hs @ [h]) = fit m hs"
  by (induction hs arbitrary: m) auto

lemma fit_butlast: "hs \<noteq> [] \<Longrightarrow> m < tsize hs \<Longrightarrow> fit m (butlast hs) = fit m hs"
  by (metis append_butlast_last_id fit_snoc)

lemma tsize_butlast: "hs \<noteq> [] \<Longrightarrow> tsize hs = tsize (butlast hs) + header_len (last hs)"
  by (cases hs rule: rev_cases) simp_all

lemma tsize_fit: "tsize (fit m hs) \<le> m"
proof (induction hs arbitrary: m)
  case (Cons h hs)
  have "tsize (fit (m - header_len h) hs) \<le> m - header_len h" by (rule Cons.IH)
  then show ?case by (auto simp: le_diff_conv2 add.commute)
qed simp

lemma fit_0: "fit 0 hs = []"
  using header_len_pos[of "hd hs"] by (cases hs) auto

lemma fit_take: "fit m hs = take (length (fit m hs)) hs"
  by (induction hs arbitrary: m) auto

lemma fit_maximal: "tsize (take n hs) \<le> m \<Longrightarrow> n \<le> length hs \<Longrightarrow> n \<le> length (fit m hs)"
proof (induction hs arbitrary: n m)
  case (Cons h hs)
  then show ?case by (cases n) auto
qed simp

definition with_entries :: "dtable \<Rightarrow> header list \<Rightarrow> dtable" where
  "with_entries t es = t\<lparr>dt_entries := es, dt_size := tsize es\<rparr>"

lemma dt_ok_with_fit: "dt_ok (with_entries t (fit (dt_max_size t) es))"
  by (simp add: dt_ok_def with_entries_def tsize_fit)

lemma table_reserve_fit:
  assumes "dt_size t = tsize (dt_entries t)"
  shows "(table_reserve t sz :: (dtable, 'e) outcome) =
    Ok (with_entries t (if dt_size t + sz \<le> dt_max_size t then dt_entries t else fit (dt_max_size t - sz) (dt_entries t)))"
  using assms
proof (induction t sz rule: table_reserve.induct)
  case (1 t sz)
  let ?es = "dt_entries t"
  let ?t = "t\<lparr>dt_entries := butlast ?es, dt_size := dt_size t - header_len (last ?es)\<rparr>"
  consider "dt_size t + sz \<le> dt_max_size t" | "dt_size t + sz > dt_max_size t" "?es = []"
    | "dt_size t + sz > dt_max_size t" "?es \<noteq> []" by linarith
  then show ?case
  proof cases
    case 3
    have s: "dt_size t = tsize (butlast ?es) + header_len (last ?es)"
      using 1(2) 3(2) tsize_butlast by simp
    have IH: "(table_reserve ?t sz :: (dtable, 'e) outcome) = Ok (with_entries ?t
        (if dt_size ?t + sz \<le> dt_max_size ?t then dt_entries ?t else fit (dt_max_size ?t - sz) (dt_entries ?t)))"
      using 1(1)[of] 3 s by simp
    have f: "fit (dt_max_size t - sz) (butlast ?es) = fit (dt_max_size t - sz) ?es" if "sz \<le> dt_max_size t"
      using fit_butlast[of ?es "dt_max_size t - sz"] 3 1(2) that by simp
    show ?thesis
    proof (cases "sz \<le> dt_max_size t")
      case True
      then have "(if dt_size ?t + sz \<le> dt_max_size ?t then dt_entries ?t else fit (dt_max_size ?t - sz) (dt_entries ?t))
          = fit (dt_max_size t - sz) ?es"
        using f fit_all[of "butlast ?es" "dt_max_size t - sz"] s by auto
      then show ?thesis
        using IH 3 s by (subst table_reserve.simps) (simp add: with_entries_def)
    next
      case False
      then show ?thesis using IH 3 s by (subst table_reserve.simps) (simp add: with_entries_def fit_0)
    qed
  qed (use 1 in \<open>simp_all add: table_reserve.simps[of t] with_entries_def\<close>)
qed

lemma table_consolidate_fit:
  assumes "dt_size t = tsize (dt_entries t)"
  shows "(table_consolidate t :: (dtable, 'e) outcome) = Ok (with_entries t (fit (dt_max_size t) (dt_entries t)))"
  using assms
proof (induction t rule: table_consolidate.induct)
  case (1 t)
  let ?es = "dt_entries t"
  show ?case
  proof (cases "dt_size t > dt_max_size t")
    case True
    then have ne: "?es \<noteq> []" using 1(2) by auto
    have s: "dt_size t = tsize (butlast ?es) + header_len (last ?es)"
      using 1(2) ne tsize_butlast by simp
    show ?thesis
      using 1(1) True ne s fit_butlast[OF ne] 1(2)
      by (subst table_consolidate.simps) (simp add: with_entries_def)
  next
    case False
    then show ?thesis using 1(2) by (simp add: table_consolidate.simps[of t] fit_all with_entries_def)
  qed
qed

lemma table_insert_fit:
  assumes "dt_ok t"
  shows "(table_insert t e :: (dtable, 'e) outcome) = Ok (with_entries t (fit (dt_max_size t) (e # dt_entries t)))"
proof -
  have f: "fit (dt_max_size t - header_len e) (dt_entries t) = dt_entries t"
    if "dt_size t + header_len e \<le> dt_max_size t"
    using fit_all that assms by (simp add: dt_ok_def)
  have b: "tsize (fit (dt_max_size t - header_len e) (dt_entries t)) \<le> dt_max_size t - header_len e"
    by (rule tsize_fit)
  show ?thesis
    using assms b f
    by (auto simp: table_insert_def table_reserve_fit dt_ok_def with_entries_def fit_0)
qed

lemma table_set_max_size_fit:
  assumes "dt_ok t"
  shows "(table_set_max_size t n :: (dtable, 'e) outcome) =
    Ok (with_entries (t\<lparr>dt_max_size := n\<rparr>) (fit n (dt_entries t)))"
  using assms by (simp add: table_set_max_size_def table_consolidate_fit dt_ok_def)

definition newest_fit :: "nat \<Rightarrow> header list \<Rightarrow> dtable \<Rightarrow> bool" where
  "newest_fit m es t \<longleftrightarrow> dt_ok t \<and> dt_max_size t = m \<and>
     (\<exists>k \<le> length es. dt_entries t = take k es \<and> (\<forall>n \<le> length es. tsize (take n es) \<le> m \<longrightarrow> n \<le> k))"

lemma newest_fit_fit: "dt_max_size t = m \<Longrightarrow> newest_fit m es (with_entries t (fit m es))"
  using dt_ok_with_fit[of t es] fit_take[of m es] fit_maximal[of _ es m]
  by (auto simp: newest_fit_def with_entries_def intro!: exI[of _ "length (fit m es)"])
    (metis length_take min.cobounded1)

text \<open>
  C25. The dynamic table evicts exactly what RFC 7541 says: inserting a header or changing the
  maximum size never panics and leaves the longest run of newest entries whose sizes (32 more than
  name and value) fit, the new header first; the size field is the sum of the entry sizes and is
  within the maximum. A header larger than the whole table empties it.
\<close>
theorem table_keeps_newest:
  assumes "dt_ok t"
  shows "(\<exists>t'. table_insert t e = (Ok t' :: (dtable, decoder_error) outcome) \<and>
       newest_fit (dt_max_size t) (e # dt_entries t) t') \<and>
     (\<exists>t'. table_set_max_size t m = (Ok t' :: (dtable, decoder_error) outcome) \<and>
       newest_fit m (dt_entries t) t')"
  using assms by (auto simp: table_insert_fit table_set_max_size_fit newest_fit_fit simp del: fit.simps)

theorem table_keeps_newest_witness:
  "dt_ok \<lparr>dt_entries = [HPath (bytes_of ''/a''), HMethod (bytes_of ''GET'')], dt_size = 81, dt_max_size = 100\<rparr> \<and>
   (\<exists>t'. table_insert \<lparr>dt_entries = [HPath (bytes_of ''/a''), HMethod (bytes_of ''GET'')], dt_size = 81, dt_max_size = 100\<rparr>
        (HAuthority (bytes_of ''x'')) = (Ok t' :: (dtable, decoder_error) outcome) \<and>
      newest_fit 100 [HAuthority (bytes_of ''x''), HPath (bytes_of ''/a''), HMethod (bytes_of ''GET'')] t')"
proof -
  have ok: "dt_ok \<lparr>dt_entries = [HPath (bytes_of ''/a''), HMethod (bytes_of ''GET'')], dt_size = 81, dt_max_size = 100\<rparr>"
    by (simp add: dt_ok_def bytes_of_def)
  then show ?thesis using table_keeps_newest[OF ok, of "HAuthority (bytes_of ''x'')"] by simp
qed

section \<open>No input makes the decoder panic\<close>

text \<open>What is relied on of the \<open>http\<close> crate: it accepts the entries of the static table, and a status has
  three digits.\<close>

definition lib_ok :: "http_lib \<Rightarrow> bool" where
  "lib_ok L \<longleftrightarrow> (\<forall>v. hl_status L v \<longrightarrow> length v = 3) \<and> (\<forall>h \<in> set STATIC_TABLE. header_ok L h)"

definition dec_ok :: "http_lib \<Rightarrow> decoder \<Rightarrow> bool" where
  "dec_ok L d \<longleftrightarrow> dt_ok (de_table d) \<and> (\<forall>h \<in> set (dt_entries (de_table d)). header_ok L h)"

lemma header_new_ok:
  assumes "lib_ok L" and "header_new L n v = Ok h"
  shows "header_ok L h"
  using assms
  by (auto simp: header_new_def check_value_def lib_ok_def split: list.splits if_splits)

lemma into_entry_ok:
  assumes "lib_ok L" and "header_ok L e" and "into_entry L (header_name e) v = Ok h"
  shows "header_ok L h"
  using assms by (cases e) (auto simp: check_value_def lib_ok_def split: if_splits)

lemma header_no_panic: "header_new L n v \<noteq> Panic" "into_entry L nm v \<noteq> Panic"
  by (auto simp: header_new_def check_value_def split: list.splits) (cases nm; auto simp: check_value_def split: if_splits)

lemma table_get_ok:
  assumes "lib_ok L" and "\<forall>h \<in> set (dt_entries t). header_ok L h" and "table_get t i = Ok h"
  shows "header_ok L h"
  using assms by (auto simp: table_get_def get_static_def lib_ok_def split: if_splits)

lemma table_get_no_panic: "table_get t i \<noteq> Panic"
  by (auto simp: table_get_def get_static_def)

lemma and_then_Panic_iff:
  "and_then m f = Panic \<longleftrightarrow> m = Panic \<or> (\<exists>x. m = Ok x \<and> f x = Panic)"
  by (cases m) auto

lemma parse_string_no_panic: "parse_string hdec bs \<noteq> Panic"
  by (auto simp: parse_string_def and_then_Panic_iff decode_int_no_panic split: list.splits option.splits)

lemma parse_literal_no_panic: "parse_literal L hdec d index bs \<noteq> Panic"
  by (auto simp: parse_literal_def parse_pair_def and_then_Panic_iff decode_int_no_panic parse_string_no_panic
      header_no_panic table_get_no_panic split: if_splits)

lemma parse_literal_ok:
  assumes "lib_ok L" and "dec_ok L d" and "parse_literal L hdec d index bs = Ok (h, rest)"
  shows "header_ok L h"
  using assms
  by (auto simp: parse_literal_def outcome_simps dec_ok_def split: if_splits
      intro: header_new_ok into_entry_ok table_get_ok)

lemma set_fit: "set (fit m hs) \<subseteq> set hs"
  by (metis fit_take set_take_subset)

text \<open>One field: the invariant is kept, the table limit stays within what the settings allow.\<close>

lemma parse_step_keeps:
  assumes "lib_ok L" and "dec_ok L d"
  shows "parse_step L hdec d can_resize bs \<noteq> Panic"
    and "parse_step L hdec d can_resize bs = Ok (rest, d', can', h) \<Longrightarrow>
      dec_ok L d' \<and> (\<forall>x. h = Some x \<longrightarrow> header_ok L x) \<and> de_last_max_update d' = de_last_max_update d \<and>
      dt_max_size (de_table d') \<le> max (dt_max_size (de_table d)) (de_last_max_update d)"
proof -
  have t: "dt_ok (de_table d)" "\<forall>h \<in> set (dt_entries (de_table d)). header_ok L h"
    using assms(2) by (auto simp: dec_ok_def)
  have [simp]: "representation_load b \<noteq> Panic" for b by (simp add: representation_load_def)
  show "parse_step L hdec d can_resize bs \<noteq> Panic"
    using t(1)
    by (auto simp: parse_step_def and_then_Panic_iff parse_literal_no_panic table_get_no_panic decode_int_no_panic
        table_insert_fit table_set_max_size_fit split: representation.splits)
  have ins: "dec_ok L (d\<lparr>de_table := with_entries (de_table d) (fit (dt_max_size (de_table d)) (x # dt_entries (de_table d)))\<rparr>)"
    if "header_ok L x" for x
    using t that dt_ok_with_fit[of "de_table d"] set_fit[of "dt_max_size (de_table d)" "x # dt_entries (de_table d)"]
    by (auto simp: dec_ok_def with_entries_def simp del: fit.simps)
  have res: "dec_ok L (d\<lparr>de_table := with_entries (de_table d\<lparr>dt_max_size := n\<rparr>) (fit n (dt_entries (de_table d)))\<rparr>)" for n
    using t dt_ok_with_fit[of "de_table d\<lparr>dt_max_size := n\<rparr>" "dt_entries (de_table d)"] set_fit[of n "dt_entries (de_table d)"]
    by (auto simp: dec_ok_def with_entries_def)
  show "dec_ok L d' \<and> (\<forall>x. h = Some x \<longrightarrow> header_ok L x) \<and> de_last_max_update d' = de_last_max_update d \<and>
      dt_max_size (de_table d') \<le> max (dt_max_size (de_table d)) (de_last_max_update d)"
    if p: "parse_step L hdec d can_resize bs = Ok (rest, d', can', h)"
  proof -
    obtain rep where rep: "representation_load (hd bs) = Ok rep"
      using p by (auto simp: parse_step_def outcome_simps)
    show ?thesis
      using p t ins res assms parse_literal_ok[OF assms] table_get_ok[OF assms(1) t(2)]
      by (cases rep)
        (auto simp: parse_step_def rep outcome_simps table_insert_fit table_set_max_size_fit with_entries_def
          simp del: fit.simps split: if_splits)
  qed
qed

section \<open>The loop in terms of single fields\<close>

definition yield :: "header option \<Rightarrow> header list \<Rightarrow> header list" where
  "yield h hs = (case h of Some x \<Rightarrow> x # hs | None \<Rightarrow> hs)"

lemma yield_append: "yield h (xs @ ys) = yield h xs @ ys"
  by (simp add: yield_def split: option.splits)

lemma decode_loop_Nil: "decode_loop L hdec d can_resize [] = (d, [], [], Ok ())"
  by (subst decode_loop.simps) (simp add: peek_start)

lemma decode_loop_Ok:
  assumes "parse_step L hdec d can_resize bs = Ok (rest, d', can', h)" and "bs \<noteq> []"
    and "decode_loop L hdec d' can' rest = (d'', left, hs, r)"
  shows "decode_loop L hdec d can_resize bs = (d'', left, yield h hs, r)"
proof -
  obtain c' q where q: "decode_step L hdec d can_resize \<lparr>cu_buf = bs, cu_pos = 0\<rparr> (hd bs) = (c', q)" by force
  then have "map_out (\<lambda>x. (cu_buf c', x)) q = Ok (rest, d', can', h)"
    using decode_step_parse(1)[OF q] assms(1) by simp
  then have "q = Ok (d', can', h)" "cu_buf c' = rest" by (auto simp: outcome_simps)
  then show ?thesis
    using q assms(2,3) by (subst decode_loop.simps) (simp add: peek_start yield_def)
qed

lemma decode_loop_fail:
  assumes "decode_step L hdec d can_resize \<lparr>cu_buf = bs, cu_pos = 0\<rparr> (hd bs) = (c', Err e)" and "bs \<noteq> []"
  shows "decode_loop L hdec d can_resize bs = (d, cu_buf c', [], Err e)"
  using assms by (subst decode_loop.simps) (simp add: peek_start)

lemma decode_loop_Err:
  assumes "parse_step L hdec d can_resize bs = Err e" and "bs \<noteq> []"
  shows "\<exists>c'. decode_step L hdec d can_resize \<lparr>cu_buf = bs, cu_pos = 0\<rparr> (hd bs) = (c', Err e) \<and>
    decode_loop L hdec d can_resize bs = (d, cu_buf c', [], Err e)"
proof -
  obtain c' q where q: "decode_step L hdec d can_resize \<lparr>cu_buf = bs, cu_pos = 0\<rparr> (hd bs) = (c', q)" by force
  then have "map_out (\<lambda>x. (cu_buf c', x)) q = Err e" using decode_step_parse(1)[OF q] assms(1) by simp
  then have "q = Err e" by simp
  then show ?thesis using decode_loop_fail q assms(2) by blast
qed

lemma decode_loop_safe:
  assumes "lib_ok L" and "dec_ok L d" and "decode_loop L hdec d can_resize src = (d', left, hs, r)"
  shows "r \<noteq> Panic \<and> dec_ok L d' \<and> (\<forall>h \<in> set hs. header_ok L h) \<and> (r = Ok () \<longrightarrow> left = []) \<and>
    dt_max_size (de_table d') \<le> max (dt_max_size (de_table d)) (de_last_max_update d) \<and>
    de_last_max_update d' = de_last_max_update d"
  using assms(2,3)
proof (induction "length src" arbitrary: d can_resize src hs rule: less_induct)
  case less
  show ?case
  proof (cases "src = []")
    case True
    then show ?thesis using less.prems by (auto simp: decode_loop_Nil)
  next
    case False
    note K = parse_step_keeps[OF assms(1) less.prems(1), of hdec can_resize src]
    show ?thesis
    proof (cases "parse_step L hdec d can_resize src")
      case (Ok x)
      obtain rest d1 can1 h where x: "x = (rest, d1, can1, h)" by (cases x)
      note k = K(2)[OF Ok[unfolded x]]
      obtain d2 l2 hs2 r2 where l: "decode_loop L hdec d1 can1 rest = (d2, l2, hs2, r2)" by (metis prod_cases4)
      have eq: "d2 = d'" "l2 = left" "hs = yield h hs2" "r2 = r"
        using decode_loop_Ok[OF Ok[unfolded x] False l] less.prems(2) by auto
      have "length rest < length src" using parse_step_append[OF Ok[unfolded x] False] by simp
      from less.hyps[OF this _ l[unfolded eq]] k eq show ?thesis
        by (auto simp: yield_def split: option.splits)
    next
      case (Err e)
      then show ?thesis using decode_loop_Err[OF Err False] less.prems by auto
    qed (use K(1) in simp)
  qed
qed

text \<open>
  C26. Every input is decoded safely: from a decoder whose table is consistent, \<open>decode\<close> ends on any
  bytes, with headers or an error, and never in a panic (a bad table index, a size subtraction or
  the \<open>panic!\<close> of \<open>consolidate\<close>). The table stays consistent, within the larger of the old
  limit and the limit last announced in the settings, and every header handed out is valid.
\<close>
theorem decode_safe:
  assumes "lib_ok L" and "dec_ok L d" and "decode L hdec d src = (d', left, hs, r)"
  shows "r \<noteq> Panic \<and> dec_ok L d' \<and> (\<forall>h \<in> set hs. header_ok L h) \<and> (r = Ok () \<longrightarrow> left = []) \<and>
    dt_max_size (de_table d') \<le> max (dt_max_size (de_table d)) (de_last_max_update d')"
proof -
  show ?thesis
  proof (cases "de_max_size_update d")
    case None
    then show ?thesis using decode_loop_safe[OF assms(1,2)] assms(3) by (auto simp: decode_def)
  next
    case (Some sz)
    let ?d = "d\<lparr>de_max_size_update := None, de_last_max_update := sz\<rparr>"
    have "dec_ok L ?d" using assms(2) by (simp add: dec_ok_def)
    then show ?thesis using decode_loop_safe[OF assms(1), of ?d] assms(3) Some by (auto simp: decode_def)
  qed
qed

text \<open>A concrete \<open>http\<close> crate for examples: it checks the length of a status and nothing else.\<close>

definition sample_lib :: http_lib where
  "sample_lib = \<lparr>hl_method = (\<lambda>v. True), hl_status = (\<lambda>v. length v = 3), hl_name = (\<lambda>v. True),
     hl_value = (\<lambda>v. True), hl_utf8 = (\<lambda>v. True)\<rparr>"

lemma sample_lib_ok: "lib_ok sample_lib"
  by (auto simp: lib_ok_def sample_lib_def STATIC_TABLE_def static_pseudo_def static_fields_def bytes_of_def)

lemma decoder_new_ok: "dec_ok L (decoder_new n)"
  by (simp add: dec_ok_def decoder_new_def table_new_def dt_ok_def)

lemma decode_sample:
  "decode sample_lib hdec (decoder_new 4096) [130, 128] =
     (decoder_new 4096, [128], [HMethod (bytes_of ''GET'')], Err InvalidTableIndex)"
proof -
  have p: "parse_step sample_lib hdec (decoder_new 4096) True [130, 128] =
      Ok ([128], decoder_new 4096, False, Some (HMethod (bytes_of ''GET'')))"
    by (simp add: parse_step_def representation_load_def decode_int_def prefix_mask_def table_get_def get_static_def
        STATIC_TABLE_def static_pseudo_def)
  have e: "decode_step sample_lib hdec (decoder_new 4096) False \<lparr>cu_buf = [128], cu_pos = 0\<rparr> (hd [128]) =
      (\<lparr>cu_buf = [128], cu_pos = 0\<rparr>, Err InvalidTableIndex)"
    by (simp add: decode_step_def representation_load_def decode_indexed_def decode_int_at_def decode_int_def
        prefix_mask_def table_get_def)
  show ?thesis
    using decode_loop_Ok[OF p _ decode_loop_fail[OF e]]
    by (simp add: decode_def decoder_new_def yield_def)
qed

theorem decode_safe_witness:
  "lib_ok sample_lib \<and> dec_ok sample_lib (decoder_new 4096) \<and>
   header_ok sample_lib (HMethod (bytes_of ''GET'')) \<and>
   dt_max_size (de_table (decoder_new 4096)) \<le> max 4096 (de_last_max_update (decoder_new 4096))"
  using decode_safe[OF sample_lib_ok decoder_new_ok decode_sample] sample_lib_ok decoder_new_ok
  by (simp add: decoder_new_def table_new_def)

section \<open>A block may be cut anywhere\<close>

lemma and_then_Err_iff:
  "and_then m f = Err e \<longleftrightarrow> m = Err e \<or> (\<exists>x. m = Ok x \<and> f x = Err e)"
  by (cases m) auto

lemma parse_string_error_append:
  assumes "parse_string hdec bs = Err e" and "\<forall>n. e \<noteq> NeedMore n"
  shows "parse_string hdec (bs @ ys) = Err e"
proof -
  obtain b tl where bs: "bs = b # tl" using assms by (auto simp: parse_string_def split: list.splits)
  show ?thesis
  proof (cases "decode_int bs 7")
    case (Ok r)
    then obtain len rest where i: "decode_int bs 7 = Ok (len, rest)" by (cases r) auto
    show ?thesis
      using assms decode_int_append[OF i, of ys] i
      by (auto simp: parse_string_def bs split: if_splits option.splits)
  qed (use assms decode_int_error_append[of bs 7 e ys] in \<open>auto simp: parse_string_def bs\<close>)
qed

lemma parse_pair_error_append:
  assumes "parse_pair hdec bs = Err e" and "\<forall>n. e \<noteq> NeedMore n"
  shows "parse_pair hdec (bs @ ys) = Err e"
  using assms parse_string_error_append[OF _ assms(2)] parse_string_append[of hdec _ _ _ ys]
  by (fastforce simp: parse_pair_def and_then_Err_iff)

text \<open>A literal that is complete but not a valid header.\<close>

definition literal_invalid :: "http_lib \<Rightarrow> huff_decode \<Rightarrow> decoder \<Rightarrow> bool \<Rightarrow> byte list \<Rightarrow> decoder_error \<Rightarrow> bool" where
  "literal_invalid L hdec d index bs e \<longleftrightarrow>
     (\<exists>i r1. decode_int bs (if index then 6 else 4) = Ok (i, r1) \<and>
       (if i = 0 then \<exists>n v r. parse_pair hdec r1 = Ok (n, v, r) \<and> header_new L n v = Err e
        else table_get (de_table d) i = Err e \<or>
          (\<exists>x v r. table_get (de_table d) i = Ok x \<and> parse_string hdec r1 = Ok (v, r) \<and>
             into_entry L (header_name x) v = Err e)))"

lemma literal_invalid_append:
  assumes "literal_invalid L hdec d index bs e"
  shows "parse_literal L hdec d index (bs @ ys) = Err e"
proof -
  obtain i r1 where i: "decode_int bs (if index then 6 else 4) = Ok (i, r1)"
    and k: "if i = 0 then \<exists>n v r. parse_pair hdec r1 = Ok (n, v, r) \<and> header_new L n v = Err e
        else table_get (de_table d) i = Err e \<or>
          (\<exists>x v r. table_get (de_table d) i = Ok x \<and> parse_string hdec r1 = Ok (v, r) \<and>
             into_entry L (header_name x) v = Err e)"
    using assms by (auto simp: literal_invalid_def)
  note I = decode_int_append[OF i, of ys]
  show ?thesis
  proof (cases "i = 0")
    case True
    with k obtain n v r where p: "parse_pair hdec r1 = Ok (n, v, r)" "header_new L n v = Err e" by auto
    then show ?thesis using I True parse_pair_append[OF p(1), of ys] by (simp add: parse_literal_def)
  next
    case False
    then show ?thesis using I k parse_string_append[of hdec r1 _ _ ys] by (fastforce simp: parse_literal_def)
  qed
qed

lemma parse_literal_error_append:
  assumes "parse_literal L hdec d index bs = Err e" and "\<forall>n. e \<noteq> NeedMore n"
  shows "parse_literal L hdec d index (bs @ ys) = Err e"
proof (cases "decode_int bs (if index then 6 else 4)")
  case (Ok x)
  then obtain i r1 where i: "decode_int bs (if index then 6 else 4) = Ok (i, r1)" by (cases x) auto
  note I = decode_int_append[OF i, of ys]
  show ?thesis
  proof (cases "i = 0")
    case True
    then show ?thesis
      using assms I i parse_pair_error_append[OF _ assms(2), of hdec r1 ys] parse_pair_append[of hdec r1 _ _ _ ys]
      by (fastforce simp: parse_literal_def and_then_Err_iff)
  next
    case False
    then show ?thesis
      using assms I i parse_string_error_append[OF _ assms(2), of hdec r1 ys] parse_string_append[of hdec r1 _ _ ys]
      by (fastforce simp: parse_literal_def and_then_Err_iff)
  qed
qed (use assms decode_int_error_append[of bs _ e ys] in \<open>auto simp: parse_literal_def\<close>)

lemma parse_step_error_append:
  assumes "parse_step L hdec d can_resize bs = Err e" and "\<forall>n. e \<noteq> NeedMore n" and "bs \<noteq> []" and "dt_ok (de_table d)"
  shows "parse_step L hdec d can_resize (bs @ ys) = Err e"
proof (cases "representation_load (hd bs)")
  case (Ok rep)
  have int: "decode_int (bs @ ys) p = Err e" if "decode_int bs p = Err e" for p
    using decode_int_error_append[OF that] assms(2) by blast
  show ?thesis
    using assms int decode_int_append[of bs _ _ _ ys] parse_literal_error_append[OF _ assms(2), of L hdec d _ bs ys]
    by (cases rep) (fastforce simp: parse_step_def Ok and_then_Err_iff table_insert_fit table_set_max_size_fit split: if_splits)+
qed (use assms in \<open>auto simp: parse_step_def\<close>)

text \<open>A field that fails leaves the buffer as it was, unless the whole field was there.\<close>

lemma decode_literal_left:
  assumes "decode_literal L hdec d \<lparr>cu_buf = bs, cu_pos = 0\<rparr> index = (c', Err e)"
  shows "cu_buf c' = bs \<or> literal_invalid L hdec d index bs e"
proof -
  let ?c = "\<lparr>cu_buf = bs, cu_pos = 0\<rparr>"
  show ?thesis
  proof (cases "decode_int_at ?c (if index then 6 else 4)")
    case (Ok q)
    obtain i c1 where q: "q = (i, c1)" by (cases q)
    note I = decode_int_at_Ok[OF Ok[unfolded q] start_cursor(1), simplified]
    show ?thesis
    proof (cases "i = 0")
      case True
      then show ?thesis
        using assms I decode_pair_parse[OF I(4), of hdec]
        by (cases "decode_pair hdec c1") (auto simp: decode_literal_def Ok q literal_invalid_def)
    next
      case False
      then show ?thesis
        using assms I decode_string_parse(1)[OF I(4), of hdec]
        by (cases "table_get (de_table d) i"; cases "decode_string hdec c1")
          (auto simp: decode_literal_def Ok q literal_invalid_def)
    qed
  qed (use assms in \<open>auto simp: decode_literal_def\<close>)
qed

lemma decode_step_left:
  assumes "decode_step L hdec d can_resize \<lparr>cu_buf = bs, cu_pos = 0\<rparr> (hd bs) = (c', Err e)" and "bs \<noteq> []"
    and "dt_ok (de_table d)"
  shows "cu_buf c' = bs \<or> parse_step L hdec d can_resize (bs @ ys) = Err e"
proof (cases "representation_load (hd bs)")
  case (Ok rep)
  have left: "cu_buf c' = bs \<or> parse_literal L hdec d index (bs @ ys) = Err e"
    if "decode_literal L hdec d \<lparr>cu_buf = bs, cu_pos = 0\<rparr> index = (c', Err e)" for index
    using decode_literal_left[OF that] literal_invalid_append by blast
  show ?thesis
    using assms left[of True] left[of False]
    by (cases rep) (auto simp: decode_step_def Ok parse_step_def table_insert_fit split: outcome.splits prod.splits if_splits)
qed (use assms in \<open>auto simp: decode_step_def\<close>)

lemma parse_step_keeps_update:
  "parse_step L hdec d can_resize bs = Ok (rest, d', can', h) \<Longrightarrow> de_max_size_update d' = de_max_size_update d"
  by (cases "representation_load (hd bs)") (auto simp: parse_step_def outcome_simps split: representation.splits if_splits)

lemma parse_step_resize:
  "parse_step L hdec d can_resize bs = Ok x \<Longrightarrow> parse_step L hdec d True bs = Ok x"
  by (cases "representation_load (hd bs)") (auto simp: parse_step_def outcome_simps split: representation.splits if_splits)

lemma decode_loop_resize:
  assumes "decode_loop L hdec d can_resize bs = (d', left, hs, Ok ())" and "lib_ok L" and "dec_ok L d"
  shows "decode_loop L hdec d True bs = (d', left, hs, Ok ())"
proof (cases "bs = []")
  case False
  show ?thesis
  proof (cases "parse_step L hdec d can_resize bs")
    case (Ok x)
    obtain rest d1 can1 h where x: "x = (rest, d1, can1, h)" by (cases x)
    obtain d2 l2 hs2 r2 where l: "decode_loop L hdec d1 can1 rest = (d2, l2, hs2, r2)" by (metis prod_cases4)
    show ?thesis
      using decode_loop_Ok[OF Ok[unfolded x] False l] decode_loop_Ok[OF parse_step_resize[OF Ok[unfolded x]] False l] assms(1)
      by simp
  qed (use decode_loop_Err[OF _ False] parse_step_keeps(1)[OF assms(2,3)] assms(1) in force)+
qed (use assms in \<open>simp add: decode_loop_Nil\<close>)

lemma decode_loop_split:
  assumes "lib_ok L" and "dec_ok L d" and "decode_loop L hdec d can_resize (xs @ ys) = (d', left, hs, Ok ())"
  shows "\<exists>d1 l1 hs1 r1 hs2. decode_loop L hdec d can_resize xs = (d1, l1, hs1, r1) \<and>
    (r1 = Ok () \<or> (\<exists>n. r1 = Err (NeedMore n))) \<and> de_max_size_update d1 = de_max_size_update d \<and>
    decode_loop L hdec d1 True (l1 @ ys) = (d', left, hs2, Ok ()) \<and> hs = hs1 @ hs2"
  using assms(2,3)
proof (induction "length xs" arbitrary: d can_resize xs hs rule: less_induct)
  case less
  show ?case
  proof (cases "xs = []")
    case True
    then show ?thesis using decode_loop_resize[OF _ assms(1) less.prems(1)] less.prems(2) by (auto simp: decode_loop_Nil)
  next
    case False
    then have ne: "xs @ ys \<noteq> []" by simp
    have ok: "dt_ok (de_table d)" using less.prems(1) by (simp add: dec_ok_def)
    show ?thesis
    proof (cases "parse_step L hdec d can_resize xs")
      case (Ok x)
      obtain rest d1 can1 h where x: "x = (rest, d1, can1, h)" by (cases x)
      note A = parse_step_append[OF Ok[unfolded x] False, of ys]
      obtain d2 l2 hs2 r2 where l: "decode_loop L hdec d1 can1 (rest @ ys) = (d2, l2, hs2, r2)" by (metis prod_cases4)
      have eq: "d2 = d'" "l2 = left" "hs = yield h hs2" "r2 = Ok ()"
        using decode_loop_Ok[OF conjunct2[OF A] ne l] less.prems(2) by auto
      from less.hyps[of rest, OF conjunct1[OF A] _ l[unfolded eq]]
        parse_step_keeps(2)[OF assms(1) less.prems(1) Ok[unfolded x]]
      obtain d3 l3 hs3 r3 hs4 where
        s: "decode_loop L hdec d1 can1 rest = (d3, l3, hs3, r3)" "r3 = Ok () \<or> (\<exists>n. r3 = Err (NeedMore n))"
          "de_max_size_update d3 = de_max_size_update d1"
          "decode_loop L hdec d3 True (l3 @ ys) = (d', left, hs4, Ok ())" "hs2 = hs3 @ hs4" by blast
      show ?thesis
        using decode_loop_Ok[OF Ok[unfolded x] False s(1)] s parse_step_keeps_update[OF Ok[unfolded x]] eq
        by (auto simp: yield_append)
    next
      case (Err e)
      have bad: "parse_step L hdec d can_resize (xs @ ys) \<noteq> Err e"
        using decode_loop_Err[OF _ ne] less.prems(2) by force
      obtain c' where c: "decode_step L hdec d can_resize \<lparr>cu_buf = xs, cu_pos = 0\<rparr> (hd xs) = (c', Err e)"
        "decode_loop L hdec d can_resize xs = (d, cu_buf c', [], Err e)"
        using decode_loop_Err[OF Err False] by blast
      have "cu_buf c' = xs" using decode_step_left[OF c(1) False ok] bad by blast
      moreover obtain n where "e = NeedMore n" using parse_step_error_append[OF Err _ False ok] bad by blast
      ultimately show ?thesis
        using c(2) decode_loop_resize[OF less.prems(2) assms(1) less.prems(1)] by auto
    qed (use parse_step_keeps(1)[OF assms(1) less.prems(1)] in simp)
  qed
qed

text \<open>
  C27. A header block may be cut into HEADERS and CONTINUATION frames at any byte: if the whole block
  decodes, then decoding the first part gives success or a request for more input, and decoding
  what it left in the buffer together with the second part gives the remaining headers, in order, and the
  same final decoder.
\<close>
theorem decode_in_pieces:
  assumes "lib_ok L" and "dec_ok L d" and "decode L hdec d (xs @ ys) = (d', [], hs, Ok ())"
  shows "\<exists>d1 l1 hs1 r1 hs2. decode L hdec d xs = (d1, l1, hs1, r1) \<and>
    (r1 = Ok () \<or> (\<exists>n. r1 = Err (NeedMore n))) \<and>
    decode L hdec d1 (l1 @ ys) = (d', [], hs2, Ok ()) \<and> hs = hs1 @ hs2"
proof -
  define d0 where "d0 = (case de_max_size_update d of
      Some sz \<Rightarrow> d\<lparr>de_max_size_update := None, de_last_max_update := sz\<rparr> | None \<Rightarrow> d)"
  have "dec_ok L d0" "de_max_size_update d0 = None"
    using assms(2) by (auto simp: d0_def dec_ok_def split: option.splits)
  then show ?thesis
    using decode_loop_split[OF assms(1), of d0 hdec True xs ys d' "[]" hs] assms(3)
    by (fastforce simp: decode_def simp flip: d0_def)
qed

theorem decode_in_pieces_witness:
  "\<exists>d1 l1 hs1 r1 hs2. decode sample_lib (\<lambda>_. None) (decoder_new 4096) [130] = (d1, l1, hs1, r1) \<and>
    decode sample_lib (\<lambda>_. None) d1 (l1 @ [132]) = (decoder_new 4096, [], hs2, Ok ()) \<and>
    [HMethod (bytes_of ''GET''), HPath (bytes_of ''/'')] = hs1 @ hs2"
proof -
  have p: "parse_step sample_lib (\<lambda>_. None) (decoder_new 4096) True [130, 132] =
      Ok ([132], decoder_new 4096, False, Some (HMethod (bytes_of ''GET'')))"
    and q: "parse_step sample_lib (\<lambda>_. None) (decoder_new 4096) False [132] =
      Ok ([], decoder_new 4096, False, Some (HPath (bytes_of ''/'')))"
    by (simp_all add: parse_step_def representation_load_def decode_int_def prefix_mask_def table_get_def get_static_def
        STATIC_TABLE_def static_pseudo_def)
  have "decode sample_lib (\<lambda>_. None) (decoder_new 4096) ([130] @ [132]) =
      (decoder_new 4096, [], [HMethod (bytes_of ''GET''), HPath (bytes_of ''/'')], Ok ())"
    using decode_loop_Ok[OF p _ decode_loop_Ok[OF q _ decode_loop_Nil]]
    by (simp add: decode_def decoder_new_def yield_def)
  from decode_in_pieces[OF sample_lib_ok decoder_new_ok this] show ?thesis by blast
qed

section \<open>What is rejected\<close>

lemma encode_int_ne [simp]: "encode_int v p b \<noteq> []"
  by (simp add: encode_int_def Let_def)

lemma load_indexed [simp]: "representation_load (hd (encode_int v 7 128 @ ys)) = Ok Indexed"
  using first_octet_high[of 7 128 128 v ys] by (simp add: representation_load_def prefix_mask_def)

lemma load_size_update [simp]: "representation_load (hd (encode_int v 5 32 @ ys)) = Ok SizeUpdate"
proof -
  let ?b = "hd (encode_int v 5 32 @ ys)"
  have h: "?b AND m = 32 AND m" if "m AND 31 = 0" for m
    using first_octet_high[of 5 32 m v ys] that by (simp add: prefix_mask_def)
  have "(?b AND 240) AND 32 = 32" using h[of 32] by (simp only: and.assoc) simp
  then have "?b AND 240 \<noteq> 0" "?b AND 240 \<noteq> 16" by (auto simp del: hd_append2)
  then show ?thesis using h[of 128] h[of 64] h[of 224] by (simp add: representation_load_def del: hd_append2)
qed

lemma decode_int_at_encode:
  assumes "1 \<le> p" "p \<le> 8" "first_byte AND prefix_mask p = 0" "v \<le> max_int p"
  shows "decode_int_at \<lparr>cu_buf = encode_int v p first_byte @ ys, cu_pos = 0\<rparr> p =
    Ok (v, \<lparr>cu_buf = encode_int v p first_byte @ ys, cu_pos = length (encode_int v p first_byte)\<rparr>)"
  using decode_encode_int[OF assms(1-3), of v ys] assms(4) by (simp add: decode_int_at_def)

lemma reject_index:
  assumes "i = 0 \<or> 61 + length (dt_entries (de_table d)) < i" and "i \<le> max_int 7"
  shows "decode_loop L hdec d can_resize (encode_int i 7 128 @ bs) =
    (d, encode_int i 7 128 @ bs, [], Err InvalidTableIndex)"
proof -
  have "table_get (de_table d) i = Err InvalidTableIndex" using assms(1) by (auto simp: table_get_def)
  then have "decode_step L hdec d can_resize \<lparr>cu_buf = encode_int i 7 128 @ bs, cu_pos = 0\<rparr> (hd (encode_int i 7 128 @ bs)) =
      (\<lparr>cu_buf = encode_int i 7 128 @ bs, cu_pos = 0\<rparr>, Err InvalidTableIndex)"
    using decode_int_at_encode[of 7 128 i bs] assms(2)
    by (simp add: decode_step_def decode_indexed_def prefix_mask_def del: hd_append2)
  from decode_loop_fail[OF this] show ?thesis by simp
qed

lemma reject_resize:
  assumes "can_resize \<longrightarrow> de_last_max_update d < n" and "n \<le> max_int 5"
  shows "decode_loop L hdec d can_resize (encode_int n 5 32 @ bs) =
    (d, encode_int n 5 32 @ bs, [], Err InvalidMaxDynamicSize)"
proof -
  have "decode_step L hdec d can_resize \<lparr>cu_buf = encode_int n 5 32 @ bs, cu_pos = 0\<rparr> (hd (encode_int n 5 32 @ bs)) =
      (\<lparr>cu_buf = encode_int n 5 32 @ bs, cu_pos = 0\<rparr>, Err InvalidMaxDynamicSize)"
    using decode_int_at_encode[of 5 32 n bs] assms
    by (simp add: decode_step_def process_size_update_def prefix_mask_def del: hd_append2)
  from decode_loop_fail[OF this] show ?thesis by simp
qed



text \<open>A literal with an empty name is reported as missing input although all of it has been taken off
  the buffer: with more frames to come the block goes on as if it had not been there.\<close>

lemma empty_name_swallowed:
  "decode L hdec (decoder_new 4096) [64, 0, 0] = (decoder_new 4096, [], [], Err (NeedMore UnexpectedEndOfStream))"
proof -
  have "decode_step L hdec (decoder_new 4096) True \<lparr>cu_buf = [64, 0, 0], cu_pos = 0\<rparr> (hd [64, 0, 0]) =
      (\<lparr>cu_buf = [], cu_pos = 0\<rparr>, Err (NeedMore UnexpectedEndOfStream))"
    by (simp add: decode_step_def representation_load_def decode_literal_def decode_int_at_def decode_int_def
        prefix_mask_def decode_pair_def try_decode_string_def marker_consume_def cu_take_def cu_advance_def
        cu_rest_def peek_u8_def header_new_def Let_def)
  from decode_loop_fail[OF this] show ?thesis by (simp add: decode_def decoder_new_def)
qed

end
