(* ===== verification/Huffman.thy ===== *)
theory Huffman
  imports Huffman_Table Hpack_Int
begin

text \<open>
  The Huffman coder of \<open>hpack/huffman/mod.rs\<close>: the decoder is an automaton that reads four bits at
  a time, the encoder packs codes into a 64-bit buffer of which it writes the top eight of the lower forty bits.
\<close>

section \<open>Decoder\<close>

record huff_decoder =
  hu_state :: byte
  hu_maybe_eos :: bool

definition MAYBE_EOS :: byte where "MAYBE_EOS = 1"

definition DECODED :: byte where "DECODED = 2"

definition HUFF_ERROR :: byte where "HUFF_ERROR = 4"

definition huff_new :: huff_decoder where
  "huff_new = \<lparr>hu_state = 0, hu_maybe_eos = False\<rparr>"

text \<open>Input of more than four bits is out of range of a row.\<close>

definition decode4 :: "huff_decoder \<Rightarrow> byte \<Rightarrow> (byte option \<times> huff_decoder, decoder_error) outcome" where
  "decode4 d input =
     (if unat input \<ge> 16 then Panic
      else let (next, b, flags) = DECODE_TABLE ! unat (hu_state d) ! unat input in
        if flags AND HUFF_ERROR = HUFF_ERROR then Err InvalidHuffmanCode
        else Ok (if flags AND DECODED = DECODED then Some b else None,
                 \<lparr>hu_state = next, hu_maybe_eos = (flags AND MAYBE_EOS = MAYBE_EOS)\<rparr>))"

definition is_final :: "huff_decoder \<Rightarrow> bool" where
  "is_final d \<longleftrightarrow> hu_state d = 0 \<or> hu_maybe_eos d"

fun huff_loop :: "huff_decoder \<Rightarrow> byte list \<Rightarrow> byte list \<Rightarrow> (byte list \<times> huff_decoder, decoder_error) outcome" where
  "huff_loop d buf [] = Ok (buf, d)"
| "huff_loop d buf (b # src) =
     and_then (decode4 d (drop_bit 4 b)) (\<lambda>(r1, d).
     and_then (decode4 d (b AND 0xF)) (\<lambda>(r2, d).
       huff_loop d (buf @ (case r1 of Some x \<Rightarrow> [x] | None \<Rightarrow> []) @ (case r2 of Some x \<Rightarrow> [x] | None \<Rightarrow> [])) src))"

text \<open>The buffer given by the caller is empty.\<close>

definition huff_decode_bytes :: "byte list \<Rightarrow> (byte list, decoder_error) outcome" where
  "huff_decode_bytes src =
     and_then (huff_loop huff_new [] src) (\<lambda>(buf, d). if \<not> is_final d then Err InvalidHuffmanCode else Ok buf)"

section \<open>Encoder\<close>

function huff_flush :: "u64 \<Rightarrow> nat \<Rightarrow> byte list \<Rightarrow> u64 \<times> nat \<times> byte list" where
  "huff_flush bits bits_left dst =
     (if bits_left \<le> 32 then huff_flush (push_bit 8 bits) (bits_left + 8) (dst @ [ucast (drop_bit 32 bits)])
      else (bits, bits_left, dst))"
  by pat_completeness auto
termination by (relation "measure (\<lambda>(_, n, _). 40 - n)") auto

declare huff_flush.simps [simp del]

text \<open>A code of more bits than are left would be shifted by a negative number.\<close>

fun huff_encode_loop :: "u64 \<Rightarrow> nat \<Rightarrow> byte list \<Rightarrow> byte list \<Rightarrow> (u64 \<times> nat \<times> byte list, 'e) outcome" where
  "huff_encode_loop bits bits_left dst [] = Ok (bits, bits_left, dst)"
| "huff_encode_loop bits bits_left dst (b # src) =
     (let (nbits, code) = ENCODE_TABLE ! unat b in
      if nbits > bits_left then Panic
      else let (bits, bits_left, dst) = huff_flush (bits OR push_bit (bits_left - nbits) code) (bits_left - nbits) dst
        in huff_encode_loop bits bits_left dst src)"

definition huff_encode :: "byte list \<Rightarrow> byte list \<Rightarrow> (byte list, 'e) outcome" where
  "huff_encode src dst =
     map_out (\<lambda>(bits, bits_left, dst).
         if bits_left \<noteq> 40 then dst @ [ucast (drop_bit 32 (bits OR (push_bit bits_left 1 - 1)))] else dst)
       (huff_encode_loop 0 40 dst src)"

end
