(* ===== verification/Huffman_Check.thy ===== *)
theory Huffman_Check
  imports Huffman
begin

text \<open>
  The two Huffman tables agree. Every state of the decoder stands for the bits read since the last symbol,
  written as their number and value; the codes cover the numbers below \<open>2\<^sup>3\<^sup>0\<close> without overlap. Both facts are checked
  entry by entry.
\<close>

section \<open>Codes and states\<close>

text \<open>The code of a symbol, 256 being the end of the string, and the bits a state stands for. The arguments are decided by
  bisection.\<close>

definition sym_code_0 :: "nat \<Rightarrow> nat \<times> int" where
  "sym_code_0 i =
     (if i < 8 then (if i < 4 then (if i < 2 then (if i < 1 then (13, 8184) else (23, 8388568)) else (if i < 3 then
     (28, 268435426) else (28, 268435427))) else (if i < 6 then (if i < 5 then (28, 268435428) else (28, 268435429))
     else (if i < 7 then (28, 268435430) else (28, 268435431)))) else (if i < 12 then (if i < 10 then (if i < 9 then
     (28, 268435432) else (24, 16777194)) else (if i < 11 then (30, 1073741820) else (28, 268435433))) else (if i <
     14 then (if i < 13 then (28, 268435434) else (30, 1073741821)) else (if i < 15 then (28, 268435435) else (28,
     268435436)))))"

definition sym_code_1 :: "nat \<Rightarrow> nat \<times> int" where
  "sym_code_1 i =
     (if i < 24 then (if i < 20 then (if i < 18 then (if i < 17 then (28, 268435437) else (28, 268435438)) else (if
     i < 19 then (28, 268435439) else (28, 268435440))) else (if i < 22 then (if i < 21 then (28, 268435441) else
     (28, 268435442)) else (if i < 23 then (30, 1073741822) else (28, 268435443)))) else (if i < 28 then (if i < 26
     then (if i < 25 then (28, 268435444) else (28, 268435445)) else (if i < 27 then (28, 268435446) else (28,
     268435447))) else (if i < 30 then (if i < 29 then (28, 268435448) else (28, 268435449)) else (if i < 31 then
     (28, 268435450) else (28, 268435451)))))"

definition sym_code_2 :: "nat \<Rightarrow> nat \<times> int" where
  "sym_code_2 i =
     (if i < 40 then (if i < 36 then (if i < 34 then (if i < 33 then (6, 20) else (10, 1016)) else (if i < 35 then
     (10, 1017) else (12, 4090))) else (if i < 38 then (if i < 37 then (13, 8185) else (6, 21)) else (if i < 39 then
     (8, 248) else (11, 2042)))) else (if i < 44 then (if i < 42 then (if i < 41 then (10, 1018) else (10, 1019))
     else (if i < 43 then (8, 249) else (11, 2043))) else (if i < 46 then (if i < 45 then (8, 250) else (6, 22))
     else (if i < 47 then (6, 23) else (6, 24)))))"

definition sym_code_3 :: "nat \<Rightarrow> nat \<times> int" where
  "sym_code_3 i =
     (if i < 56 then (if i < 52 then (if i < 50 then (if i < 49 then (5, 0) else (5, 1)) else (if i < 51 then (5, 2)
     else (6, 25))) else (if i < 54 then (if i < 53 then (6, 26) else (6, 27)) else (if i < 55 then (6, 28) else (6,
     29)))) else (if i < 60 then (if i < 58 then (if i < 57 then (6, 30) else (6, 31)) else (if i < 59 then (7, 92)
     else (8, 251))) else (if i < 62 then (if i < 61 then (15, 32764) else (6, 32)) else (if i < 63 then (12, 4091)
     else (10, 1020)))))"

definition sym_code_4 :: "nat \<Rightarrow> nat \<times> int" where
  "sym_code_4 i =
     (if i < 72 then (if i < 68 then (if i < 66 then (if i < 65 then (13, 8186) else (6, 33)) else (if i < 67 then
     (7, 93) else (7, 94))) else (if i < 70 then (if i < 69 then (7, 95) else (7, 96)) else (if i < 71 then (7, 97)
     else (7, 98)))) else (if i < 76 then (if i < 74 then (if i < 73 then (7, 99) else (7, 100)) else (if i < 75
     then (7, 101) else (7, 102))) else (if i < 78 then (if i < 77 then (7, 103) else (7, 104)) else (if i < 79 then
     (7, 105) else (7, 106)))))"

definition sym_code_5 :: "nat \<Rightarrow> nat \<times> int" where
  "sym_code_5 i =
     (if i < 88 then (if i < 84 then (if i < 82 then (if i < 81 then (7, 107) else (7, 108)) else (if i < 83 then
     (7, 109) else (7, 110))) else (if i < 86 then (if i < 85 then (7, 111) else (7, 112)) else (if i < 87 then (7,
     113) else (7, 114)))) else (if i < 92 then (if i < 90 then (if i < 89 then (8, 252) else (7, 115)) else (if i <
     91 then (8, 253) else (13, 8187))) else (if i < 94 then (if i < 93 then (19, 524272) else (13, 8188)) else (if
     i < 95 then (14, 16380) else (6, 34)))))"

definition sym_code_6 :: "nat \<Rightarrow> nat \<times> int" where
  "sym_code_6 i =
     (if i < 104 then (if i < 100 then (if i < 98 then (if i < 97 then (15, 32765) else (5, 3)) else (if i < 99 then
     (6, 35) else (5, 4))) else (if i < 102 then (if i < 101 then (6, 36) else (5, 5)) else (if i < 103 then (6, 37)
     else (6, 38)))) else (if i < 108 then (if i < 106 then (if i < 105 then (6, 39) else (5, 6)) else (if i < 107
     then (7, 116) else (7, 117))) else (if i < 110 then (if i < 109 then (6, 40) else (6, 41)) else (if i < 111
     then (6, 42) else (5, 7)))))"

definition sym_code_7 :: "nat \<Rightarrow> nat \<times> int" where
  "sym_code_7 i =
     (if i < 120 then (if i < 116 then (if i < 114 then (if i < 113 then (6, 43) else (7, 118)) else (if i < 115
     then (6, 44) else (5, 8))) else (if i < 118 then (if i < 117 then (5, 9) else (6, 45)) else (if i < 119 then
     (7, 119) else (7, 120)))) else (if i < 124 then (if i < 122 then (if i < 121 then (7, 121) else (7, 122)) else
     (if i < 123 then (7, 123) else (15, 32766))) else (if i < 126 then (if i < 125 then (11, 2044) else (14,
     16381)) else (if i < 127 then (13, 8189) else (28, 268435452)))))"

definition sym_code_8 :: "nat \<Rightarrow> nat \<times> int" where
  "sym_code_8 i =
     (if i < 136 then (if i < 132 then (if i < 130 then (if i < 129 then (20, 1048550) else (22, 4194258)) else (if
     i < 131 then (20, 1048551) else (20, 1048552))) else (if i < 134 then (if i < 133 then (22, 4194259) else (22,
     4194260)) else (if i < 135 then (22, 4194261) else (23, 8388569)))) else (if i < 140 then (if i < 138 then (if
     i < 137 then (22, 4194262) else (23, 8388570)) else (if i < 139 then (23, 8388571) else (23, 8388572))) else
     (if i < 142 then (if i < 141 then (23, 8388573) else (23, 8388574)) else (if i < 143 then (24, 16777195) else
     (23, 8388575)))))"

definition sym_code_9 :: "nat \<Rightarrow> nat \<times> int" where
  "sym_code_9 i =
     (if i < 152 then (if i < 148 then (if i < 146 then (if i < 145 then (24, 16777196) else (24, 16777197)) else
     (if i < 147 then (22, 4194263) else (23, 8388576))) else (if i < 150 then (if i < 149 then (24, 16777198) else
     (23, 8388577)) else (if i < 151 then (23, 8388578) else (23, 8388579)))) else (if i < 156 then (if i < 154 then
     (if i < 153 then (23, 8388580) else (21, 2097116)) else (if i < 155 then (22, 4194264) else (23, 8388581)))
     else (if i < 158 then (if i < 157 then (22, 4194265) else (23, 8388582)) else (if i < 159 then (23, 8388583)
     else (24, 16777199)))))"

definition sym_code_10 :: "nat \<Rightarrow> nat \<times> int" where
  "sym_code_10 i =
     (if i < 168 then (if i < 164 then (if i < 162 then (if i < 161 then (22, 4194266) else (21, 2097117)) else (if
     i < 163 then (20, 1048553) else (22, 4194267))) else (if i < 166 then (if i < 165 then (22, 4194268) else (23,
     8388584)) else (if i < 167 then (23, 8388585) else (21, 2097118)))) else (if i < 172 then (if i < 170 then (if
     i < 169 then (23, 8388586) else (22, 4194269)) else (if i < 171 then (22, 4194270) else (24, 16777200))) else
     (if i < 174 then (if i < 173 then (21, 2097119) else (22, 4194271)) else (if i < 175 then (23, 8388587) else
     (23, 8388588)))))"

definition sym_code_11 :: "nat \<Rightarrow> nat \<times> int" where
  "sym_code_11 i =
     (if i < 184 then (if i < 180 then (if i < 178 then (if i < 177 then (21, 2097120) else (21, 2097121)) else (if
     i < 179 then (22, 4194272) else (21, 2097122))) else (if i < 182 then (if i < 181 then (23, 8388589) else (22,
     4194273)) else (if i < 183 then (23, 8388590) else (23, 8388591)))) else (if i < 188 then (if i < 186 then (if
     i < 185 then (20, 1048554) else (22, 4194274)) else (if i < 187 then (22, 4194275) else (22, 4194276))) else
     (if i < 190 then (if i < 189 then (23, 8388592) else (22, 4194277)) else (if i < 191 then (22, 4194278) else
     (23, 8388593)))))"

definition sym_code_12 :: "nat \<Rightarrow> nat \<times> int" where
  "sym_code_12 i =
     (if i < 200 then (if i < 196 then (if i < 194 then (if i < 193 then (26, 67108832) else (26, 67108833)) else
     (if i < 195 then (20, 1048555) else (19, 524273))) else (if i < 198 then (if i < 197 then (22, 4194279) else
     (23, 8388594)) else (if i < 199 then (22, 4194280) else (25, 33554412)))) else (if i < 204 then (if i < 202
     then (if i < 201 then (26, 67108834) else (26, 67108835)) else (if i < 203 then (26, 67108836) else (27,
     134217694))) else (if i < 206 then (if i < 205 then (27, 134217695) else (26, 67108837)) else (if i < 207 then
     (24, 16777201) else (25, 33554413)))))"

definition sym_code_13 :: "nat \<Rightarrow> nat \<times> int" where
  "sym_code_13 i =
     (if i < 216 then (if i < 212 then (if i < 210 then (if i < 209 then (19, 524274) else (21, 2097123)) else (if i
     < 211 then (26, 67108838) else (27, 134217696))) else (if i < 214 then (if i < 213 then (27, 134217697) else
     (26, 67108839)) else (if i < 215 then (27, 134217698) else (24, 16777202)))) else (if i < 220 then (if i < 218
     then (if i < 217 then (21, 2097124) else (21, 2097125)) else (if i < 219 then (26, 67108840) else (26,
     67108841))) else (if i < 222 then (if i < 221 then (28, 268435453) else (27, 134217699)) else (if i < 223 then
     (27, 134217700) else (27, 134217701)))))"

definition sym_code_14 :: "nat \<Rightarrow> nat \<times> int" where
  "sym_code_14 i =
     (if i < 232 then (if i < 228 then (if i < 226 then (if i < 225 then (20, 1048556) else (24, 16777203)) else (if
     i < 227 then (20, 1048557) else (21, 2097126))) else (if i < 230 then (if i < 229 then (22, 4194281) else (21,
     2097127)) else (if i < 231 then (21, 2097128) else (23, 8388595)))) else (if i < 236 then (if i < 234 then (if
     i < 233 then (22, 4194282) else (22, 4194283)) else (if i < 235 then (25, 33554414) else (25, 33554415))) else
     (if i < 238 then (if i < 237 then (24, 16777204) else (24, 16777205)) else (if i < 239 then (26, 67108842) else
     (23, 8388596)))))"

definition sym_code_15 :: "nat \<Rightarrow> nat \<times> int" where
  "sym_code_15 i =
     (if i < 249 then (if i < 245 then (if i < 243 then (if i < 242 then (if i < 241 then (26, 67108843) else (27,
     134217702)) else (26, 67108844)) else (if i < 244 then (26, 67108845) else (27, 134217703))) else (if i < 247
     then (if i < 246 then (27, 134217704) else (27, 134217705)) else (if i < 248 then (27, 134217706) else (27,
     134217707)))) else (if i < 253 then (if i < 251 then (if i < 250 then (28, 268435454) else (27, 134217708))
     else (if i < 252 then (27, 134217709) else (27, 134217710))) else (if i < 255 then (if i < 254 then (27,
     134217711) else (27, 134217712)) else (if i < 256 then (26, 67108846) else (30, 1073741823)))))"

definition sym_code :: "nat \<Rightarrow> nat \<times> int" where
  "sym_code i =
     (if i < 128 then (if i < 64 then (if i < 32 then (if i < 16 then sym_code_0 i else sym_code_1 i) else (if i <
     48 then sym_code_2 i else sym_code_3 i)) else (if i < 96 then (if i < 80 then sym_code_4 i else sym_code_5 i)
     else (if i < 112 then sym_code_6 i else sym_code_7 i))) else (if i < 192 then (if i < 160 then (if i < 144 then
     sym_code_8 i else sym_code_9 i) else (if i < 176 then sym_code_10 i else sym_code_11 i)) else (if i < 224 then
     (if i < 208 then sym_code_12 i else sym_code_13 i) else (if i < 240 then sym_code_14 i else sym_code_15 i))))"

lemmas sym_code_simps =
  sym_code_def sym_code_0_def sym_code_1_def sym_code_2_def sym_code_3_def sym_code_4_def sym_code_5_def
  sym_code_6_def sym_code_7_def sym_code_8_def sym_code_9_def sym_code_10_def sym_code_11_def sym_code_12_def
  sym_code_13_def sym_code_14_def sym_code_15_def

definition state_prefix_0 :: "nat \<Rightarrow> nat \<times> int" where
  "state_prefix_0 i =
     (if i < 8 then (if i < 4 then (if i < 2 then (if i < 1 then (0, 0) else (1, 0)) else (if i < 3 then (2, 0) else
     (3, 0))) else (if i < 6 then (if i < 5 then (4, 0) else (4, 1)) else (if i < 7 then (3, 1) else (4, 2)))) else
     (if i < 12 then (if i < 10 then (if i < 9 then (4, 3) else (2, 1)) else (if i < 11 then (3, 2) else (4, 4)))
     else (if i < 14 then (if i < 13 then (4, 5) else (5, 10)) else (if i < 15 then (5, 11) else (3, 3)))))"

definition state_prefix_1 :: "nat \<Rightarrow> nat \<times> int" where
  "state_prefix_1 i =
     (if i < 24 then (if i < 20 then (if i < 18 then (if i < 17 then (4, 6) else (5, 12)) else (if i < 19 then (5,
     13) else (4, 7))) else (if i < 22 then (if i < 21 then (5, 14) else (5, 15)) else (if i < 23 then (1, 1) else
     (2, 2)))) else (if i < 28 then (if i < 26 then (if i < 25 then (3, 4) else (4, 8)) else (if i < 27 then (5, 16)
     else (5, 17))) else (if i < 30 then (if i < 29 then (4, 9) else (5, 18)) else (if i < 31 then (5, 19) else (3,
     5)))))"

definition state_prefix_2 :: "nat \<Rightarrow> nat \<times> int" where
  "state_prefix_2 i =
     (if i < 40 then (if i < 36 then (if i < 34 then (if i < 33 then (4, 10) else (5, 20)) else (if i < 35 then (5,
     21) else (4, 11))) else (if i < 38 then (if i < 37 then (5, 22) else (5, 23)) else (if i < 39 then (6, 46) else
     (6, 47)))) else (if i < 44 then (if i < 42 then (if i < 41 then (2, 3) else (3, 6)) else (if i < 43 then (4,
     12) else (5, 24))) else (if i < 46 then (if i < 45 then (6, 48) else (6, 49)) else (if i < 47 then (5, 25) else
     (6, 50)))))"

definition state_prefix_3 :: "nat \<Rightarrow> nat \<times> int" where
  "state_prefix_3 i =
     (if i < 56 then (if i < 52 then (if i < 50 then (if i < 49 then (6, 51) else (4, 13)) else (if i < 51 then (5,
     26) else (6, 52))) else (if i < 54 then (if i < 53 then (6, 53) else (5, 27)) else (if i < 55 then (6, 54) else
     (6, 55)))) else (if i < 60 then (if i < 58 then (if i < 57 then (3, 7) else (4, 14)) else (if i < 59 then (5,
     28) else (6, 56))) else (if i < 62 then (if i < 61 then (6, 57) else (5, 29)) else (if i < 63 then (6, 58) else
     (6, 59)))))"

definition state_prefix_4 :: "nat \<Rightarrow> nat \<times> int" where
  "state_prefix_4 i =
     (if i < 72 then (if i < 68 then (if i < 66 then (if i < 65 then (4, 15) else (5, 30)) else (if i < 67 then (6,
     60) else (6, 61))) else (if i < 70 then (if i < 69 then (5, 31) else (6, 62)) else (if i < 71 then (7, 124)
     else (7, 125)))) else (if i < 76 then (if i < 74 then (if i < 73 then (6, 63) else (7, 126)) else (if i < 75
     then (7, 127) else (8, 254))) else (if i < 78 then (if i < 77 then (9, 508) else (9, 509)) else (if i < 79 then
     (8, 255) else (9, 510)))))"

definition state_prefix_5 :: "nat \<Rightarrow> nat \<times> int" where
  "state_prefix_5 i =
     (if i < 88 then (if i < 84 then (if i < 82 then (if i < 81 then (10, 1021) else (9, 511)) else (if i < 83 then
     (10, 1022) else (11, 2045))) else (if i < 86 then (if i < 85 then (10, 1023) else (11, 2046)) else (if i < 87
     then (12, 4092) else (12, 4093)))) else (if i < 92 then (if i < 90 then (if i < 89 then (11, 2047) else (12,
     4094)) else (if i < 91 then (12, 4095) else (13, 8190))) else (if i < 94 then (if i < 93 then (13, 8191) else
     (14, 16382)) else (if i < 95 then (14, 16383) else (15, 32767)))))"

definition state_prefix_6 :: "nat \<Rightarrow> nat \<times> int" where
  "state_prefix_6 i =
     (if i < 104 then (if i < 100 then (if i < 98 then (if i < 97 then (16, 65534) else (17, 131068)) else (if i <
     99 then (18, 262136) else (18, 262137))) else (if i < 102 then (if i < 101 then (19, 524275) else (17, 131069))
     else (if i < 103 then (18, 262138) else (19, 524276)))) else (if i < 108 then (if i < 106 then (if i < 105 then
     (19, 524277) else (18, 262139)) else (if i < 107 then (19, 524278) else (19, 524279))) else (if i < 110 then
     (if i < 109 then (20, 1048558) else (20, 1048559)) else (if i < 111 then (16, 65535) else (17, 131070)))))"

definition state_prefix_7 :: "nat \<Rightarrow> nat \<times> int" where
  "state_prefix_7 i =
     (if i < 120 then (if i < 116 then (if i < 114 then (if i < 113 then (18, 262140) else (19, 524280)) else (if i
     < 115 then (20, 1048560) else (20, 1048561))) else (if i < 118 then (if i < 117 then (19, 524281) else (20,
     1048562)) else (if i < 119 then (20, 1048563) else (18, 262141)))) else (if i < 124 then (if i < 122 then (if i
     < 121 then (19, 524282) else (20, 1048564)) else (if i < 123 then (21, 2097129) else (20, 1048565))) else (if i
     < 126 then (if i < 125 then (21, 2097130) else (21, 2097131)) else (if i < 127 then (19, 524283) else (20,
     1048566)))))"

definition state_prefix_8 :: "nat \<Rightarrow> nat \<times> int" where
  "state_prefix_8 i =
     (if i < 136 then (if i < 132 then (if i < 130 then (if i < 129 then (21, 2097132) else (21, 2097133)) else (if
     i < 131 then (20, 1048567) else (21, 2097134))) else (if i < 134 then (if i < 133 then (21, 2097135) else (17,
     131071)) else (if i < 135 then (18, 262142) else (19, 524284)))) else (if i < 140 then (if i < 138 then (if i <
     137 then (20, 1048568) else (21, 2097136)) else (if i < 139 then (21, 2097137) else (20, 1048569))) else (if i
     < 142 then (if i < 141 then (21, 2097138) else (21, 2097139)) else (if i < 143 then (19, 524285) else (20,
     1048570)))))"

definition state_prefix_9 :: "nat \<Rightarrow> nat \<times> int" where
  "state_prefix_9 i =
     (if i < 152 then (if i < 148 then (if i < 146 then (if i < 145 then (21, 2097140) else (21, 2097141)) else (if
     i < 147 then (20, 1048571) else (21, 2097142))) else (if i < 150 then (if i < 149 then (22, 4194284) else (22,
     4194285)) else (if i < 151 then (21, 2097143) else (22, 4194286)))) else (if i < 156 then (if i < 154 then (if
     i < 153 then (22, 4194287) else (18, 262143)) else (if i < 155 then (19, 524286) else (20, 1048572))) else (if
     i < 158 then (if i < 157 then (21, 2097144) else (22, 4194288)) else (if i < 159 then (22, 4194289) else (21,
     2097145)))))"

definition state_prefix_10 :: "nat \<Rightarrow> nat \<times> int" where
  "state_prefix_10 i =
     (if i < 168 then (if i < 164 then (if i < 162 then (if i < 161 then (22, 4194290) else (22, 4194291)) else (if
     i < 163 then (20, 1048573) else (21, 2097146))) else (if i < 166 then (if i < 165 then (22, 4194292) else (22,
     4194293)) else (if i < 167 then (21, 2097147) else (22, 4194294)))) else (if i < 172 then (if i < 170 then (if
     i < 169 then (22, 4194295) else (19, 524287)) else (if i < 171 then (20, 1048574) else (21, 2097148))) else (if
     i < 174 then (if i < 173 then (22, 4194296) else (22, 4194297)) else (if i < 175 then (21, 2097149) else (22,
     4194298)))))"

definition state_prefix_11 :: "nat \<Rightarrow> nat \<times> int" where
  "state_prefix_11 i =
     (if i < 184 then (if i < 180 then (if i < 178 then (if i < 177 then (23, 8388597) else (22, 4194299)) else (if
     i < 179 then (23, 8388598) else (23, 8388599))) else (if i < 182 then (if i < 181 then (20, 1048575) else (21,
     2097150)) else (if i < 183 then (22, 4194300) else (23, 8388600)))) else (if i < 188 then (if i < 186 then (if
     i < 185 then (23, 8388601) else (22, 4194301)) else (if i < 187 then (23, 8388602) else (23, 8388603))) else
     (if i < 190 then (if i < 189 then (24, 16777206) else (24, 16777207)) else (if i < 191 then (21, 2097151) else
     (22, 4194302)))))"

definition state_prefix_12 :: "nat \<Rightarrow> nat \<times> int" where
  "state_prefix_12 i =
     (if i < 200 then (if i < 196 then (if i < 194 then (if i < 193 then (23, 8388604) else (24, 16777208)) else (if
     i < 195 then (25, 33554416) else (25, 33554417))) else (if i < 198 then (if i < 197 then (24, 16777209) else
     (25, 33554418)) else (if i < 199 then (25, 33554419) else (23, 8388605)))) else (if i < 204 then (if i < 202
     then (if i < 201 then (24, 16777210) else (25, 33554420)) else (if i < 203 then (25, 33554421) else (24,
     16777211))) else (if i < 206 then (if i < 205 then (25, 33554422) else (25, 33554423)) else (if i < 207 then
     (26, 67108847) else (22, 4194303)))))"

definition state_prefix_13 :: "nat \<Rightarrow> nat \<times> int" where
  "state_prefix_13 i =
     (if i < 216 then (if i < 212 then (if i < 210 then (if i < 209 then (23, 8388606) else (24, 16777212)) else (if
     i < 211 then (25, 33554424) else (26, 67108848))) else (if i < 214 then (if i < 213 then (26, 67108849) else
     (25, 33554425)) else (if i < 215 then (26, 67108850) else (26, 67108851)))) else (if i < 220 then (if i < 218
     then (if i < 217 then (24, 16777213) else (25, 33554426)) else (if i < 219 then (26, 67108852) else (26,
     67108853))) else (if i < 222 then (if i < 221 then (25, 33554427) else (26, 67108854)) else (if i < 223 then
     (26, 67108855) else (23, 8388607)))))"

definition state_prefix_14 :: "nat \<Rightarrow> nat \<times> int" where
  "state_prefix_14 i =
     (if i < 232 then (if i < 228 then (if i < 226 then (if i < 225 then (24, 16777214) else (25, 33554428)) else
     (if i < 227 then (26, 67108856) else (27, 134217713))) else (if i < 230 then (if i < 229 then (26, 67108857)
     else (27, 134217714)) else (if i < 231 then (27, 134217715) else (25, 33554429)))) else (if i < 236 then (if i
     < 234 then (if i < 233 then (26, 67108858) else (27, 134217716)) else (if i < 235 then (27, 134217717) else
     (26, 67108859))) else (if i < 238 then (if i < 237 then (27, 134217718) else (27, 134217719)) else (if i < 239
     then (24, 16777215) else (25, 33554430)))))"

definition state_prefix_15 :: "nat \<Rightarrow> nat \<times> int" where
  "state_prefix_15 i =
     (if i < 248 then (if i < 244 then (if i < 242 then (if i < 241 then (26, 67108860) else (27, 134217720)) else
     (if i < 243 then (27, 134217721) else (26, 67108861))) else (if i < 246 then (if i < 245 then (27, 134217722)
     else (27, 134217723)) else (if i < 247 then (25, 33554431) else (26, 67108862)))) else (if i < 252 then (if i <
     250 then (if i < 249 then (27, 134217724) else (27, 134217725)) else (if i < 251 then (26, 67108863) else (27,
     134217726))) else (if i < 254 then (if i < 253 then (27, 134217727) else (28, 268435455)) else (if i < 255 then
     (29, 536870910) else (29, 536870911)))))"

definition state_prefix :: "nat \<Rightarrow> nat \<times> int" where
  "state_prefix i =
     (if i < 128 then (if i < 64 then (if i < 32 then (if i < 16 then state_prefix_0 i else state_prefix_1 i) else
     (if i < 48 then state_prefix_2 i else state_prefix_3 i)) else (if i < 96 then (if i < 80 then state_prefix_4 i
     else state_prefix_5 i) else (if i < 112 then state_prefix_6 i else state_prefix_7 i))) else (if i < 192 then
     (if i < 160 then (if i < 144 then state_prefix_8 i else state_prefix_9 i) else (if i < 176 then state_prefix_10
     i else state_prefix_11 i)) else (if i < 224 then (if i < 208 then state_prefix_12 i else state_prefix_13 i)
     else (if i < 240 then state_prefix_14 i else state_prefix_15 i))))"

lemmas state_prefix_simps =
  state_prefix_def state_prefix_0_def state_prefix_1_def state_prefix_2_def state_prefix_3_def state_prefix_4_def
  state_prefix_5_def state_prefix_6_def state_prefix_7_def state_prefix_8_def state_prefix_9_def state_prefix_10_def
  state_prefix_11_def state_prefix_12_def state_prefix_13_def state_prefix_14_def state_prefix_15_def

text \<open>The symbols in the order of their codes, and for every state a symbol whose code begins with its bits.\<close>

definition sym_order :: "nat list" where
  "sym_order = [
    48, 49, 50, 97, 99, 101, 105, 111, 115, 116, 32, 37, 45, 46, 47, 51, 52, 53, 54, 55, 56, 57, 61, 65, 95, 98,
    100, 102, 103, 104, 108, 109, 110, 112, 114, 117, 58, 66, 67, 68, 69, 70, 71, 72, 73, 74, 75, 76, 77, 78, 79,
    80, 81, 82, 83, 84, 85, 86, 87, 89, 106, 107, 113, 118, 119, 120, 121, 122, 38, 42, 44, 59, 88, 90, 33, 34, 40,
    41, 63, 39, 43, 124, 35, 62, 0, 36, 64, 91, 93, 126, 94, 125, 60, 96, 123, 92, 195, 208, 128, 130, 131, 162,
    184, 194, 224, 226, 153, 161, 167, 172, 176, 177, 179, 209, 216, 217, 227, 229, 230, 129, 132, 133, 134, 136,
    146, 154, 156, 160, 163, 164, 169, 170, 173, 178, 181, 185, 186, 187, 189, 190, 196, 198, 228, 232, 233, 1, 135,
    137, 138, 139, 140, 141, 143, 147, 149, 150, 151, 152, 155, 157, 158, 165, 166, 168, 174, 175, 180, 182, 183,
    188, 191, 197, 231, 239, 9, 142, 144, 145, 148, 159, 171, 206, 215, 225, 236, 237, 199, 207, 234, 235, 192, 193,
    200, 201, 202, 205, 210, 213, 218, 219, 238, 240, 242, 243, 255, 203, 204, 211, 212, 214, 221, 222, 223, 241,
    244, 245, 246, 247, 248, 250, 251, 252, 253, 254, 2, 3, 4, 5, 6, 7, 8, 11, 12, 14, 15, 16, 17, 18, 19, 20, 21,
    23, 24, 25, 26, 27, 28, 29, 30, 31, 127, 220, 249, 10, 13, 22, 256]"

definition state_syms :: "nat list" where
  "state_syms = [
    48, 48, 48, 48, 48, 50, 99, 99, 105, 115, 115, 115, 32, 32, 45, 47, 47, 47, 52, 54, 54, 56, 61, 61, 61, 61, 61,
    95, 100, 100, 103, 108, 108, 108, 110, 114, 114, 58, 58, 67, 69, 69, 69, 69, 69, 71, 73, 73, 75, 77, 77, 77, 79,
    81, 81, 83, 85, 85, 85, 85, 87, 106, 106, 113, 119, 119, 119, 121, 38, 38, 38, 44, 88, 88, 33, 33, 33, 40, 63,
    63, 39, 124, 124, 35, 0, 0, 0, 64, 93, 93, 94, 94, 60, 60, 123, 92, 92, 92, 92, 208, 128, 131, 131, 131, 184,
    224, 224, 153, 153, 167, 176, 176, 176, 176, 176, 179, 216, 216, 227, 230, 230, 230, 129, 133, 133, 136, 154,
    154, 154, 160, 164, 164, 170, 178, 178, 178, 178, 178, 185, 187, 187, 190, 198, 198, 198, 232, 1, 1, 1, 137,
    139, 139, 141, 147, 147, 147, 147, 147, 150, 152, 152, 157, 165, 165, 165, 168, 175, 175, 182, 188, 188, 188,
    188, 197, 239, 239, 9, 144, 144, 148, 171, 171, 171, 171, 215, 236, 236, 199, 199, 234, 192, 192, 192, 192, 192,
    200, 202, 202, 210, 218, 218, 218, 238, 242, 242, 255, 203, 211, 211, 211, 211, 211, 214, 222, 222, 241, 245,
    245, 245, 247, 250, 250, 252, 254, 254, 254, 254, 2, 4, 4, 6, 8, 8, 8, 12, 15, 15, 17, 19, 19, 19, 19, 21, 24,
    24, 26, 28, 28, 28, 30, 127, 127, 249, 10, 10, 22]"

section \<open>Checks\<close>

text \<open>The interval of the 30-bit numbers that begin with a code.\<close>

fun code_lo :: "nat \<times> int \<Rightarrow> int" where
  "code_lo (n, c) = c * 2 ^ (30 - n)"

fun code_hi :: "nat \<times> int \<Rightarrow> int" where
  "code_hi (n, c) = (c + 1) * 2 ^ (30 - n)"

fun code_ok :: "nat \<times> int \<Rightarrow> bool" where
  "code_ok (n, c) \<longleftrightarrow> 0 < n \<and> n \<le> 30 \<and> 0 \<le> c \<and> c < 2 ^ n"

primrec chain :: "int \<Rightarrow> nat list \<Rightarrow> bool" where
  "chain a [] \<longleftrightarrow> True"
| "chain a (i # is) \<longleftrightarrow> i < 257 \<and> code_ok (sym_code i) \<and> code_lo (sym_code i) = a \<and> chain (code_hi (sym_code i)) is"

fun extends :: "nat \<times> int \<Rightarrow> nat \<times> int \<Rightarrow> bool" where
  "extends (n, c) (m, d) \<longleftrightarrow> n < m \<and> c = d div 2 ^ (m - n) \<and> 0 \<le> c \<and> c < 2 ^ n"

primrec syms_ok :: "nat \<Rightarrow> nat list \<Rightarrow> bool" where
  "syms_ok s [] \<longleftrightarrow> True"
| "syms_ok s (i # is) \<longleftrightarrow> i < 257 \<and> extends (state_prefix s) (sym_code i) \<and> (fst (state_prefix s) = 0) = (s = 0) \<and> syms_ok (Suc s) is"

fun ones_prefix :: "nat \<times> int \<Rightarrow> bool" where
  "ones_prefix (n, c) \<longleftrightarrow> 0 < n \<and> n < 8 \<and> c + 1 = 2 ^ n"

fun eos_prefix :: "nat \<times> int \<Rightarrow> bool" where
  "eos_prefix (n, c) \<longleftrightarrow> 30 \<le> n \<and> c div 2 ^ (n - 30) + 1 = 2 ^ 30"

text \<open>An entry of the decoder is right for a state with given bits: these bits and the four read are a code, if a byte is
  decoded, followed by the bits of the next state, or they begin with the end-of-string code.\<close>

fun goes_to :: "bool \<Rightarrow> nat \<times> int \<Rightarrow> nat \<times> int \<Rightarrow> nat \<times> int \<Rightarrow> bool" where
  "goes_to maybe (m, d) (r, e) (n, c) \<longleftrightarrow> maybe = ones_prefix (r, e) \<and> m + r = n \<and> d * 2 ^ r + e = c"

fun entry_ok :: "nat \<times> int \<Rightarrow> int \<Rightarrow> byte \<times> byte \<times> byte \<Rightarrow> bool" where
  "entry_ok (n, c) nib (next, b, flags) \<longleftrightarrow>
     (if flags AND HUFF_ERROR = HUFF_ERROR then eos_prefix (n + 4, 16 * c + nib)
      else goes_to (flags AND MAYBE_EOS = MAYBE_EOS) (if flags AND DECODED = DECODED then sym_code (unat b) else (0, 0))
             (state_prefix (unat next)) (n + 4, 16 * c + nib))"

primrec row_ok :: "nat \<times> int \<Rightarrow> int \<Rightarrow> huff_row \<Rightarrow> bool" where
  "row_ok p nib [] \<longleftrightarrow> True"
| "row_ok p nib (en # row) \<longleftrightarrow> entry_ok p nib en \<and> row_ok p (nib + 1) row"

primrec rows_ok :: "nat \<Rightarrow> huff_row list \<Rightarrow> bool" where
  "rows_ok s [] \<longleftrightarrow> True"
| "rows_ok s (row # rows) \<longleftrightarrow> row_ok (state_prefix s) 0 row \<and> length row = 16 \<and> rows_ok (s + 1) rows"

lemmas entry_simps = state_prefix_simps sym_code_simps HUFF_ERROR_def MAYBE_EOS_def DECODED_def

section \<open>Results\<close>

lemma codes_listed: "map (\<lambda>(n, c). (n, uint c)) ENCODE_TABLE = map sym_code [0..<257]"
  by (simp add: ENCODE_TABLE_def ENCODE_TABLE_0_def ENCODE_TABLE_1_def sym_code_simps upt_conv_Cons)

lemma chain_order: "chain 0 sym_order"
  by (simp add: sym_order_def sym_code_simps)

lemma length_order: "length sym_order = 257"
  by (simp add: sym_order_def)

lemma syms_listed: "syms_ok 0 state_syms" "length state_syms = 256"
  by (simp_all add: state_syms_def state_prefix_simps sym_code_simps)

lemma rows_0: "rows_ok 0 DECODE_TABLE_0" "length DECODE_TABLE_0 = 7"
  by (simp_all add: DECODE_TABLE_0_def entry_simps)

lemma rows_1: "rows_ok 7 DECODE_TABLE_1" "length DECODE_TABLE_1 = 7"
  by (simp_all add: DECODE_TABLE_1_def entry_simps)

lemma rows_2: "rows_ok 14 DECODE_TABLE_2" "length DECODE_TABLE_2 = 7"
  by (simp_all add: DECODE_TABLE_2_def entry_simps)

lemma rows_3: "rows_ok 21 DECODE_TABLE_3" "length DECODE_TABLE_3 = 7"
  by (simp_all add: DECODE_TABLE_3_def entry_simps)

lemma rows_4: "rows_ok 28 DECODE_TABLE_4" "length DECODE_TABLE_4 = 7"
  by (simp_all add: DECODE_TABLE_4_def entry_simps)

lemma rows_5: "rows_ok 35 DECODE_TABLE_5" "length DECODE_TABLE_5 = 7"
  by (simp_all add: DECODE_TABLE_5_def entry_simps)

lemma rows_6: "rows_ok 42 DECODE_TABLE_6" "length DECODE_TABLE_6 = 7"
  by (simp_all add: DECODE_TABLE_6_def entry_simps)

lemma rows_7: "rows_ok 49 DECODE_TABLE_7" "length DECODE_TABLE_7 = 7"
  by (simp_all add: DECODE_TABLE_7_def entry_simps)

lemma rows_8: "rows_ok 56 DECODE_TABLE_8" "length DECODE_TABLE_8 = 7"
  by (simp_all add: DECODE_TABLE_8_def entry_simps)

lemma rows_9: "rows_ok 63 DECODE_TABLE_9" "length DECODE_TABLE_9 = 7"
  by (simp_all add: DECODE_TABLE_9_def entry_simps)

lemma rows_10: "rows_ok 70 DECODE_TABLE_10" "length DECODE_TABLE_10 = 7"
  by (simp_all add: DECODE_TABLE_10_def entry_simps)

lemma rows_11: "rows_ok 77 DECODE_TABLE_11" "length DECODE_TABLE_11 = 7"
  by (simp_all add: DECODE_TABLE_11_def entry_simps)

lemma rows_12: "rows_ok 84 DECODE_TABLE_12" "length DECODE_TABLE_12 = 7"
  by (simp_all add: DECODE_TABLE_12_def entry_simps)

lemma rows_13: "rows_ok 91 DECODE_TABLE_13" "length DECODE_TABLE_13 = 7"
  by (simp_all add: DECODE_TABLE_13_def entry_simps)

lemma rows_14: "rows_ok 98 DECODE_TABLE_14" "length DECODE_TABLE_14 = 7"
  by (simp_all add: DECODE_TABLE_14_def entry_simps)

lemma rows_15: "rows_ok 105 DECODE_TABLE_15" "length DECODE_TABLE_15 = 7"
  by (simp_all add: DECODE_TABLE_15_def entry_simps)

lemma rows_16: "rows_ok 112 DECODE_TABLE_16" "length DECODE_TABLE_16 = 7"
  by (simp_all add: DECODE_TABLE_16_def entry_simps)

lemma rows_17: "rows_ok 119 DECODE_TABLE_17" "length DECODE_TABLE_17 = 7"
  by (simp_all add: DECODE_TABLE_17_def entry_simps)

lemma rows_18: "rows_ok 126 DECODE_TABLE_18" "length DECODE_TABLE_18 = 7"
  by (simp_all add: DECODE_TABLE_18_def entry_simps)

lemma rows_19: "rows_ok 133 DECODE_TABLE_19" "length DECODE_TABLE_19 = 7"
  by (simp_all add: DECODE_TABLE_19_def entry_simps)

lemma rows_20: "rows_ok 140 DECODE_TABLE_20" "length DECODE_TABLE_20 = 7"
  by (simp_all add: DECODE_TABLE_20_def entry_simps)

lemma rows_21: "rows_ok 147 DECODE_TABLE_21" "length DECODE_TABLE_21 = 7"
  by (simp_all add: DECODE_TABLE_21_def entry_simps)

lemma rows_22: "rows_ok 154 DECODE_TABLE_22" "length DECODE_TABLE_22 = 7"
  by (simp_all add: DECODE_TABLE_22_def entry_simps)

lemma rows_23: "rows_ok 161 DECODE_TABLE_23" "length DECODE_TABLE_23 = 7"
  by (simp_all add: DECODE_TABLE_23_def entry_simps)

lemma rows_24: "rows_ok 168 DECODE_TABLE_24" "length DECODE_TABLE_24 = 7"
  by (simp_all add: DECODE_TABLE_24_def entry_simps)

lemma rows_25: "rows_ok 175 DECODE_TABLE_25" "length DECODE_TABLE_25 = 7"
  by (simp_all add: DECODE_TABLE_25_def entry_simps)

lemma rows_26: "rows_ok 182 DECODE_TABLE_26" "length DECODE_TABLE_26 = 7"
  by (simp_all add: DECODE_TABLE_26_def entry_simps)

lemma rows_27: "rows_ok 189 DECODE_TABLE_27" "length DECODE_TABLE_27 = 7"
  by (simp_all add: DECODE_TABLE_27_def entry_simps)

lemma rows_28: "rows_ok 196 DECODE_TABLE_28" "length DECODE_TABLE_28 = 7"
  by (simp_all add: DECODE_TABLE_28_def entry_simps)

lemma rows_29: "rows_ok 203 DECODE_TABLE_29" "length DECODE_TABLE_29 = 7"
  by (simp_all add: DECODE_TABLE_29_def entry_simps)

lemma rows_30: "rows_ok 210 DECODE_TABLE_30" "length DECODE_TABLE_30 = 7"
  by (simp_all add: DECODE_TABLE_30_def entry_simps)

lemma rows_31: "rows_ok 217 DECODE_TABLE_31" "length DECODE_TABLE_31 = 7"
  by (simp_all add: DECODE_TABLE_31_def entry_simps)

lemma rows_32: "rows_ok 224 DECODE_TABLE_32" "length DECODE_TABLE_32 = 7"
  by (simp_all add: DECODE_TABLE_32_def entry_simps)

lemma rows_33: "rows_ok 231 DECODE_TABLE_33" "length DECODE_TABLE_33 = 7"
  by (simp_all add: DECODE_TABLE_33_def entry_simps)

lemma rows_34: "rows_ok 238 DECODE_TABLE_34" "length DECODE_TABLE_34 = 7"
  by (simp_all add: DECODE_TABLE_34_def entry_simps)

lemma rows_35: "rows_ok 245 DECODE_TABLE_35" "length DECODE_TABLE_35 = 7"
  by (simp_all add: DECODE_TABLE_35_def entry_simps)

lemma rows_36: "rows_ok 252 DECODE_TABLE_36" "length DECODE_TABLE_36 = 4"
  by (simp_all add: DECODE_TABLE_36_def entry_simps)

lemmas rows_checked =
  rows_0 rows_1 rows_2 rows_3 rows_4 rows_5 rows_6 rows_7 rows_8 rows_9 rows_10 rows_11 rows_12 rows_13 rows_14
  rows_15 rows_16 rows_17 rows_18 rows_19 rows_20 rows_21 rows_22 rows_23 rows_24 rows_25 rows_26 rows_27 rows_28
  rows_29 rows_30 rows_31 rows_32 rows_33 rows_34 rows_35 rows_36

lemma rows_ok_append: "rows_ok s (xs @ ys) \<longleftrightarrow> rows_ok s xs \<and> rows_ok (s + length xs) ys"
  by (induction xs arbitrary: s) simp_all

lemma table_checked: "rows_ok 0 DECODE_TABLE" "length DECODE_TABLE = 256"
  by (simp_all add: DECODE_TABLE_def rows_ok_append rows_checked)

end
