(* ===== verification/Huffman_Correct.thy ===== *)
theory Huffman_Correct
  imports Huffman_Check "HOL-Library.Sublist"
begin

text \<open>
  What the Huffman coder does on strings of bits: the decoder accepts exactly what the encoder writes.
\<close>

section \<open>Bits\<close>

text \<open>The lowest bits of a number, the highest first.\<close>

definition to_bits :: "nat \<Rightarrow> int \<Rightarrow> bool list" where
  "to_bits n v = map (\<lambda>i. bit v (n - Suc i)) [0..<n]"

abbreviation pair_bits :: "nat \<times> int \<Rightarrow> bool list" where
  "pair_bits p \<equiv> to_bits (fst p) (snd p)"

lemma length_to_bits [simp]: "length (to_bits n v) = n"
  by (simp add: to_bits_def)

lemma to_bits_0 [simp]: "to_bits 0 v = []"
  by (simp add: to_bits_def)

lemma nth_to_bits: "i < n \<Longrightarrow> to_bits n v ! i = bit v (n - Suc i)"
  by (simp add: to_bits_def)

lemma bit_join:
  assumes "0 \<le> b" "b < 2 ^ n"
  shows "bit (a * 2 ^ n + b) k = (if k < n then bit b k else bit (a :: int) (k - n))"
proof -
  have "take_bit n (a * 2 ^ n + b) = b" "drop_bit n (a * 2 ^ n + b) = a"
    using assms by (simp_all add: take_bit_eq_mod drop_bit_eq_div)
  then show ?thesis
    using bit_take_bit_iff[of n "a * 2 ^ n + b" k] bit_drop_bit_eq[of n "a * 2 ^ n + b"] by (auto simp: fun_eq_iff)
qed

lemma to_bits_append:
  assumes "0 \<le> b" "b < 2 ^ n"
  shows "to_bits (m + n) (a * 2 ^ n + b) = to_bits m a @ to_bits n b"
  using assms by (intro nth_equalityI) (auto simp: nth_to_bits nth_append bit_join intro!: arg_cong[where f = "bit _"])

lemma to_bits_inj:
  assumes "to_bits n a = to_bits n b" "0 \<le> a" "a < 2 ^ n" "0 \<le> b" "b < 2 ^ n"
  shows "a = b"
proof -
  have "bit a k = bit b k" if "k < n" for k
    using arg_cong[OF assms(1), of "\<lambda>l. l ! (n - Suc k)"] that by (simp add: nth_to_bits)
  then have "take_bit n a = take_bit n b" by (intro bit_eqI) (auto simp: bit_simps)
  then show ?thesis using assms by (simp add: take_bit_int_eq_self)
qed

lemma take_to_bits: "n \<le> m \<Longrightarrow> take n (to_bits m v) = to_bits n (v div 2 ^ (m - n))"
  by (intro nth_equalityI) (auto simp: nth_to_bits bit_simps simp flip: drop_bit_eq_div)

lemma div_exp_less:
  assumes "d < 2 ^ m" "n \<le> m"
  shows "d div 2 ^ (m - n) < (2 ^ n :: int)"
proof -
  have "d div 2 ^ (m - n) * 2 ^ (m - n) \<le> d" by (simp add: minus_mod_eq_div_mult[symmetric])
  also have "d < 2 ^ n * 2 ^ (m - n)" using assms by (simp flip: power_add)
  finally show ?thesis by simp
qed

lemma to_bits_ones: "to_bits n (2 ^ n - 1) = replicate n True"
  by (intro nth_equalityI) (auto simp: nth_to_bits bit_simps simp flip: mask_eq_exp_minus_1)

definition bits_of :: "byte list \<Rightarrow> bool list" where
  "bits_of bs = concat (map (\<lambda>b. to_bits 8 (uint b)) bs)"

lemma bits_of_simps [simp]:
  "bits_of [] = []" "bits_of (b # bs) = to_bits 8 (uint b) @ bits_of bs" "bits_of (xs @ ys) = bits_of xs @ bits_of ys"
  by (simp_all add: bits_of_def)

lemma length_bits_of [simp]: "length (bits_of bs) = 8 * length bs"
  by (induction bs) simp_all

lemma uint_byte_less: "uint (b :: byte) < 256"
  using uint_lt2p[of b] by simp

lemma bits_of_inj: "bits_of xs = bits_of ys \<Longrightarrow> xs = ys"
proof (induction xs arbitrary: ys)
  case Nil
  then show ?case using length_bits_of[of ys] by simp
next
  case (Cons x xs)
  then obtain y zs where ys: "ys = y # zs" using length_bits_of[of "x # xs"] length_bits_of[of ys] by (cases ys) auto
  then have "to_bits 8 (uint x) = to_bits 8 (uint y)" "bits_of xs = bits_of zs" using Cons.prems by simp_all
  then have "uint x = uint y" "xs = zs" using Cons.IH to_bits_inj[of 8 "uint x" "uint y"] uint_byte_less by simp_all
  then show ?case by (simp add: ys word_uint_eq_iff)
qed

lemma uint_nibbles: "uint (drop_bit 4 b) = uint b div 16" "uint (b AND 15 :: byte) = uint b mod 16"
  by (subst unsigned_drop_bit_eq, simp add: drop_bit_eq_div take_bit_int_eq_self uint_byte_less)
    (use take_bit_eq_mask[of 4 "uint b"] in \<open>simp add: uint_and take_bit_eq_mod mask_eq_exp_minus_1\<close>)

lemma nibbles: "to_bits 8 (uint b) = to_bits 4 (uint (drop_bit 4 b)) @ to_bits 4 (uint (b AND 15 :: byte))"
  unfolding uint_nibbles using to_bits_append[of "uint b mod 16" 4 4 "uint b div 16"] by simp

lemma nibble_less: "unat (drop_bit 4 b :: byte) < 16" "unat (b AND 15 :: byte) < 16"
proof -
  have "int (unat (drop_bit 4 b)) < int 16" "int (unat (b AND 15)) < int 16"
    using uint_byte_less[of b] unfolding of_nat_unat uint_nibbles by simp_all
  then show "unat (drop_bit 4 b :: byte) < 16" "unat (b AND 15 :: byte) < 16" by (simp_all only: of_nat_less_iff)
qed

section \<open>Codes\<close>

definition code :: "nat \<Rightarrow> bool list" where
  "code i = pair_bits (sym_code i)"

abbreviation codes :: "nat list \<Rightarrow> bool list" where
  "codes is \<equiv> concat (map code is)"

lemma code_interval: "code_ok p \<Longrightarrow> code_lo p < code_hi p"
  by (cases p) simp

lemma chain_ge: "chain a is \<Longrightarrow> j \<in> set is \<Longrightarrow> a \<le> code_lo (sym_code j) \<and> code_ok (sym_code j) \<and> j < 257"
proof (induction "is" arbitrary: a)
  case (Cons i "is")
  then show ?case using code_interval[of "sym_code i"] by fastforce
qed simp

lemma chain_disjoint:
  "chain a is \<Longrightarrow> i \<in> set is \<Longrightarrow> j \<in> set is \<Longrightarrow> i \<noteq> j \<Longrightarrow>
   code_hi (sym_code i) \<le> code_lo (sym_code j) \<or> code_hi (sym_code j) \<le> code_lo (sym_code i)"
proof (induction "is" arbitrary: a)
  case (Cons k "is")
  then show ?case using chain_ge[of "code_hi (sym_code k)" "is"] by auto
qed simp

lemma chain_distinct: "chain a is \<Longrightarrow> distinct is"
proof (induction "is" arbitrary: a)
  case (Cons i "is")
  then show ?case using chain_ge[of "code_hi (sym_code i)" "is" i] code_interval[of "sym_code i"] by auto
qed simp

lemma set_order: "set sym_order = {..<257}"
proof (rule card_subset_eq)
  show "set sym_order \<subseteq> {..<257}" using chain_ge[OF chain_order] by blast
  show "card (set sym_order) = card {..<257::nat}" using distinct_card[OF chain_distinct[OF chain_order]] by (simp add: length_order)
qed simp

lemma code_valid: "i < 257 \<Longrightarrow> code_ok (sym_code i)"
  using chain_ge[OF chain_order, of i] by (simp add: set_order)

lemma code_prefix_free:
  assumes "i < 257" "j < 257" "prefix (code i) (code j)"
  shows "i = j"
proof (rule ccontr)
  assume ij: "i \<noteq> j"
  obtain n c m d where nc: "sym_code i = (n, c)" and md: "sym_code j = (m, d)" by fastforce
  have ok: "0 \<le> c" "c < 2 ^ n" "0 \<le> d" "d < 2 ^ m" "m \<le> 30" using code_valid[OF assms(1)] code_valid[OF assms(2)] by (simp_all add: nc md)
  have nm: "n \<le> m" and "to_bits n c = take n (to_bits m d)"
    using assms(3) prefix_length_le[OF assms(3)] by (auto simp: code_def nc md prefix_def)
  then have c: "c = d div 2 ^ (m - n)"
    using ok by (intro to_bits_inj[of n]) (simp_all add: take_to_bits pos_imp_zdiv_nonneg_iff div_exp_less)
  define q :: int where "q = 2 ^ (m - n)"
  have q: "2 ^ (30 - n) = q * 2 ^ (30 - m)" using nm ok(5) by (simp add: q_def flip: power_add)
  have "0 < q" "c * q = d - d mod q" by (simp_all add: q_def c minus_mod_eq_div_mult)
  then have "c * q \<le> d" "d < (c + 1) * q"
    using pos_mod_sign[of q d] pos_mod_bound[of q d] by (simp_all add: distrib_right)
  then have "c * q * 2 ^ (30 - m) \<le> d * 2 ^ (30 - m)" "(d + 1) * 2 ^ (30 - m) \<le> (c + 1) * q * 2 ^ (30 - m)" by (simp_all add: mult_right_mono)
  then have "code_lo (sym_code i) \<le> code_lo (sym_code j)" "code_hi (sym_code j) \<le> code_hi (sym_code i)"
    by (simp_all add: nc md q mult.assoc)
  then show False
    using chain_disjoint[OF chain_order, of i j] ij assms(1,2) code_interval[OF code_valid[OF assms(1)]] code_interval[OF code_valid[OF assms(2)]]
    by (simp add: set_order)
qed

lemma length_code: "length (code i) = fst (sym_code i)"
  by (simp add: code_def)

text \<open>No code begins the bits left over.\<close>

definition code_free :: "bool list \<Rightarrow> bool" where
  "code_free v \<longleftrightarrow> (\<forall>i < 257. \<not> prefix (code i) v)"

lemma unique_parse:
  assumes "codes xs @ u = codes ys @ v" "code_free v" "set xs \<subseteq> {..<257}" "set ys \<subseteq> {..<257}"
  shows "\<exists>zs. ys = xs @ zs \<and> u = codes zs @ v"
  using assms
proof (induction xs arbitrary: ys)
  case (Cons x xs)
  show ?case
  proof (cases ys)
    case Nil
    then have "v = code x @ codes xs @ u" using Cons.prems(1) by simp
    then have "prefix (code x) v" by simp
    then show ?thesis using Cons.prems(2,3) by (simp add: code_free_def)
  next
    case ys: (Cons y ys')
    have eq: "code y @ codes ys' @ v = code x @ codes xs @ u" using Cons.prems(1) by (simp add: ys)
    have "prefix (code x) (code x @ codes xs @ u)" by simp
    moreover have "prefix (code y) (code x @ codes xs @ u)" unfolding eq[symmetric] by simp
    ultimately have "prefix (code x) (code y) \<or> prefix (code y) (code x)" by (rule prefix_same_cases)
    then have xy: "x = y" using code_prefix_free[of x y] code_prefix_free[of y x] Cons.prems(3,4) by (auto simp: ys)
    then show ?thesis using Cons.IH[of ys'] Cons.prems by (simp add: ys)
  qed
qed simp

section \<open>The decoder\<close>

abbreviation pfx :: "huff_decoder \<Rightarrow> bool list" where
  "pfx d \<equiv> pair_bits (state_prefix (unat (hu_state d)))"

lemma syms_ok_nth: "syms_ok s is \<Longrightarrow> k < length is \<Longrightarrow> 
   is ! k < 257 \<and> extends (state_prefix (s + k)) (sym_code (is ! k)) \<and> (fst (state_prefix (s + k)) = 0) = (s + k = 0)"
proof (induction "is" arbitrary: s k)
  case (Cons i "is")
  then show ?case using Cons.IH[of "Suc s" "k - 1"] by (cases k) auto
qed simp

lemma state_extended:
  assumes "s < 256"
  obtains j where "j < 257" "extends (state_prefix s) (sym_code j)"
  using syms_ok_nth[OF syms_listed(1), of s] syms_listed(2) assms by auto

lemma pfx_code_free:
  assumes "s < 256"
  shows "code_free (pair_bits (state_prefix s))"
  unfolding code_free_def
proof (intro allI impI notI)
  fix i assume i: "i < 257" "prefix (code i) (pair_bits (state_prefix s))"
  obtain j where j: "j < 257" "extends (state_prefix s) (sym_code j)" using assms by (rule state_extended)
  obtain n c m d where nc: "state_prefix s = (n, c)" and md: "sym_code j = (m, d)" by fastforce
  have nm: "n < m" "to_bits n c = take n (code j)" using j(2) by (simp_all add: nc md code_def take_to_bits)
  have "prefix (to_bits n c) (code j)" unfolding nm(2) by (rule take_is_prefix)
  then have "i = j" using i j(1) by (intro code_prefix_free) (auto simp: nc elim: prefix_order.trans)
  then show False using prefix_length_le[OF i(2)] nm(1) by (simp add: length_code nc md)
qed

lemma row_ok_nth: "row_ok p nib row \<Longrightarrow> k < length row \<Longrightarrow> entry_ok p (nib + int k) (row ! k)"
proof (induction row arbitrary: nib k)
  case (Cons en row)
  then show ?case using Cons.IH[of "nib + 1" "k - 1"] by (cases k) (auto simp: algebra_simps)
qed simp

lemma rows_ok_nth: "rows_ok s rows \<Longrightarrow> k < length rows \<Longrightarrow> row_ok (state_prefix (s + k)) 0 (rows ! k) \<and> length (rows ! k) = 16"
proof (induction rows arbitrary: s k)
  case (Cons row rows)
  then show ?case using Cons.IH[of "s + 1" "k - 1"] by (cases k) auto
qed simp

lemma table_entry: "s < 256 \<Longrightarrow> k < 16 \<Longrightarrow> entry_ok (state_prefix s) (int k) (DECODE_TABLE ! s ! k)"
  using rows_ok_nth[OF table_checked(1), of s] row_ok_nth[of "state_prefix s" 0 "DECODE_TABLE ! s" k] by (simp add: table_checked(2))

lemma state_prefix_bounds: "s < 256 \<Longrightarrow> 0 \<le> snd (state_prefix s) \<and> snd (state_prefix s) < 2 ^ fst (state_prefix s)"
  by (erule state_extended) (metis extends.elims(2) fst_conv snd_conv)

lemma EOS_ones: "code 256 = replicate 30 True"
  using to_bits_ones[of 30] by (simp add: code_def sym_code_simps)

lemma code_256_prefix:
  assumes "eos_prefix (n, c)"
  shows "\<exists>rest. to_bits n c = code 256 @ rest"
proof -
  have n: "30 \<le> n" "c div 2 ^ (n - 30) = 2 ^ 30 - 1" using assms by simp_all
  have "take 30 (to_bits n c) = code 256" using take_to_bits[OF n(1), of c] to_bits_ones[of 30] by (simp add: n(2) EOS_ones)
  then show ?thesis by (metis append_take_drop_id)
qed

lemma decode4_spec:
  assumes "unat input < 16"
  shows "(\<exists>r d'. decode4 d input = Ok (r, d') \<and>
      pfx d @ to_bits 4 (uint input) = (case r of None \<Rightarrow> [] | Some b \<Rightarrow> code (unat b)) @ pfx d' \<and>
      hu_maybe_eos d' = ones_prefix (state_prefix (unat (hu_state d')))) \<or>
    (\<exists>rest. decode4 d input = Err InvalidHuffmanCode \<and> pfx d @ to_bits 4 (uint input) = code 256 @ rest)"
proof -
  obtain n c where nc: "state_prefix (unat (hu_state d)) = (n, c)" by fastforce
  obtain nx b fl where en: "DECODE_TABLE ! unat (hu_state d) ! unat input = (nx, b, fl)"
    by (cases "DECODE_TABLE ! unat (hu_state d) ! unat input") auto
  have e: "entry_ok (n, c) (uint input) (nx, b, fl)"
    using table_entry[OF unat_u8_bound assms, of "hu_state d"] by (simp add: nc en del: entry_ok.simps)
  have "int (unat input) < int 16" using assms by (simp only: of_nat_less_iff)
  then have nib: "0 \<le> uint input" "uint input < 2 ^ 4" by simp_all
  have j: "pfx d @ to_bits 4 (uint input) = to_bits (n + 4) (16 * c + uint input)"
    using to_bits_append[OF nib, of n c] by (simp add: nc mult.commute)
  show ?thesis
  proof (cases "fl AND HUFF_ERROR = HUFF_ERROR")
    case True
    then have "eos_prefix (n + 4, 16 * c + uint input)" using e by simp
    from code_256_prefix[OF this] show ?thesis using assms True by (auto simp: decode4_def en j)
  next
    case False
    obtain r1 e1 where re: "state_prefix (unat nx) = (r1, e1)" by fastforce
    obtain m1 d1 where md: "(if fl AND DECODED = DECODED then sym_code (unat b) else (0, 0)) = (m1, d1)" by fastforce
    have g: "goes_to (fl AND MAYBE_EOS = MAYBE_EOS) (m1, d1) (r1, e1) (n + 4, 16 * c + uint input)"
      using e False md by (simp add: re del: goes_to.simps)
    have "to_bits (m1 + r1) (d1 * 2 ^ r1 + e1) = to_bits m1 d1 @ to_bits r1 e1"
      using state_prefix_bounds[OF unat_u8_bound, of nx] by (intro to_bits_append) (simp_all add: re)
    then have "pfx d @ to_bits 4 (uint input) = to_bits m1 d1 @ to_bits r1 e1" using g by (simp add: j)
    moreover have "to_bits m1 d1 = (if fl AND DECODED = DECODED then code (unat b) else [])"
      using md by (auto simp: code_def split: if_splits)
    ultimately show ?thesis using assms False g re by (auto simp: decode4_def en)
  qed
qed

abbreviation tracked :: "huff_decoder \<Rightarrow> bool" where
  "tracked d \<equiv> hu_maybe_eos d = ones_prefix (state_prefix (unat (hu_state d)))"

abbreviation sym_codes :: "byte list \<Rightarrow> bool list" where
  "sym_codes s \<equiv> codes (map unat s)"

lemma huff_loop_spec:
  assumes "tracked d"
  shows "(\<exists>out d'. huff_loop d buf src = Ok (buf @ out, d') \<and> pfx d @ bits_of src = sym_codes out @ pfx d' \<and> tracked d') \<or>
    (\<exists>out rest. huff_loop d buf src = Err InvalidHuffmanCode \<and> pfx d @ bits_of src = sym_codes out @ code 256 @ rest)"
  using assms
proof (induction d buf src rule: huff_loop.induct)
  case (2 d buf b src)
  let ?o = "\<lambda>r. case r of Some x \<Rightarrow> [x] | None \<Rightarrow> []"
  have o: "(case r of None \<Rightarrow> [] | Some b \<Rightarrow> code (unat b)) = sym_codes (?o r)" for r by (cases r) simp_all
  consider (err) rest where "decode4 d (drop_bit 4 b) = Err InvalidHuffmanCode" "pfx d @ to_bits 4 (uint (drop_bit 4 b)) = code 256 @ rest"
    | (ok) r1 d1 where "decode4 d (drop_bit 4 b) = Ok (r1, d1)" "pfx d @ to_bits 4 (uint (drop_bit 4 b)) = sym_codes (?o r1) @ pfx d1"
    using decode4_spec[OF nibble_less(1)[of b], of d] unfolding o by blast
  then show ?case
  proof cases
    case err
    then have "pfx d @ bits_of (b # src) = sym_codes [] @ code 256 @ rest @ to_bits 4 (uint (b AND 15)) @ bits_of src"
      by (simp add: nibbles flip: append_assoc)
    then show ?thesis using err by fastforce
  next
    case ok
    have p: "pfx d @ bits_of (b # src) = sym_codes (?o r1) @ pfx d1 @ to_bits 4 (uint (b AND 15)) @ bits_of src"
      using ok(2) by (simp add: nibbles flip: append_assoc)
    consider (err2) rest where "decode4 d1 (b AND 15) = Err InvalidHuffmanCode" "pfx d1 @ to_bits 4 (uint (b AND 15)) = code 256 @ rest"
      | (ok2) r2 d2 where "decode4 d1 (b AND 15) = Ok (r2, d2)" "pfx d1 @ to_bits 4 (uint (b AND 15)) = sym_codes (?o r2) @ pfx d2" "tracked d2"
      using decode4_spec[OF nibble_less(2)[of b], of d1] unfolding o by blast
    then show ?thesis
    proof cases
      case err2
      have "pfx d @ bits_of (b # src) = sym_codes (?o r1) @ (pfx d1 @ to_bits 4 (uint (b AND 15))) @ bits_of src" unfolding p by simp
      then have "pfx d @ bits_of (b # src) = sym_codes (?o r1) @ code 256 @ rest @ bits_of src" unfolding err2(2) by simp
      then show ?thesis using ok err2 by fastforce
    next
      case ok2
      have "pfx d @ bits_of (b # src) = sym_codes (?o r1) @ (pfx d1 @ to_bits 4 (uint (b AND 15))) @ bits_of src" unfolding p by simp
      then have q: "pfx d @ bits_of (b # src) = sym_codes (?o r1 @ ?o r2) @ pfx d2 @ bits_of src" unfolding ok2(2) by simp
      have l: "huff_loop d buf (b # src) = huff_loop d2 (buf @ ?o r1 @ ?o r2) src" using ok(1) ok2(1) by simp
      have "(\<exists>out d'. huff_loop d2 (buf @ ?o r1 @ ?o r2) src = Ok ((buf @ ?o r1 @ ?o r2) @ out, d') \<and> pfx d2 @ bits_of src = sym_codes out @ pfx d' \<and> tracked d') \<or>
        (\<exists>out rest. huff_loop d2 (buf @ ?o r1 @ ?o r2) src = Err InvalidHuffmanCode \<and> pfx d2 @ bits_of src = sym_codes out @ code 256 @ rest)"
        by (rule "2.IH"[OF ok2(3)])
      then show ?thesis
      proof (elim disjE exE conjE)
        fix out d' assume "huff_loop d2 (buf @ ?o r1 @ ?o r2) src = Ok ((buf @ ?o r1 @ ?o r2) @ out, d')" "pfx d2 @ bits_of src = sym_codes out @ pfx d'" "tracked d'"
        then show ?thesis unfolding l q by (intro disjI1 exI[of _ "?o r1 @ ?o r2 @ out"] exI[of _ d']) simp
      next
        fix out rest assume "huff_loop d2 (buf @ ?o r1 @ ?o r2) src = Err InvalidHuffmanCode" "pfx d2 @ bits_of src = sym_codes out @ code 256 @ rest"
        then show ?thesis unfolding l q by (intro disjI2 exI[of _ "?o r1 @ ?o r2 @ out"] exI[of _ rest]) simp
      qed
    qed
  qed
qed simp

lemma ones_code_free: "k < 8 \<Longrightarrow> code_free (replicate k True)"
  unfolding code_free_def
proof (intro allI impI notI)
  fix i assume k: "k < 8" and i: "i < 257" "prefix (code i) (replicate k True)"
  have "prefix (replicate k True) (code 256)" using k by (auto simp: EOS_ones prefix_def simp flip: replicate_add intro!: exI[of _ "replicate (30 - k) True"])
  then have "i = 256" using i by (intro code_prefix_free) (auto elim: prefix_order.trans)
  then show False using prefix_length_le[OF i(2)] k by (simp add: EOS_ones)
qed

lemma state_0: "s < 256 \<Longrightarrow> fst (state_prefix s) = 0 \<longleftrightarrow> s = 0"
  using syms_ok_nth[OF syms_listed(1), of s] syms_listed(2) by simp

lemma final_ones:
  assumes "tracked d"
  shows "is_final d \<longleftrightarrow> (\<exists>k<8. pfx d = replicate k True)"
proof -
  obtain n c where nc: "state_prefix (unat (hu_state d)) = (n, c)" by fastforce
  have b: "0 \<le> c" "c < 2 ^ n" using state_prefix_bounds[OF unat_u8_bound, of "hu_state d"] by (simp_all add: nc)
  have z: "n = 0 \<longleftrightarrow> hu_state d = 0" using state_0[OF unat_u8_bound, of "hu_state d"] by (simp add: nc unat_eq_zero)
  have "(\<exists>k<8. to_bits n c = replicate k True) \<longleftrightarrow> n < 8 \<and> to_bits n c = to_bits n (2 ^ n - 1)"
    unfolding to_bits_ones by (metis length_replicate length_to_bits)
  also have "\<dots> \<longleftrightarrow> n < 8 \<and> c = 2 ^ n - 1" using b to_bits_inj[of n c "2 ^ n - 1"] by auto
  finally show ?thesis using assms z b by (auto simp: is_final_def nc)
qed

lemma unat_byte_subset: "set (map unat (s :: byte list)) \<subseteq> {..<257}"
  using unat_u8_bound by (auto intro: less_trans)

lemma decode_bits:
  "huff_decode_bytes src = Ok s \<longleftrightarrow> (\<exists>k<8. bits_of src = sym_codes s @ replicate k True)"
  "huff_decode_bytes src \<noteq> Panic"
proof -
  have new: "tracked huff_new" "pfx huff_new = []" by (simp_all add: huff_new_def state_prefix_simps)
  note spec = huff_loop_spec[OF new(1), of "[]" src, unfolded new(2) append_Nil]
  show "huff_decode_bytes src = Ok s \<longleftrightarrow> (\<exists>k<8. bits_of src = sym_codes s @ replicate k True)"
  proof
    assume "huff_decode_bytes src = Ok s"
    then obtain d' where "huff_loop huff_new [] src = Ok (s, d')" "is_final d'"
      by (auto simp: huff_decode_bytes_def and_then_Ok_iff split: if_splits)
    then show "\<exists>k<8. bits_of src = sym_codes s @ replicate k True" using spec final_ones[of d'] by auto
  next
    assume "\<exists>k<8. bits_of src = sym_codes s @ replicate k True"
    then obtain k where k: "k < 8" "bits_of src = sym_codes s @ replicate k True" by blast
    from spec show "huff_decode_bytes src = Ok s"
    proof (elim disjE exE conjE)
      fix out d' assume o: "huff_loop huff_new [] src = Ok (out, d')" "bits_of src = sym_codes out @ pfx d'" "tracked d'"
      obtain zs where zs: "map unat s = map unat out @ zs" "pfx d' = codes zs @ replicate k True"
        using unique_parse[of "map unat out" "pfx d'" "map unat s"] o(2) k ones_code_free unat_byte_subset by metis
      have "zs = []"
      proof (rule ccontr)
        assume "zs \<noteq> []"
        then obtain z zs' where z: "zs = z # zs'" by (cases zs) auto
        have "z < 257" using zs(1) unat_byte_subset[of s] by (simp add: z)
        then show False using pfx_code_free[OF unat_u8_bound, of "hu_state d'"] zs(2) by (auto simp: z code_free_def)
      qed
      then show ?thesis using o zs k(1) final_ones[of d'] by (auto simp: huff_decode_bytes_def unat_inj_iff inj_map_eq_map)
    next
      fix out rest assume o: "bits_of src = sym_codes out @ code 256 @ rest"
      then have "codes (map unat out @ [256]) @ rest = sym_codes s @ replicate k True" by (simp add: k(2))
      then obtain zs where "map unat s = (map unat out @ [256]) @ zs"
        using unique_parse[of "map unat out @ [256]" rest "map unat s"] ones_code_free[OF k(1)] unat_byte_subset by fastforce
      then have "256 \<in> set (map unat s)" by simp
      then obtain b where "b \<in> set s" "unat b = 256" by auto
      then show ?thesis using unat_u8_bound[of b] by simp
    qed
  qed
  show "huff_decode_bytes src \<noteq> Panic" using spec by (auto simp: huff_decode_bytes_def split: if_splits)
qed

section \<open>The encoder\<close>

text \<open>The lower forty bits of the buffer are the bits not yet written, followed by the bits left.\<close>

definition huff_window :: "u64 \<Rightarrow> nat \<Rightarrow> int \<Rightarrow> bool" where
  "huff_window bits left p \<longleftrightarrow> left \<le> 40 \<and> 0 \<le> p \<and> p < 2 ^ (40 - left) \<and> take_bit 40 (uint bits) = p * 2 ^ left"

lemma bit_beyond: "0 \<le> b \<Longrightarrow> b < 2 ^ n \<Longrightarrow> bit (b :: int) k \<Longrightarrow> k < n"
  using bit_join[of b n 0 k] by (auto split: if_splits)

lemma or_join: "0 \<le> b \<Longrightarrow> b < 2 ^ n \<Longrightarrow> (a * 2 ^ n) OR b = a * 2 ^ n + (b :: int)"
  using bit_join[of 0 n a] bit_beyond[of b n] by (intro bit_eqI) (auto simp: bit_join bit_simps)

lemma window_byte:
  assumes "huff_window bits left p"
  shows "uint (ucast (drop_bit 32 bits) :: byte) = p * 2 ^ left div 2 ^ 32"
proof -
  have "uint (ucast (drop_bit 32 bits) :: byte) = take_bit 8 (drop_bit 32 (uint bits))"
    by (intro bit_eqI) (auto simp: bit_simps bit_uint_iff)
  also have "\<dots> = drop_bit 32 (take_bit 40 (uint bits))" by (simp add: take_bit_drop_bit)
  finally show ?thesis using assms by (simp add: huff_window_def drop_bit_eq_div)
qed

lemma window_flush:
  assumes "huff_window bits left p" "left \<le> 32"
  defines "p' \<equiv> p mod 2 ^ (32 - left)"
  shows "huff_window (push_bit 8 bits) (left + 8) p'"
    "to_bits (40 - left) p = to_bits 8 (uint (ucast (drop_bit 32 bits) :: byte)) @ to_bits (40 - (left + 8)) p'"
proof -
  have e: "(2 :: int) ^ 32 = 2 ^ (32 - left) * 2 ^ left" using assms(2) by (simp flip: power_add)
  have "take_bit 40 (uint (push_bit 8 bits)) = push_bit 8 (take_bit 32 (uint bits))"
    by (intro bit_eqI) (auto simp: bit_simps bit_uint_iff)
  also have "take_bit 32 (uint bits) = take_bit 32 (p * 2 ^ left)"
    using assms(1) take_bit_take_bit[of 32 40 "uint bits"] by (simp add: huff_window_def)
  also have "\<dots> = p' * 2 ^ left" unfolding p'_def take_bit_eq_mod e by (simp add: mult_mod_left)
  finally show "huff_window (push_bit 8 bits) (left + 8) p'"
    using assms(2) by (simp add: huff_window_def push_bit_eq_mult p'_def power_add)
  have "p * 2 ^ left div 2 ^ 32 = p div 2 ^ (32 - left)" unfolding e by simp
  then have "to_bits (8 + (32 - left)) (p * 2 ^ left div 2 ^ 32 * 2 ^ (32 - left) + p') =
      to_bits 8 (p * 2 ^ left div 2 ^ 32) @ to_bits (32 - left) p'"
    by (intro to_bits_append) (simp_all add: p'_def)
  moreover have "p * 2 ^ left div 2 ^ 32 * 2 ^ (32 - left) + p' = p" unfolding e p'_def by (simp add: div_mult_mod_eq)
  ultimately show "to_bits (40 - left) p = to_bits 8 (uint (ucast (drop_bit 32 bits) :: byte)) @ to_bits (40 - (left + 8)) p'"
    using assms(2) by (simp add: window_byte[OF assms(1)])
qed

lemma huff_flush_spec:
  "huff_window bits left p \<Longrightarrow> \<exists>bits' left' e p'. huff_flush bits left dst = (bits', left', dst @ e) \<and> 32 < left' \<and>
     huff_window bits' left' p' \<and> bits_of e @ to_bits (40 - left') p' = to_bits (40 - left) p"
proof (induction bits left dst arbitrary: p rule: huff_flush.induct)
  case (1 bits left dst)
  show ?case
  proof (cases "left \<le> 32")
    case True
    from "1.IH"[OF True window_flush(1)[OF "1.prems" True]] obtain bits' left' e p' where
      "huff_flush (push_bit 8 bits) (left + 8) (dst @ [ucast (drop_bit 32 bits)]) = (bits', left', (dst @ [ucast (drop_bit 32 bits)]) @ e)"
      "32 < left'" "huff_window bits' left' p'" "bits_of e @ to_bits (40 - left') p' = to_bits (40 - (left + 8)) (p mod 2 ^ (32 - left))"
      by blast
    then show ?thesis using True window_flush(2)[OF "1.prems" True]
      by (intro exI[of _ bits'] exI[of _ left'] exI[of _ "ucast (drop_bit 32 bits) # e"] exI[of _ p'])
        (simp add: huff_flush.simps[of bits left dst])
  next
    case False
    then show ?thesis using "1.prems" by (auto simp: huff_flush.simps[of bits left dst] intro!: exI[of _ "[]"])
  qed
qed

lemma window_code:
  assumes "huff_window bits left p" "n \<le> left" "0 \<le> uint c" "uint c < 2 ^ n"
  shows "huff_window (bits OR push_bit (left - n) c) (left - n) (p * 2 ^ n + uint c)"
    "to_bits (40 - (left - n)) (p * 2 ^ n + uint c) = to_bits (40 - left) p @ to_bits n (uint c)"
proof -
  have w: "left \<le> 40" "0 \<le> p" "p < 2 ^ (40 - left)" "take_bit 40 (uint bits) = p * 2 ^ left" using assms(1) by (simp_all add: huff_window_def)
  have e: "(2 :: int) ^ left = 2 ^ n * 2 ^ (left - n)" using assms(2) by (simp flip: power_add)
  have c: "0 \<le> uint c * 2 ^ (left - n)" "uint c * 2 ^ (left - n) < 2 ^ left" using assms(4) by (simp_all add: e)
  have "uint c * 2 ^ (left - n) < 2 ^ 40" using c(2) w(1) by (smt (verit) power_increasing_iff)
  then have "take_bit 40 (uint (push_bit (left - n) c)) = uint c * 2 ^ (left - n)"
    using c(1) by (subst take_bit_int_eq_self[symmetric, where n = 40]) (auto simp: bit_simps bit_uint_iff push_bit_eq_mult[symmetric] intro!: bit_eqI)
  then have "take_bit 40 (uint (bits OR push_bit (left - n) c)) = p * 2 ^ left OR uint c * 2 ^ (left - n)"
    by (simp add: uint_or take_bit_or w(4))
  also have "\<dots> = (p * 2 ^ n + uint c) * 2 ^ (left - n)" using or_join[OF c, of p] by (simp add: e distrib_right)
  finally have "take_bit 40 (uint (bits OR push_bit (left - n) c)) = (p * 2 ^ n + uint c) * 2 ^ (left - n)" .
  moreover have "p * 2 ^ n + uint c < 2 ^ (40 - (left - n))"
  proof -
    have "p * 2 ^ n + uint c < (p + 1) * 2 ^ n" using assms(4) by (simp add: distrib_right)
    also have "\<dots> \<le> 2 ^ (40 - left) * 2 ^ n" using w(3) by (intro mult_right_mono) auto
    also have "\<dots> = 2 ^ (40 - (left - n))" using w(1) assms(2) by (simp flip: power_add)
    finally show ?thesis .
  qed
  ultimately show "huff_window (bits OR push_bit (left - n) c) (left - n) (p * 2 ^ n + uint c)"
    using w assms(2,3) by (simp add: huff_window_def)
  have "40 - (left - n) = (40 - left) + n" using w(1) assms(2) by simp
  then show "to_bits (40 - (left - n)) (p * 2 ^ n + uint c) = to_bits (40 - left) p @ to_bits n (uint c)"
    using to_bits_append[OF assms(3,4)] by simp
qed

lemma encode_entry:
  assumes "i < 257" "ENCODE_TABLE ! i = (n, c)"
  shows "sym_code i = (n, uint c)"
proof -
  have "length ENCODE_TABLE = 257" using arg_cong[OF codes_listed, of length] by simp
  then show ?thesis using arg_cong[OF codes_listed, of "\<lambda>l. l ! i"] assms by (simp del: upt_conv_Cons)
qed

lemma huff_encode_loop_spec:
  assumes "huff_window bits left p" "32 < left"
  shows "\<exists>bits' left' e p'. huff_encode_loop bits left dst s = (Ok (bits', left', dst @ e) :: (_, 'e) outcome) \<and> 32 < left' \<and>
     huff_window bits' left' p' \<and> bits_of e @ to_bits (40 - left') p' = to_bits (40 - left) p @ sym_codes s"
  using assms
proof (induction s arbitrary: bits left dst p)
  case Nil
  then show ?case by (auto intro!: exI[of _ "[]"])
next
  case (Cons b s)
  obtain n c where nc: "ENCODE_TABLE ! unat b = (n, c)" by fastforce
  have b: "unat b < 257" using unat_u8_bound[of b] by simp
  have sc: "sym_code (unat b) = (n, uint c)" by (rule encode_entry[OF b nc])
  have n: "n \<le> left" "0 \<le> uint c" "uint c < 2 ^ n" using code_valid[OF b] Cons.prems(2) by (simp_all add: sc)
  note w = window_code[OF Cons.prems(1) n]
  from huff_flush_spec[OF w(1), of dst] obtain bits1 left1 e1 p1 where
    f: "huff_flush (bits OR push_bit (left - n) c) (left - n) dst = (bits1, left1, dst @ e1)" "32 < left1" "huff_window bits1 left1 p1"
      "bits_of e1 @ to_bits (40 - left1) p1 = to_bits (40 - left) p @ to_bits n (uint c)" unfolding w(2) by blast
  from Cons.IH[OF f(3,2), of "dst @ e1"] obtain bits' left' e p' where
    r: "huff_encode_loop bits1 left1 (dst @ e1) s = (Ok (bits', left', (dst @ e1) @ e) :: (_, 'e) outcome)" "32 < left'" "huff_window bits' left' p'"
      "bits_of e @ to_bits (40 - left') p' = to_bits (40 - left1) p1 @ sym_codes s" by blast
  have "bits_of (e1 @ e) @ to_bits (40 - left') p' = (bits_of e1 @ to_bits (40 - left1) p1) @ sym_codes s" using r(4) by simp
  then have "bits_of (e1 @ e) @ to_bits (40 - left') p' = to_bits (40 - left) p @ sym_codes (b # s)"
    unfolding f(4) by (simp add: code_def sc)
  then show ?case using r(1-3) n(1)
    by (intro exI[of _ bits'] exI[of _ left'] exI[of _ "e1 @ e"] exI[of _ p']) (simp add: nc f(1))
qed

lemma window_pad:
  assumes "huff_window bits left p" "32 < left"
  shows "to_bits 8 (uint (ucast (drop_bit 32 (bits OR (push_bit left 1 - 1))) :: byte)) =
    to_bits (40 - left) p @ replicate (left - 32) True"
proof -
  have w: "left \<le> 40" "0 \<le> p" "p < 2 ^ (40 - left)" "take_bit 40 (uint bits) = p * 2 ^ left" using assms(1) by (simp_all add: huff_window_def)
  have m: "(push_bit left 1 - 1 :: u64) = mask left" by (simp add: mask_eq_exp_minus_1 push_bit_eq_mult)
  have "uint (ucast (drop_bit 32 (bits OR mask left)) :: byte) = drop_bit 32 (take_bit 40 (uint bits) OR mask left)"
    using w(1) by (intro bit_eqI) (auto simp: bit_simps bit_uint_iff)
  also have "\<dots> = (p * 2 ^ left + (2 ^ left - 1)) div 2 ^ 32"
    using or_join[of "2 ^ left - 1" left p] by (simp add: w(4) drop_bit_eq_div mask_eq_exp_minus_1)
  also have "\<dots> = p * 2 ^ (left - 32) + (2 ^ (left - 32) - 1)"
  proof -
    have e: "(2 :: int) ^ left = 2 ^ (left - 32) * 2 ^ 32" using power_add[of "2 :: int" "left - 32" 32] assms(2) by simp
    have "p * 2 ^ left + (2 ^ left - 1) = (p * 2 ^ (left - 32) + (2 ^ (left - 32) - 1)) * 2 ^ 32 + (2 ^ 32 - 1)"
      unfolding e by (simp add: algebra_simps)
    then show ?thesis by simp
  qed
  finally show ?thesis using to_bits_append[of "2 ^ (left - 32) - 1" "left - 32" "40 - left" p] w(1) assms(2)
    unfolding m to_bits_ones by simp
qed

lemma encode_bits:
  "\<exists>e k. huff_encode s dst = (Ok (dst @ e) :: (_, 'e) outcome) \<and> k < 8 \<and> bits_of e = sym_codes s @ replicate k True"
proof -
  have "huff_window 0 40 0" by (simp add: huff_window_def)
  from huff_encode_loop_spec[OF this, of dst s, where ?'e = 'e] obtain bits left e p where
    r: "huff_encode_loop 0 40 dst s = (Ok (bits, left, dst @ e) :: (_, 'e) outcome)" "32 < left" "huff_window bits left p"
      "bits_of e @ to_bits (40 - left) p = sym_codes s" by auto
  show ?thesis
  proof (cases "left = 40")
    case True
    then show ?thesis using r by (intro exI[of _ e] exI[of _ 0]) (simp add: huff_encode_def)
  next
    case False
    have "left - 32 < 8" using r(3) False by (auto simp: huff_window_def)
    moreover have "bits_of (e @ [ucast (drop_bit 32 (bits OR (push_bit left 1 - 1)))]) = sym_codes s @ replicate (left - 32) True"
      unfolding r(4)[symmetric] by (simp only: bits_of_simps window_pad[OF r(3,2)] append_assoc append_Nil2)
    ultimately show ?thesis using r(1) False
      by (intro exI[of _ "e @ [ucast (drop_bit 32 (bits OR (push_bit left 1 - 1)))]"] exI[of _ "left - 32"]) (simp add: huff_encode_def)
  qed
qed

lemma pad_unique: "k < 8 \<Longrightarrow> k' < 8 \<Longrightarrow> n + k = 8 * a \<Longrightarrow> n + k' = 8 * b \<Longrightarrow> k = (k' :: nat)"
  by presburger

lemma decode_encode_iff: "huff_decode_bytes src = Ok s \<longleftrightarrow> huff_encode s [] = (Ok src :: (_, 'e) outcome)"
proof -
  obtain e k where e: "huff_encode s [] = (Ok ([] @ e) :: (_, 'e) outcome)" "k < 8" "bits_of e = sym_codes s @ replicate k True"
    using encode_bits[of s "[]", where ?'e = 'e] by blast
  have "(\<exists>j<8. bits_of src = sym_codes s @ replicate j True) \<longleftrightarrow> bits_of src = bits_of e"
  proof
    assume "\<exists>j<8. bits_of src = sym_codes s @ replicate j True"
    then obtain j where j: "j < 8" "bits_of src = sym_codes s @ replicate j True" by blast
    have "j = k" using pad_unique[OF j(1) e(2), of "length (sym_codes s)" "length src" "length e"]
      arg_cong[OF j(2), of length] arg_cong[OF e(3), of length] by simp
    then show "bits_of src = bits_of e" by (simp add: j(2) e(3))
  qed (use e in auto)
  then show ?thesis using bits_of_inj[of src e] e(1) by (auto simp: decode_bits(1))
qed

section \<open>Properties\<close>

text \<open>
  C40. The Huffman coder is exact. Encoding appends to the buffer and never fails, decoding any bytes never panics, and bytes decode to a
  string if and only if they are the encoding of that string: what is encoded is read back, and padding that is too
  long or not all ones, the end-of-string code, and every other malformed input are rejected.
\<close>
theorem huffman_exact:
  "(\<exists>e. huff_encode s dst = (Ok (dst @ e) :: (byte list, decoder_error) outcome) \<and> huff_decode_bytes e = Ok s) \<and>
   huff_decode_bytes src \<noteq> Panic \<and>
   (huff_decode_bytes src = Ok s \<longleftrightarrow> huff_encode s [] = (Ok src :: (byte list, decoder_error) outcome))"
  using encode_bits[of s dst, where ?'e = decoder_error] decode_bits(2)[of src] decode_encode_iff decode_bits(1) by metis

end
