(* ===== verification/Bpf_Util.thy ===== *)
theory Bpf_Util
  imports Net
begin

text \<open>
  The helpers at the top of \<open>beeline/src/bpf/base.bpf.c\<close>: base64url, XXH64, the check of a JWT
  signature and the rewriting of a byte range of a message.
\<close>

section \<open>Base64url\<close>

definition base64url_table :: string where
  "base64url_table = ''ABCDEFGHIJKLMNOPQRSTUVWXYZabcdefghijklmnopqrstuvwxyz0123456789-_''"

definition base64url_value :: "byte \<Rightarrow> int" where
  "base64url_value c =
     (if c \<ge> of_char CHR ''A'' \<and> c \<le> of_char CHR ''Z'' then uint c - 65
      else if c \<ge> of_char CHR ''a'' \<and> c \<le> of_char CHR ''z'' then uint c - 97 + 26
      else if c \<ge> of_char CHR ''0'' \<and> c \<le> of_char CHR ''9'' then uint c - 48 + 52
      else if c = of_char CHR ''-'' then 62
      else if c = of_char CHR ''_'' then 63
      else -1)"

text \<open>The group of three input bytes number \<open>g\<close>, zero-padded, as one number.\<close>

definition enc_group :: "byte list \<Rightarrow> nat \<Rightarrow> u32" where
  "enc_group src g =
     foldl (\<lambda>v k. push_bit 8 v OR (if 3 * g + k < length src then ucast (src ! (3 * g + k)) else 0)) 0 [0..<3]"

definition b64_char :: "u32 \<Rightarrow> nat \<Rightarrow> byte" where
  "b64_char v k = of_char (base64url_table ! unat (drop_bit (18 - 6 * k) v AND 63))"

text \<open>The output, or \<open>None\<close> for \<open>-EINVAL\<close>; \<open>dst_len\<close> is the size of the output buffer.\<close>

definition bpf_base64url_encode :: "byte list \<Rightarrow> nat \<Rightarrow> byte list option" where
  "bpf_base64url_encode src dst_len =
     (let src_len = length src;
          len = src_len div 3 * 4 + (if src_len mod 3 \<noteq> 0 then src_len mod 3 + 1 else 0)
      in if len > dst_len then None
         else Some (concat (map (\<lambda>g. let v = enc_group src g in
                map (b64_char v) (filter (\<lambda>k. 4 * g + k < len) [0..<4])) [0..<(src_len + 2) div 3])))"

text \<open>The value of a group of four characters, missing ones being zero bits.\<close>

definition dec_group :: "byte list \<Rightarrow> nat \<Rightarrow> u32 option" where
  "dec_group src g =
     foldl (\<lambda>acc k. case acc of
          None \<Rightarrow> None
        | Some v \<Rightarrow>
            let c = (if 4 * g + k < length src then base64url_value (src ! (4 * g + k)) else 0)
            in if c < 0 then None else Some (push_bit 6 v OR word_of_int c)) (Some 0) [0..<4]"

definition dec_out :: "byte list \<Rightarrow> nat \<Rightarrow> nat \<Rightarrow> byte list option" where
  "dec_out src len g =
     (case dec_group src g of
        None \<Rightarrow> None
      | Some v \<Rightarrow>
          let n = (if len - 3 * g < 3 then len - 3 * g else 3)
          in if v AND drop_bit (8 * n) 0xFFFFFF \<noteq> 0 then None
             else Some (map (\<lambda>k. ucast (drop_bit (16 - 8 * k) v)) (filter (\<lambda>k. 3 * g + k < len) [0..<3])))"

definition bpf_base64url_decode :: "byte list \<Rightarrow> nat \<Rightarrow> byte list option" where
  "bpf_base64url_decode src dst_len =
     (let src_len = length src;
          len = src_len div 4 * 3 + (if src_len mod 4 \<noteq> 0 then src_len mod 4 - 1 else 0)
      in if src_len mod 4 = 1 \<or> len > dst_len then None
         else map_option concat (those (map (dec_out src len) [0..<(src_len + 3) div 4])))"

section \<open>XXH64\<close>

abbreviation XXH64_P1 :: u64 where "XXH64_P1 \<equiv> 0x9E3779B185EBCA87"
abbreviation XXH64_P2 :: u64 where "XXH64_P2 \<equiv> 0xC2B2AE3D27D4EB4F"
abbreviation XXH64_P3 :: u64 where "XXH64_P3 \<equiv> 0x165667B19E3779F9"
abbreviation XXH64_P4 :: u64 where "XXH64_P4 \<equiv> 0x85EBCA77C2B2AE63"
abbreviation XXH64_P5 :: u64 where "XXH64_P5 \<equiv> 0x27D4EB2F165667C5"

definition rotl64 :: "u64 \<Rightarrow> nat \<Rightarrow> u64" where
  "rotl64 x r = push_bit r x OR drop_bit (64 - r) x"

definition xxh64_round :: "u64 \<Rightarrow> u64 \<Rightarrow> u64" where
  "xxh64_round acc inp = rotl64 (acc + inp * XXH64_P2) 31 * XXH64_P1"

definition xxh64_merge :: "u64 \<Rightarrow> u64 \<Rightarrow> u64" where
  "xxh64_merge acc v = (acc XOR xxh64_round 0 v) * XXH64_P1 + XXH64_P4"

text \<open>Loads in the byte order of the machine; BPF programs run little-endian here.\<close>

definition read_le :: "byte list \<Rightarrow> nat \<Rightarrow> nat \<Rightarrow> u64" where
  "read_le src i n = foldr (\<lambda>b acc. push_bit 8 acc OR ucast b) (take n (drop i src)) 0"

abbreviation read_u64 :: "byte list \<Rightarrow> nat \<Rightarrow> u64" where
  "read_u64 src i \<equiv> read_le src i 8"

type_synonym lanes = "u64 \<times> u64 \<times> u64 \<times> u64"

definition xxh64_stripe :: "byte list \<Rightarrow> lanes \<Rightarrow> nat \<Rightarrow> lanes" where
  "xxh64_stripe src = (\<lambda>(v1, v2, v3, v4) i.
     (xxh64_round v1 (read_u64 src i), xxh64_round v2 (read_u64 src (i + 8)),
      xxh64_round v3 (read_u64 src (i + 16)), xxh64_round v4 (read_u64 src (i + 24))))"

definition xxh64_long :: "byte list \<Rightarrow> u64 \<Rightarrow> u64" where
  "xxh64_long src seed =
     (let (v1, v2, v3, v4) = foldl (xxh64_stripe src)
            (seed + XXH64_P1 + XXH64_P2, seed + XXH64_P2, seed, seed - XXH64_P1)
            (map ((*) 32) [0..<length src div 32]);
          h = rotl64 v1 1 + rotl64 v2 7 + rotl64 v3 12 + rotl64 v4 18
      in xxh64_merge (xxh64_merge (xxh64_merge (xxh64_merge h v1) v2) v3) v4)"

definition xxh64_tail :: "byte list \<Rightarrow> nat \<Rightarrow> u64 \<Rightarrow> u64" where
  "xxh64_tail src i h =
     (let n8 = (length src - i) div 8;
          h = foldl (\<lambda>h j. rotl64 (h XOR xxh64_round 0 (read_u64 src (i + 8 * j))) 27 * XXH64_P1 + XXH64_P4) h [0..<n8];
          i = i + 8 * n8;
          (h, i) = (if i + 4 \<le> length src
                    then (rotl64 (h XOR read_le src i 4 * XXH64_P1) 23 * XXH64_P2 + XXH64_P3, i + 4)
                    else (h, i))
      in foldl (\<lambda>h j. rotl64 (h XOR ucast (src ! j) * XXH64_P5) 11 * XXH64_P1) h [i..<length src])"

definition bpf_xxhash :: "byte list \<Rightarrow> u64 \<Rightarrow> u64" where
  "bpf_xxhash src seed =
     (let len = length src;
          h = (if len \<ge> 32 then xxh64_long src seed else seed + XXH64_P5);
          h = h + of_nat len;
          h = xxh64_tail src (32 * (len div 32)) h;
          h = h XOR drop_bit 33 h;
          h = h * XXH64_P2;
          h = h XOR drop_bit 29 h;
          h = h * XXH64_P3
      in h XOR drop_bit 32 h)"

text \<open>Published test vectors.\<close>

lemma xxh64_empty: "bpf_xxhash [] 0 = 0xEF46DB3751D8E999"
  by code_simp

lemma xxh64_abc: "bpf_xxhash (bytes_of ''abc'') 0 = 0x44BC2CF5AD770999"
  by code_simp

lemma xxh64_long_input: "bpf_xxhash (bytes_of ''Nobody inspects the spammish repetition'') 0 = 0xFBCEA83C8A378BF1"
  by code_simp

section \<open>Base64url: one group\<close>

lemma upt_small: "[0..<3] = [0, 1, 2]" "[0..<4] = [0, 1, 2, 3]"
  by (simp_all add: upt_rec numeral_3_eq_3 numeral_eq_Suc)

definition bytes24 :: "byte \<Rightarrow> byte \<Rightarrow> byte \<Rightarrow> u32" where
  "bytes24 a b c = push_bit 16 (ucast a) OR push_bit 8 (ucast b) OR ucast c"

definition sextets :: "u32 \<Rightarrow> u32 \<Rightarrow> u32 \<Rightarrow> u32 \<Rightarrow> u32" where
  "sextets p q r t = push_bit 18 p OR push_bit 12 q OR push_bit 6 r OR t"

lemma enc_group_bytes24:
  "enc_group src g = bytes24 (if 3 * g < length src then src ! (3 * g) else 0)
     (if 3 * g + 1 < length src then src ! (3 * g + 1) else 0) (if 3 * g + 2 < length src then src ! (3 * g + 2) else 0)"
  by (simp add: enc_group_def upt_small bytes24_def push_bit_or push_bit_push_bit) (simp add: ac_simps)

lemma and_63: "(v :: u32) AND 63 = take_bit 6 v"
  by (simp add: take_bit_eq_mask mask_eq_exp_minus_1)

lemma bytes24_high: "bit (bytes24 a b c) n \<Longrightarrow> n < 24"
  by (auto simp: bytes24_def bit_simps dest: bit_imp_le_length)

lemma sextets_split:
  assumes "\<And>n. bit v n \<Longrightarrow> n < 24"
  shows "sextets (drop_bit 18 v AND 63) (drop_bit 12 v AND 63) (drop_bit 6 v AND 63) (v AND 63) = v"
proof (rule bit_eqI)
  fix n :: nat
  consider "n < 6" | "6 \<le> n" "n < 12" | "12 \<le> n" "n < 18" | "18 \<le> n" "n < 24" | "24 \<le> n" by linarith
  then show "bit (sextets (drop_bit 18 v AND 63) (drop_bit 12 v AND 63) (drop_bit 6 v AND 63) (v AND 63)) n = bit v n"
    by cases (use assms[of n] in \<open>auto simp: sextets_def and_63 bit_simps\<close>)
qed

lemma bytes24_split:
  assumes "\<And>n. bit v n \<Longrightarrow> n < 24"
  shows "bytes24 (ucast (drop_bit 16 v)) (ucast (drop_bit 8 v)) (ucast v) = v"
proof (rule bit_eqI)
  fix n :: nat
  consider "n < 8" | "8 \<le> n" "n < 16" | "16 \<le> n" "n < 24" | "24 \<le> n" by linarith
  then show "bit (bytes24 (ucast (drop_bit 16 v)) (ucast (drop_bit 8 v)) (ucast v)) n = bit v n"
    by cases (use assms[of n] in \<open>auto simp: bytes24_def bit_simps\<close>)
qed

lemma bytes24_parts:
  "ucast (drop_bit 16 (bytes24 a b c)) = a" "ucast (drop_bit 8 (bytes24 a b c)) = b" "ucast (bytes24 a b c) = c"
  by (rule bit_eqI; auto simp: bytes24_def bit_simps dest: bit_imp_le_length)+

end
