(* ===== verification/Base64_Correct.thy ===== *)
theory Base64_Correct
  imports Bpf_Util
begin

text \<open>
  Base64url encoding and decoding of \<open>base.bpf.c\<close> are inverse to each other, on every length and for
  every last group. A decoded string is canonical: the unused bits of its last character are zero.
\<close>

section \<open>Characters\<close>

lemma value_char: "i < 64 \<Longrightarrow> base64url_value (of_char (base64url_table ! i)) = int i"
proof -
  have "list_all (\<lambda>i. base64url_value (of_char (base64url_table ! i)) = int i) [0..<64]" by code_simp
  then show "i < 64 \<Longrightarrow> ?thesis" by (simp add: list_all_iff)
qed

lemma table_letters:
  "i < 26 \<Longrightarrow> of_char (base64url_table ! i) = (word_of_nat (65 + i) :: byte)"
  "i < 26 \<Longrightarrow> of_char (base64url_table ! (26 + i)) = (word_of_nat (97 + i) :: byte)"
  "i < 10 \<Longrightarrow> of_char (base64url_table ! (52 + i)) = (word_of_nat (48 + i) :: byte)"
  "of_char (base64url_table ! 62) = (45 :: byte)" "of_char (base64url_table ! 63) = (95 :: byte)"
proof -
  have "list_all (\<lambda>i. of_char (base64url_table ! i) = (word_of_nat (65 + i) :: byte)) [0..<26]"
    "list_all (\<lambda>i. of_char (base64url_table ! (26 + i)) = (word_of_nat (97 + i) :: byte)) [0..<26]"
    "list_all (\<lambda>i. of_char (base64url_table ! (52 + i)) = (word_of_nat (48 + i) :: byte)) [0..<10]"
    by code_simp+
  then show "i < 26 \<Longrightarrow> of_char (base64url_table ! i) = (word_of_nat (65 + i) :: byte)"
    "i < 26 \<Longrightarrow> of_char (base64url_table ! (26 + i)) = (word_of_nat (97 + i) :: byte)"
    "i < 10 \<Longrightarrow> of_char (base64url_table ! (52 + i)) = (word_of_nat (48 + i) :: byte)"
    by (simp_all add: list_all_iff)
  show "of_char (base64url_table ! 62) = (45 :: byte)" "of_char (base64url_table ! 63) = (95 :: byte)" by code_simp+
qed

lemma char_value:
  assumes "0 \<le> base64url_value c"
  shows "base64url_value c < 64 \<and> of_char (base64url_table ! nat (base64url_value c)) = c"
proof -
  obtain n where n: "unat c = n" "c = word_of_nat n" by (metis of_nat_unat ucast_id)
  have v: "base64url_value c =
      (if 65 \<le> n \<and> n \<le> 90 then int (n - 65)
       else if 97 \<le> n \<and> n \<le> 122 then int (26 + (n - 97))
       else if 48 \<le> n \<and> n \<le> 57 then int (52 + (n - 48))
       else if c = 45 then 62 else if c = 95 then 63 else -1)"
    unfolding n(1)[symmetric] by (simp add: base64url_value_def word_le_nat_alt of_nat_diff)
  consider "65 \<le> n \<and> n \<le> 90" "base64url_value c = int (n - 65)"
    | "97 \<le> n \<and> n \<le> 122" "base64url_value c = int (26 + (n - 97))"
    | "48 \<le> n \<and> n \<le> 57" "base64url_value c = int (52 + (n - 48))"
    | "base64url_value c = (if c = 45 then 62 else if c = 95 then 63 else -1)"
    using v by argo
  then show ?thesis
  proof cases
    case 1
    then have "base64url_value c < 64" "nat (base64url_value c) = n - 65" by simp_all
    then show ?thesis using table_letters(1)[of "n - 65"] 1 by (auto simp: n(2))
  next
    case 2
    then have "base64url_value c < 64" "nat (base64url_value c) = 26 + (n - 97)" by simp_all
    then show ?thesis using table_letters(2)[of "n - 97"] 2 by (auto simp: n(2))
  next
    case 3
    then have "base64url_value c < 64" "nat (base64url_value c) = 52 + (n - 48)" by simp_all
    then show ?thesis using table_letters(3)[of "n - 48"] 3 by (auto simp: n(2))
  next
    case 4
    then show ?thesis using assms by (auto simp: table_letters split: if_splits)
  qed
qed

section \<open>Groups\<close>

lemma filter_upt_less: "filter (\<lambda>k. k < m) [0..<w] = [0..<min m w]"
proof (induction w)
  case (Suc w)
  then show ?case by (cases "w < m") (auto simp: min_def le_Suc_eq less_antisym)
qed simp

lemma concat_groups:
  assumes "0 < w"
  shows "concat (map (\<lambda>g. map (f g) (filter (\<lambda>k. w * g + k < len) [0..<w])) [0..<n]) =
    map (\<lambda>i. f (i div w) (i mod w)) [0..<min len (w * n)]"
proof (induction n)
  case (Suc n)
  let ?m = "min (len - w * n) w"
  have "filter (\<lambda>k. w * n + k < len) [0..<w] = filter (\<lambda>k. k < len - w * n) [0..<w]"
    by (rule filter_cong) auto
  then have "filter (\<lambda>k. w * n + k < len) [0..<w] = [0..<?m]" by (simp add: filter_upt_less)
  moreover have "map (f n) [0..<?m] = map (\<lambda>i. f (i div w) (i mod w)) [w * n..<w * n + ?m]"
    using assms by (intro nth_equalityI) auto
  moreover have "[0..<min len (w * Suc n)] = [0..<min len (w * n)] @ [w * n..<w * n + ?m]"
  proof (cases "w * n \<le> len")
    case True
    then have "min len (w * Suc n) = w * n + ?m" "min len (w * n) = w * n" by auto
    then show ?thesis by (simp only: upt_add_eq_append[OF le0])
  qed simp
  ultimately show ?case using Suc by simp
qed simp

definition enc_len :: "nat \<Rightarrow> nat" where
  "enc_len n = n div 3 * 4 + (if n mod 3 \<noteq> 0 then n mod 3 + 1 else 0)"

definition dec_len :: "nat \<Rightarrow> nat" where
  "dec_len n = n div 4 * 3 + (if n mod 4 \<noteq> 0 then n mod 4 - 1 else 0)"

lemma enc_len_eq: "r < 3 \<Longrightarrow> enc_len (3 * q + r) = 4 * q + (if r = 0 then 0 else r + 1)"
  by (simp add: enc_len_def)

lemma dec_len_eq: "r < 4 \<Longrightarrow> dec_len (4 * q + r) = 3 * q + (r - 1)"
  by (simp add: dec_len_def)

lemma dec_enc_len: "dec_len (enc_len n) = n" "enc_len n mod 4 \<noteq> 1" "(enc_len n + 3) div 4 = (n + 2) div 3"
proof -
  obtain q r where n: "n = 3 * q + r" and r: "r < 3"
    by (rule that[of "n div 3" "n mod 3"]) simp_all
  let ?s = "if r = 0 then 0 else r + 1"
  have e: "enc_len n = 4 * q + ?s" "?s < 4" using enc_len_eq[OF r] r n by simp_all
  show "dec_len (enc_len n) = n" unfolding e(1) using dec_len_eq[OF e(2), of q] n by simp
  have "enc_len n mod 4 = ?s" using e by simp
  then show "enc_len n mod 4 \<noteq> 1" by simp
  consider "r = 0" | "r = 1" | "r = 2" using r by linarith
  then have "(?s + 3) div 4 = (r + 2) div 3" by cases simp_all
  moreover have "(enc_len n + 3) div 4 = q + (?s + 3) div 4" unfolding e(1) add.assoc by simp
  moreover have "(n + 2) div 3 = q + (r + 2) div 3" unfolding n add.assoc by simp
  ultimately show "(enc_len n + 3) div 4 = (n + 2) div 3" by simp
qed

lemma enc_dec_len:
  assumes "n mod 4 \<noteq> 1"
  shows "enc_len (dec_len n) = n" and "(n + 3) div 4 = (dec_len n + 2) div 3"
proof -
  obtain q r where n: "n = 4 * q + r" and r: "r < 4"
    by (rule that[of "n div 4" "n mod 4"]) simp_all
  have r1: "r \<noteq> 1" using assms n r by auto
  have d: "dec_len n = 3 * q + (r - 1)" using dec_len_eq[OF r] n by simp
  have "enc_len (3 * q + (r - 1)) = 4 * q + (if r - 1 = 0 then 0 else r - 1 + 1)" using r by (intro enc_len_eq) simp
  then show e: "enc_len (dec_len n) = n" unfolding d using r1 by (auto simp: n)
  show "(n + 3) div 4 = (dec_len n + 2) div 3" using dec_enc_len(3)[of "dec_len n"] e by simp
qed

lemma encode_map:
  "bpf_base64url_encode src dst_len =
     (if enc_len (length src) > dst_len then None
      else Some (map (\<lambda>i. b64_char (enc_group src (i div 4)) (i mod 4)) [0..<enc_len (length src)]))"
proof -
  have "enc_len (length src) \<le> 4 * ((length src + 2) div 3)"
    using dec_enc_len(3)[of "length src"] by linarith
  then show ?thesis
    using concat_groups[of 4 "\<lambda>g. b64_char (enc_group src g)" "enc_len (length src)" "(length src + 2) div 3"]
    by (simp add: bpf_base64url_encode_def Let_def enc_len_def min_absorb1)
qed

lemma those_map_Some: "those (map f xs) = Some ys \<longleftrightarrow> map f xs = map Some ys"
  by (induction xs arbitrary: ys) (auto split: option.splits)

lemma decode_map:
  assumes "n = (length src + 3) div 4" and "\<And>g. g < n \<Longrightarrow> dec_group src g = Some (v g)"
    and "\<And>g. g < n \<Longrightarrow> v g AND drop_bit (8 * min 3 (dec_len (length src) - 3 * g)) 0xFFFFFF = 0"
    and "length src mod 4 \<noteq> 1" and "dec_len (length src) \<le> dst_len"
  shows "bpf_base64url_decode src dst_len =
    Some (map (\<lambda>i. ucast (drop_bit (16 - 8 * (i mod 3)) (v (i div 3)))) [0..<dec_len (length src)])"
proof -
  let ?len = "dec_len (length src)"
  have d: "dec_out src ?len g =
      Some (map (\<lambda>k. ucast (drop_bit (16 - 8 * k) (v g))) (filter (\<lambda>k. 3 * g + k < ?len) [0..<3]))" if "g < n" for g
    using assms(2,3)[OF that] by (simp add: dec_out_def min_def Let_def split: if_splits)
  have "map (dec_out src ?len) [0..<n] =
      map Some (map (\<lambda>g. map (\<lambda>k. ucast (drop_bit (16 - 8 * k) (v g))) (filter (\<lambda>k. 3 * g + k < ?len) [0..<3])) [0..<n])"
    using d by simp
  then have "those (map (dec_out src ?len) [0..<n]) =
      Some (map (\<lambda>g. map (\<lambda>k. ucast (drop_bit (16 - 8 * k) (v g))) (filter (\<lambda>k. 3 * g + k < ?len) [0..<3])) [0..<n])"
    by (simp only: those_map_Some)
  moreover have "?len \<le> 3 * n" using enc_dec_len(2)[OF assms(4)] assms(1) by linarith
  ultimately show ?thesis
    using assms(1,4,5) concat_groups[of 3 "\<lambda>g k. ucast (drop_bit (16 - 8 * k) (v g))" ?len n]
    by (simp add: bpf_base64url_decode_def Let_def dec_len_def min_absorb1)
qed

text \<open>Four characters with values in range.\<close>

lemma dec_group_sextets:
  fixes c :: "nat \<Rightarrow> int"
  assumes "\<And>k. k < 4 \<Longrightarrow> c k = (if 4 * g + k < length src then base64url_value (src ! (4 * g + k)) else 0)"
  shows "dec_group src g = (if \<forall>k < 4. 0 \<le> c k
    then Some (sextets (word_of_int (c 0)) (word_of_int (c 1)) (word_of_int (c 2)) (word_of_int (c 3))) else None)"
proof -
  have c: "(if 4 * g + k < length src then base64url_value (src ! (4 * g + k)) else 0) = c k" if "k < 4" for k
    using assms[OF that] by simp
  have all: "(\<forall>k < 4. 0 \<le> c k) \<longleftrightarrow> 0 \<le> c 0 \<and> 0 \<le> c 1 \<and> 0 \<le> c 2 \<and> 0 \<le> c 3"
    by (auto simp: numeral_eq_Suc less_Suc_eq)
  show ?thesis
    unfolding dec_group_def upt_small foldl_Cons foldl_Nil all Let_def
    using c[of 0] c[of 1] c[of 2] c[of 3]
    by (auto simp: sextets_def push_bit_or push_bit_push_bit or.assoc split: if_splits)
qed

definition sextet :: "u32 \<Rightarrow> nat \<Rightarrow> u32" where
  "sextet v k = drop_bit (18 - 6 * k) v AND 63"

lemma b64_char_sextet: "b64_char v k = of_char (base64url_table ! unat (sextet v k))"
  by (simp add: b64_char_def sextet_def)

lemma sextet_less: "unat (sextet v k) < 64"
  unfolding sextet_def and_63 unsigned_take_bit_eq by (simp add: take_bit_eq_mod)

lemma value_b64_char: "base64url_value (b64_char v k) = int (unat (sextet v k))"
  by (simp add: b64_char_sextet value_char sextet_less)

lemma less_4_cases: "k < 4 \<Longrightarrow> k = 0 \<or> k = 1 \<or> k = 2 \<or> k = (3 :: nat)"
  by linarith

lemma sextets_of_sextet:
  assumes "\<And>n. bit v n \<Longrightarrow> n < 24"
  shows "sextets (sextet v 0) (sextet v 1) (sextet v 2) (sextet v 3) = v"
  using sextets_split[OF assms] by (simp add: sextet_def)

lemma sextet_missing: "sextet (bytes24 a 0 0) 2 = 0" "sextet (bytes24 a b 0) 3 = 0"
  by (rule bit_word_eqI; auto simp: sextet_def and_63 bytes24_def bit_simps)+

lemma sextet_sextets:
  assumes "take_bit 6 p = p" "take_bit 6 q = q" "take_bit 6 r = r" "take_bit 6 t = t"
  shows "sextet (sextets p q r t) 0 = p" "sextet (sextets p q r t) 1 = q"
    "sextet (sextets p q r t) 2 = r" "sextet (sextets p q r t) 3 = t"
proof -
  have "bit p n \<Longrightarrow> n < 6" "bit q n \<Longrightarrow> n < 6" "bit r n \<Longrightarrow> n < 6" "bit t n \<Longrightarrow> n < 6" for n
    using assms by (metis bit_take_bit_iff)+
  then show "sextet (sextets p q r t) 0 = p" "sextet (sextets p q r t) 1 = q"
    "sextet (sextets p q r t) 2 = r" "sextet (sextets p q r t) 3 = t"
    unfolding sextet_def and_63 sextets_def
    by (auto intro!: bit_word_eqI simp: bit_simps) fastforce+
qed

text \<open>The low bytes of a group are zero exactly when they are masked away.\<close>

lemma take_bit_bytes24:
  "take_bit 16 (bytes24 a b c) = 0 \<longleftrightarrow> b = 0 \<and> c = 0" "take_bit 8 (bytes24 a b c) = 0 \<longleftrightarrow> c = 0"
proof -
  have b: "bit b n = bit (bytes24 a b c) (n + 8)" "bit c n = bit (bytes24 a b c) n" if "n < 8" for n
    using that by (auto simp: bytes24_def bit_simps dest: bit_imp_le_length)
  have zero: "x = 0 \<longleftrightarrow> (\<forall>n < 8. \<not> bit x n)" for x :: byte
    by (auto simp: bit_eq_iff)
  have zero32: "take_bit m x = 0 \<longleftrightarrow> (\<forall>n < m. \<not> bit x n)" if "m \<le> 32" for x :: u32 and m
    using that by (auto simp: bit_eq_iff bit_take_bit_iff)
  show "take_bit 8 (bytes24 a b c) = 0 \<longleftrightarrow> c = 0" using b(2) by (simp add: zero zero32)
  have "(\<forall>n < 16. \<not> bit (bytes24 a b c) n) \<longleftrightarrow> (\<forall>n < 8. \<not> bit (bytes24 a b c) n) \<and> (\<forall>n < 8. \<not> bit (bytes24 a b c) (n + 8))"
  proof (safe, goal_cases)
    case (3 n)
    then have "n < 8 \<or> n - 8 < 8 \<and> n = n - 8 + 8" by linarith
    with 3 show ?case by metis
  qed auto
  then show "take_bit 16 (bytes24 a b c) = 0 \<longleftrightarrow> b = 0 \<and> c = 0" using b by (auto simp: zero zero32)
qed

lemma low_bytes:
  "bytes24 a b c AND 0xFFFF = 0 \<longleftrightarrow> b = 0 \<and> c = 0" "bytes24 a b c AND 0xFF = 0 \<longleftrightarrow> c = 0"
proof -
  have "0xFFFF = (mask 16 :: u32)" "0xFF = (mask 8 :: u32)" by (simp_all add: mask_eq_exp_minus_1)
  then show "bytes24 a b c AND 0xFFFF = 0 \<longleftrightarrow> b = 0 \<and> c = 0" "bytes24 a b c AND 0xFF = 0 \<longleftrightarrow> c = 0"
    by (simp_all only: take_bit_eq_mask[symmetric] take_bit_bytes24)
qed

section \<open>Round trips\<close>

lemma group_bounds:
  assumes "g < (n + 2) div 3"
  shows "3 * g + 3 \<le> n \<and> 4 * g + 4 \<le> enc_len n \<or> n = 3 * g + 1 \<and> enc_len n = 4 * g + 2 \<or>
    n = 3 * g + 2 \<and> enc_len n = 4 * g + 3"
proof -
  obtain q r where n: "n = 3 * q + r" and r: "r < 3"
    by (rule that[of "n div 3" "n mod 3"]) simp_all
  have e: "enc_len n = 4 * q + (if r = 0 then 0 else r + 1)" using enc_len_eq[OF r] n by simp
  have "(n + 2) div 3 = q + (r + 2) div 3" unfolding n add.assoc by simp
  consider "r = 0" | "r = 1" | "r = 2" using r by linarith
  then show ?thesis
  proof cases
    case 1
    then have "g < q" using assms \<open>(n + 2) div 3 = q + (r + 2) div 3\<close> by simp
    then show ?thesis using 1 e n by simp
  next
    case 2
    then have "g < q \<or> g = q" using assms \<open>(n + 2) div 3 = q + (r + 2) div 3\<close> by auto
    then show ?thesis using 2 e n by auto
  next
    case 3
    then have "g < q \<or> g = q" using assms \<open>(n + 2) div 3 = q + (r + 2) div 3\<close> by auto
    then show ?thesis using 3 e n by auto
  qed
qed

lemma decode_of_encode:
  assumes "bpf_base64url_encode src dst_len = Some s" and "length src \<le> m"
  shows "bpf_base64url_decode s m = Some src"
proof -
  let ?n = "length src" and ?v = "enc_group src"
  have s: "s = map (\<lambda>i. b64_char (?v (i div 4)) (i mod 4)) [0..<enc_len ?n]"
    using assms(1) by (simp add: encode_map split: if_splits)
  then have l: "length s = enc_len ?n" by simp
  note E = dec_enc_len[of ?n]
  have grp: "dec_group s g = Some (?v g) \<and> ?v g AND drop_bit (8 * min 3 (?n - 3 * g)) 0xFFFFFF = 0"
    if g: "g < (?n + 2) div 3" for g
  proof -
    have miss: "sextet (?v g) k = 0" if "enc_len ?n \<le> 4 * g + k" "k < 4" for k
    proof -
      have "?n = 3 * g + 1 \<and> (k = 2 \<or> k = 3) \<or> ?n = 3 * g + 2 \<and> k = 3"
        using group_bounds[OF g] that(1,2) by (elim disjE conjE) linarith+
      then show ?thesis by (elim disjE conjE) (simp_all add: enc_group_bytes24 sextet_missing)
    qed
    have c: "int (unat (sextet (?v g) k)) =
        (if 4 * g + k < length s then base64url_value (s ! (4 * g + k)) else 0)" if "k < 4" for k
      using that miss[of k] by (auto simp: l) (auto simp: s value_b64_char)
    have "dec_group s g = Some (sextets (sextet (?v g) 0) (sextet (?v g) 1) (sextet (?v g) 2) (sextet (?v g) 3))"
      using dec_group_sextets[of "\<lambda>k. int (unat (sextet (?v g) k))", OF c] by simp
    moreover have "\<And>n. bit (?v g) n \<Longrightarrow> n < 24" using bytes24_high by (auto simp: enc_group_bytes24)
    ultimately have "dec_group s g = Some (?v g)" by (simp only: sextets_of_sextet)
    moreover have "?v g AND drop_bit (8 * min 3 (?n - 3 * g)) 0xFFFFFF = 0"
      using group_bounds[OF g] by (elim disjE conjE) (simp_all add: enc_group_bytes24 low_bytes min_absorb1)
    ultimately show ?thesis by blast
  qed
  have "bpf_base64url_decode s m = Some (map (\<lambda>i. ucast (drop_bit (16 - 8 * (i mod 3)) (?v (i div 3)))) [0..<?n])"
    using decode_map[of "(?n + 2) div 3" s ?v m] grp E assms(2) by (simp add: l)
  moreover have "ucast (drop_bit (16 - 8 * (i mod 3)) (?v (i div 3))) = src ! i" if "i < ?n" for i
  proof -
    obtain g k where i: "i = 3 * g + k" and k: "k < 3" by (rule that[of "i div 3" "i mod 3"]) simp_all
    then have d: "i div 3 = g" "i mod 3 = k" by simp_all
    consider "k = 0" | "k = 1" | "k = 2" using k by linarith
    then show ?thesis
      using \<open>i < ?n\<close> unfolding d enc_group_bytes24 unfolding i by cases (simp_all add: bytes24_parts)
  qed
  then have "map (\<lambda>i. ucast (drop_bit (16 - 8 * (i mod 3)) (?v (i div 3)))) [0..<?n] = src"
    by (intro nth_equalityI) simp_all
  ultimately show ?thesis by simp
qed

lemma dec_groups:
  assumes "bpf_base64url_decode s m = Some bs"
  obtains v where "length s mod 4 \<noteq> 1" "dec_len (length s) \<le> m"
    "\<And>g. g < (length s + 3) div 4 \<Longrightarrow> dec_group s g = Some (v g) \<and>
      v g AND drop_bit (8 * min 3 (dec_len (length s) - 3 * g)) 0xFFFFFF = 0"
proof -
  let ?len = "dec_len (length s)" and ?n = "(length s + 3) div 4"
  have l: "length s mod 4 \<noteq> 1" "?len \<le> m"
    using assms by (auto simp: bpf_base64url_decode_def Let_def dec_len_def split: if_splits)
  obtain outs where "those (map (dec_out s ?len) [0..<?n]) = Some outs"
    using assms by (auto simp: bpf_base64url_decode_def Let_def dec_len_def split: if_splits)
  then have outs: "map (dec_out s ?len) [0..<?n] = map Some outs" by (simp add: those_map_Some)
  have ne: "dec_out s ?len g \<noteq> None" if "g < ?n" for g
  proof -
    have "length outs = ?n" using arg_cong[OF outs, of length] by simp
    then show ?thesis using arg_cong[OF outs, of "\<lambda>xs. xs ! g"] that by simp
  qed
  have "dec_group s g = Some (the (dec_group s g)) \<and>
      the (dec_group s g) AND drop_bit (8 * min 3 (?len - 3 * g)) 0xFFFFFF = 0" if "g < ?n" for g
    using ne[OF that] by (auto simp: dec_out_def min_def Let_def split: option.splits if_splits)
  with l show thesis by (rule that[of "\<lambda>g. the (dec_group s g)"])
qed

lemma dec_group_chars:
  assumes "dec_group s g = Some v"
  shows "bit v n \<Longrightarrow> n < 24" and "k < 4 \<Longrightarrow> 4 * g + k < length s \<Longrightarrow> b64_char v k = s ! (4 * g + k)"
proof -
  define c where "c k = (if 4 * g + k < length s then base64url_value (s ! (4 * g + k)) else 0)" for k
  let ?w = "\<lambda>k. word_of_int (c k) :: u32"
  have nn: "0 \<le> c k" if "k < 4" for k
    using dec_group_sextets[of c g s, OF c_def] assms that by (auto split: if_splits)
  have v: "v = sextets (?w 0) (?w 1) (?w 2) (?w 3)"
    using dec_group_sextets[of c g s, OF c_def] assms by (auto split: if_splits)
  have c64: "c k < 64" if "k < 4" for k
    using nn[OF that] char_value[of "s ! (4 * g + k)"] by (auto simp: c_def split: if_splits)
  have u: "unat (?w k) = nat (c k)" if k: "k < 4" for k
  proof -
    obtain m where m: "c k = int m" using nn[OF k] zero_le_imp_eq_int by blast
    then have "m < 2 ^ 32" using c64[OF k] by simp
    then show ?thesis by (simp add: m unsigned_of_nat take_bit_nat_eq_self)
  qed
  have tb: "take_bit 6 (?w k) = ?w k" if "k < 4" for k
  proof -
    have "unat (take_bit 6 (?w k)) = unat (?w k)"
      unfolding unsigned_take_bit_eq u[OF that] using c64[OF that] nn[OF that] by (simp add: take_bit_nat_eq_self)
    then show ?thesis by (simp only: unat_inj_iff)
  qed
  have high: "bit (?w k) n \<Longrightarrow> n < 6" if "k < 4" for k n
    using tb[OF that] by (metis bit_take_bit_iff)
  show "bit v n \<Longrightarrow> n < 24"
    using high[of 0 "n - 18"] high[of 1 "n - 12"] high[of 2 "n - 6"] high[of 3 n]
    by (auto simp: v sextets_def bit_simps)
  show "b64_char v k = s ! (4 * g + k)" if "k < 4" "4 * g + k < length s"
  proof -
    have "sextet v k = ?w k"
      using sextet_sextets[OF tb tb tb tb, of 0 1 2 3] less_4_cases[OF that(1)] by (auto simp: v)
    then show ?thesis
      using char_value[of "s ! (4 * g + k)"] nn[OF that(1)] that u[OF that(1)]
      by (simp add: b64_char_sextet c_def)
  qed
qed

lemma encode_of_decode:
  assumes "bpf_base64url_decode s m = Some bs"
  shows "bpf_base64url_encode bs (length s) = Some s"
proof -
  obtain v where l: "length s mod 4 \<noteq> 1" "dec_len (length s) \<le> m"
    and v: "\<And>g. g < (length s + 3) div 4 \<Longrightarrow> dec_group s g = Some (v g)"
      "\<And>g. g < (length s + 3) div 4 \<Longrightarrow> v g AND drop_bit (8 * min 3 (dec_len (length s) - 3 * g)) 0xFFFFFF = 0"
    using dec_groups[OF assms] by metis
  let ?n = "dec_len (length s)"
  note E = enc_dec_len[OF l(1)]
  have bs: "bs = map (\<lambda>i. ucast (drop_bit (16 - 8 * (i mod 3)) (v (i div 3)))) [0..<?n]"
    using decode_map[OF refl v l] assms by simp
  have grp: "enc_group bs g = v g \<and> (\<forall>k < 4. 4 * g + k < length s \<longrightarrow> b64_char (v g) k = s ! (4 * g + k))"
    if g: "g < (length s + 3) div 4" for g
  proof -
    note C = dec_group_chars[OF v(1)[OF g]]
    let ?b = "\<lambda>k. ucast (drop_bit (16 - 8 * k) (v g)) :: byte"
    have byte: "bs ! (3 * g + k) = ?b k" if "3 * g + k < ?n" "k < 3" for k
      using that by (simp add: bs)
    have split: "bytes24 (?b 0) (?b 1) (?b 2) = v g" using bytes24_split[OF C(1)] by simp
    have "?n = 3 * g + 1 \<Longrightarrow> ?b 1 = 0 \<and> ?b 2 = 0" "?n = 3 * g + 2 \<Longrightarrow> ?b 2 = 0"
      using v(2)[OF g] low_bytes[of "?b 0" "?b 1" "?b 2"] unfolding split by auto
    moreover have "length bs = ?n" by (simp add: bs)
    ultimately have "enc_group bs g = bytes24 (?b 0) (?b 1) (?b 2)"
      using group_bounds[of g ?n] g E(2) byte[of 0] byte[of 1] byte[of 2]
      by (auto simp: enc_group_bytes24)
    then show ?thesis using C(2) split by simp
  qed
  have "b64_char (enc_group bs (i div 4)) (i mod 4) = s ! i" if "i < length s" for i
  proof -
    have "i div 4 < (length s + 3) div 4" "i = 4 * (i div 4) + i mod 4" "i mod 4 < 4" using that by simp_all
    then show ?thesis using grp[of "i div 4"] that by metis
  qed
  then have "map (\<lambda>i. b64_char (enc_group bs (i div 4)) (i mod 4)) [0..<length s] = s"
    by (intro nth_equalityI) simp_all
  moreover have "length bs = ?n" by (simp add: bs)
  ultimately show ?thesis by (simp add: encode_map E)
qed

text \<open>
  C29. Base64url loses nothing and accepts nothing else: every byte string is encoded into a buffer of
  four characters per started group of three bytes and decoded back to itself, and whatever
  decodes is the encoding of its result, so that no two tokens carry the same claims.
\<close>
theorem base64url_roundtrip:
  assumes "bpf_base64url_decode t m = Some bs"
  shows "bpf_base64url_encode bs (length t) = Some t \<and>
    (\<exists>s. bpf_base64url_encode src (4 * ((length src + 2) div 3)) = Some s \<and>
       bpf_base64url_decode s (length src) = Some src)"
proof -
  have "enc_len (length src) \<le> 4 * ((length src + 2) div 3)" using dec_enc_len(3)[of "length src"] by linarith
  then obtain s where "bpf_base64url_encode src (4 * ((length src + 2) div 3)) = Some s" by (simp add: encode_map)
  then show ?thesis using decode_of_encode encode_of_decode[OF assms] by blast
qed

theorem base64url_roundtrip_witness:
  "bpf_base64url_decode (bytes_of ''TWE'') 8 = Some (bytes_of ''Ma'') \<and>
   bpf_base64url_encode (bytes_of ''Ma'') 3 = Some (bytes_of ''TWE'')"
proof -
  have d: "bpf_base64url_decode (bytes_of ''TWE'') 8 = Some (bytes_of ''Ma'')" by code_simp
  have l: "length (bytes_of ''TWE'') = 3" by (simp add: bytes_of_def)
  show ?thesis using base64url_roundtrip[OF d, of "[]"] d unfolding l by blast
qed

end
