(* ===== verification/Bpf_Msg.thy ===== *)
theory Bpf_Msg
  imports Base64_Correct
begin

text \<open>
  What \<open>base.bpf.c\<close> does to the bytes of a message: rewriting a range (\<open>_mutate_msg\<close>), the stream id of an
  HTTP/2 frame, removing a TLS record around a message, and the check of a JWT signature. A
  message is a byte list; the socket-map helpers behave as documented: a range must be non-empty and
  inside the message to be made linear, a removed range must be inside it, and making room
  can fail for lack of memory (\<open>alloc\<close>).
\<close>

section \<open>Message helpers\<close>

definition pull_ok :: "byte list \<Rightarrow> nat \<Rightarrow> nat \<Rightarrow> bool" where
  "pull_ok data a b \<longleftrightarrow> a < b \<and> b \<le> length data"

text \<open>The new bytes have no defined value.\<close>

definition msg_push_data :: "bool \<Rightarrow> byte list \<Rightarrow> nat \<Rightarrow> nat \<Rightarrow> byte list option" where
  "msg_push_data alloc data a n =
     (if n = 0 then Some data
      else if a \<le> length data \<and> alloc then Some (take a data @ replicate n 0 @ drop a data) else None)"

definition msg_pop_data :: "bool \<Rightarrow> byte list \<Rightarrow> nat \<Rightarrow> nat \<Rightarrow> byte list option" where
  "msg_pop_data alloc data a n =
     (if n = 0 then Some data
      else if a < length data \<and> a + n \<le> length data \<and> alloc then Some (take a data @ drop (a + n) data) else None)"

section \<open>Rewriting a range\<close>

record http_match =
  hm_idx :: u16
  hm_len :: u16

definition h2_frame_len :: "byte list \<Rightarrow> u32" where
  "h2_frame_len data = push_bit 16 (ucast (data ! 0)) OR push_bit 8 (ucast (data ! 1)) OR ucast (data ! 2)"

definition set_h2_frame_len :: "byte list \<Rightarrow> u32 \<Rightarrow> byte list" where
  "set_h2_frame_len data n = data[0 := ucast (drop_bit 16 n), 1 := ucast (drop_bit 8 n), 2 := ucast n]"

text \<open>\<open>_mutate_msg\<close>: the message afterwards, also when the rewriting stops half way, and whether it
  succeeded. \<open>MAX_BYTES\<close> is the mask that bounds the linear part.\<close>

definition mutate_msg :: "nat \<Rightarrow> bool \<Rightarrow> byte list \<Rightarrow> http_match \<Rightarrow> byte list \<Rightarrow> bool \<Rightarrow> byte list \<times> bool" where
  "mutate_msg MAX_BYTES alloc data m str is_h2 =
     (let str_len = word_of_nat (length str) :: u16;
          delta = sint (str_len - hm_len m);
          idx = unat (hm_idx m);
          end = min (idx + unat str_len) (length data) AND MAX_BYTES
      in if \<not> pull_ok data 0 end then (data, False)
         else if is_h2 \<and> end < 4 then (data, False)
         else let data = (if is_h2 then set_h2_frame_len data (h2_frame_len data + word_of_int delta) else data)
           in case (if delta > 0 then msg_push_data alloc data idx (nat delta)
                    else if delta < 0 then msg_pop_data alloc data idx (nat (- delta))
                    else Some data) of
                None \<Rightarrow> (data, False)
              | Some data' \<Rightarrow>
                  if str_len = 0 then (data', True)
                  else if \<not> pull_ok data' idx (idx + unat str_len) then (data', False)
                  else (take idx data' @ take (unat str_len) str @ drop (idx + unat str_len) data', True))"

section \<open>Stream identifiers\<close>

text \<open>A negative value is an error or a set reserved bit.\<close>

definition get_h2_stream_id :: "byte list \<Rightarrow> int" where
  "get_h2_stream_id data =
     (if length data < 9 then -1 else sint (be32 (data ! 5) (data ! 6) (data ! 7) (data ! 8)))"

definition set_h2_stream_id :: "byte list \<Rightarrow> u32 \<Rightarrow> byte list" where
  "set_h2_stream_id data new_stream_id =
     (if get_h2_stream_id data \<le> 0 then data
      else data[5 := ucast (drop_bit 24 new_stream_id), 6 := ucast (drop_bit 16 new_stream_id),
                7 := ucast (drop_bit 8 new_stream_id), 8 := ucast new_stream_id])"

section \<open>TLS records\<close>

record tls_size =
  tl_header :: u16
  tl_trailer :: u16

text \<open>\<open>remove_tls\<close> on the bytes; failures are logged and ignored. The offset of the trailer is
  unsigned and wraps.\<close>

definition strip_tls :: "bool \<Rightarrow> byte list \<Rightarrow> tls_size \<Rightarrow> byte list" where
  "strip_tls alloc data tls =
     (let data = (case msg_pop_data alloc data 0 (unat (tl_header tls)) of Some d \<Rightarrow> d | None \<Rightarrow> data)
      in case msg_pop_data alloc data (unat (word_of_nat (length data) - ucast (tl_trailer tls) :: u32))
             (unat (tl_trailer tls)) of
           Some d \<Rightarrow> d
         | None \<Rightarrow> data)"

section \<open>JWT signatures\<close>

text \<open>\<open>digest\<close> is the keyed hash of the kernel, \<open>None\<close> when no key has been set up or the call fails. The
  buffers \<open>claims\<close> and \<open>sig\<close> are those of the filter context; \<open>sig_len\<close> is the length of the signature
  the client sent.\<close>

definition validate_jwt_signature ::
  "(byte list \<Rightarrow> byte list option) \<Rightarrow> byte list \<Rightarrow> u32 \<Rightarrow> byte list \<Rightarrow> u32 \<Rightarrow> pr_action" where
  "validate_jwt_signature digest claims claims_len sig sig_len =
     (if claims_len = 0 \<or> claims_len > 4096 \<or> sig_len = 0 \<or> sig_len > 64 then PR_DROP
      else case digest (take (unat (claims_len AND 0xFFF)) claims) of
          None \<Rightarrow> PR_DROP
        | Some dig \<Rightarrow>
            (case bpf_base64url_encode (take 32 dig) (3072 - 32) of
               None \<Rightarrow> PR_DROP
             | Some res \<Rightarrow>
                 let sig_len = (if length res > 50 then 50 else length res)
                 in if list_all (\<lambda>i. sig ! i = res ! i) [0..<sig_len] then PR_PASS else PR_DROP))"

section \<open>Properties\<close>

text \<open>Replace \<open>n\<close> bytes at \<open>i\<close>.\<close>

definition splice :: "nat \<Rightarrow> nat \<Rightarrow> byte list \<Rightarrow> byte list \<Rightarrow> byte list" where
  "splice i n str data = take i data @ str @ drop (i + n) data"

lemma length_set_h2_frame_len [simp]: "length (set_h2_frame_len data n) = length data"
  by (simp add: set_h2_frame_len_def)

lemma unat_u16_of_nat: "n < 65536 \<Longrightarrow> unat (word_of_nat n :: u16) = n"
  by (simp add: unsigned_of_nat take_bit_nat_eq_self)

lemma sint_u16_diff:
  assumes "a < 32768" "b < 32768"
  shows "sint (word_of_nat a - word_of_nat b :: u16) = int a - int b"
proof -
  have "word_of_nat a - word_of_nat b = (word_of_int (int a - int b) :: u16)" by simp
  moreover have "sint (word_of_int k :: u16) = k" if "- 32768 \<le> k" "k < 32768" for k
    using that by (simp add: signed_of_int signed_take_bit_int_eq_self)
  ultimately show ?thesis using assms by (simp only:)
qed

lemma push_splice:
  assumes "i + n \<le> length data" and "n \<le> length str"
  shows "take i (take i data @ replicate (length str - n) 0 @ drop i data) @ str @
      drop (i + length str) (take i data @ replicate (length str - n) 0 @ drop i data) = splice i n str data"
  using assms by (simp add: splice_def add.commute)

lemma pop_splice:
  assumes "i + n \<le> length data" and "length str \<le> n"
  shows "take i (take i data @ drop (i + (n - length str)) data) @ str @
      drop (i + length str) (take i data @ drop (i + (n - length str)) data) = splice i n str data"
  using assms by (simp add: splice_def add.commute)

text \<open>
  C30. Rewriting a match replaces exactly the matched bytes: when the range lies in the message, the
  sizes are below the limits and the kernel finds memory, the result is the message with the matched
  range replaced by the new text, whether that is shorter, longer or empty; in an HTTP/2
  frame the length field grows by the difference first. Longer ranges wrap the signed 16-bit
  difference, and an HTTP/2 frame whose rewritten part ends in its first four bytes is refused.
\<close>
theorem mutate_splices:
  assumes "unat (hm_idx m) + unat (hm_len m) \<le> length data" and "length str < 32768" and "hm_len m < 32768"
    and "min (unat (hm_idx m) + length str) (length data) AND MAX_BYTES = min (unat (hm_idx m) + length str) (length data)"
    and "if is_h2 then 4 \<le> min (unat (hm_idx m) + length str) (length data) else 0 < min (unat (hm_idx m) + length str) (length data)"
  shows "mutate_msg MAX_BYTES True data m str is_h2 =
    (splice (unat (hm_idx m)) (unat (hm_len m)) str
       (if is_h2 then set_h2_frame_len data (h2_frame_len data + word_of_int (int (length str) - int (unat (hm_len m)))) else data), True)"
proof -
  define i n where i: "i = unat (hm_idx m)" and n: "n = unat (hm_len m)"
  note A = assms[folded i n]
  let ?s = "length str"
  define d where "d = (if is_h2 then set_h2_frame_len data (h2_frame_len data + word_of_int (int ?s - int n)) else data)"
  have l: "length d = length data" by (simp add: d_def)
  have n32: "n < 32768" using assms(3) by (simp add: word_less_nat_alt n)
  have delta: "sint (word_of_nat ?s - hm_len m) = int ?s - int n"
    using sint_u16_diff[OF assms(2) n32] by (simp add: n)
  have u: "unat (word_of_nat ?s :: u16) = ?s" using assms(2) by (simp add: unat_u16_of_nat)
  have z: "(word_of_nat ?s :: u16) = 0 \<longleftrightarrow> str = []"
    using unat_inj_iff[of "word_of_nat ?s :: u16" 0] unfolding u by simp
  have ok: "pull_ok data 0 (min (i + ?s) (length data) AND MAX_BYTES)"
    "\<not> (is_h2 \<and> min (i + ?s) (length data) AND MAX_BYTES < 4)"
    using A(4,5) by (auto simp: pull_ok_def split: if_splits)
  have pre: "mutate_msg MAX_BYTES True data m str is_h2 =
      (case (if int ?s - int n > 0 then msg_push_data True d i (nat (int ?s - int n))
             else if int ?s - int n < 0 then msg_pop_data True d i (nat (- (int ?s - int n)))
             else Some d) of
         None \<Rightarrow> (d, False)
       | Some d' \<Rightarrow>
           if str = [] then (d', True)
           else if \<not> pull_ok d' i (i + ?s) then (d', False)
           else (take i d' @ str @ drop (i + ?s) d', True))"
    unfolding mutate_msg_def Let_def delta u z i[symmetric] d_def[symmetric] take_all[OF order_refl]
    using ok by (simp only: simp_thms if_False)
  consider "n < ?s" | "?s < n" | "?s = n" by linarith
  then have "mutate_msg MAX_BYTES True data m str is_h2 = (splice i n str d, True)"
  proof cases
    case 1
    then have "nat (int ?s - int n) = ?s - n" "str \<noteq> []" by auto
    then show ?thesis
      unfolding pre using 1 A(1) l push_splice[of i n d str] by (simp add: msg_push_data_def pull_ok_def)
  next
    case 2
    then have "nat (- (int ?s - int n)) = n - ?s" by auto
    then show ?thesis
      unfolding pre using 2 A(1) l pop_splice[of i n d str]
      by (auto simp: msg_pop_data_def pull_ok_def splice_def)
  next
    case 3
    then show ?thesis unfolding pre using A(1) l by (auto simp: pull_ok_def splice_def)
  qed
  then show ?thesis by (simp only: d_def i n)
qed

theorem mutate_splices_witness:
  "mutate_msg 0xFFFF True (bytes_of ''GET / HTTP/1.1'') \<lparr>hm_idx = 4, hm_len = 1\<rparr> (bytes_of ''/ok'') False =
     (splice 4 1 (bytes_of ''/ok'') (bytes_of ''GET / HTTP/1.1''), True) \<and>
   splice 4 1 (bytes_of ''/ok'') (bytes_of ''GET / HTTP/1.1'') = bytes_of ''GET /ok HTTP/1.1''"
proof (intro conjI)
  let ?m = "\<lparr>hm_idx = 4, hm_len = 1\<rparr>" and ?d = "bytes_of ''GET / HTTP/1.1''" and ?s = "bytes_of ''/ok''"
  have e: "min (unat (hm_idx ?m) + length ?s) (length ?d) = 7" by simp
  show "mutate_msg 0xFFFF True ?d ?m ?s False = (splice 4 1 ?s ?d, True)"
    using mutate_splices[of ?m ?d ?s "0xFFFF" False, unfolded e] by simp
  show "splice 4 1 ?s ?d = bytes_of ''GET /ok HTTP/1.1''" by (simp add: splice_def bytes_of_def)
qed

lemma enc_len_32: "enc_len 32 = 43"
  by (simp add: enc_len_def)


text \<open>A hash function for examples.\<close>

definition sample_digest :: "byte list \<Rightarrow> byte list option" where
  "sample_digest msg = Some (replicate 32 (of_nat (length msg)))"


end
