(* ===== verification/Dataplane.thy ===== *)
theory Dataplane
  imports Bpf_Msg
begin

text \<open>
  The BPF programs of \<open>base.bpf.c\<close>: the maps they share, the forwarding tables, and one definition per
  program. A program is a function from the maps and a packet to the maps and a verdict. The parsers
  (beeper) and the generated filters are parameters; so is, through \<open>kenv\<close>, whether the kernel accepts the
  map updates of a run. Maps that evict their least recently used entries may lose entries at any
  time; the properties allow for it.
\<close>

section \<open>Maps\<close>

record bpf_maps =
  skb_sock_map :: "sock_key set"
  tls_msg_sock_map :: "sock_key set"
  msg_sock_map :: "sock_key set"
  net_sock_map :: "sock_key set"
  utrn_wait_list :: "data_stream \<rightharpoonup> addr_key"
  skb_verdict :: "sock_key \<rightharpoonup> addr_key"
  tls_sizes :: "sock_key \<rightharpoonup> tls_size"
  sock_map_wait_list :: "sock_key \<rightharpoonup> int"
  fib_upstream :: "fib_key \<rightharpoonup> sock_key list"
  fib_downstream :: "addr_key \<rightharpoonup> sock_key"
  h2_conns :: "sock_key \<rightharpoonup> u32"
  h2_streams :: "data_stream \<rightharpoonup> data_stream"

text \<open>The read-only data that user space fills in before loading.\<close>

record rodata =
  ro_ip4 :: u32
  ro_ip4_start :: u32
  ro_ip4_end :: u32
  ro_port :: u32
  ro_tls_ip4 :: u32
  ro_tls_port :: u32
  ro_gw :: u32
  ro_h1_preface_mid :: byte
  ro_h1_mids :: "byte list"
  ro_h2_mids :: "byte list"

text \<open>Which updates succeed in a run.\<close>

record kenv =
  ke_fib :: bool
  ke_h2_conns :: bool
  ke_istream :: bool
  ke_estream :: bool
  ke_utrn :: bool
  ke_verdict :: bool
  ke_tls :: bool
  ke_pull :: bool

definition map_update :: "bool \<Rightarrow> ('k \<rightharpoonup> 'v) \<Rightarrow> 'k \<Rightarrow> 'v \<Rightarrow> ('k \<rightharpoonup> 'v)" where
  "map_update ok m k v = (if ok then m(k \<mapsto> v) else m)"

section \<open>Keys\<close>

definition bpf_ntohl :: "endian \<Rightarrow> u32 \<Rightarrow> u32" where
  "bpf_ntohl e w = (case e of BigEndian \<Rightarrow> w | LittleEndian \<Rightarrow> from_ne_bytes BigEndian (to_ne_bytes LittleEndian w))"

text \<open>A message as the socket programs see it; \<open>sk_msg_md\<close> and \<open>__sk_buff\<close> have the same four fields.\<close>

record packet =
  pk_local_ip4 :: u32
  pk_local_port :: u32
  pk_remote_ip4 :: u32
  pk_remote_port :: u32
  pk_data :: "byte list"

definition new_sock_key_from_msg :: "endian \<Rightarrow> packet \<Rightarrow> sock_key" where
  "new_sock_key_from_msg e msg =
     \<lparr>sk_local = \<lparr>ak_ip4 = pk_local_ip4 msg, ak_port = pk_local_port msg\<rparr>,
      sk_remote = \<lparr>ak_ip4 = pk_remote_ip4 msg, ak_port = bpf_ntohl e (pk_remote_port msg)\<rparr>\<rparr>"

definition new_sock_key_from_skb :: "endian \<Rightarrow> packet \<Rightarrow> sock_key" where
  "new_sock_key_from_skb e skb =
     \<lparr>sk_local = \<lparr>ak_ip4 = pk_remote_ip4 skb, ak_port = bpf_ntohl e (pk_remote_port skb)\<rparr>,
      sk_remote = \<lparr>ak_ip4 = pk_local_ip4 skb, ak_port = pk_local_port skb\<rparr>\<rparr>"

definition zero_addr :: addr_key where
  "zero_addr = \<lparr>ak_ip4 = 0, ak_port = 0\<rparr>"

definition zero_sock_key :: sock_key where
  "zero_sock_key = \<lparr>sk_local = zero_addr, sk_remote = zero_addr\<rparr>"

definition sock_key_is_null :: "sock_key \<Rightarrow> bool" where
  "sock_key_is_null k \<longleftrightarrow> ak_ip4 (sk_local k) = 0 \<and> ak_port (sk_local k) = 0 \<and>
     ak_ip4 (sk_remote k) = 0 \<and> ak_port (sk_remote k) = 0"

definition cmp_proxy_addr :: "rodata \<Rightarrow> addr_key \<Rightarrow> bool" where
  "cmp_proxy_addr ro addr \<longleftrightarrow>
     (ro_ip4 ro = 0 \<or> ak_ip4 addr = ro_ip4 ro) \<and> ak_port addr = ro_port ro \<or>
     (ro_tls_ip4 ro = 0 \<or> ak_ip4 addr = ro_tls_ip4 ro) \<and> ak_port addr = ro_tls_port ro"

section \<open>Forwarding tables\<close>

abbreviation FIB_QUEUE_SIZE :: nat where "FIB_QUEUE_SIZE \<equiv> 8192"

text \<open>\<open>bpf_map_push_elem\<close> with \<open>BPF_EXIST\<close>: a full queue loses its oldest element.\<close>

definition queue_push :: "sock_key list \<Rightarrow> sock_key \<Rightarrow> sock_key list" where
  "queue_push q k = (if length q \<ge> FIB_QUEUE_SIZE then tl q else q) @ [k]"

definition fib_queue_key :: "addr_key \<Rightarrow> bool \<Rightarrow> fib_key" where
  "fib_queue_key addr sk_msg = \<lparr>fk_addr = addr, fk_sk_msg = (if sk_msg then 1 else 0)\<rparr>"

definition fib_insert :: "kenv \<Rightarrow> addr_key \<Rightarrow> bool \<Rightarrow> bool \<Rightarrow> sock_key \<Rightarrow> bpf_maps \<Rightarrow> bpf_maps \<times> bool" where
  "fib_insert K addr downstream sk_msg key s =
     (if downstream then
        (s\<lparr>fib_downstream := map_update (ke_fib K) (fib_downstream s) addr key\<rparr>, ke_fib K)
      else case fib_upstream s (fib_queue_key addr sk_msg) of
          None \<Rightarrow> (s, False)
        | Some q \<Rightarrow> (s\<lparr>fib_upstream := (fib_upstream s)(fib_queue_key addr sk_msg \<mapsto> queue_push q key)\<rparr>, True))"

text \<open>The socket is left at its initial value, zero, when none is found.\<close>

definition fib_query :: "addr_key \<Rightarrow> bool \<Rightarrow> bool \<Rightarrow> bool \<Rightarrow> bpf_maps \<Rightarrow> pr_action \<times> sock_key \<times> bpf_maps" where
  "fib_query addr downstream sk_msg is_h2 s =
     (if downstream then
        (case fib_downstream s addr of
           Some k \<Rightarrow> (PR_PASS, k, s)
         | None \<Rightarrow> (PR_DROP, zero_sock_key, s))
      else case fib_upstream s (fib_queue_key addr sk_msg) of
          None \<Rightarrow> (PR_DROP, zero_sock_key, s)
        | Some [] \<Rightarrow> (PR_UTRN, zero_sock_key, s)
        | Some (k # q) \<Rightarrow>
            (PR_PASS, k, if is_h2 then s else s\<lparr>fib_upstream := (fib_upstream s)(fib_queue_key addr sk_msg \<mapsto> q)\<rparr>))"

definition post_forward_ds_conn :: "kenv \<Rightarrow> sock_key \<Rightarrow> sock_key \<Rightarrow> bool \<Rightarrow> bpf_maps \<Rightarrow> bpf_maps" where
  "post_forward_ds_conn K dkey ukey sk_msg s =
     (if ak_ip4 (sk_local ukey) = 0 \<and> ak_ip4 (sk_remote ukey) = 0 then s
      else fst (fib_insert K (sk_remote ukey) True sk_msg dkey s))"

definition post_forward_us_conn :: "kenv \<Rightarrow> sock_key \<Rightarrow> bool \<Rightarrow> bpf_maps \<Rightarrow> bpf_maps" where
  "post_forward_us_conn K ukey sk_msg s = fst (fib_insert K (sk_local ukey) False sk_msg ukey s)"

text \<open>What both data paths do with a destination: find a socket, and keep the way back or release the
  upstream connection, also when no socket was found.\<close>

definition route_conn ::
  "kenv \<Rightarrow> sock_key \<Rightarrow> bool \<Rightarrow> bool \<Rightarrow> bool \<Rightarrow> addr_key \<Rightarrow> bpf_maps \<Rightarrow> pr_action \<times> sock_key \<times> bpf_maps" where
  "route_conn K ikey is_downstream is_h2 sk_msg dest s =
     (case fib_query dest (\<not> is_downstream) sk_msg is_h2 s of
        (res, ekey, s) \<Rightarrow>
          (res, ekey, if is_downstream then post_forward_ds_conn K ikey ekey sk_msg s
                      else post_forward_us_conn K ikey sk_msg s))"

section \<open>Parsers and filters\<close>

record http2_frame =
  fr_type :: byte
  fr_flags :: byte
  fr_sid :: u32

text \<open>The matches of a parse by match id.\<close>

type_synonym http_parse_res = "byte \<Rightarrow> http_match"

text \<open>The HTTP/1 parser also reports the padding before the request, with which kTLS prefixes a record.\<close>

record parsers =
  pa_h1 :: "byte list \<Rightarrow> int \<times> http_parse_res \<times> u16"
  pa_h2 :: "byte list \<Rightarrow> int \<times> http_parse_res \<times> http2_frame"
  pa_max_matches :: nat

definition no_frame :: http2_frame where
  "no_frame = \<lparr>fr_type = 0, fr_flags = 0, fr_sid = 0\<rparr>"

definition parse_packet :: "parsers \<Rightarrow> bool \<Rightarrow> byte list \<Rightarrow> int \<times> http_parse_res \<times> http2_frame \<times> u16" where
  "parse_packet P is_h2 data =
     (if is_h2 then (case pa_h2 P data of (done_idx, pres, frame) \<Rightarrow> (done_idx, pres, frame, 0))
      else (case pa_h1 P data of (done_idx, pres, null_prefix) \<Rightarrow> (done_idx, pres, no_frame, null_prefix)))"

text \<open>The match id is masked with one less than the number of matches, a power of two.\<close>

definition matched_preface :: "rodata \<Rightarrow> parsers \<Rightarrow> http_parse_res \<Rightarrow> bool" where
  "matched_preface ro P pres \<longleftrightarrow>
     unat (ro_h1_preface_mid ro) < pa_max_matches P \<and> hm_len (pres (ro_h1_preface_mid ro)) > 0"

text \<open>A HEADERS frame with END_HEADERS as its only flag.\<close>

definition is_first_hdr :: "http2_frame \<Rightarrow> bool" where
  "is_first_hdr fr \<longleftrightarrow> fr_type fr = 1 \<and> fr_flags fr = 4"

text \<open>What \<open>_match\<close> is given: the filter context is made from the parse by \<open>_init_h1_filter_ctx\<close> or
  \<open>_init_h2_filter_ctx\<close>, which narrow the parsed length to 16 bits. Socket buffers are always matched
  as HTTP/1.\<close>

record filter_input =
  fi_key :: sock_key
  fi_data :: "byte list"
  fi_pres :: http_parse_res
  fi_done_idx :: u16
  fi_ctx_h2 :: bool
  fi_is_skb :: bool
  fi_is_h2 :: bool

text \<open>What it leaves: the action, the message with its mutations, and the context fields that the
  programs read.\<close>

record match_res =
  mr_action :: pr_action
  mr_data :: "byte list"
  mr_content_length :: u32
  mr_done_idx :: u32
  mr_dest :: addr_key

text \<open>The generated code: routes and RBAC check for requests, and the content length that initialises the
  context.\<close>

record filters =
  fl_ds :: "filter_input \<Rightarrow> match_res"
  fl_content_length :: "filter_input \<Rightarrow> u32"

definition forward_us_conn :: "sock_key \<Rightarrow> addr_key" where
  "forward_us_conn ukey = sk_remote ukey"

text \<open>No filters are generated for responses.\<close>

definition run_match :: "filters \<Rightarrow> bool \<Rightarrow> filter_input \<Rightarrow> match_res" where
  "run_match F is_downstream inp =
     (if is_downstream then fl_ds F inp
      else \<lparr>mr_action = PR_PASS, mr_data = fi_data inp, mr_content_length = fl_content_length F inp,
            mr_done_idx = ucast (fi_done_idx inp), mr_dest = forward_us_conn (fi_key inp)\<rparr>)"

section \<open>HTTP/2 streams\<close>

definition set_h2_stream_id_msg :: "kenv \<Rightarrow> byte list \<Rightarrow> u32 \<Rightarrow> byte list" where
  "set_h2_stream_id_msg K data sid = (if ke_pull K \<and> 9 \<le> length data then set_h2_stream_id data sid else data)"

text \<open>A frame of a known stream gets the id the stream has on the other connection.\<close>

definition translate_stream :: "kenv \<Rightarrow> data_stream option \<Rightarrow> byte list \<Rightarrow> u32 \<Rightarrow> byte list \<times> u32" where
  "translate_stream K h2_dest data sid =
     (case h2_dest of
        None \<Rightarrow> (data, sid)
      | Some d \<Rightarrow> (set_h2_stream_id_msg K data (ds_stream_id d), ds_stream_id d))"

text \<open>A new stream gets the next id of the upstream connection, two more than the last. The two
  streams are linked in both directions unless the request makes a U-turn.\<close>

definition assign_stream ::
  "kenv \<Rightarrow> sock_key \<Rightarrow> u32 \<Rightarrow> sock_key \<Rightarrow> bool \<Rightarrow> byte list \<Rightarrow> bpf_maps \<Rightarrow> bpf_maps \<times> byte list \<times> u32" where
  "assign_stream K ikey sid ekey linked data s =
     (case h2_conns s ekey of
        None \<Rightarrow> (s, data, sid)
      | Some n \<Rightarrow>
          let new_sid = n + 2;
              istream = \<lparr>ds_conn = ikey, ds_stream_id = sid\<rparr>;
              estream = \<lparr>ds_conn = ekey, ds_stream_id = new_sid\<rparr>;
              s = s\<lparr>h2_conns := (h2_conns s)(ekey \<mapsto> new_sid)\<rparr>;
              s = (if linked
                   then s\<lparr>h2_streams := map_update (ke_estream K)
                            (map_update (ke_istream K) (h2_streams s) istream estream) estream istream\<rparr>
                   else s)
          in (s, set_h2_stream_id_msg K data new_sid, new_sid))"

definition add_uturn :: "kenv \<Rightarrow> sock_key \<Rightarrow> u32 \<Rightarrow> addr_key \<Rightarrow> bpf_maps \<Rightarrow> bpf_maps" where
  "add_uturn K ikey sid dest s =
     s\<lparr>utrn_wait_list := map_update (ke_utrn K) (utrn_wait_list s) \<lparr>ds_conn = ikey, ds_stream_id = sid\<rparr> dest\<rparr>"

section \<open>Plain sockets: \<open>process_msg\<close>\<close>

datatype sk_action = SK_DROP | SK_PASS

text \<open>The verdict, the socket the message is redirected to, the number of bytes it applies to, and
  the bytes that go on. A redirection fails when the map has no such socket.\<close>

record verdict =
  vd_action :: sk_action
  vd_redirect :: "sock_key option"
  vd_apply :: "u32 option"
  vd_data :: "byte list"

definition drop_msg :: "u32 option \<Rightarrow> byte list \<Rightarrow> verdict" where
  "drop_msg n data = \<lparr>vd_action = SK_DROP, vd_redirect = None, vd_apply = n, vd_data = data\<rparr>"

definition pass_msg :: "sock_key option \<Rightarrow> u32 option \<Rightarrow> byte list \<Rightarrow> verdict" where
  "pass_msg k n data = \<lparr>vd_action = SK_PASS, vd_redirect = k, vd_apply = n, vd_data = data\<rparr>"

definition redirect_hash :: "sock_key set \<Rightarrow> sock_key \<Rightarrow> sock_key option" where
  "redirect_hash m k = (if k \<in> m then Some k else None)"

text \<open>From the destination to the verdict.\<close>

definition forward_msg ::
  "kenv \<Rightarrow> sock_key \<Rightarrow> bool \<Rightarrow> bool \<Rightarrow> u32 \<Rightarrow> addr_key \<Rightarrow> byte list \<Rightarrow> u32 \<Rightarrow> bpf_maps \<Rightarrow> bpf_maps \<times> verdict" where
  "forward_msg K ikey is_downstream is_h2 sid dest data msg_len s =
     (let (res, ekey, s) = route_conn K ikey is_downstream is_h2 True dest s
      in if res = PR_DROP then (s, drop_msg (Some msg_len) data)
         else let target = (if res = PR_PASS then redirect_hash (msg_sock_map s) ekey else None);
                  res = (if res = PR_PASS \<and> target = None
                         then if \<not> is_h2 \<or> is_downstream then PR_UTRN else PR_DROP
                         else res);
                  (s, data, sid) = (if is_h2 \<and> \<not> sock_key_is_null ekey \<and> is_downstream
                                    then assign_stream K ikey sid ekey (res \<noteq> PR_UTRN) data s else (s, data, sid))
              in if res = PR_UTRN then (add_uturn K ikey sid dest s, pass_msg target (Some msg_len) data)
                 else if res = PR_DROP then (s, drop_msg (Some msg_len) data)
                 else (s, pass_msg target (Some msg_len) data))"

definition process_msg ::
  "endian \<Rightarrow> rodata \<Rightarrow> parsers \<Rightarrow> filters \<Rightarrow> kenv \<Rightarrow> packet \<Rightarrow> bpf_maps \<Rightarrow> bpf_maps \<times> verdict" where
  "process_msg e ro P F K msg s =
     (if pk_local_port msg = 0 \<or> pk_remote_port msg = 0 \<or> pk_local_ip4 msg = 0 \<or> pk_remote_ip4 msg = 0
      then (s, drop_msg None (pk_data msg))
      else let ikey = new_sock_key_from_msg e msg;
               is_downstream = cmp_proxy_addr ro (sk_remote ikey);
               is_h2 = (h2_conns s ikey \<noteq> None);
               (done_idx, pres, frame, _) = parse_packet P is_h2 (pk_data msg)
        in if done_idx \<le> 0 then (s, drop_msg None (pk_data msg))
           else let h2_dest = (if is_h2 then h2_streams s \<lparr>ds_conn = ikey, ds_stream_id = fr_sid frame\<rparr> else None);
                    (data, sid) = translate_stream K h2_dest (pk_data msg) (fr_sid frame)
             in if is_h2 \<and> \<not> is_first_hdr frame then
                  (s, pass_msg (Option.bind h2_dest (\<lambda>d. redirect_hash (msg_sock_map s) (ds_conn d)))
                        (Some (word_of_int done_idx)) data)
                else if \<not> is_h2 \<and> matched_preface ro P pres then
                  (s\<lparr>h2_conns := map_update (ke_h2_conns K) (h2_conns s) ikey 1\<rparr>, pass_msg None (Some 24) data)
                else let r = run_match F is_downstream
                           \<lparr>fi_key = ikey, fi_data = data, fi_pres = pres, fi_done_idx = word_of_int done_idx,
                            fi_ctx_h2 = is_h2, fi_is_skb = False, fi_is_h2 = is_h2\<rparr>;
                         msg_len = mr_content_length r + mr_done_idx r
                  in if mr_action r \<noteq> PR_PASS then (s, drop_msg (Some msg_len) (mr_data r))
                     else forward_msg K ikey is_downstream is_h2 sid (mr_dest r) (mr_data r) msg_len s)"

section \<open>TLS sockets: \<open>parse_skb\<close>, \<open>process_skb\<close>, \<open>remove_tls\<close>\<close>

text \<open>The stream parser returns the length of the message, 0 to wait for more. The result of
  \<open>_match\<close> is not looked at. The verdict map holds address keys, so that storing a socket key keeps its
  first half.\<close>

definition parse_skb ::
  "endian \<Rightarrow> rodata \<Rightarrow> parsers \<Rightarrow> filters \<Rightarrow> kenv \<Rightarrow> packet \<Rightarrow> bpf_maps \<Rightarrow> bpf_maps \<times> byte list \<times> int" where
  "parse_skb e ro P F K skb s =
     (let ikey = new_sock_key_from_skb e skb;
          is_downstream = cmp_proxy_addr ro (sk_remote ikey);
          is_h2 = (h2_conns s ikey \<noteq> None);
          (done_idx, pres, frame, _) = parse_packet P is_h2 (pk_data skb)
      in if done_idx \<le> 0 then (s, pk_data skb, 0)
         else let h2_dest = (if is_h2 then h2_streams s \<lparr>ds_conn = ikey, ds_stream_id = fr_sid frame\<rparr> else None);
                  (data, _) = translate_stream K h2_dest (pk_data skb) (fr_sid frame)
           in if is_h2 \<and> \<not> is_first_hdr frame then
                (case h2_dest of
                   None \<Rightarrow> s
                 | Some d \<Rightarrow> s\<lparr>skb_verdict := map_update (ke_verdict K) (skb_verdict s) ikey (sk_local (ds_conn d))\<rparr>,
                 data, done_idx)
              else if \<not> is_h2 \<and> matched_preface ro P pres then
                (s\<lparr>h2_conns := map_update (ke_h2_conns K) (h2_conns s) ikey 1\<rparr>, data, 24)
              else let r = run_match F is_downstream
                         \<lparr>fi_key = ikey, fi_data = data, fi_pres = pres, fi_done_idx = word_of_int done_idx,
                          fi_ctx_h2 = is_h2, fi_is_skb = True, fi_is_h2 = False\<rparr>;
                       msg_len = (if mr_content_length r > 0 then mr_content_length r + mr_done_idx r
                                  else word_of_nat (length (mr_data r)))
                in (s\<lparr>skb_verdict := map_update (ke_verdict K) (skb_verdict s) ikey (mr_dest r)\<rparr>,
                    mr_data r, sint msg_len))"

text \<open>From the destination to the verdict. The key of an upstream socket is turned round before it is
  looked up.\<close>

definition forward_skb ::
  "kenv \<Rightarrow> sock_key \<Rightarrow> bool \<Rightarrow> bool \<Rightarrow> u32 \<Rightarrow> addr_key \<Rightarrow> tls_size \<Rightarrow> byte list \<Rightarrow> bpf_maps \<Rightarrow> bpf_maps \<times> verdict" where
  "forward_skb K ikey is_downstream is_h2 sid dest tls data s =
     (let (res, ekey, s) = route_conn K ikey is_downstream is_h2 False dest s
      in if res = PR_DROP then (s, drop_msg None data)
         else let ekey = (if res = PR_PASS \<and> is_downstream then sock_key_invert ekey else ekey);
                  target = (if res = PR_PASS then redirect_hash (skb_sock_map s) ekey else None);
                  strip = (target \<noteq> None \<and> (tl_header tls \<noteq> 0 \<or> tl_trailer tls \<noteq> 0));
                  s = (if strip then s\<lparr>tls_sizes := map_update (ke_tls K) (tls_sizes s) ekey tls\<rparr> else s);
                  res = (if res = PR_PASS \<and> target = None then PR_UTRN
                         else if strip \<and> \<not> ke_tls K then if \<not> is_h2 \<or> is_downstream then PR_UTRN else PR_DROP
                         else res);
                  (s, data, _) = (if is_h2 \<and> \<not> sock_key_is_null ekey \<and> is_downstream
                                  then assign_stream K ikey sid ekey (res \<noteq> PR_UTRN) data s else (s, data, sid))
              in (if res = PR_UTRN then add_uturn K ikey 0 dest s else s, pass_msg target None data))"

definition process_skb ::
  "endian \<Rightarrow> rodata \<Rightarrow> parsers \<Rightarrow> filters \<Rightarrow> kenv \<Rightarrow> packet \<Rightarrow> bpf_maps \<Rightarrow> bpf_maps \<times> verdict" where
  "process_skb e ro P F K skb s =
     (let ikey = new_sock_key_from_skb e skb;
          is_downstream = cmp_proxy_addr ro (sk_remote ikey);
          is_h2 = (h2_conns s ikey \<noteq> None)
      in case skb_verdict s ikey of
           Some dest \<Rightarrow>
             forward_skb K ikey is_downstream is_h2 0 dest \<lparr>tl_header = 0, tl_trailer = 0\<rparr> (pk_data skb)
               (s\<lparr>skb_verdict := (skb_verdict s)(ikey := None)\<rparr>)
         | None \<Rightarrow>
             (let (done_idx, pres, frame, null_prefix) = parse_packet P is_h2 (pk_data skb)
              in if done_idx \<le> 0 then (s, drop_msg None (pk_data skb))
                 else let h2_dest = (if is_h2 then h2_streams s \<lparr>ds_conn = ikey, ds_stream_id = fr_sid frame\<rparr> else None);
                          (data, sid) = translate_stream K h2_dest (pk_data skb) (fr_sid frame)
                   in if is_h2 \<and> \<not> is_first_hdr frame then
                        (s, pass_msg (Option.bind h2_dest (\<lambda>d. redirect_hash (skb_sock_map s) (ds_conn d))) None data)
                      else if \<not> is_h2 \<and> matched_preface ro P pres then
                        (s\<lparr>h2_conns := map_update (ke_h2_conns K) (h2_conns s) ikey 1\<rparr>, pass_msg None None data)
                      else let r = run_match F is_downstream
                                 \<lparr>fi_key = ikey, fi_data = data, fi_pres = pres, fi_done_idx = word_of_int done_idx,
                                  fi_ctx_h2 = is_h2, fi_is_skb = True, fi_is_h2 = False\<rparr>;
                               msg_len = mr_content_length r + mr_done_idx r;
                               tls = \<lparr>tl_header = null_prefix,
                                      tl_trailer = ucast (word_of_nat (length (mr_data r)) - msg_len)\<rparr>
                        in if mr_action r \<noteq> PR_PASS then (s, drop_msg None (mr_data r))
                           else forward_skb K ikey is_downstream is_h2 sid (mr_dest r) tls (mr_data r) s))"

definition remove_tls :: "endian \<Rightarrow> bool \<Rightarrow> packet \<Rightarrow> bpf_maps \<Rightarrow> bpf_maps \<times> verdict" where
  "remove_tls e alloc msg s =
     (let ikey = new_sock_key_from_msg e msg
      in case tls_sizes s ikey of
           None \<Rightarrow> (s, pass_msg None None (pk_data msg))
         | Some tls \<Rightarrow> (s\<lparr>tls_sizes := (tls_sizes s)(ikey := None)\<rparr>, pass_msg None None (strip_tls alloc (pk_data msg) tls)))"

section \<open>Other sockets\<close>

definition accelerate_network :: "endian \<Rightarrow> packet \<Rightarrow> bpf_maps \<Rightarrow> bpf_maps \<times> verdict" where
  "accelerate_network e msg s =
     (let ekey = sock_key_invert (new_sock_key_from_msg e msg)
      in (s, pass_msg (redirect_hash (net_sock_map s) ekey) None (pk_data msg)))"

text \<open>\<open>monitor_sockets\<close> sees every new socket. \<open>ops\<close> is the event with the socket's addresses; the two flags
  say whether the socket could be added to the two maps.\<close>

datatype sock_event = PASSIVE_ESTABLISHED | ACTIVE_ESTABLISHED | OTHER_EVENT

datatype sock_map = MSG_MAP | SKB_MAP | NET_MAP

definition in_range :: "endian \<Rightarrow> rodata \<Rightarrow> u32 \<Rightarrow> bool" where
  "in_range e ro ip \<longleftrightarrow> bpf_ntohl e ip \<ge> bpf_ntohl e (ro_ip4_start ro) \<and> bpf_ntohl e ip \<le> bpf_ntohl e (ro_ip4_end ro)"

definition choose_map :: "endian \<Rightarrow> rodata \<Rightarrow> bpf_maps \<Rightarrow> sock_key \<Rightarrow> sock_map option" where
  "choose_map e ro s skey =
     (let in_network = in_range e ro (ak_ip4 (sk_local skey)) \<and> in_range e ro (ak_ip4 (sk_remote skey));
          is_gw = (ak_ip4 (sk_local skey) = ro_gw ro \<or> ak_ip4 (sk_remote skey) = ro_gw ro)
      in case sock_map_wait_list s skey of
           Some use_skmsg \<Rightarrow> Some (if use_skmsg \<ge> 1 then MSG_MAP else SKB_MAP)
         | None \<Rightarrow>
             if cmp_proxy_addr ro (sk_remote skey) then
               Some (if ak_port (sk_remote skey) \<noteq> ro_tls_port ro then MSG_MAP else SKB_MAP)
             else if in_network \<and> \<not> is_gw then Some NET_MAP else None)"

definition monitor_sockets ::
  "endian \<Rightarrow> rodata \<Rightarrow> bool \<Rightarrow> bool \<Rightarrow> sock_event \<Rightarrow> packet \<Rightarrow> bpf_maps \<Rightarrow> bpf_maps" where
  "monitor_sockets e ro ok1 ok2 op ops s =
     (let skey = new_sock_key_from_msg e ops
      in if op = OTHER_EVENT \<or> ak_port (sk_local skey) = 11211 \<or> ak_port (sk_remote skey) = 11211 then s
         else let m = choose_map e ro s skey;
                  s = s\<lparr>sock_map_wait_list := (sock_map_wait_list s)(skey := None)\<rparr>
           in if \<not> ok1 then s
              else case m of
                  None \<Rightarrow> s
                | Some MSG_MAP \<Rightarrow> s\<lparr>msg_sock_map := insert skey (msg_sock_map s)\<rparr>
                | Some NET_MAP \<Rightarrow> s\<lparr>net_sock_map := insert skey (net_sock_map s)\<rparr>
                | Some SKB_MAP \<Rightarrow>
                    (let s = s\<lparr>skb_sock_map := insert skey (skb_sock_map s)\<rparr>
                     in if ok2 then s\<lparr>tls_msg_sock_map := insert skey (tls_msg_sock_map s)\<rparr> else s))"

end
