(* ===== verification/Control_Plane.thy ===== *)
theory Control_Plane
  imports Dataplane Compiler_Vars
begin

text \<open>
  The part of \<open>beeline/src/proxy.rs\<close> that shares state with the BPF programs: the read-only data they are
  loaded with, the queues of the forwarding table, and what the user-space proxy writes to the maps when it
  opens an upstream connection for a request that made a U-turn. Sockets are parameters: the
  address that \<open>bind\<close> gives and whether \<open>connect\<close> succeeds.
\<close>

section \<open>Parsers\<close>

text \<open>The parser builders of beeper: each capture returns its match id, and \<open>None\<close> is an error.\<close>

record ('p, 'q) beeper =
  bp_h1_new :: 'p
  bp_h2_new :: 'q
  bp_h1_preface :: "'p \<Rightarrow> ('p \<times> byte) option"
  bp_h1_capture :: "'p \<Rightarrow> string \<Rightarrow> ('p \<times> byte) option"
  bp_h2_capture :: "'q \<Rightarrow> string \<Rightarrow> ('q \<times> byte) option"
  bp_METHOD :: string
  bp_PATH :: string
  bp_STATUS :: string

abbreviation NO_MATCH :: byte where "NO_MATCH \<equiv> 0xFF"

record ('p, 'q) new_parsers_res =
  np_h1 :: 'p
  np_h2 :: 'q
  np_h1_preface :: byte
  np_h1_mids :: "byte list"
  np_h2_mids :: "byte list"

definition h1_capture :: "('p, 'q) beeper \<Rightarrow> byte \<Rightarrow> 'p \<Rightarrow> string \<Rightarrow> ('p \<times> byte) option" where
  "h1_capture B preface p name =
     (if name = ''preface'' then Some (p, preface)
      else if name = ''method'' then bp_h1_capture B p (bp_METHOD B)
      else if name = ''path'' then bp_h1_capture B p (bp_PATH B)
      else if name = ''status_code'' then bp_h1_capture B p (bp_STATUS B)
      else if name = ''jwt_claims'' \<or> name = ''jwt_sig'' then bp_h1_capture B p ''authorization''
      else bp_h1_capture B p name)"

definition h2_capture :: "('p, 'q) beeper \<Rightarrow> 'q \<Rightarrow> string \<Rightarrow> ('q \<times> byte) option" where
  "h2_capture B q name =
     (if name = ''preface'' \<or> name = ''jwt_claims'' \<or> name = ''jwt_sig'' then Some (q, NO_MATCH)
      else if name = ''method'' then bp_h2_capture B q (bp_METHOD B)
      else if name = ''path'' then bp_h2_capture B q (bp_PATH B)
      else if name = ''status_code'' then bp_h2_capture B q (bp_STATUS B)
      else bp_h2_capture B q name)"

fun capture_vars ::
  "('p, 'q) beeper \<Rightarrow> variable list \<Rightarrow> ('p, 'q) new_parsers_res \<Rightarrow> ('p, 'q) new_parsers_res option" where
  "capture_vars B [] r = Some r"
| "capture_vars B (v # vs) r =
     (case h1_capture B (np_h1_preface r) (np_h1 r) (var_name v) of
        None \<Rightarrow> None
      | Some (p, m1) \<Rightarrow>
          (case h2_capture B (np_h2 r) (var_name v) of
             None \<Rightarrow> None
           | Some (q, m2) \<Rightarrow>
               capture_vars B vs (r\<lparr>np_h1 := p, np_h2 := q, np_h1_mids := np_h1_mids r @ [m1],
                                   np_h2_mids := np_h2_mids r @ [m2]\<rparr>)))"

definition new_parsers :: "('p, 'q) beeper \<Rightarrow> variable list \<Rightarrow> ('p, 'q) new_parsers_res option" where
  "new_parsers B vars =
     (case bp_h1_preface B (bp_h1_new B) of
        None \<Rightarrow> None
      | Some (p, preface) \<Rightarrow>
          capture_vars B vars \<lparr>np_h1 = p, np_h2 = bp_h2_new B, np_h1_preface = preface, np_h1_mids = [], np_h2_mids = []\<rparr>)"

section \<open>Read-only data\<close>

datatype init_error = ParserError | TooManyPatterns | InitNet net_error

fun from_net :: "('a, net_error) outcome \<Rightarrow> ('a, init_error) outcome" where
  "from_net (Ok x) = Ok x"
| "from_net (Err er) = Err (InitNet er)"
| "from_net Panic = Panic"

definition set_network :: "endian \<Rightarrow> cidr \<Rightarrow> rodata \<Rightarrow> (rodata, init_error) outcome" where
  "set_network e network ro =
     and_then (from_net (ipv4_ne_octets e (cidr_addr network))) (\<lambda>addr_raw.
     and_then (cidr_len network) (\<lambda>len.
     if uint addr_raw + uint len \<ge> 2 ^ 32 then Panic
     else and_then (from_net (ipv4_ne_octets e (get_gw_ip (cidr_addr network)))) (\<lambda>gw_raw.
       Ok (ro\<lparr>ro_ip4_start := addr_raw, ro_ip4_end := addr_raw + len, ro_gw := gw_raw\<rparr>))))"

text \<open>The match ids go to the front of the arrays. The list of variables is \<open>None\<close> when the compiler panics.\<close>

definition init_dataplane ::
  "endian \<Rightarrow> huffman \<Rightarrow> ('p, 'q) beeper \<Rightarrow> config \<Rightarrow> rodata \<Rightarrow> (rodata, init_error) outcome" where
  "init_dataplane e henc B cfg ro =
     (case get_ctx_vars henc cfg of
        None \<Rightarrow> Panic
      | Some vars \<Rightarrow>
          (case new_parsers B vars of
             None \<Rightarrow> Err ParserError
           | Some r \<Rightarrow>
               if length vars > length (ro_h1_mids ro) then Err TooManyPatterns
               else let ro = ro\<lparr>ro_h1_preface_mid := np_h1_preface r,
                                ro_h1_mids := np_h1_mids r @ drop (length vars) (ro_h1_mids ro),
                                ro_h2_mids := np_h2_mids r @ drop (length vars) (ro_h2_mids ro)\<rparr>
                 in case cfg_network cfg of
                      None \<Rightarrow> Ok ro
                    | Some network \<Rightarrow> set_network e network ro))"

text \<open>The addresses that \<open>attach\<close> adds; the address of the TLS socket is left at zero.\<close>

definition attach_rodata :: "endian \<Rightarrow> socket_addr \<Rightarrow> socket_addr option \<Rightarrow> rodata \<Rightarrow> (rodata, init_error) outcome" where
  "attach_rodata e address tls_addr ro =
     and_then (from_net (sock_ne_octets e address)) (\<lambda>ip.
       Ok (ro\<lparr>ro_ip4 := ip, ro_port := ucast (sock_port address),
              ro_tls_port := (case tls_addr of None \<Rightarrow> 0 | Some a \<Rightarrow> ucast (sock_port a))\<rparr>))"

section \<open>Queues\<close>

text \<open>A queue is created once; \<open>ok\<close> says whether the kernel could create it.\<close>

definition add_pqueue_to_fib :: "bool \<Rightarrow> fib_key \<Rightarrow> bpf_maps \<Rightarrow> bpf_maps option" where
  "add_pqueue_to_fib ok key s =
     (if fib_upstream s key \<noteq> None then Some s
      else if ok then Some (s\<lparr>fib_upstream := (fib_upstream s)(key \<mapsto> [])\<rparr>) else None)"

fun add_pqueues :: "endian \<Rightarrow> bool \<Rightarrow> socket_addr list \<Rightarrow> bpf_maps \<Rightarrow> bpf_maps option" where
  "add_pqueues e ok [] s = Some s"
| "add_pqueues e ok (a # as) s =
     (case addr_key_try_from e a of
        Ok addr \<Rightarrow>
          Option.bind (add_pqueue_to_fib ok (fib_queue_key addr False) s) (\<lambda>s.
          Option.bind (add_pqueue_to_fib ok (fib_queue_key addr True) s) (add_pqueues e ok as))
      | _ \<Rightarrow> None)"

definition listen_pqueues :: "endian \<Rightarrow> bool \<Rightarrow> config \<Rightarrow> bpf_maps \<Rightarrow> bpf_maps option" where
  "listen_pqueues e ok cfg =
     add_pqueues e ok (concat (map host_instances (cfg_hosts cfg)) @
       (case cfg_proxy cfg of None \<Rightarrow> [] | Some a \<Rightarrow> [a]) @
       (case cfg_tls cfg of None \<Rightarrow> [] | Some t \<Rightarrow> [tls_socket t]))"

section \<open>U-turns\<close>

text \<open>\<open>handle_downstream\<close>: HTTP/2 is used towards clients that are instances of a host with HTTP/2.\<close>

definition speaks_http2 :: "config \<Rightarrow> socket_addr \<Rightarrow> bool" where
  "speaks_http2 cfg ds_remote =
     (case find (\<lambda>h. list_ex (\<lambda>a. sock_ip a = sock_ip ds_remote) (host_instances h)) (cfg_hosts cfg) of
        None \<Rightarrow> False
      | Some h \<Rightarrow> host_http2 h)"

definition lookup_and_delete :: "data_stream \<Rightarrow> bpf_maps \<Rightarrow> bpf_maps \<times> addr_key option" where
  "lookup_and_delete k s =
     (s\<lparr>utrn_wait_list := (utrn_wait_list s)(k := None)\<rparr>, utrn_wait_list s k)"

text \<open>Failed conversions are unwrapped.\<close>

fun unwrap :: "('a, 'x) outcome \<Rightarrow> ('a, 'y) outcome" where
  "unwrap (Ok x) = Ok x"
| "unwrap _ = Panic"

fun gw_of :: "socket_addr \<Rightarrow> (ipv4, 'x) outcome" where
  "gw_of (SockV4 ip _) = Ok (get_gw_ip ip)"
| "gw_of (SockV6 _ _ _ _) = Panic"

text \<open>The token of a stream; without one, the client may be known by the address of the gateway.\<close>

definition take_token ::
  "endian \<Rightarrow> socket_addr \<Rightarrow> socket_addr \<Rightarrow> u32 \<Rightarrow> bpf_maps \<Rightarrow> (bpf_maps \<times> sock_key \<times> addr_key option, 'x) outcome" where
  "take_token e ds_local ds_remote sid s =
     and_then (unwrap (sock_key_try_from e ds_remote ds_local)) (\<lambda>ds_key.
     case lookup_and_delete \<lparr>ds_conn = ds_key, ds_stream_id = sid\<rparr> s of
       (s, Some us_remote) \<Rightarrow> Ok (s, ds_key, Some us_remote)
     | (s, None) \<Rightarrow>
         and_then (gw_of ds_local) (\<lambda>gw_ip.
         and_then (unwrap (sock_key_try_from e (SockV4 gw_ip (sock_port ds_remote)) ds_local)) (\<lambda>gw_key.
         case lookup_and_delete \<lparr>ds_conn = gw_key, ds_stream_id = sid\<rparr> s of
           (s, us_remote) \<Rightarrow> Ok (s, gw_key, us_remote))))"

text \<open>How opening an upstream connection ends.\<close>

datatype uturn_res = SendError | Connected sock_key

text \<open>\<open>handle_h1_downstream\<close> from the token to the connection. The bound address is \<open>None\<close> when \<open>bind\<close> fails;
  it belongs to the gateway of the upstream's network. With TLS the socket of the proxy is awaited, else the
  socket of the upstream.\<close>

definition h1_uturn ::
  "endian \<Rightarrow> bool \<Rightarrow> socket_addr \<Rightarrow> socket_addr \<Rightarrow> socket_addr option \<Rightarrow> bool \<Rightarrow> bpf_maps \<Rightarrow>
   (bpf_maps \<times> uturn_res, 'x) outcome" where
  "h1_uturn e tls ds_local ds_remote bound connected s =
     and_then (take_token e ds_local ds_remote 0 s) (\<lambda>(s, ds_key, token).
     case token of
       None \<Rightarrow> Ok (s, SendError)
     | Some us_remote_key \<Rightarrow>
         (let us_remote = addr_key_into_socket_addr e us_remote_key
          in case bound of
               None \<Rightarrow> Ok (s, SendError)
             | Some us_local \<Rightarrow>
                 and_then (unwrap (if tls then sock_key_try_from e us_local us_remote
                                   else sock_key_try_from e us_remote us_local)) (\<lambda>us_key.
                 let s = s\<lparr>sock_map_wait_list := (sock_map_wait_list s)(us_key \<mapsto> (if tls then 0 else 1))\<rparr>
                 in if \<not> connected then Ok (s, SendError)
                    else and_then (unwrap (addr_key_try_from e us_local)) (\<lambda>us_local_key.
                      Ok (s\<lparr>fib_downstream := (fib_downstream s)(us_local_key \<mapsto> ds_key)\<rparr>, Connected us_key)))))"

text \<open>\<open>handle_h2_downstream\<close> links the request with stream 1 of the new connection. The streams are keyed by
  the client's own address, also when the token was found under that of the gateway.\<close>

definition h2_uturn ::
  "endian \<Rightarrow> bool \<Rightarrow> socket_addr \<Rightarrow> socket_addr \<Rightarrow> u32 \<Rightarrow> socket_addr option \<Rightarrow> bool \<Rightarrow> bpf_maps \<Rightarrow>
   (bpf_maps \<times> uturn_res, 'x) outcome" where
  "h2_uturn e tls ds_local ds_remote sid bound connected s =
     and_then (take_token e ds_local ds_remote sid s) (\<lambda>(s, ds_key, token).
     case token of
       None \<Rightarrow> Ok (s, SendError)
     | Some us_remote_key \<Rightarrow>
         (let us_remote = addr_key_into_socket_addr e us_remote_key
          in case bound of
               None \<Rightarrow> Ok (s, SendError)
             | Some us_local \<Rightarrow>
                 and_then (unwrap (sock_key_try_from e us_remote us_local)) (\<lambda>key.
                 and_then (unwrap (sock_key_try_from e ds_remote ds_local)) (\<lambda>ds_sock_key.
                 let us_key = (if tls then sock_key_invert key else key);
                     ds_stream = \<lparr>ds_conn = ds_sock_key, ds_stream_id = sid\<rparr>;
                     us_stream = \<lparr>ds_conn = us_key, ds_stream_id = 1\<rparr>;
                     s = s\<lparr>sock_map_wait_list := (sock_map_wait_list s)(us_key \<mapsto> (if tls then 0 else 1)),
                           h2_conns := (h2_conns s)(us_key \<mapsto> 1),
                           h2_streams := (h2_streams s)(ds_stream \<mapsto> us_stream, us_stream \<mapsto> ds_stream)\<rparr>
                 in if \<not> connected then Ok (s, SendError)
                    else and_then (unwrap (addr_key_try_from e us_local)) (\<lambda>us_local_key.
                      Ok (s\<lparr>fib_downstream := (fib_downstream s)(us_local_key \<mapsto> ds_key)\<rparr>, Connected us_key))))))"

text \<open>After the response has been seen the route back is removed.\<close>

definition h2_finish :: "addr_key \<Rightarrow> bpf_maps \<Rightarrow> bpf_maps" where
  "h2_finish us_local_key s = s\<lparr>fib_downstream := (fib_downstream s)(us_local_key := None)\<rparr>"

section \<open>Requests on a stream of bytes\<close>

text \<open>The result of the HTTP/1 parser \<open>httparse\<close>, a parameter: the header length once complete, and the header
  fields.\<close>

datatype parse_status = Complete nat | Partial

definition content_length_of :: "headers \<Rightarrow> nat" where
  "content_length_of hs =
     (case find (\<lambda>h. eq_ignore_ascii_case (fst h) ''content-length'') hs of
        None \<Rightarrow> 0
      | Some h \<Rightarrow> (case parse_uint (USIZE_MAX + 1) (snd h) of None \<Rightarrow> 0 | Some n \<Rightarrow> n))"

datatype h1_read = ReadMore | Malformed | Request "byte list" "byte list"

text \<open>One round of the loop of \<open>handle_h1_downstream\<close> up to the token: the request and the bytes behind it.\<close>

definition h1_next_request ::
  "(byte list \<Rightarrow> (parse_status \<times> headers) option) \<Rightarrow> byte list \<Rightarrow> (h1_read, 'x) outcome" where
  "h1_next_request httparse buf =
     (case httparse buf of
        None \<Rightarrow> Ok Malformed
      | Some (Partial, _) \<Rightarrow> Ok ReadMore
      | Some (Complete hdr_len, hs) \<Rightarrow>
          if hdr_len + content_length_of hs > USIZE_MAX then Panic
          else let req_len = hdr_len + content_length_of hs
               in if length buf < req_len then Ok ReadMore
                  else Ok (Request (take req_len buf) (drop req_len buf)))"

end
