(* ===== verification/Dataplane_Correct.thy ===== *)
theory Dataplane_Correct
  imports Control_Plane
begin

text \<open>
  Properties of the data plane over arbitrary sequences of packets, socket events, U-turns and
  evictions: what the queues hold, that responses and streams are not mixed up, that a
  U-turn leads to a connection that serves the next request.
\<close>

section \<open>Runs\<close>

text \<open>The parameters of a running proxy.\<close>

record dp_params =
  dp_endian :: endian
  dp_ro :: rodata
  dp_parsers :: parsers
  dp_filters :: filters

text \<open>What can happen. Least-recently-used maps may forget an entry and sockets may close at any time.\<close>

datatype event =
  Ev_msg kenv packet
| Ev_parse_skb kenv packet
| Ev_skb kenv packet
| Ev_remove_tls bool packet
| Ev_sock bool bool sock_event packet
| Ev_h1_uturn bool socket_addr socket_addr "socket_addr option" bool
| Ev_h2_uturn bool socket_addr socket_addr u32 "socket_addr option" bool
| Ev_h2_finish addr_key
| Ev_evict_fib addr_key
| Ev_evict_stream data_stream
| Ev_evict_uturn data_stream
| Ev_evict_skb sock_key
| Ev_close sock_key

fun dp_step :: "dp_params \<Rightarrow> bpf_maps \<Rightarrow> event \<Rightarrow> bpf_maps option" where
  "dp_step C s (Ev_msg K m) = Some (fst (process_msg (dp_endian C) (dp_ro C) (dp_parsers C) (dp_filters C) K m s))"
| "dp_step C s (Ev_parse_skb K m) = Some (fst (parse_skb (dp_endian C) (dp_ro C) (dp_parsers C) (dp_filters C) K m s))"
| "dp_step C s (Ev_skb K m) = Some (fst (process_skb (dp_endian C) (dp_ro C) (dp_parsers C) (dp_filters C) K m s))"
| "dp_step C s (Ev_remove_tls ok m) = Some (fst (remove_tls (dp_endian C) ok m s))"
| "dp_step C s (Ev_sock ok1 ok2 op m) = Some (monitor_sockets (dp_endian C) (dp_ro C) ok1 ok2 op m s)"
| "dp_step C s (Ev_h1_uturn tls l r b c) = map_option fst (out_option (h1_uturn (dp_endian C) tls l r b c s :: (_, unit) outcome))"
| "dp_step C s (Ev_h2_uturn tls l r sid b c) =
     map_option fst (out_option (h2_uturn (dp_endian C) tls l r sid b c s :: (_, unit) outcome))"
| "dp_step C s (Ev_h2_finish a) = Some (h2_finish a s)"
| "dp_step C s (Ev_evict_fib a) = Some (s\<lparr>fib_downstream := (fib_downstream s)(a := None)\<rparr>)"
| "dp_step C s (Ev_evict_stream d) = Some (s\<lparr>h2_streams := (h2_streams s)(d := None)\<rparr>)"
| "dp_step C s (Ev_evict_uturn d) = Some (s\<lparr>utrn_wait_list := (utrn_wait_list s)(d := None)\<rparr>)"
| "dp_step C s (Ev_evict_skb k) = Some (s\<lparr>skb_verdict := (skb_verdict s)(k := None), tls_sizes := (tls_sizes s)(k := None)\<rparr>)"
| "dp_step C s (Ev_close k) = Some (s\<lparr>msg_sock_map := msg_sock_map s - {k}, skb_sock_map := skb_sock_map s - {k},
     tls_msg_sock_map := tls_msg_sock_map s - {k}, net_sock_map := net_sock_map s - {k}\<rparr>)"

section \<open>What the parts change\<close>

text \<open>The tables as the routing step leaves them.\<close>

definition queues_after :: "sock_key \<Rightarrow> bool \<Rightarrow> bool \<Rightarrow> bool \<Rightarrow> addr_key \<Rightarrow> (fib_key \<rightharpoonup> sock_key list) \<Rightarrow> (fib_key \<rightharpoonup> sock_key list)" where
  "queues_after ikey ds is_h2 sk_msg dest Q =
     (if ds then (case Q (fib_queue_key dest sk_msg) of
           Some (k # q) \<Rightarrow> if is_h2 then Q else Q(fib_queue_key dest sk_msg \<mapsto> q)
         | _ \<Rightarrow> Q)
      else (case Q (fib_queue_key (sk_local ikey) sk_msg) of
           None \<Rightarrow> Q
         | Some q \<Rightarrow> Q(fib_queue_key (sk_local ikey) sk_msg \<mapsto> queue_push q ikey)))"

lemma route_conn_frame:
  assumes "route_conn K ikey ds is_h2 sk_msg dest s = (res, ekey, t)"
  shows "t = s\<lparr>fib_upstream := queues_after ikey ds is_h2 sk_msg dest (fib_upstream s), fib_downstream := fib_downstream t\<rparr>"
  using assms by (auto simp: route_conn_def fib_query_def post_forward_ds_conn_def post_forward_us_conn_def
      fib_insert_def queues_after_def Let_def split: if_splits option.splits list.splits)

lemma assign_stream_frame:
  assumes "assign_stream K ikey sid ekey linked data s = (t, d, n)"
  shows "t = s\<lparr>h2_conns := h2_conns t, h2_streams := h2_streams t\<rparr>"
  using assms by (auto simp: assign_stream_def Let_def split: option.splits if_splits)

lemma add_uturn_frame: "add_uturn K ikey sid dest s = s\<lparr>utrn_wait_list := utrn_wait_list (add_uturn K ikey sid dest s)\<rparr>"
  by (simp add: add_uturn_def)

lemma forward_msg_queues:
  "fib_upstream (fst (forward_msg K ikey ds is_h2 sid dest data n s)) = queues_after ikey ds is_h2 True dest (fib_upstream s)"
proof -
  obtain res ekey t where r: "route_conn K ikey ds is_h2 True dest s = (res, ekey, t)" by (metis prod_cases3)
  have q: "fib_upstream t = queues_after ikey ds is_h2 True dest (fib_upstream s)"
    by (subst route_conn_frame[OF r]) simp
  have a: "fib_upstream u = fib_upstream t" if "assign_stream K ikey sid ekey b d t = (u, d', m)" for b d u d' m
    by (subst assign_stream_frame[OF that]) simp
  show ?thesis
    by (auto simp: forward_msg_def r q[symmetric] add_uturn_def Let_def split: prod.splits if_splits dest: a)
qed

lemma forward_skb_queues:
  "fib_upstream (fst (forward_skb K ikey ds is_h2 sid dest tls data s)) = queues_after ikey ds is_h2 False dest (fib_upstream s)"
proof -
  obtain res ekey t where r: "route_conn K ikey ds is_h2 False dest s = (res, ekey, t)" by (metis prod_cases3)
  have q: "fib_upstream t = queues_after ikey ds is_h2 False dest (fib_upstream s)"
    by (subst route_conn_frame[OF r]) simp
  have a: "fib_upstream u = fib_upstream v" if "assign_stream K ikey sid k b d v = (u, d', m)" for k b d v u d' m
    by (subst assign_stream_frame[OF that]) simp
  show ?thesis
    by (auto simp: forward_skb_def r q[symmetric] add_uturn_def Let_def split: prod.splits if_splits dest: a)
qed

text \<open>Where a forwarded message goes, and the route it leaves for the response.\<close>

definition back_routes :: "kenv \<Rightarrow> sock_key \<Rightarrow> sock_key \<Rightarrow> (addr_key \<rightharpoonup> sock_key) \<Rightarrow> (addr_key \<rightharpoonup> sock_key)" where
  "back_routes K ikey k R =
     (if ak_ip4 (sk_local k) = 0 \<and> ak_ip4 (sk_remote k) = 0 then R else map_update (ke_fib K) R (sk_remote k) ikey)"

lemma forward_msg_request:
  "vd_redirect (snd (forward_msg K ikey True is_h2 sid dest data n s)) =
     (case fib_upstream s (fib_queue_key dest True) of Some (k # q) \<Rightarrow> redirect_hash (msg_sock_map s) k | _ \<Rightarrow> None) \<and>
   fib_downstream (fst (forward_msg K ikey True is_h2 sid dest data n s)) =
     (case fib_upstream s (fib_queue_key dest True) of Some (k # q) \<Rightarrow> back_routes K ikey k (fib_downstream s) | _ \<Rightarrow> fib_downstream s)"
proof -
  have a: "fib_downstream u = fib_downstream v" if "assign_stream K ikey sid k b d v = (u, d', m)" for k b d v u d' m
    by (subst assign_stream_frame[OF that]) simp
  show ?thesis
    by (auto simp: forward_msg_def route_conn_def fib_query_def post_forward_ds_conn_def fib_insert_def back_routes_def
        add_uturn_def drop_msg_def pass_msg_def redirect_hash_def zero_sock_key_def zero_addr_def sock_key_is_null_def Let_def
        split: option.splits list.splits prod.splits dest!: a)
qed

lemma forward_msg_response:
  "vd_redirect (snd (forward_msg K ikey False is_h2 sid dest data n s)) =
     Option.bind (fib_downstream s dest) (redirect_hash (msg_sock_map s)) \<and>
   fib_downstream (fst (forward_msg K ikey False is_h2 sid dest data n s)) = fib_downstream s"
  by (auto simp: forward_msg_def route_conn_def fib_query_def post_forward_us_conn_def fib_insert_def
      add_uturn_def drop_msg_def pass_msg_def redirect_hash_def Let_def split: option.splits)

text \<open>A packet is left alone, upgrades its connection, or is forwarded where the filters say.\<close>

lemma process_msg_cases:
  obtains (same) v where "process_msg e ro P F K m s = (s, v)"
      "vd_redirect v = None \<or> (\<exists>sid d. h2_conns s (new_sock_key_from_msg e m) \<noteq> None \<and>
         h2_streams s \<lparr>ds_conn = new_sock_key_from_msg e m, ds_stream_id = sid\<rparr> = Some d \<and> vd_redirect v = Some (ds_conn d))"
  | (upgrade) v where "process_msg e ro P F K m s =
        (s\<lparr>h2_conns := map_update (ke_h2_conns K) (h2_conns s) (new_sock_key_from_msg e m) 1\<rparr>, v)"
      "h2_conns s (new_sock_key_from_msg e m) = None" "vd_redirect v = None"
  | (forward) inp sid n where
      "fi_key inp = new_sock_key_from_msg e m"
      "mr_action (run_match F (cmp_proxy_addr ro (sk_remote (new_sock_key_from_msg e m))) inp) = PR_PASS"
      "process_msg e ro P F K m s =
         forward_msg K (new_sock_key_from_msg e m) (cmp_proxy_addr ro (sk_remote (new_sock_key_from_msg e m)))
           (h2_conns s (new_sock_key_from_msg e m) \<noteq> None) sid
           (mr_dest (run_match F (cmp_proxy_addr ro (sk_remote (new_sock_key_from_msg e m))) inp))
           (mr_data (run_match F (cmp_proxy_addr ro (sk_remote (new_sock_key_from_msg e m))) inp)) n s"
proof -
  let ?k = "new_sock_key_from_msg e m" and ?h = "h2_conns s (new_sock_key_from_msg e m) \<noteq> None"
  obtain done_idx pres frame np where p: "parse_packet P ?h (pk_data m) = (done_idx, pres, frame, np)" by (metis prod_cases4)
  define h2_dest where "h2_dest = (if ?h then h2_streams s \<lparr>ds_conn = ?k, ds_stream_id = fr_sid frame\<rparr> else None)"
  obtain data sid where t: "translate_stream K h2_dest (pk_data m) (fr_sid frame) = (data, sid)" by fastforce
  define inp where "inp = \<lparr>fi_key = ?k, fi_data = data, fi_pres = pres, fi_done_idx = word_of_int done_idx,
                            fi_ctx_h2 = ?h, fi_is_skb = False, fi_is_h2 = ?h\<rparr>"
  define r where "r = run_match F (cmp_proxy_addr ro (sk_remote ?k)) inp"
  define bad where "bad \<longleftrightarrow> pk_local_port m = 0 \<or> pk_remote_port m = 0 \<or> pk_local_ip4 m = 0 \<or> pk_remote_ip4 m = 0"
  have eq: "process_msg e ro P F K m s =
     (if bad then (s, drop_msg None (pk_data m))
      else if done_idx \<le> 0 then (s, drop_msg None (pk_data m))
      else if ?h \<and> \<not> is_first_hdr frame then
          (s, pass_msg (Option.bind h2_dest (\<lambda>d. redirect_hash (msg_sock_map s) (ds_conn d))) (Some (word_of_int done_idx)) data)
      else if \<not> ?h \<and> matched_preface ro P pres then
          (s\<lparr>h2_conns := map_update (ke_h2_conns K) (h2_conns s) ?k 1\<rparr>, pass_msg None (Some 24) data)
      else if mr_action r \<noteq> PR_PASS then (s, drop_msg (Some (mr_content_length r + mr_done_idx r)) (mr_data r))
      else forward_msg K ?k (cmp_proxy_addr ro (sk_remote ?k)) ?h sid (mr_dest r) (mr_data r)
             (mr_content_length r + mr_done_idx r) s)"
    unfolding process_msg_def Let_def p prod.case h2_dest_def[symmetric] t inp_def[symmetric] r_def[symmetric] bad_def by (rule refl)
  have redir: "Option.bind h2_dest (\<lambda>d. redirect_hash (msg_sock_map s) (ds_conn d)) = None \<or>
      (\<exists>sid d. ?h \<and> h2_streams s \<lparr>ds_conn = ?k, ds_stream_id = sid\<rparr> = Some d \<and>
         Option.bind h2_dest (\<lambda>d. redirect_hash (msg_sock_map s) (ds_conn d)) = Some (ds_conn d))"
    by (cases h2_dest) (auto simp: h2_dest_def redirect_hash_def split: if_splits)
  consider (drop) "bad \<or> done_idx \<le> 0" | (frame) "\<not> bad" "\<not> done_idx \<le> 0" "?h \<and> \<not> is_first_hdr frame"
    | (pre) "\<not> bad" "\<not> done_idx \<le> 0" "\<not> (?h \<and> \<not> is_first_hdr frame)" "\<not> ?h \<and> matched_preface ro P pres"
    | (deny) "\<not> bad" "\<not> done_idx \<le> 0" "\<not> (?h \<and> \<not> is_first_hdr frame)" "\<not> (\<not> ?h \<and> matched_preface ro P pres)" "mr_action r \<noteq> PR_PASS"
    | (fwd) "\<not> bad" "\<not> done_idx \<le> 0" "\<not> (?h \<and> \<not> is_first_hdr frame)" "\<not> (\<not> ?h \<and> matched_preface ro P pres)" "\<not> mr_action r \<noteq> PR_PASS"
    by argo
  then show ?thesis
  proof cases
    case drop
    then have "process_msg e ro P F K m s = (s, drop_msg None (pk_data m))" unfolding eq by argo
    then show ?thesis by (rule same) (simp add: drop_msg_def)
  next
    case frame
    have "process_msg e ro P F K m s = (s, pass_msg (Option.bind h2_dest (\<lambda>d. redirect_hash (msg_sock_map s) (ds_conn d)))
        (Some (word_of_int done_idx)) data)" unfolding eq if_not_P[OF frame(1)] if_not_P[OF frame(2)] if_P[OF frame(3)] by (rule refl)
    then show ?thesis by (rule same) (use redir in \<open>simp add: pass_msg_def\<close>)
  next
    case pre
    have "process_msg e ro P F K m s = (s\<lparr>h2_conns := map_update (ke_h2_conns K) (h2_conns s) ?k 1\<rparr>, pass_msg None (Some 24) data)"
      unfolding eq if_not_P[OF pre(1)] if_not_P[OF pre(2)] if_not_P[OF pre(3)] if_P[OF pre(4)] by (rule refl)
    then show ?thesis by (rule upgrade) (use pre in \<open>simp_all add: pass_msg_def\<close>)
  next
    case deny
    have "process_msg e ro P F K m s = (s, drop_msg (Some (mr_content_length r + mr_done_idx r)) (mr_data r))"
      unfolding eq if_not_P[OF deny(1)] if_not_P[OF deny(2)] if_not_P[OF deny(3)] if_not_P[OF deny(4)] if_P[OF deny(5)] by (rule refl)
    then show ?thesis by (rule same) (simp add: drop_msg_def)
  next
    case fwd
    have "process_msg e ro P F K m s = forward_msg K ?k (cmp_proxy_addr ro (sk_remote ?k)) ?h sid (mr_dest r) (mr_data r)
             (mr_content_length r + mr_done_idx r) s"
      unfolding eq if_not_P[OF fwd(1)] if_not_P[OF fwd(2)] if_not_P[OF fwd(3)] if_not_P[OF fwd(4)] if_not_P[OF fwd(5)] by (rule refl)
    then show ?thesis
      by (intro forward[of inp sid "mr_content_length r + mr_done_idx r"], unfold r_def[symmetric]) (use fwd in \<open>simp_all add: inp_def\<close>)
  qed
qed

lemma parse_skb_queues [simp]: "fib_upstream (fst (parse_skb e ro P F K m s)) = fib_upstream s"
  by (auto simp: parse_skb_def Let_def split: prod.splits option.splits)

lemma process_skb_queues:
  "fib_upstream (fst (process_skb e ro P F K m s)) = fib_upstream s \<or>
   (\<exists>dest. fib_upstream (fst (process_skb e ro P F K m s)) =
      queues_after (new_sock_key_from_skb e m) (cmp_proxy_addr ro (sk_remote (new_sock_key_from_skb e m)))
        (h2_conns s (new_sock_key_from_skb e m) \<noteq> None) False dest (fib_upstream s))"
proof (cases "skb_verdict s (new_sock_key_from_skb e m)")
  case None
  obtain d pres fr np where "parse_packet P (h2_conns s (new_sock_key_from_skb e m) \<noteq> None) (pk_data m) = (d, pres, fr, np)"
    by (metis prod_cases4)
  with None show ?thesis
    by (auto simp: process_skb_def Let_def forward_skb_queues split: prod.splits)
next
  case (Some dest)
  then show ?thesis by (auto simp: process_skb_def Let_def forward_skb_queues intro!: exI[of _ dest])
qed

section \<open>Queues\<close>

text \<open>A queue holds sockets of its own address, the proxy's ends of which are not the proxy's listening
  address, and has room for 8192.\<close>

definition queue_ok :: "rodata \<Rightarrow> fib_key \<Rightarrow> sock_key list \<Rightarrow> bool" where
  "queue_ok ro key q \<longleftrightarrow> length q \<le> FIB_QUEUE_SIZE \<and>
     (\<forall>k \<in> set q. sk_local k = fk_addr key \<and> \<not> cmp_proxy_addr ro (sk_remote k))"

definition queues_ok :: "rodata \<Rightarrow> (fib_key \<rightharpoonup> sock_key list) \<Rightarrow> bool" where
  "queues_ok ro Q \<longleftrightarrow> (\<forall>key q. Q key = Some q \<longrightarrow> queue_ok ro key q)"

lemma set_queue_push: "set (queue_push q k) \<subseteq> insert k (set q)"
  by (cases q) (auto simp: queue_push_def)

lemma length_queue_push: "length q \<le> FIB_QUEUE_SIZE \<Longrightarrow> length (queue_push q k) \<le> FIB_QUEUE_SIZE"
  by (simp add: queue_push_def)

lemma fk_addr_queue_key [simp]: "fk_addr (fib_queue_key a b) = a"
  by (simp add: fib_queue_key_def)

lemma queue_ok_tl: "queue_ok ro key (k # q) \<Longrightarrow> queue_ok ro key q"
  by (simp add: queue_ok_def)

lemma queue_ok_push:
  assumes "queue_ok ro key q" "sk_local k = fk_addr key" "\<not> cmp_proxy_addr ro (sk_remote k)"
  shows "queue_ok ro key (queue_push q k)"
  using assms set_queue_push[of q k] length_queue_push[of q k] unfolding queue_ok_def by blast

lemma queues_ok_upd: "queues_ok ro Q \<Longrightarrow> queue_ok ro key q \<Longrightarrow> queues_ok ro (Q(key \<mapsto> q))"
  by (simp add: queues_ok_def)

lemma queues_after_ok:
  assumes Q: "queues_ok ro Q" and ds: "ds = cmp_proxy_addr ro (sk_remote ikey)"
  shows "queues_ok ro (queues_after ikey ds is_h2 sk_msg dest Q)"
proof (cases ds)
  case True
  have "queue_ok ro (fib_queue_key dest sk_msg) q" if "Q (fib_queue_key dest sk_msg) = Some (k # q)" for k q
    using Q that queue_ok_tl unfolding queues_ok_def by blast
  with True Q show ?thesis
    by (simp add: queues_after_def queues_ok_upd split: option.split list.split)
next
  case False
  have "queue_ok ro (fib_queue_key (sk_local ikey) sk_msg) (queue_push q ikey)"
    if "Q (fib_queue_key (sk_local ikey) sk_msg) = Some q" for q
    using Q that False ds by (intro queue_ok_push) (simp_all add: queues_ok_def)
  with False Q show ?thesis
    by (simp add: queues_after_def queues_ok_upd split: option.split)
qed

lemma dom_queues_after [simp]: "dom (queues_after ikey ds is_h2 sk_msg dest Q) = dom Q"
  by (auto simp: queues_after_def split: option.splits list.splits)

text \<open>Every event keeps the set of queues, and changes queues only as the routing step does.\<close>

lemma take_token_frame:
  assumes "take_token e l r sid s = Ok (t, k, tok)"
  shows "\<exists>w. t = s\<lparr>utrn_wait_list := w\<rparr>"
proof -
  obtain dk where dk: "unwrap (sock_key_try_from e r l) = (Ok dk :: (_, 'a) outcome)"
    using assms by (auto simp: take_token_def and_then_Ok_iff)
  show ?thesis
  proof (cases "utrn_wait_list s \<lparr>ds_conn = dk, ds_stream_id = sid\<rparr>")
    case None
    then show ?thesis using assms
      by (auto simp: take_token_def dk lookup_and_delete_def and_then_Ok_iff)
  next
    case (Some a)
    then show ?thesis using assms by (auto simp: take_token_def dk lookup_and_delete_def)
  qed
qed

lemma h1_uturn_frame:
  assumes "h1_uturn e tls l r b c s = Ok (t, u)"
  shows "\<exists>w x y. t = s\<lparr>utrn_wait_list := w, sock_map_wait_list := x, fib_downstream := y\<rparr>"
proof -
  obtain s1 k tok where t1: "take_token e l r 0 s = (Ok (s1, k, tok) :: (_, 'a) outcome)"
    using assms by (auto simp: h1_uturn_def and_then_Ok_iff)
  obtain w where s1: "s1 = s\<lparr>utrn_wait_list := w\<rparr>" using take_token_frame[OF t1] by blast
  let ?P = "\<lambda>t. \<exists>w x y. t = s\<lparr>utrn_wait_list := w, sock_map_wait_list := x, fib_downstream := y\<rparr>"
  have "?P s1" by (rule exI[of _ w], rule exI[of _ "sock_map_wait_list s"], rule exI[of _ "fib_downstream s"]) (simp add: s1)
  moreover have "?P (s1\<lparr>sock_map_wait_list := x\<rparr>)" for x
    by (rule exI[of _ w], rule exI[of _ x], rule exI[of _ "fib_downstream s"]) (simp add: s1)
  moreover have "?P (s1\<lparr>sock_map_wait_list := x, fib_downstream := y\<rparr>)" for x y
    by (rule exI[of _ w], rule exI[of _ x], rule exI[of _ y]) (simp add: s1)
  ultimately show ?thesis using assms
    by (auto simp: h1_uturn_def t1 Let_def and_then_Ok_iff split: option.splits if_splits)
qed

lemma h2_uturn_frame:
  assumes "h2_uturn e tls l r sid b c s = Ok (t, u)"
  shows "\<exists>w x y a d. t = s\<lparr>utrn_wait_list := w, sock_map_wait_list := x, fib_downstream := y, h2_conns := a, h2_streams := d\<rparr>"
proof -
  obtain s1 k tok where t1: "take_token e l r sid s = (Ok (s1, k, tok) :: (_, 'a) outcome)"
    using assms by (auto simp: h2_uturn_def and_then_Ok_iff)
  obtain w where s1: "s1 = s\<lparr>utrn_wait_list := w\<rparr>" using take_token_frame[OF t1] by blast
  define Q where "Q t \<longleftrightarrow> (\<exists>w x y a d. t = s\<lparr>utrn_wait_list := w, sock_map_wait_list := x, fib_downstream := y, h2_conns := a, h2_streams := d\<rparr>)" for t
  have "Q s1"
    unfolding Q_def by (rule exI[of _ w], rule exI[of _ "sock_map_wait_list s"], rule exI[of _ "fib_downstream s"],
        rule exI[of _ "h2_conns s"], rule exI[of _ "h2_streams s"]) (simp add: s1)
  moreover have "Q (s1\<lparr>sock_map_wait_list := x, h2_conns := a, h2_streams := d\<rparr>)" for x a d
    unfolding Q_def by (rule exI[of _ w], rule exI[of _ x], rule exI[of _ "fib_downstream s"], rule exI[of _ a], rule exI[of _ d]) (simp add: s1)
  moreover have "Q (s1\<lparr>sock_map_wait_list := x, h2_conns := a, h2_streams := d, fib_downstream := y\<rparr>)" for x y a d
    unfolding Q_def by (rule exI[of _ w], rule exI[of _ x], rule exI[of _ y], rule exI[of _ a], rule exI[of _ d]) (simp add: s1)
  ultimately have "Q t" using assms
    by (auto simp: h2_uturn_def t1 Let_def and_then_Ok_iff split: option.splits if_splits)
  then show ?thesis unfolding Q_def .
qed

lemma uturn_queues:
  "h1_uturn e tls l r b c s = Ok (t, u) \<Longrightarrow> fib_upstream t = fib_upstream s"
  "h2_uturn e tls l r sid b c s = Ok (t, u) \<Longrightarrow> fib_upstream t = fib_upstream s"
  by (auto dest!: h1_uturn_frame h2_uturn_frame)

lemma monitor_queues [simp]: "fib_upstream (monitor_sockets e ro ok1 ok2 op m s) = fib_upstream s"
  by (auto simp: monitor_sockets_def Let_def split: option.splits sock_map.splits)

lemma dp_step_queues:
  assumes "dp_step C s ev = Some t"
  shows "fib_upstream t = fib_upstream s \<or>
    (\<exists>ikey is_h2 sk_msg dest. fib_upstream t =
       queues_after ikey (cmp_proxy_addr (dp_ro C) (sk_remote ikey)) is_h2 sk_msg dest (fib_upstream s))"
proof (cases ev)
  case (Ev_msg K m)
  show ?thesis
  proof (cases rule: process_msg_cases[of "dp_endian C" "dp_ro C" "dp_parsers C" "dp_filters C" K m s])
    case (forward inp sid n)
    have t: "t = fst (process_msg (dp_endian C) (dp_ro C) (dp_parsers C) (dp_filters C) K m s)" using assms Ev_msg by simp
    have "fib_upstream t = queues_after (new_sock_key_from_msg (dp_endian C) m)
        (cmp_proxy_addr (dp_ro C) (sk_remote (new_sock_key_from_msg (dp_endian C) m)))
        (h2_conns s (new_sock_key_from_msg (dp_endian C) m) \<noteq> None) True
        (mr_dest (run_match (dp_filters C) (cmp_proxy_addr (dp_ro C) (sk_remote (new_sock_key_from_msg (dp_endian C) m))) inp))
        (fib_upstream s)" unfolding t forward(3) by (rule forward_msg_queues)
    then show ?thesis by blast
  qed (use assms Ev_msg in auto)
next
  case (Ev_skb K m)
  then have "t = fst (process_skb (dp_endian C) (dp_ro C) (dp_parsers C) (dp_filters C) K m s)" using assms by simp
  then show ?thesis using process_skb_queues by blast
next
  case (Ev_h1_uturn tls l r b c)
  then obtain u where "h1_uturn (dp_endian C) tls l r b c s = (Ok (t, u) :: (_, unit) outcome)" using assms by auto
  then show ?thesis using uturn_queues(1) by blast
next
  case (Ev_h2_uturn tls l r sid b c)
  then obtain u where "h2_uturn (dp_endian C) tls l r sid b c s = (Ok (t, u) :: (_, unit) outcome)" using assms by auto
  then show ?thesis using uturn_queues(2) by blast
next
  case (Ev_remove_tls ok m)
  then show ?thesis using assms by (auto simp: remove_tls_def Let_def split: option.splits)
qed (use assms in \<open>auto simp: h2_finish_def\<close>)

interpretation queues: invariant_system "dp_step C"
  "\<lambda>s. queues_ok (dp_ro C) (fib_upstream s) \<and> dom (fib_upstream s) = D" for C D
proof
  fix s ev t
  assume "queues_ok (dp_ro C) (fib_upstream s) \<and> dom (fib_upstream s) = D" "dp_step C s ev = Some t"
  then show "queues_ok (dp_ro C) (fib_upstream t) \<and> dom (fib_upstream t) = D"
    using dp_step_queues[of C s ev t] queues_after_ok[OF _ refl] by (metis dom_queues_after)
qed

lemma add_pqueue_to_fib_Some:
  assumes "add_pqueue_to_fib ok key s = Some t"
  shows "dom (fib_upstream t) = insert key (dom (fib_upstream s))"
    "fib_upstream t k = Some q \<Longrightarrow> q = [] \<or> fib_upstream s k = Some q"
  using assms by (auto simp: add_pqueue_to_fib_def split: if_splits)

lemma add_pqueues_Some:
  assumes "add_pqueues e ok as s = Some t"
  shows "dom (fib_upstream t) = dom (fib_upstream s) \<union>
      {fib_queue_key a b |a b. \<exists>x \<in> set as. addr_key_try_from e x = Ok a} \<and>
    (\<forall>k q. fib_upstream t k = Some q \<longrightarrow> q = [] \<or> fib_upstream s k = Some q)"
  using assms
proof (induction as arbitrary: s)
  case Nil
  then show ?case by simp
next
  case (Cons x xs)
  then obtain a s1 s2 where a: "addr_key_try_from e x = Ok a"
    and s1: "add_pqueue_to_fib ok (fib_queue_key a False) s = Some s1"
    and s2: "add_pqueue_to_fib ok (fib_queue_key a True) s1 = Some s2" and t: "add_pqueues e ok xs s2 = Some t"
    by (auto split: outcome.splits simp: bind_eq_Some_conv)
  have b: "{fib_queue_key a b |b. True} = {fib_queue_key a False, fib_queue_key a True}" by (auto, metis (full_types))
  have d: "dom (fib_upstream s2) = dom (fib_upstream s) \<union> {fib_queue_key a b |b. True}"
    unfolding b using add_pqueue_to_fib_Some(1)[OF s1] add_pqueue_to_fib_Some(1)[OF s2] by auto
  have "dom (fib_upstream t) = dom (fib_upstream s) \<union> {fib_queue_key a b |a b. \<exists>y \<in> set (x # xs). addr_key_try_from e y = Ok a}"
    using Cons.IH[OF t] a unfolding d by auto
  moreover have "\<forall>k q. fib_upstream t k = Some q \<longrightarrow> q = [] \<or> fib_upstream s k = Some q"
    using Cons.IH[OF t] add_pqueue_to_fib_Some(2)[OF s1] add_pqueue_to_fib_Some(2)[OF s2] by blast
  ultimately show ?case by blast
qed

text \<open>The maps as the kernel creates them.\<close>

definition empty_maps :: bpf_maps where
  "empty_maps = \<lparr>skb_sock_map = {}, tls_msg_sock_map = {}, msg_sock_map = {}, net_sock_map = {},
     utrn_wait_list = Map.empty, skb_verdict = Map.empty, tls_sizes = Map.empty, sock_map_wait_list = Map.empty,
     fib_upstream = Map.empty, fib_downstream = Map.empty, h2_conns = Map.empty, h2_streams = Map.empty\<rparr>"

text \<open>The addresses that get queues.\<close>

definition configured :: "config \<Rightarrow> socket_addr set" where
  "configured cfg = (\<Union>h \<in> set (cfg_hosts cfg). set (host_instances h)) \<union> set_option (cfg_proxy cfg) \<union>
     tls_socket ` set_option (cfg_tls cfg)"

lemma listen_pqueues_Some:
  assumes "listen_pqueues e ok cfg empty_maps = Some s"
  shows "dom (fib_upstream s) = {fib_queue_key a b |a b. \<exists>x \<in> configured cfg. addr_key_try_from e x = Ok a}"
    "fib_upstream s k = Some q \<Longrightarrow> q = []" "queues_ok ro (fib_upstream s)"
proof -
  have c: "configured cfg = set (concat (map host_instances (cfg_hosts cfg)) @
       (case cfg_proxy cfg of None \<Rightarrow> [] | Some a \<Rightarrow> [a]) @ (case cfg_tls cfg of None \<Rightarrow> [] | Some t \<Rightarrow> [tls_socket t]))"
    by (auto simp: configured_def split: option.splits)
  note s = add_pqueues_Some[OF assms[unfolded listen_pqueues_def]]
  show "dom (fib_upstream s) = {fib_queue_key a b |a b. \<exists>x \<in> configured cfg. addr_key_try_from e x = Ok a}"
    using s by (simp add: c empty_maps_def)
  show e: "q = []" if "fib_upstream s k = Some q" for k q using s that by (auto simp: empty_maps_def)
  have "queue_ok ro k []" for k by (simp add: queue_ok_def)
  then show "queues_ok ro (fib_upstream s)" using e unfolding queues_ok_def by blast
qed

lemma run_queues:
  assumes "listen_pqueues e ok cfg empty_maps = Some s" "run (dp_step C) s evs = Some t"
  shows "queues_ok (dp_ro C) (fib_upstream t)"
    "dom (fib_upstream t) = {fib_queue_key a b |a b. \<exists>x \<in> configured cfg. addr_key_try_from e x = Ok a}"
  using queues.run_inv[of C s "dom (fib_upstream s)" evs t] listen_pqueues_Some[OF assms(1)] assms(2) by simp_all

text \<open>
  C32. The forwarding table is well typed at all times. After start-up there are queues for the
  configured addresses and for no others, and that never changes. Whatever packets arrive, on either data path,
  whatever sockets open or close and whatever the user-space proxy does, a queue holds only sockets whose
  local address is the one the queue stands for and that are not connections to the proxy
  itself, and never more than 8192 of them.
\<close>
theorem queues_typed:
  assumes "listen_pqueues e ok cfg empty_maps = Some s" "run (dp_step C) s evs = Some t"
  shows "(fib_upstream t (fib_queue_key a b) \<noteq> None \<longleftrightarrow> (\<exists>x \<in> configured cfg. addr_key_try_from e x = Ok a)) \<and>
    (\<forall>q. fib_upstream t (fib_queue_key a b) = Some q \<longrightarrow> length q \<le> 8192 \<and>
       (\<forall>k \<in> set q. sk_local k = a \<and> \<not> cmp_proxy_addr (dp_ro C) (sk_remote k)))"
proof -
  have inj: "fib_queue_key a b = fib_queue_key a' b' \<longleftrightarrow> a = a' \<and> b = b'" for a' b'
    by (auto simp: fib_queue_key_def split: if_splits)
  have "fib_upstream t (fib_queue_key a b) \<noteq> None \<longleftrightarrow> fib_queue_key a b \<in> dom (fib_upstream t)" by auto
  then show ?thesis using run_queues[OF assms] by (auto simp: queues_ok_def queue_ok_def inj)
qed

text \<open>A proxy on port 8080 of 10.0.0.1 with one instance 10.0.0.2:80, for examples. Every request goes to it.\<close>

definition sample_instance :: addr_key where
  "sample_instance = \<lparr>ak_ip4 = 0x0A000002, ak_port = 80\<rparr>"

definition sample_conf :: config where
  "sample_conf = \<lparr>cfg_socket = None, cfg_tls = None, cfg_proxy = None, cfg_stats = False,
     cfg_hosts = [\<lparr>host_name = ''a'', host_load_balancer = None, host_instances = [SockV4 (Ipv4Addr 10 0 0 2) 80], host_http2 = False\<rparr>],
     cfg_network = None, cfg_policies = [], cfg_routes = []\<rparr>"

definition sample_rodata :: rodata where
  "sample_rodata = \<lparr>ro_ip4 = 0x0A000001, ro_ip4_start = 0, ro_ip4_end = 0, ro_port = 8080, ro_tls_ip4 = 0,
     ro_tls_port = 0, ro_gw = 0, ro_h1_preface_mid = 0xFF, ro_h1_mids = [], ro_h2_mids = []\<rparr>"

definition sample_dp :: dp_params where
  "sample_dp = \<lparr>dp_endian = BigEndian, dp_ro = sample_rodata,
     dp_parsers = \<lparr>pa_h1 = (\<lambda>d. (int (length d), \<lambda>_. \<lparr>hm_idx = 0, hm_len = 0\<rparr>, 0)),
       pa_h2 = (\<lambda>d. (int (length d), \<lambda>_. \<lparr>hm_idx = 0, hm_len = 0\<rparr>, \<lparr>fr_type = 1, fr_flags = 4, fr_sid = 1\<rparr>)),
       pa_max_matches = 32\<rparr>,
     dp_filters = \<lparr>fl_ds = (\<lambda>inp. \<lparr>mr_action = PR_PASS, mr_data = fi_data inp, mr_content_length = 0,
         mr_done_idx = ucast (fi_done_idx inp), mr_dest = sample_instance\<rparr>), fl_content_length = (\<lambda>_. 0)\<rparr>\<rparr>"

definition all_ok :: kenv where
  "all_ok = \<lparr>ke_fib = True, ke_h2_conns = True, ke_istream = True, ke_estream = True, ke_utrn = True,
     ke_verdict = True, ke_tls = True, ke_pull = True\<rparr>"

text \<open>A request from port 5000 of 10.0.0.9, and a response of the instance to port 6000 of the proxy's host.\<close>

definition sample_request :: packet where
  "sample_request = \<lparr>pk_local_ip4 = 0x0A000009, pk_local_port = 5000, pk_remote_ip4 = 0x0A000001, pk_remote_port = 8080, pk_data = [1]\<rparr>"

definition sample_response :: packet where
  "sample_response = \<lparr>pk_local_ip4 = 0x0A000002, pk_local_port = 80, pk_remote_ip4 = 0x0A000001, pk_remote_port = 6000, pk_data = [2]\<rparr>"

definition sample_conn :: sock_key where
  "sample_conn = new_sock_key_from_msg BigEndian sample_response"

theorem queues_typed_witness:
  "\<exists>s t q. listen_pqueues BigEndian True sample_conf empty_maps = Some s \<and>
     run (dp_step sample_dp) s [Ev_msg all_ok sample_response] = Some t \<and>
     fib_upstream t (fib_queue_key sample_instance True) = Some q \<and> q = [sample_conn] \<and> length q \<le> 8192 \<and>
     sk_local sample_conn = sample_instance"
proof -
  have c: "map_option (\<lambda>t. fib_upstream t (fib_queue_key sample_instance True))
      (Option.bind (listen_pqueues BigEndian True sample_conf empty_maps)
         (\<lambda>s. run (dp_step sample_dp) s [Ev_msg all_ok sample_response])) = Some (Some [sample_conn])" by code_simp
  then obtain s t where st: "listen_pqueues BigEndian True sample_conf empty_maps = Some s"
    "run (dp_step sample_dp) s [Ev_msg all_ok sample_response] = Some t"
    "fib_upstream t (fib_queue_key sample_instance True) = Some [sample_conn]"
    by (auto simp: bind_eq_Some_conv)
  with queues_typed[OF st(1,2), of sample_instance True] show ?thesis by auto
qed

end
