(* ===== verification/Dataplane_H1.thy ===== *)
theory Dataplane_H1
  imports Dataplane_Correct
begin

text \<open>
  HTTP/1 on plain sockets: a connection serves one request at a time, and the response goes to the
  client that made the request. The pool of connections is followed through the queues, the requests under
  way and the routes back.
\<close>

section \<open>The pool of connections\<close>

text \<open>\<open>p\<close> maps an upstream connection to the client whose request it is serving. Connections are told apart
  by the proxy's end, the key of the routes back.\<close>

definition queued :: "(fib_key \<rightharpoonup> sock_key list) \<Rightarrow> addr_key set" where
  "queued Q = {sk_remote k |key q k. Q key = Some q \<and> k \<in> set q}"

definition queues_disjoint :: "(fib_key \<rightharpoonup> sock_key list) \<Rightarrow> bool" where
  "queues_disjoint Q \<longleftrightarrow>
     (\<forall>key q. Q key = Some q \<longrightarrow> distinct (map sk_remote q)) \<and>
     (\<forall>key q k. Q key = Some q \<longrightarrow> k \<in> set q \<longrightarrow> ak_ip4 (sk_local k) \<noteq> 0) \<and>
     (\<forall>key q key' q' k k'. Q key = Some q \<longrightarrow> Q key' = Some q' \<longrightarrow> key \<noteq> key' \<longrightarrow> k \<in> set q \<longrightarrow> k' \<in> set q' \<longrightarrow>
        sk_remote k \<noteq> sk_remote k')"

definition serving_ok ::
  "(fib_key \<rightharpoonup> sock_key list) \<Rightarrow> (sock_key \<rightharpoonup> sock_key) \<Rightarrow> (addr_key \<rightharpoonup> sock_key) \<Rightarrow> bool" where
  "serving_ok Q p R \<longleftrightarrow>
     (\<forall>k k' c c'. p k = Some c \<longrightarrow> p k' = Some c' \<longrightarrow> sk_remote k = sk_remote k' \<longrightarrow> k = k') \<and>
     (\<forall>k c. p k = Some c \<longrightarrow> sk_remote k \<notin> queued Q) \<and>
     (\<forall>k c. p k = Some c \<longrightarrow> R (sk_remote k) = None \<or> R (sk_remote k) = Some c)"

definition pool_ok ::
  "(fib_key \<rightharpoonup> sock_key list) \<Rightarrow> (sock_key \<rightharpoonup> sock_key) \<Rightarrow> (addr_key \<rightharpoonup> sock_key) \<Rightarrow> bool" where
  "pool_ok Q p R \<longleftrightarrow> queues_disjoint Q \<and> serving_ok Q p R"

lemma pool_okD:
  assumes "pool_ok Q p R"
  shows "Q key = Some q \<Longrightarrow> distinct (map sk_remote q)"
    "Q key = Some q \<Longrightarrow> k \<in> set q \<Longrightarrow> ak_ip4 (sk_local k) \<noteq> 0"
    "Q key = Some q \<Longrightarrow> Q key' = Some q' \<Longrightarrow> key \<noteq> key' \<Longrightarrow> k \<in> set q \<Longrightarrow> k' \<in> set q' \<Longrightarrow> sk_remote k \<noteq> sk_remote k'"
    "p k = Some c \<Longrightarrow> p k' = Some c' \<Longrightarrow> sk_remote k = sk_remote k' \<Longrightarrow> k = k'"
    "p k = Some c \<Longrightarrow> sk_remote k \<notin> queued Q"
    "p k = Some c \<Longrightarrow> R (sk_remote k) = None \<or> R (sk_remote k) = Some c"
proof -
  note d = assms[unfolded pool_ok_def queues_disjoint_def serving_ok_def]
  show "Q key = Some q \<Longrightarrow> distinct (map sk_remote q)" using d by metis
  show "Q key = Some q \<Longrightarrow> k \<in> set q \<Longrightarrow> ak_ip4 (sk_local k) \<noteq> 0" using d by metis
  show "Q key = Some q \<Longrightarrow> Q key' = Some q' \<Longrightarrow> key \<noteq> key' \<Longrightarrow> k \<in> set q \<Longrightarrow> k' \<in> set q' \<Longrightarrow> sk_remote k \<noteq> sk_remote k'"
    using d by metis
  show "p k = Some c \<Longrightarrow> p k' = Some c' \<Longrightarrow> sk_remote k = sk_remote k' \<Longrightarrow> k = k'" using d by metis
  show "p k = Some c \<Longrightarrow> sk_remote k \<notin> queued Q" using d by metis
  show "p k = Some c \<Longrightarrow> R (sk_remote k) = None \<or> R (sk_remote k) = Some c" using d by metis
qed

lemma pool_okI:
  assumes "\<And>key q. Q key = Some q \<Longrightarrow> distinct (map sk_remote q)"
    "\<And>key q k. Q key = Some q \<Longrightarrow> k \<in> set q \<Longrightarrow> ak_ip4 (sk_local k) \<noteq> 0"
    "\<And>key q key' q' k k'. Q key = Some q \<Longrightarrow> Q key' = Some q' \<Longrightarrow> key \<noteq> key' \<Longrightarrow> k \<in> set q \<Longrightarrow> k' \<in> set q' \<Longrightarrow>
       sk_remote k \<noteq> sk_remote k'"
    "\<And>k k' c c'. p k = Some c \<Longrightarrow> p k' = Some c' \<Longrightarrow> sk_remote k = sk_remote k' \<Longrightarrow> k = k'"
    "\<And>k c. p k = Some c \<Longrightarrow> sk_remote k \<notin> queued Q"
    "\<And>k c. p k = Some c \<Longrightarrow> R (sk_remote k) = None \<or> R (sk_remote k) = Some c"
  shows "pool_ok Q p R"
  unfolding pool_ok_def queues_disjoint_def serving_ok_def
  by (intro conjI allI impI) (rule assms; assumption)+

lemma queuedI: "Q key = Some q \<Longrightarrow> k \<in> set q \<Longrightarrow> sk_remote k \<in> queued Q"
  unfolding queued_def by blast

lemma queuedE:
  assumes "a \<in> queued Q"
  obtains key q k where "Q key = Some q" "k \<in> set q" "a = sk_remote k"
  using assms unfolding queued_def by blast

lemma pool_take_queue:
  assumes ok: "pool_ok Q p R" and q: "Q key = Some (k # q)"
  shows "pool_ok (Q(key \<mapsto> q)) p R" "sk_remote k \<notin> queued (Q(key \<mapsto> q))" "p x = Some c \<Longrightarrow> sk_remote x \<noteq> sk_remote k"
proof -
  have old: "\<exists>r. Q key' = Some r \<and> set q' \<subseteq> set r \<and> (distinct (map sk_remote r) \<longrightarrow> distinct (map sk_remote q'))"
    if "(Q(key \<mapsto> q)) key' = Some q'" for key' q'
    using that q by (cases "key' = key") auto
  have sub: "queued (Q(key \<mapsto> q)) \<subseteq> queued Q"
  proof
    fix a assume "a \<in> queued (Q(key \<mapsto> q))"
    then obtain key' q' x where x: "(Q(key \<mapsto> q)) key' = Some q'" "x \<in> set q'" "a = sk_remote x" by (rule queuedE)
    from old[OF x(1)] x(2) obtain r where r: "Q key' = Some r" "x \<in> set r" by blast
    show "a \<in> queued Q" unfolding x(3) by (rule queuedI[of Q key' r x, OF r])
  qed
  show "pool_ok (Q(key \<mapsto> q)) p R"
  proof (rule pool_okI)
    fix key1 q1 key2 q2 x1 x2
    assume a: "(Q(key \<mapsto> q)) key1 = Some q1" "(Q(key \<mapsto> q)) key2 = Some q2" "key1 \<noteq> key2" "x1 \<in> set q1" "x2 \<in> set q2"
    from old[OF a(1)] a(4) obtain r1 where r1: "Q key1 = Some r1" "x1 \<in> set r1" by blast
    from old[OF a(2)] a(5) obtain r2 where r2: "Q key2 = Some r2" "x2 \<in> set r2" by blast
    show "sk_remote x1 \<noteq> sk_remote x2" by (rule pool_okD(3)[OF ok r1(1) r2(1) a(3) r1(2) r2(2)])
  next
    show "distinct (map sk_remote q')" if "(Q(key \<mapsto> q)) key' = Some q'" for key' q' using old[OF that] pool_okD(1)[OF ok] by blast
    show "ak_ip4 (sk_local x) \<noteq> 0" if "(Q(key \<mapsto> q)) key' = Some q'" "x \<in> set q'" for key' q' x
      using old[OF that(1)] that(2) pool_okD(2)[OF ok] by blast
    show "sk_remote x \<notin> queued (Q(key \<mapsto> q))" if "p x = Some c" for x c using pool_okD(5)[OF ok that] sub by blast
  qed (rule pool_okD(4,6)[OF ok]; assumption)+
  show "sk_remote k \<notin> queued (Q(key \<mapsto> q))"
  proof
    assume "sk_remote k \<in> queued (Q(key \<mapsto> q))"
    then obtain key' q' x where x: "(Q(key \<mapsto> q)) key' = Some q'" "x \<in> set q'" "sk_remote k = sk_remote x" by (rule queuedE)
    show False
    proof (cases "key' = key")
      case True
      have "x \<in> set q" using x True by simp
      then show False using pool_okD(1)[OF ok q] x(3) by (auto simp: image_iff)
    next
      case False
      then have "Q key' = Some q'" using x by simp
      then show False using pool_okD(3)[OF ok q _ False[symmetric], of q' k x] x by simp
    qed
  qed
  show "sk_remote x \<noteq> sk_remote k" if "p x = Some c"
    using pool_okD(5)[OF ok that] queuedI[of Q key "k # q" k] q by auto
qed

text \<open>A connection nobody else has can be given to a client, and its route may be overwritten.\<close>

lemma pool_reroute:
  assumes ok: "pool_ok Q p R" and "\<And>x c. p x = Some c \<Longrightarrow> sk_remote x \<noteq> a"
  shows "pool_ok Q p (R(a := r))"
proof (rule pool_okI)
  show "(R(a := r)) (sk_remote x) = None \<or> (R(a := r)) (sk_remote x) = Some c" if "p x = Some c" for x c
    using pool_okD(6)[OF ok that] assms(2)[OF that] by auto
qed (rule pool_okD(1-5)[OF ok]; assumption)+

lemma pool_connect:
  assumes ok: "pool_ok Q p R" and fresh: "sk_remote k \<notin> queued Q" "\<And>x c. p x = Some c \<Longrightarrow> sk_remote x \<noteq> sk_remote k"
  shows "pool_ok Q (p(k \<mapsto> c)) (R(sk_remote k \<mapsto> c))"
proof (rule pool_okI)
  show "x = y" if "(p(k \<mapsto> c)) x = Some d" "(p(k \<mapsto> c)) y = Some d'" "sk_remote x = sk_remote y" for x y d d'
    using that fresh(2) pool_okD(4)[OF ok] by (metis fun_upd_apply)
  show "sk_remote x \<notin> queued Q" if "(p(k \<mapsto> c)) x = Some d" for x d
    using that fresh(1) pool_okD(5)[OF ok] by (metis fun_upd_apply)
  show "(R(sk_remote k \<mapsto> c)) (sk_remote x) = None \<or> (R(sk_remote k \<mapsto> c)) (sk_remote x) = Some d"
    if "(p(k \<mapsto> c)) x = Some d" for x d
    using that fresh(2) pool_okD(6)[OF ok] by (cases "x = k") auto
qed (rule pool_okD(1-3)[OF ok]; assumption)+

lemma pool_forget:
  assumes ok: "pool_ok Q p R"
  shows "pool_ok Q (p(k := None)) R"
proof (rule pool_okI)
  have p: "p x = Some c" if "(p(k := None)) x = Some c" for x c using that by (auto split: if_splits)
  show "x = y" if "(p(k := None)) x = Some d" "(p(k := None)) y = Some d'" "sk_remote x = sk_remote y" for x y d d'
    by (rule pool_okD(4)[OF ok p[OF that(1)] p[OF that(2)] that(3)])
  show "sk_remote x \<notin> queued Q" if "(p(k := None)) x = Some d" for x d by (rule pool_okD(5)[OF ok p[OF that]])
  show "R (sk_remote x) = None \<or> R (sk_remote x) = Some d" if "(p(k := None)) x = Some d" for x d
    by (rule pool_okD(6)[OF ok p[OF that]])
qed (rule pool_okD(1-3)[OF ok]; assumption)+

lemma pool_evict: "pool_ok Q p R \<Longrightarrow> pool_ok Q p (R(a := None))"
  unfolding pool_ok_def serving_ok_def by simp

lemma distinct_queue_push:
  assumes "distinct (map sk_remote q)" "sk_remote k \<notin> sk_remote ` set q"
  shows "distinct (map sk_remote (queue_push q k))"
proof -
  have "distinct (map sk_remote (tl q @ [k]))" using assms by (cases q) auto
  then show ?thesis using assms by (simp add: queue_push_def)
qed

lemma pool_return:
  assumes ok: "pool_ok Q p R" and p: "p k = Some c" and q: "Q key = Some q" and ip: "ak_ip4 (sk_local k) \<noteq> 0"
  shows "pool_ok (Q(key \<mapsto> queue_push q k)) (p(k := None)) R"
proof -
  let ?Q = "Q(key \<mapsto> queue_push q k)"
  have kq: "sk_remote k \<notin> queued Q" by (rule pool_okD(5)[OF ok p])
  have mem: "x = k \<and> key' = key \<or> (\<exists>r. Q key' = Some r \<and> x \<in> set r)" if "?Q key' = Some q'" "x \<in> set q'" for key' q' x
    using that q set_queue_push[of q k] by (cases "key' = key") auto
  have kr: "sk_remote k \<noteq> sk_remote x" if "Q key' = Some r" "x \<in> set r" for key' r x
    using kq queuedI[of Q key' r x] that by auto
  have sub: "queued ?Q \<subseteq> insert (sk_remote k) (queued Q)"
  proof
    fix a assume "a \<in> queued ?Q"
    then obtain key' q' x where "?Q key' = Some q'" "x \<in> set q'" "a = sk_remote x" by (rule queuedE)
    then show "a \<in> insert (sk_remote k) (queued Q)" using mem[of key' q' x] queuedI[of Q key' _ x] by blast
  qed
  show ?thesis
  proof (rule pool_okI)
    fix key' q' assume a: "?Q key' = Some q'"
    show "distinct (map sk_remote q')"
    proof (cases "key' = key")
      case True
      then show ?thesis using a distinct_queue_push[OF pool_okD(1)[OF ok q], of k] kr[OF q] by (auto simp: image_iff)
    next
      case False
      then show ?thesis using a pool_okD(1)[OF ok] by simp
    qed
    show "ak_ip4 (sk_local x) \<noteq> 0" if "x \<in> set q'" for x using mem[OF a that] ip pool_okD(2)[OF ok] by blast
  next
    fix key1 q1 key2 q2 x1 x2
    assume a: "?Q key1 = Some q1" "?Q key2 = Some q2" "key1 \<noteq> key2" "x1 \<in> set q1" "x2 \<in> set q2"
    from mem[OF a(1,4)] mem[OF a(2,5)] a(3) consider r where "x1 = k" "Q key2 = Some r" "x2 \<in> set r"
      | r where "x2 = k" "Q key1 = Some r" "x1 \<in> set r"
      | r1 r2 where "Q key1 = Some r1" "x1 \<in> set r1" "Q key2 = Some r2" "x2 \<in> set r2" by blast
    then show "sk_remote x1 \<noteq> sk_remote x2"
    proof cases
      case 1
      then show ?thesis using kr[OF 1(2,3)] by simp
    next
      case 2
      then show ?thesis using kr[OF 2(2,3)] by simp
    next
      case 3
      then show ?thesis using pool_okD(3)[OF ok 3(1) 3(3) a(3) 3(2) 3(4)] by simp
    qed
  next
    fix x d assume x: "(p(k := None)) x = Some d"
    then have px: "p x = Some d" "x \<noteq> k" by (auto split: if_splits)
    show "sk_remote x \<notin> queued ?Q" using pool_okD(4)[OF ok px(1) p] pool_okD(5)[OF ok px(1)] px(2) sub by blast
    show "R (sk_remote x) = None \<or> R (sk_remote x) = Some d" by (rule pool_okD(6)[OF ok px(1)])
  next
    show "x = y" if "(p(k := None)) x = Some d" "(p(k := None)) y = Some d'" "sk_remote x = sk_remote y" for x y d d'
      using pool_okD(4)[OF pool_forget[OF ok] that] .
  qed
qed

section \<open>Runs\<close>

text \<open>HTTP/1 traffic on plain sockets, together with the clients being served. A run does not go on after an event
  outside of that: an HTTP/2 connection, a response nobody asked for, a lost update of the route back, or
  a new connection with an address that is in use.\<close>

definition served :: "dp_params \<Rightarrow> kenv \<Rightarrow> packet \<Rightarrow> bpf_maps \<Rightarrow> (sock_key \<rightharpoonup> sock_key) \<Rightarrow> (sock_key \<rightharpoonup> sock_key)" where
  "served C K m s p =
     (case vd_redirect (snd (process_msg (dp_endian C) (dp_ro C) (dp_parsers C) (dp_filters C) K m s)) of
        None \<Rightarrow> p
      | Some k \<Rightarrow> p(k \<mapsto> new_sock_key_from_msg (dp_endian C) m))"

fun h1_step :: "dp_params \<Rightarrow> bpf_maps \<times> (sock_key \<rightharpoonup> sock_key) \<Rightarrow> event \<Rightarrow> (bpf_maps \<times> (sock_key \<rightharpoonup> sock_key)) option" where
  "h1_step C (s, p) (Ev_msg K m) =
     (let k = new_sock_key_from_msg (dp_endian C) m;
          t = fst (process_msg (dp_endian C) (dp_ro C) (dp_parsers C) (dp_filters C) K m s)
      in if h2_conns s k \<noteq> None \<or> \<not> ke_fib K then None
         else if cmp_proxy_addr (dp_ro C) (sk_remote k) then Some (t, served C K m s p)
         else if p k = None then None else Some (t, p(k := None)))"
| "h1_step C (s, p) (Ev_h1_uturn tls l r b c) =
     (case h1_uturn (dp_endian C) tls l r b c s :: (_, unit) outcome of
        Ok (t, SendError) \<Rightarrow> Some (t, p)
      | Ok (t, Connected k) \<Rightarrow>
          if tls \<or> sk_remote k \<in> queued (fib_upstream s) \<or> sk_remote k \<in> sk_remote ` dom p then None
          else Some (t, p(k := fib_downstream t (sk_remote k)))
      | _ \<Rightarrow> None)"
| "h1_step C (s, p) (Ev_sock ok1 ok2 op m) = map_option (\<lambda>t. (t, p)) (dp_step C s (Ev_sock ok1 ok2 op m))"
| "h1_step C (s, p) (Ev_evict_fib a) = map_option (\<lambda>t. (t, p)) (dp_step C s (Ev_evict_fib a))"
| "h1_step C (s, p) (Ev_evict_uturn d) = map_option (\<lambda>t. (t, p)) (dp_step C s (Ev_evict_uturn d))"
| "h1_step C (s, p) (Ev_close k) = map_option (\<lambda>t. (t, p)) (dp_step C s (Ev_close k))"
| "h1_step C (s, p) _ = None"

fun h1_inv :: "bpf_maps \<times> (sock_key \<rightharpoonup> sock_key) \<Rightarrow> bool" where
  "h1_inv (s, p) = pool_ok (fib_upstream s) p (fib_downstream s)"

lemma h1_request_inv:
  assumes inv: "pool_ok (fib_upstream s) p (fib_downstream s)" and K: "ke_fib K"
    and ds: "cmp_proxy_addr (dp_ro C) (sk_remote (new_sock_key_from_msg (dp_endian C) m))"
    and h1: "h2_conns s (new_sock_key_from_msg (dp_endian C) m) = None"
    and t: "process_msg (dp_endian C) (dp_ro C) (dp_parsers C) (dp_filters C) K m s = (t, v)"
  shows "pool_ok (fib_upstream t) (served C K m s p) (fib_downstream t)"
proof (cases rule: process_msg_cases[of "dp_endian C" "dp_ro C" "dp_parsers C" "dp_filters C" K m s])
  case (same v')
  then show ?thesis using inv t h1 by (auto simp: served_def)
next
  case (upgrade v')
  then show ?thesis using inv t by (auto simp: served_def)
next
  case (forward inp sid n)
  define k where "k = new_sock_key_from_msg (dp_endian C) m"
  define r where "r = run_match (dp_filters C) True inp"
  have f: "process_msg (dp_endian C) (dp_ro C) (dp_parsers C) (dp_filters C) K m s =
      forward_msg K k True False sid (mr_dest r) (mr_data r) n s"
    unfolding forward(3) k_def r_def by (simp add: ds h1)
  let ?key = "fib_queue_key (mr_dest r) True"
  have Q: "fib_upstream t = queues_after k True False True (mr_dest r) (fib_upstream s)"
    using forward_msg_queues[of K k True False sid "mr_dest r" "mr_data r" n s] t f by simp
  note R = forward_msg_request[of K k False sid "mr_dest r" "mr_data r" n s, folded f, unfolded t snd_conv fst_conv]
  show ?thesis
  proof (cases "\<exists>x q. fib_upstream s ?key = Some (x # q)")
    case True
    then obtain x q where x: "fib_upstream s ?key = Some (x # q)" by blast
    have ip: "ak_ip4 (sk_local x) \<noteq> 0" using pool_okD(2)[OF inv x, of x] by simp
    have Q': "fib_upstream t = (fib_upstream s)(?key \<mapsto> q)" using Q x by (simp add: queues_after_def)
    have R': "fib_downstream t = (fib_downstream s)(sk_remote x \<mapsto> k)"
      using R x ip K by (simp add: back_routes_def map_update_def)
    have p: "served C K m s p = (if x \<in> msg_sock_map s then p(x \<mapsto> k) else p)"
      using R x t by (simp add: served_def redirect_hash_def k_def)
    have other: "sk_remote y \<noteq> sk_remote x" if "p y = Some c" for y c by (rule pool_take_queue(3)[OF inv x that])
    have "pool_ok ((fib_upstream s)(?key \<mapsto> q)) (p(x \<mapsto> k)) ((fib_downstream s)(sk_remote x \<mapsto> k))"
      by (rule pool_connect[OF pool_take_queue(1,2)[OF inv x]]) (rule other)
    moreover have "pool_ok ((fib_upstream s)(?key \<mapsto> q)) p ((fib_downstream s)(sk_remote x \<mapsto> k))"
      by (rule pool_reroute[OF pool_take_queue(1)[OF inv x]]) (rule other)
    ultimately show ?thesis unfolding Q' R' p by simp
  next
    case False
    then have "fib_upstream t = fib_upstream s" "fib_downstream t = fib_downstream s" "vd_redirect v = None"
      using Q R by (auto simp: queues_after_def split: option.splits list.splits)
    then show ?thesis using inv t by (simp add: served_def)
  qed
qed

lemma process_msg_response:
  assumes us: "\<not> cmp_proxy_addr ro (sk_remote (new_sock_key_from_msg e m))"
    and h1: "h2_conns s (new_sock_key_from_msg e m) = None"
    and t: "process_msg e ro P F K m s = (t, v)"
  shows "vd_redirect v \<noteq> None \<longrightarrow> vd_redirect v = fib_downstream s (sk_remote (new_sock_key_from_msg e m))"
    "fib_downstream t = fib_downstream s"
    "fib_upstream t = fib_upstream s \<or>
     (\<exists>q. fib_upstream s (fib_queue_key (sk_local (new_sock_key_from_msg e m)) True) = Some q \<and>
        pk_local_ip4 m \<noteq> 0 \<and> fib_upstream t = (fib_upstream s)(fib_queue_key (sk_local (new_sock_key_from_msg e m)) True \<mapsto>
          queue_push q (new_sock_key_from_msg e m)))"
proof -
  have "(vd_redirect v \<noteq> None \<longrightarrow> vd_redirect v = fib_downstream s (sk_remote (new_sock_key_from_msg e m))) \<and>
    fib_downstream t = fib_downstream s \<and>
    (fib_upstream t = fib_upstream s \<or>
     (\<exists>q. fib_upstream s (fib_queue_key (sk_local (new_sock_key_from_msg e m)) True) = Some q \<and>
        pk_local_ip4 m \<noteq> 0 \<and> fib_upstream t = (fib_upstream s)(fib_queue_key (sk_local (new_sock_key_from_msg e m)) True \<mapsto>
          queue_push q (new_sock_key_from_msg e m))))"
  proof (cases rule: process_msg_cases[of e ro P F K m s])
    case (same v')
    then show ?thesis using t h1 by auto
  next
    case (upgrade v')
    then show ?thesis using t by auto
  next
    case (forward inp sid n)
    define k where "k = new_sock_key_from_msg e m"
    define r where "r = run_match F False inp"
    have f: "process_msg e ro P F K m s = forward_msg K k False False sid (mr_dest r) (mr_data r) n s"
      unfolding forward(3) k_def r_def by (simp add: us h1)
    have d: "mr_dest r = sk_remote k" using forward(1) by (simp add: r_def run_match_def forward_us_conn_def k_def)
    have Q: "fib_upstream t = queues_after k False False True (mr_dest r) (fib_upstream s)"
      using forward_msg_queues[of K k False False sid "mr_dest r" "mr_data r" n s] t f by simp
    note R = forward_msg_response[of K k False sid "mr_dest r" "mr_data r" n s, folded f, unfolded t snd_conv fst_conv d]
    show ?thesis
    proof (cases "pk_local_ip4 m = 0")
      case True
      then show ?thesis using t by (auto simp: process_msg_def drop_msg_def)
    next
      case False
      then show ?thesis using Q R unfolding k_def[symmetric]
        by (auto simp: queues_after_def redirect_hash_def bind_eq_Some_conv split: option.splits if_splits)
    qed
  qed
  then show "vd_redirect v \<noteq> None \<longrightarrow> vd_redirect v = fib_downstream s (sk_remote (new_sock_key_from_msg e m))"
    "fib_downstream t = fib_downstream s"
    "fib_upstream t = fib_upstream s \<or>
     (\<exists>q. fib_upstream s (fib_queue_key (sk_local (new_sock_key_from_msg e m)) True) = Some q \<and>
        pk_local_ip4 m \<noteq> 0 \<and> fib_upstream t = (fib_upstream s)(fib_queue_key (sk_local (new_sock_key_from_msg e m)) True \<mapsto>
          queue_push q (new_sock_key_from_msg e m)))"
    by blast+
qed

lemma h1_response_inv:
  assumes inv: "pool_ok (fib_upstream s) p (fib_downstream s)"
    and us: "\<not> cmp_proxy_addr ro (sk_remote k)" and h1: "h2_conns s k = None" and k: "k = new_sock_key_from_msg e m"
    and p: "p k = Some c" and t: "process_msg e ro P F K m s = (t, v)"
  shows "pool_ok (fib_upstream t) (p(k := None)) (fib_downstream t)"
proof -
  note r = process_msg_response[OF us[unfolded k] h1[unfolded k] t, folded k]
  have ip: "pk_local_ip4 m \<noteq> 0 \<Longrightarrow> ak_ip4 (sk_local k) \<noteq> 0" by (simp add: k new_sock_key_from_msg_def)
  from r(3) show ?thesis
  proof (elim disjE exE conjE)
    assume "fib_upstream t = fib_upstream s"
    then show ?thesis using r(2) pool_forget[OF inv] by simp
  next
    fix q assume q: "fib_upstream s (fib_queue_key (sk_local k) True) = Some q" "pk_local_ip4 m \<noteq> 0"
      "fib_upstream t = (fib_upstream s)(fib_queue_key (sk_local k) True \<mapsto> queue_push q k)"
    show ?thesis unfolding q(3) r(2) by (rule pool_return[OF inv p q(1) ip[OF q(2)]])
  qed
qed

lemma h1_uturn_inv:
  assumes inv: "pool_ok (fib_upstream s) p (fib_downstream s)"
    and t: "h1_uturn e False l r b c s = Ok (t, u)"
  shows "u = SendError \<Longrightarrow> pool_ok (fib_upstream t) p (fib_downstream t)"
    "u = Connected k \<Longrightarrow> sk_remote k \<notin> queued (fib_upstream s) \<Longrightarrow> sk_remote k \<notin> sk_remote ` dom p \<Longrightarrow>
       pool_ok (fib_upstream t) (p(k := fib_downstream t (sk_remote k))) (fib_downstream t)"
proof -
  obtain s1 dk tok where t1: "take_token e l r 0 s = (Ok (s1, dk, tok) :: (_, 'a) outcome)"
    using t by (auto simp: h1_uturn_def and_then_Ok_iff)
  obtain w where s1: "s1 = s\<lparr>utrn_wait_list := w\<rparr>" using take_token_frame[OF t1] by blast
  have Q: "fib_upstream t = fib_upstream s" by (rule uturn_queues(1)[OF t])
  have e: "fib_downstream t = fib_downstream s" if "u = SendError"
    using t that by (auto simp: h1_uturn_def t1 s1 Let_def and_then_Ok_iff split: option.splits if_splits)
  show "pool_ok (fib_upstream t) p (fib_downstream t)" if "u = SendError" using e[OF that] Q inv by simp
  assume k: "u = Connected k" and f: "sk_remote k \<notin> queued (fib_upstream s)" "sk_remote k \<notin> sk_remote ` dom p"
  have "fib_downstream t = (fib_downstream s)(sk_remote k \<mapsto> dk)"
    using t k by (auto simp: h1_uturn_def t1 s1 Let_def and_then_Ok_iff sock_key_try_from_def elim!: unwrap.elims
        split: option.splits if_splits)
  moreover have "pool_ok (fib_upstream s) (p(k \<mapsto> dk)) ((fib_downstream s)(sk_remote k \<mapsto> dk))"
    by (rule pool_connect[OF inv f(1)]) (use f(2) in \<open>metis domI image_eqI\<close>)
  ultimately show "pool_ok (fib_upstream t) (p(k := fib_downstream t (sk_remote k))) (fib_downstream t)" by (simp add: Q)
qed

interpretation h1: invariant_system "h1_step C" h1_inv for C
proof
  fix sp ev tp
  assume inv: "h1_inv sp" and st: "h1_step C sp ev = Some tp"
  obtain s p where sp: "sp = (s, p)" by fastforce
  note i = inv[unfolded sp h1_inv.simps]
  show "h1_inv tp"
  proof (cases ev)
    case (Ev_msg K m)
    let ?k = "new_sock_key_from_msg (dp_endian C) m"
    obtain t v where t: "process_msg (dp_endian C) (dp_ro C) (dp_parsers C) (dp_filters C) K m s = (t, v)" by fastforce
    have K: "ke_fib K" "h2_conns s ?k = None" using st by (auto simp: Ev_msg sp Let_def split: if_splits)
    show ?thesis
    proof (cases "cmp_proxy_addr (dp_ro C) (sk_remote ?k)")
      case True
      then show ?thesis using st h1_request_inv[OF i K(1) True K(2) t] K by (auto simp: Ev_msg sp t)
    next
      case False
      then obtain c where c: "p ?k = Some c" using st K by (auto simp: Ev_msg sp t Let_def split: if_splits)
      then show ?thesis using st h1_response_inv[OF i False K(2) refl c t] K False by (auto simp: Ev_msg sp t Let_def)
    qed
  next
    case (Ev_h1_uturn tls l r b c)
    then obtain t u where u: "h1_uturn (dp_endian C) tls l r b c s = (Ok (t, u) :: (_, unit) outcome)"
      using st by (auto simp: sp split: outcome.splits)
    show ?thesis
    proof (cases u)
      case SendError
      have "\<exists>w. t = s\<lparr>utrn_wait_list := w\<rparr> \<or> (\<exists>x. t = s\<lparr>utrn_wait_list := w, sock_map_wait_list := x\<rparr>)"
      proof -
        obtain s1 dk tok where t1: "take_token (dp_endian C) l r 0 s = (Ok (s1, dk, tok) :: (_, unit) outcome)"
          using u by (auto simp: h1_uturn_def and_then_Ok_iff)
        obtain w where s1: "s1 = s\<lparr>utrn_wait_list := w\<rparr>" using take_token_frame[OF t1] by blast
        show ?thesis using u SendError
          by (auto simp: h1_uturn_def t1 s1 Let_def and_then_Ok_iff split: option.splits if_splits)
      qed
      then show ?thesis using st i u SendError by (auto simp: sp Ev_h1_uturn)
    next
      case (Connected k)
      then have tls: "\<not> tls" and f: "sk_remote k \<notin> queued (fib_upstream s)" "sk_remote k \<notin> sk_remote ` dom p"
        and tp: "tp = (t, p(k := fib_downstream t (sk_remote k)))"
        using st u by (auto simp: sp Ev_h1_uturn split: if_splits)
      show ?thesis unfolding tp h1_inv.simps
        by (rule h1_uturn_inv(2)[OF i u[unfolded Eq_FalseI[OF tls]] Connected f])
    qed
  next
    case (Ev_sock ok1 ok2 op m)
    have "fib_downstream (monitor_sockets (dp_endian C) (dp_ro C) ok1 ok2 op m s) = fib_downstream s"
      by (auto simp: monitor_sockets_def Let_def split: option.splits sock_map.splits)
    then show ?thesis using st i by (auto simp: sp Ev_sock)
  qed (use st i in \<open>auto simp: sp intro: pool_evict\<close>)
qed

lemma process_msg_forwards:
  assumes "pk_local_port m \<noteq> 0" "pk_remote_port m \<noteq> 0" "pk_local_ip4 m \<noteq> 0" "pk_remote_ip4 m \<noteq> 0"
    and "h2_conns s (new_sock_key_from_msg e m) = None"
    and "parse_packet P False (pk_data m) = (done_idx, pres, frame, np)" "done_idx > 0" "\<not> matched_preface ro P pres"
    and "inp = \<lparr>fi_key = new_sock_key_from_msg e m, fi_data = pk_data m, fi_pres = pres, fi_done_idx = word_of_int done_idx,
            fi_ctx_h2 = False, fi_is_skb = False, fi_is_h2 = False\<rparr>"
    and "cmp_proxy_addr ro (sk_remote (new_sock_key_from_msg e m)) = ds" "r = run_match F ds inp" "mr_action r = PR_PASS"
  shows "process_msg e ro P F K m s =
     forward_msg K (new_sock_key_from_msg e m) ds False (fr_sid frame)
       (mr_dest r) (mr_data r) (mr_content_length r + mr_done_idx r) s"
  using assms by (simp add: process_msg_def translate_stream_def Let_def)

section \<open>Properties\<close>


text \<open>The first request to an instance makes a U-turn, for which the proxy connects from port 6000.\<close>

definition sample_opened :: "bpf_maps \<Rightarrow> bpf_maps" where
  "sample_opened s = fst (process_msg BigEndian sample_rodata (dp_parsers sample_dp) (dp_filters sample_dp) all_ok sample_request
     (monitor_sockets BigEndian sample_rodata True True ACTIVE_ESTABLISHED sample_request s))"

definition sample_connect :: "bpf_maps \<Rightarrow> (bpf_maps \<times> uturn_res, unit) outcome" where
  "sample_connect s = h1_uturn BigEndian False (SockV4 (Ipv4Addr 10 0 0 1) 8080) (SockV4 (Ipv4Addr 10 0 0 9) 5000)
     (Some (SockV4 (Ipv4Addr 10 0 0 1) 6000)) True s"

lemma sample_configured: "configured sample_conf = {SockV4 (Ipv4Addr 10 0 0 2) 80}"
  by (simp add: configured_def sample_conf_def)

lemma sample_opened_queues:
  assumes s: "listen_pqueues BigEndian True sample_conf empty_maps = Some s"
  shows "queued (fib_upstream (sample_opened s)) = {}"
proof -
  have "map_option (\<lambda>s. \<forall>b \<in> {True, False}. fib_upstream (sample_opened s) (fib_queue_key sample_instance b) = Some [])
      (listen_pqueues BigEndian True sample_conf empty_maps) = Some True" by code_simp
  then have q: "fib_upstream (sample_opened s) (fib_queue_key sample_instance b) = Some []" for b using s by (cases b) auto
  have d: "dom (fib_upstream (sample_opened s)) = {fib_queue_key a b |a b. \<exists>x \<in> configured sample_conf. addr_key_try_from BigEndian x = Ok a}"
    by (rule run_queues(2)[OF s, of sample_dp "[Ev_sock True True ACTIVE_ESTABLISHED sample_request, Ev_msg all_ok sample_request]"])
      (simp add: sample_opened_def sample_dp_def)
  have a: "addr_key_try_from BigEndian (SockV4 (Ipv4Addr 10 0 0 2) 80) = Ok sample_instance" by code_simp
  show ?thesis
  proof (rule equals0I)
    fix x assume "x \<in> queued (fib_upstream (sample_opened s))"
    then obtain key r k where r: "fib_upstream (sample_opened s) key = Some r" "k \<in> set r" by (rule queuedE)
    then have "key \<in> dom (fib_upstream (sample_opened s))" by blast
    then obtain b where "key = fib_queue_key sample_instance b" unfolding d sample_configured using a by auto
    then show False using r q by simp
  qed
qed

lemma sample_h1_run:
  assumes s: "listen_pqueues BigEndian True sample_conf empty_maps = Some s"
    and c: "sample_connect (sample_opened s) = Ok (t, Connected k)"
  shows "run (h1_step sample_dp) (s, Map.empty)
       [Ev_sock True True ACTIVE_ESTABLISHED sample_request, Ev_msg all_ok sample_request,
        Ev_h1_uturn False (SockV4 (Ipv4Addr 10 0 0 1) 8080) (SockV4 (Ipv4Addr 10 0 0 9) 5000)
          (Some (SockV4 (Ipv4Addr 10 0 0 1) 6000)) True] = Some (t, [k \<mapsto> the (fib_downstream t (sk_remote k))])"
proof -
  have d: "dp_endian sample_dp = BigEndian" "dp_ro sample_dp = sample_rodata" by (simp_all add: sample_dp_def)
  let ?s = "\<lambda>s. monitor_sockets BigEndian sample_rodata True True ACTIVE_ESTABLISHED sample_request s"
  let ?r = "\<lambda>s. process_msg BigEndian sample_rodata (dp_parsers sample_dp) (dp_filters sample_dp) all_ok sample_request (?s s)"
  have "map_option (\<lambda>s. (h2_conns (?s s) (new_sock_key_from_msg BigEndian sample_request), vd_redirect (snd (?r s))))
      (listen_pqueues BigEndian True sample_conf empty_maps) = Some (None, None)" by code_simp
  then have h: "h2_conns (?s s) (new_sock_key_from_msg BigEndian sample_request) = None" "vd_redirect (snd (?r s)) = None"
    using s by simp_all
  have ds: "cmp_proxy_addr sample_rodata (sk_remote (new_sock_key_from_msg BigEndian sample_request))" "ke_fib all_ok" by code_simp+
  have 1: "h1_step sample_dp (?s s, Map.empty) (Ev_msg all_ok sample_request) = Some (sample_opened s, Map.empty)"
    using h ds by (simp add: d served_def sample_opened_def)
  obtain y where y: "fib_downstream t (sk_remote k) = Some y"
    using c by (auto simp: sample_connect_def h1_uturn_def Let_def and_then_Ok_iff sock_key_try_from_def elim!: unwrap.elims
        split: option.splits if_splits)
  have 2: "h1_step sample_dp (sample_opened s, Map.empty) (Ev_h1_uturn False (SockV4 (Ipv4Addr 10 0 0 1) 8080)
      (SockV4 (Ipv4Addr 10 0 0 9) 5000) (Some (SockV4 (Ipv4Addr 10 0 0 1) 6000)) True) = Some (t, [k \<mapsto> y])"
    using c y by (simp add: d sample_opened_queues[OF s] flip: sample_connect_def)
  have 0: "h1_step sample_dp (s, Map.empty) (Ev_sock True True ACTIVE_ESTABLISHED sample_request) = Some (?s s, Map.empty)"
    by (simp add: d)
  show ?thesis using 0 1 2 y by (simp del: h1_step.simps)
qed


end
