(* ===== verification/Dataplane_Uturn.thy ===== *)
theory Dataplane_Uturn
  imports Dataplane_H1
begin

text \<open>
  The U-turn of the first request to an instance: through the user-space proxy to a
  connection that carries the response and serves later requests without the proxy.
\<close>

section \<open>Messages that reach the filters\<close>

definition h1_message :: "dp_params \<Rightarrow> bpf_maps \<Rightarrow> packet \<Rightarrow> bool" where
  "h1_message C s m \<longleftrightarrow> 0 \<notin> {pk_local_port m, pk_remote_port m, pk_local_ip4 m, pk_remote_ip4 m} \<and>
     h2_conns s (new_sock_key_from_msg (dp_endian C) m) = None \<and>
     fst (pa_h1 (dp_parsers C) (pk_data m)) > 0 \<and>
     \<not> matched_preface (dp_ro C) (dp_parsers C) (fst (snd (pa_h1 (dp_parsers C) (pk_data m))))"

definition h1_input :: "dp_params \<Rightarrow> packet \<Rightarrow> filter_input" where
  "h1_input C m =
     \<lparr>fi_key = new_sock_key_from_msg (dp_endian C) m, fi_data = pk_data m, fi_pres = fst (snd (pa_h1 (dp_parsers C) (pk_data m))),
      fi_done_idx = word_of_int (fst (pa_h1 (dp_parsers C) (pk_data m))), fi_ctx_h2 = False, fi_is_skb = False, fi_is_h2 = False\<rparr>"

definition h1_result :: "dp_params \<Rightarrow> packet \<Rightarrow> match_res" where
  "h1_result C m =
     run_match (dp_filters C) (cmp_proxy_addr (dp_ro C) (sk_remote (new_sock_key_from_msg (dp_endian C) m))) (h1_input C m)"

lemma h1_message_forwards:
  assumes "h1_message C s m" "mr_action (h1_result C m) = PR_PASS"
  shows "process_msg (dp_endian C) (dp_ro C) (dp_parsers C) (dp_filters C) K m s =
     forward_msg K (new_sock_key_from_msg (dp_endian C) m)
       (cmp_proxy_addr (dp_ro C) (sk_remote (new_sock_key_from_msg (dp_endian C) m))) False 0
       (mr_dest (h1_result C m)) (mr_data (h1_result C m)) (mr_content_length (h1_result C m) + mr_done_idx (h1_result C m)) s"
proof -
  obtain d pres np where h: "pa_h1 (dp_parsers C) (pk_data m) = (d, pres, np)" by (metis prod_cases3)
  have p: "parse_packet (dp_parsers C) False (pk_data m) = (d, pres, no_frame, np)" by (simp add: parse_packet_def h)
  have z: "fr_sid no_frame = 0" by (simp add: no_frame_def)
  show ?thesis
    by (rule process_msg_forwards[OF _ _ _ _ _ p _ _ refl refl _ assms(2), unfolded z])
      (use assms(1) in \<open>auto simp: h1_message_def h1_result_def h1_input_def h\<close>)
qed

text \<open>Only messages that reach the filters and pass them are redirected.\<close>

lemma h1_redirected:
  assumes "vd_redirect (snd (process_msg (dp_endian C) (dp_ro C) (dp_parsers C) (dp_filters C) K m s)) = Some k"
    and "h2_conns s (new_sock_key_from_msg (dp_endian C) m) = None"
  shows "h1_message C s m" "mr_action (h1_result C m) = PR_PASS"
proof -
  obtain d pres np where h: "pa_h1 (dp_parsers C) (pk_data m) = (d, pres, np)" by (metis prod_cases3)
  have "h1_message C s m \<and> mr_action (h1_result C m) = PR_PASS"
    using assms by (auto simp: process_msg_def parse_packet_def h h1_message_def h1_result_def h1_input_def drop_msg_def pass_msg_def
        translate_stream_def Let_def split: if_splits)
  then show "h1_message C s m" "mr_action (h1_result C m) = PR_PASS" by simp_all
qed

lemma h1_result_response:
  "\<not> cmp_proxy_addr (dp_ro C) (sk_remote (new_sock_key_from_msg (dp_endian C) m)) \<Longrightarrow>
   mr_action (h1_result C m) = PR_PASS \<and> mr_dest (h1_result C m) = sk_remote (new_sock_key_from_msg (dp_endian C) m)"
  by (simp add: h1_result_def h1_input_def run_match_def forward_us_conn_def)

section \<open>Steps of a U-turn\<close>

lemma u32_port:
  assumes "(w :: u32) < 65536"
  shows "ucast (ucast w :: u16) = w"
proof -
  have "ucast (ucast w :: u16) = take_bit 16 w" by (rule bit_word_eqI) (auto simp: bit_simps)
  moreover have "uint (take_bit 16 w) = uint w"
    using assms by (simp add: unsigned_take_bit_eq take_bit_int_eq_self word_less_def)
  ultimately show ?thesis by (simp add: word_uint_eq_iff)
qed

lemma addr_key_via_socket_addr:
  assumes "ak_port d < 65536"
  shows "addr_key_try_from e (addr_key_into_socket_addr e d) = Ok d"
  by (simp add: addr_key_into_socket_addr_def u32_port[OF assms])

lemma forward_msg_sockets [simp]: "msg_sock_map (fst (forward_msg K k ds is_h2 sid d data n s)) = msg_sock_map s"
proof -
  obtain res ekey t where r: "route_conn K k ds is_h2 True d s = (res, ekey, t)" by (metis prod_cases3)
  have q: "msg_sock_map t = msg_sock_map s" by (subst route_conn_frame[OF r]) simp
  have a: "msg_sock_map u = msg_sock_map t" if "assign_stream K k sid ekey b d' t = (u, d'', m)" for b d' u d'' m
    by (subst assign_stream_frame[OF that]) simp
  show ?thesis
    by (auto simp: forward_msg_def r q[symmetric] add_uturn_def Let_def split: prod.splits if_splits dest: a)
qed

lemma forward_msg_uturn:
  assumes "fib_upstream s (fib_queue_key d True) = Some []"
  shows "forward_msg K c True False sid d data n s = (add_uturn K c sid d s, pass_msg None (Some n) data)"
  using assms by (simp add: forward_msg_def route_conn_def fib_query_def post_forward_ds_conn_def zero_sock_key_def zero_addr_def)

lemma h1_uturn_connects:
  assumes "sock_key_try_from e ds_remote ds_local = Ok c" "utrn_wait_list s \<lparr>ds_conn = c, ds_stream_id = 0\<rparr> = Some d"
    and "addr_key_try_from e us_local = Ok a" "addr_key_try_from e (addr_key_into_socket_addr e d) = Ok d"
  shows "h1_uturn e False ds_local ds_remote (Some us_local) True s =
    Ok (s\<lparr>utrn_wait_list := (utrn_wait_list s)(\<lparr>ds_conn = c, ds_stream_id = 0\<rparr> := None),
          sock_map_wait_list := (sock_map_wait_list s)(\<lparr>sk_local = d, sk_remote = a\<rparr> \<mapsto> 1),
          fib_downstream := (fib_downstream s)(a \<mapsto> c)\<rparr>, Connected \<lparr>sk_local = d, sk_remote = a\<rparr>)"
  using assms by (simp add: h1_uturn_def take_token_def lookup_and_delete_def sock_key_try_from_def Let_def)

lemma monitor_awaited:
  assumes "new_sock_key_from_msg e m = k" "sock_map_wait_list s k = Some 1" "ak_port (sk_local k) \<noteq> 11211" "ak_port (sk_remote k) \<noteq> 11211"
  shows "monitor_sockets e ro True ok2 PASSIVE_ESTABLISHED m s =
    s\<lparr>sock_map_wait_list := (sock_map_wait_list s)(k := None), msg_sock_map := insert k (msg_sock_map s)\<rparr>"
  using assms by (simp add: monitor_sockets_def choose_map_def Let_def)

section \<open>Properties\<close>

text \<open>
  C34. A request for which no connection is open leads to one. When the queue of the destination is empty, the
  request passes to the user-space proxy, which finds the token the data plane left, connects and
  registers the connection; the upstream's end of it is then picked up by the socket monitor. The response on that
  connection is redirected to the client that made the request, and from then on a request of any client to the
  same destination is redirected to the connection without the proxy. The port of the destination fits 16
  bits, and memcached's port is exempt from redirection.
\<close>
theorem uturn_completes:
  assumes "h1_message C s req" "cmp_proxy_addr (dp_ro C) (sk_remote c)" "c = new_sock_key_from_msg (dp_endian C) req"
    and "mr_action (h1_result C req) = PR_PASS" "d = mr_dest (h1_result C req)" "ak_port d < 65536"
    and "fib_upstream s (fib_queue_key d True) = Some []" "c \<in> msg_sock_map s" "ke_utrn K"
    and "sock_key_try_from (dp_endian C) ds_remote ds_local = Ok c" "addr_key_try_from (dp_endian C) us_local = Ok a"
    and "k = \<lparr>sk_local = d, sk_remote = a\<rparr>" "\<not> cmp_proxy_addr (dp_ro C) a" "ak_port d \<noteq> 11211" "ak_port a \<noteq> 11211"
    and "new_sock_key_from_msg (dp_endian C) m = k" "new_sock_key_from_msg (dp_endian C) resp = k" "h1_message C s resp"
  shows "\<exists>t1 v1 t2 t3 t4 v4.
    process_msg (dp_endian C) (dp_ro C) (dp_parsers C) (dp_filters C) K req s = (t1, v1) \<and>
      vd_action v1 = SK_PASS \<and> vd_redirect v1 = None \<and>
    h1_uturn (dp_endian C) False ds_local ds_remote (Some us_local) True t1 = (Ok (t2, Connected k) :: (_, unit) outcome) \<and>
    monitor_sockets (dp_endian C) (dp_ro C) True ok2 PASSIVE_ESTABLISHED m t2 = t3 \<and>
    process_msg (dp_endian C) (dp_ro C) (dp_parsers C) (dp_filters C) K2 resp t3 = (t4, v4) \<and> vd_redirect v4 = Some c \<and>
    (\<forall>K3 req2. h1_message C t4 req2 \<longrightarrow> cmp_proxy_addr (dp_ro C) (sk_remote (new_sock_key_from_msg (dp_endian C) req2)) \<longrightarrow>
       mr_action (h1_result C req2) = PR_PASS \<longrightarrow> mr_dest (h1_result C req2) = d \<longrightarrow>
       vd_redirect (snd (process_msg (dp_endian C) (dp_ro C) (dp_parsers C) (dp_filters C) K3 req2 t4)) = Some k)"
proof -
  let ?e = "dp_endian C" and ?tok = "\<lparr>ds_conn = c, ds_stream_id = 0\<rparr>"
  let ?P = "process_msg (dp_endian C) (dp_ro C) (dp_parsers C) (dp_filters C)"
  have rt: "addr_key_try_from ?e (addr_key_into_socket_addr ?e d) = Ok d" by (rule addr_key_via_socket_addr[OF assms(6)])
  define t1 where "t1 = add_uturn K c 0 d s"
  obtain n where r1: "?P K req s = (t1, pass_msg None (Some n) (mr_data (h1_result C req)))"
    using h1_message_forwards[OF assms(1,4), of K] assms(2,3,5) forward_msg_uturn[OF assms(7)] by (simp add: t1_def)
  have tok: "utrn_wait_list t1 ?tok = Some d" using assms(9) by (simp add: t1_def add_uturn_def map_update_def)
  define t2 where "t2 = t1\<lparr>utrn_wait_list := (utrn_wait_list t1)(?tok := None),
          sock_map_wait_list := (sock_map_wait_list t1)(k \<mapsto> 1), fib_downstream := (fib_downstream t1)(a \<mapsto> c)\<rparr>"
  have r2: "h1_uturn ?e False ds_local ds_remote (Some us_local) True t1 = (Ok (t2, Connected k) :: (_, unit) outcome)"
    unfolding t2_def assms(12) by (rule h1_uturn_connects[OF assms(10) tok assms(11) rt])
  define t3 where "t3 = t2\<lparr>sock_map_wait_list := (sock_map_wait_list t2)(k := None), msg_sock_map := insert k (msg_sock_map t2)\<rparr>"
  have r3: "monitor_sockets ?e (dp_ro C) True ok2 PASSIVE_ESTABLISHED m t2 = t3"
    unfolding t3_def by (rule monitor_awaited) (use assms(12-16) in \<open>simp_all add: t2_def\<close>)
  have f3: "h2_conns t3 = h2_conns s" "fib_upstream t3 = fib_upstream s" "fib_downstream t3 a = Some c" "c \<in> msg_sock_map t3" "k \<in> msg_sock_map t3"
    using assms(8) by (simp_all add: t3_def t2_def t1_def add_uturn_def)
  have ka: "sk_remote k = a" "sk_local k = d" by (simp_all add: assms(12))
  have us: "\<not> cmp_proxy_addr (dp_ro C) (sk_remote (new_sock_key_from_msg ?e resp))" using assms(13,17) ka by simp
  have m3: "h1_message C t3 resp" using assms(18) f3(1) by (simp add: h1_message_def)
  obtain t4 v4 where r4: "?P K2 resp t3 = (t4, v4)" by fastforce
  note fw = h1_message_forwards[OF m3 conjunct1[OF h1_result_response[OF us]], of K2, unfolded r4 assms(17) ka Eq_FalseI[OF assms(13)]]
  have d4: "mr_dest (h1_result C resp) = a" using h1_result_response[OF us] assms(17) ka by simp
  obtain data n where fw4: "forward_msg K2 k False False 0 a data n t3 = (t4, v4)" using fw[unfolded d4, symmetric] by blast
  have v4: "vd_redirect v4 = Some c"
    using forward_msg_response[of K2 k False 0 a data n t3] f3(3,4) by (simp add: fw4 redirect_hash_def)
  have q4: "fib_upstream t4 (fib_queue_key d True) = Some [k]"
    using forward_msg_queues[of K2 k False False 0 a data n t3] f3(2) assms(7) ka by (simp add: fw4 queues_after_def queue_push_def)
  have s4: "k \<in> msg_sock_map t4" using forward_msg_sockets[of K2 k False False 0 a data n t3] f3(5) by (simp add: fw4)
  have nxt: "vd_redirect (snd (?P K3 req2 t4)) = Some k"
    if "h1_message C t4 req2" "cmp_proxy_addr (dp_ro C) (sk_remote (new_sock_key_from_msg ?e req2))"
      "mr_action (h1_result C req2) = PR_PASS" "mr_dest (h1_result C req2) = d" for K3 req2
    unfolding h1_message_forwards[OF that(1,3)] using that(2,4) q4 s4 by (simp add: forward_msg_request redirect_hash_def)
  show ?thesis using r1 r2 r3 r4 v4 nxt by (intro exI[of _ t1] exI exI[of _ t2] exI[of _ t3] exI[of _ t4] exI[of _ v4]) (auto simp: pass_msg_def)
qed

definition sample_ready :: bpf_maps where
  "sample_ready = empty_maps\<lparr>fib_upstream := [fib_queue_key sample_instance True \<mapsto> []],
     msg_sock_map := {new_sock_key_from_msg BigEndian sample_request}\<rparr>"

theorem uturn_completes_witness:
  "\<exists>t1 v1 t2 t3 t4 v4.
    process_msg BigEndian (dp_ro sample_dp) (dp_parsers sample_dp) (dp_filters sample_dp) all_ok sample_request sample_ready = (t1, v1) \<and>
    h1_uturn BigEndian False (SockV4 (Ipv4Addr 10 0 0 1) 8080) (SockV4 (Ipv4Addr 10 0 0 9) 5000)
      (Some (SockV4 (Ipv4Addr 10 0 0 1) 6000)) True t1 = (Ok (t2, Connected sample_conn) :: (_, unit) outcome) \<and>
    monitor_sockets BigEndian (dp_ro sample_dp) True True PASSIVE_ESTABLISHED sample_response t2 = t3 \<and>
    process_msg BigEndian (dp_ro sample_dp) (dp_parsers sample_dp) (dp_filters sample_dp) all_ok sample_response t3 = (t4, v4) \<and>
    vd_redirect v4 = Some (new_sock_key_from_msg BigEndian sample_request)"
proof -
  have e: "dp_endian sample_dp = BigEndian" by (simp add: sample_dp_def)
  have h: "h1_message sample_dp sample_ready sample_request"
    "cmp_proxy_addr (dp_ro sample_dp) (sk_remote (new_sock_key_from_msg BigEndian sample_request))"
    "mr_action (h1_result sample_dp sample_request) = PR_PASS"
    "sample_instance = mr_dest (h1_result sample_dp sample_request)" "ak_port sample_instance < 65536"
    "fib_upstream sample_ready (fib_queue_key sample_instance True) = Some []"
    "new_sock_key_from_msg BigEndian sample_request \<in> msg_sock_map sample_ready" "ke_utrn all_ok"
    "sock_key_try_from BigEndian (SockV4 (Ipv4Addr 10 0 0 9) 5000) (SockV4 (Ipv4Addr 10 0 0 1) 8080) =
       Ok (new_sock_key_from_msg BigEndian sample_request)"
    "addr_key_try_from BigEndian (SockV4 (Ipv4Addr 10 0 0 1) 6000) = Ok (sk_remote sample_conn)"
    "sample_conn = \<lparr>sk_local = sample_instance, sk_remote = sk_remote sample_conn\<rparr>"
    "\<not> cmp_proxy_addr (dp_ro sample_dp) (sk_remote sample_conn)" "ak_port sample_instance \<noteq> 11211" "ak_port (sk_remote sample_conn) \<noteq> 11211"
    "h1_message sample_dp sample_ready sample_response"
    by code_simp+
  note c = sample_conn_def[symmetric]
  show ?thesis
    using uturn_completes[OF h(1) h(2)[folded e] refl h(3-6) h(7)[folded e] h(8) h(9)[folded e] h(10)[folded e] h(11-14) c[folded e] c[folded e] h(15),
        where ?K2.0 = all_ok and ?ok2.0 = True] unfolding e by blast
qed

end
