(* ===== verification/Dataplane_H2.thy ===== *)
theory Dataplane_H2
  imports Dataplane_Correct
begin

text \<open>
  HTTP/2 on plain sockets: the streams of clients are multiplexed onto upstream connections. The stream
  table never gives two client streams the same upstream stream, and frames other than HEADERS go back to the
  stream they belong to; HEADERS frames do not always.
\<close>

section \<open>The stream table\<close>

definition upstream :: "rodata \<Rightarrow> data_stream \<Rightarrow> bool" where
  "upstream ro d \<longleftrightarrow> \<not> cmp_proxy_addr ro (sk_remote (ds_conn d))"

text \<open>Links go between clients and upstreams, an upstream stream belongs to one client stream, and the ids in use are
  at most the counter of their connection.\<close>

definition links_ok :: "rodata \<Rightarrow> (data_stream \<rightharpoonup> data_stream) \<Rightarrow> bool" where
  "links_ok ro S \<longleftrightarrow>
     (\<forall>a x. S a = Some x \<longrightarrow> upstream ro a \<noteq> upstream ro x) \<and>
     (\<forall>a b x. S a = Some x \<longrightarrow> S b = Some x \<longrightarrow> upstream ro x \<longrightarrow> a = b) \<and>
     (\<forall>a b x. S a = Some x \<longrightarrow> upstream ro x \<longrightarrow> S x = Some b \<longrightarrow> a = b)"

definition counted :: "rodata \<Rightarrow> (data_stream \<rightharpoonup> data_stream) \<Rightarrow> (sock_key \<rightharpoonup> u32) \<Rightarrow> bool" where
  "counted ro S N \<longleftrightarrow>
     (\<forall>d. d \<in> dom S \<union> ran S \<longrightarrow> upstream ro d \<longrightarrow> (\<exists>n. N (ds_conn d) = Some n \<and> ds_stream_id d \<le> n))"

lemma links_okD:
  assumes "links_ok ro S"
  shows "S a = Some x \<Longrightarrow> upstream ro a \<noteq> upstream ro x"
    "S a = Some x \<Longrightarrow> S b = Some x \<Longrightarrow> upstream ro x \<Longrightarrow> a = b"
    "S a = Some x \<Longrightarrow> upstream ro x \<Longrightarrow> S x = Some b \<Longrightarrow> a = b"
  using assms unfolding links_ok_def by metis+

lemma links_evict: "links_ok ro S \<Longrightarrow> links_ok ro (S(d := None))"
  unfolding links_ok_def by (simp split: if_split)

lemma counted_evict: "counted ro S N \<Longrightarrow> counted ro (S(d := None)) N"
  unfolding counted_def by (auto simp: ran_def split: if_splits)

text \<open>Linking a client stream with an upstream stream that has not been used.\<close>

lemma links_assign:
  assumes ok: "links_ok ro S" and i: "\<not> upstream ro i" and x: "upstream ro x" "x \<notin> dom S" "x \<notin> ran S"
  shows "links_ok ro (map_update g (map_update f S i x) x i)"
proof -
  let ?S = "map_update g (map_update f S i x) x i"
  have ix: "i \<noteq> x" using i x by blast
  have cases: "(a = i \<and> y = x \<and> f) \<or> (a = x \<and> y = i) \<or> (S a = Some y \<and> a \<noteq> x \<and> y \<noteq> x \<and> (a = i \<longrightarrow> \<not> f))" if "?S a = Some y" for a y
    using that ix x(2,3) by (auto simp: map_update_def ran_def split: if_splits)
  have client: "(a = i \<and> y = x) \<or> (S a = Some y \<and> y \<noteq> x)" if "?S a = Some y" "upstream ro y" for a y
    using cases[OF that(1)] that(2) i by blast
  have return: "(y = x \<and> b = i) \<or> (S y = Some b \<and> y \<noteq> x)" if "?S y = Some b" "upstream ro y" for y b
    using cases[OF that(1)] that(2) i by blast
  show ?thesis unfolding links_ok_def
  proof (intro conjI allI impI)
    fix a y assume "?S a = Some y"
    from cases[OF this] show "upstream ro a \<noteq> upstream ro y"
      by (elim disjE conjE) (use i x(1) links_okD(1)[OF ok, of a y] in simp_all)
  next
    fix a b y assume s: "?S a = Some y" "?S b = Some y" "upstream ro y"
    show "a = b"
    proof (cases "y = x")
      case True
      then show ?thesis using client[OF s(1,3)] client[OF s(2,3)] by argo
    next
      case False
      then have "S a = Some y" "S b = Some y" using client[OF s(1,3)] client[OF s(2,3)] by argo+
      then show ?thesis by (rule links_okD(2)[OF ok _ _ s(3)])
    qed
  next
    fix a b y assume s: "?S a = Some y" "upstream ro y" "?S y = Some b"
    show "a = b"
    proof (cases "y = x")
      case True
      then show ?thesis using client[OF s(1,2)] return[OF s(3,2)] by argo
    next
      case False
      then have "S a = Some y" "S y = Some b" using client[OF s(1,2)] return[OF s(3,2)] by argo+
      then show ?thesis by (rule links_okD(3)[OF ok _ s(2)])
    qed
  qed
qed

lemma dom_ran_update: "dom (map_update f S i x) \<union> ran (map_update f S i x) \<subseteq> {i, x} \<union> (dom S \<union> ran S)"
  by (cases f) (auto simp: map_update_def ran_def split: if_splits)

lemma counted_assign:
  assumes ok: "counted ro S N" and n: "\<And>n. N k = Some n \<Longrightarrow> n \<le> n'" and i: "\<not> upstream ro i"
  shows "counted ro (map_update g (map_update f S i \<lparr>ds_conn = k, ds_stream_id = n'\<rparr>) \<lparr>ds_conn = k, ds_stream_id = n'\<rparr> i) (N(k \<mapsto> n'))"
  unfolding counted_def
proof (intro allI impI)
  let ?x = "\<lparr>ds_conn = k, ds_stream_id = n'\<rparr>"
  fix d assume d: "d \<in> dom (map_update g (map_update f S i ?x) ?x i) \<union> ran (map_update g (map_update f S i ?x) ?x i)" "upstream ro d"
  have "d \<noteq> i" using d(2) i by blast
  then have "d = ?x \<or> d \<in> dom S \<union> ran S"
    using d(1) dom_ran_update[of g "map_update f S i ?x" ?x i] dom_ran_update[of f S i ?x] by blast
  then show "\<exists>m. (N(k \<mapsto> n')) (ds_conn d) = Some m \<and> ds_stream_id d \<le> m"
  proof
    assume "d \<in> dom S \<union> ran S"
    then obtain m where "N (ds_conn d) = Some m" "ds_stream_id d \<le> m" using ok d(2) unfolding counted_def by blast
    then show ?thesis using n[of m] by (cases "ds_conn d = k") (auto intro: order_trans)
  qed simp
qed

lemma counted_conn:
  assumes "counted ro S N" "\<And>n. N k = Some n \<Longrightarrow> n \<le> n'"
  shows "counted ro S (N(k \<mapsto> n'))"
  unfolding counted_def
proof (intro allI impI)
  fix d assume "d \<in> dom S \<union> ran S" "upstream ro d"
  then obtain m where "N (ds_conn d) = Some m" "ds_stream_id d \<le> m" using assms(1) unfolding counted_def by blast
  then show "\<exists>m. (N(k \<mapsto> n')) (ds_conn d) = Some m \<and> ds_stream_id d \<le> m"
    using assms(2)[of m] by (cases "ds_conn d = k") (auto intro: order_trans)
qed

lemma counted_fresh:
  assumes "counted ro S N" "upstream ro d" "\<And>n. N (ds_conn d) = Some n \<Longrightarrow> n < ds_stream_id d"
  shows "d \<notin> dom S" "d \<notin> ran S"
proof -
  have "d \<notin> dom S \<union> ran S"
  proof
    assume "d \<in> dom S \<union> ran S"
    then obtain n where "N (ds_conn d) = Some n" "ds_stream_id d \<le> n" using assms(1,2) unfolding counted_def by blast
    then show False using assms(3)[of n] by simp
  qed
  then show "d \<notin> dom S" "d \<notin> ran S" by blast+
qed

section \<open>Runs\<close>

text \<open>The connection an HTTP/2 U-turn registers.\<close>

definition uturn_conn :: "endian \<Rightarrow> socket_addr \<Rightarrow> socket_addr \<Rightarrow> u32 \<Rightarrow> socket_addr \<Rightarrow> bpf_maps \<Rightarrow> sock_key option" where
  "uturn_conn e l r sid us_local s =
     (case take_token e l r sid s :: (_, unit) outcome of
        Ok (_, _, Some d) \<Rightarrow> out_option (sock_key_try_from e (addr_key_into_socket_addr e d) us_local)
      | _ \<Rightarrow> None)"

text \<open>Traffic on plain sockets with a count of the events. U-turns are those of clients of the proxy, and open
  connections that are new and not to the proxy itself. Fewer than \<open>2\<^sup>3\<^sup>1 - 2\<close> events cannot wrap a stream id.\<close>

fun h2_step :: "dp_params \<Rightarrow> bpf_maps \<times> int \<Rightarrow> event \<Rightarrow> (bpf_maps \<times> int) option" where
  "h2_step C (s, j) ev =
     (if j \<ge> 2 ^ 31 - 2 then None
      else case ev of
          Ev_skb _ _ \<Rightarrow> None
        | Ev_parse_skb _ _ \<Rightarrow> None
        | Ev_h2_uturn tls l r sid b c \<Rightarrow>
            if tls \<or> \<not> (case sock_key_try_from (dp_endian C) r l of Ok k \<Rightarrow> cmp_proxy_addr (dp_ro C) (sk_remote k) | _ \<Rightarrow> False) \<or>
               \<not> (case Option.bind b (\<lambda>a. uturn_conn (dp_endian C) l r sid a s) of
                      None \<Rightarrow> True
                    | Some k \<Rightarrow> \<not> cmp_proxy_addr (dp_ro C) (sk_remote k) \<and> h2_conns s k = None)
            then None
            else map_option (\<lambda>t. (t, j + 1)) (dp_step C s ev)
        | _ \<Rightarrow> map_option (\<lambda>t. (t, j + 1)) (dp_step C s ev))"

definition h2_inv :: "dp_params \<Rightarrow> bpf_maps \<times> int \<Rightarrow> bool" where
  "h2_inv C sj = (case sj of (s, j) \<Rightarrow>
     0 \<le> j \<and> queues_ok (dp_ro C) (fib_upstream s) \<and> links_ok (dp_ro C) (h2_streams s) \<and>
     counted (dp_ro C) (h2_streams s) (h2_conns s) \<and> (\<forall>k n. h2_conns s k = Some n \<longrightarrow> uint n \<le> 2 * j + 1))"

lemma forward_msg_streams:
  assumes "forward_msg K ikey ds is_h2 sid dest data m s = (t, v)"
  obtains (same) "h2_streams t = h2_streams s" "h2_conns t = h2_conns s"
  | (assign) k q n where "ds" "fib_upstream s (fib_queue_key dest True) = Some (k # q)" "h2_conns s k = Some n"
      "h2_conns t = (h2_conns s)(k \<mapsto> n + 2)"
      "h2_streams t = h2_streams s \<or> (\<exists>f g. h2_streams t =
         map_update g (map_update f (h2_streams s) \<lparr>ds_conn = ikey, ds_stream_id = sid\<rparr> \<lparr>ds_conn = k, ds_stream_id = n + 2\<rparr>)
           \<lparr>ds_conn = k, ds_stream_id = n + 2\<rparr> \<lparr>ds_conn = ikey, ds_stream_id = sid\<rparr>)"
proof -
  obtain res k u where r: "route_conn K ikey ds is_h2 True dest s = (res, k, u)" by (metis prod_cases3)
  have u: "h2_streams u = h2_streams s" "h2_conns u = h2_conns s" by (subst route_conn_frame[OF r], simp)+
  have q: "\<exists>q. fib_upstream s (fib_queue_key dest True) = Some (k # q)" if "ds" "\<not> sock_key_is_null k"
    using r that by (auto simp: route_conn_def fib_query_def zero_sock_key_def zero_addr_def sock_key_is_null_def
        split: option.splits list.splits)
  show ?thesis
  proof (cases "h2_streams t = h2_streams s \<and> h2_conns t = h2_conns s")
    case True
    then show ?thesis by (intro same) simp_all
  next
    case False
    have "res \<noteq> PR_DROP" using False assms u by (auto simp: forward_msg_def r)
    with False obtain b d' n' w where a: "is_h2" "\<not> sock_key_is_null k" "ds" "assign_stream K ikey sid k b data u = (w, d', n')"
      "h2_streams t = h2_streams w" "h2_conns t = h2_conns w"
      using assms u by (auto simp: forward_msg_def r Let_def add_uturn_def split: prod.splits if_splits)
    obtain n where n: "h2_conns s k = Some n" using a False u by (auto simp: assign_stream_def split: option.splits)
    have w: "h2_conns t = (h2_conns s)(k \<mapsto> n + 2)" using a(4,6) n u by (auto simp: assign_stream_def Let_def split: if_splits)
    have "h2_streams t = h2_streams s \<or> h2_streams t =
         map_update (ke_estream K) (map_update (ke_istream K) (h2_streams s) \<lparr>ds_conn = ikey, ds_stream_id = sid\<rparr> \<lparr>ds_conn = k, ds_stream_id = n + 2\<rparr>)
           \<lparr>ds_conn = k, ds_stream_id = n + 2\<rparr> \<lparr>ds_conn = ikey, ds_stream_id = sid\<rparr>"
      using a(4,5) n u by (auto simp: assign_stream_def Let_def split: if_splits)
    then show ?thesis using q[OF a(3,2)] a(3) n w assign by blast
  qed
qed

lemma uint_add_2: "uint (n :: u32) \<le> 2 * j + 1 \<Longrightarrow> j < 2 ^ 31 - 2 \<Longrightarrow> uint (n + 2) = uint n + 2"
  by (subst uint_add_lem[THEN iffD1]) simp_all

lemma h2_msg_inv:
  assumes inv: "h2_inv C (s, j)" and j: "j < 2 ^ 31 - 2"
    and t: "process_msg (dp_endian C) (dp_ro C) (dp_parsers C) (dp_filters C) K m s = (t, v)"
  shows "links_ok (dp_ro C) (h2_streams t) \<and> counted (dp_ro C) (h2_streams t) (h2_conns t) \<and>
    (\<forall>k n. h2_conns t k = Some n \<longrightarrow> uint n \<le> 2 * (j + 1) + 1)"
proof -
  let ?ro = "dp_ro C" and ?i = "new_sock_key_from_msg (dp_endian C) m"
  have B: "uint n \<le> 2 * j + 1" if "h2_conns s k = Some n" for k n using inv that unfolding h2_inv_def by auto
  have Q: "queues_ok ?ro (fib_upstream s)" and L: "links_ok ?ro (h2_streams s)" and Cn: "counted ?ro (h2_streams s) (h2_conns s)"
    and j0: "0 \<le> j" using inv unfolding h2_inv_def by auto
  have B': "\<forall>k n. h2_conns s k = Some n \<longrightarrow> uint n \<le> 2 * (j + 1) + 1" using B by fastforce
  show ?thesis
  proof (cases rule: process_msg_cases[of "dp_endian C" ?ro "dp_parsers C" "dp_filters C" K m s])
    case (same v')
    then show ?thesis using t L Cn B' by auto
  next
    case (upgrade v')
    then show ?thesis using t L Cn B' j0 counted_conn[OF Cn, of ?i 1] by (auto simp: map_update_def)
  next
    case (forward inp sid n)
    show ?thesis
    proof (rule forward_msg_streams[OF forward(3)[symmetric, unfolded t]])
      assume "h2_streams t = h2_streams s" "h2_conns t = h2_conns s"
      then show ?thesis using L Cn B' by simp
    next
      fix k q n
      let ?d = "\<lparr>ds_conn = ?i, ds_stream_id = sid\<rparr>" and ?x = "\<lparr>ds_conn = k, ds_stream_id = n + 2\<rparr>"
      assume ds: "cmp_proxy_addr ?ro (sk_remote ?i)"
        and q: "fib_upstream s (fib_queue_key (mr_dest (run_match (dp_filters C) (cmp_proxy_addr ?ro (sk_remote ?i)) inp)) True) = Some (k # q)"
        and n: "h2_conns s k = Some n" "h2_conns t = (h2_conns s)(k \<mapsto> n + 2)"
        and S: "h2_streams t = h2_streams s \<or> (\<exists>f g. h2_streams t = map_update g (map_update f (h2_streams s) ?d ?x) ?x ?d)"
      have "queue_ok ?ro (fib_queue_key (mr_dest (run_match (dp_filters C) (cmp_proxy_addr ?ro (sk_remote ?i)) inp)) True) (k # q)"
        using Q q unfolding queues_ok_def by blast
      then have x: "upstream ?ro ?x" by (simp add: queue_ok_def upstream_def)
      have d: "\<not> upstream ?ro ?d" using ds by (simp add: upstream_def)
      have u: "uint (n + 2) = uint n + 2" by (rule uint_add_2[OF B[OF n(1)] j])
      have le: "n' \<le> n + 2" "n' < n + 2" if "h2_conns s k = Some n'" for n' using that n(1) u by (simp_all add: word_le_def word_less_def)
      have fresh: "?x \<notin> dom (h2_streams s)" "?x \<notin> ran (h2_streams s)"
        using counted_fresh[OF Cn x] le(2) by simp_all
      have "\<forall>k' n'. h2_conns t k' = Some n' \<longrightarrow> uint n' \<le> 2 * (j + 1) + 1"
        using B' B[OF n(1)] u unfolding n(2) by auto
      moreover have "links_ok ?ro (h2_streams t)" using S L links_assign[OF L d x fresh] by metis
      moreover have "counted ?ro (h2_streams t) (h2_conns t)"
        using S counted_conn[OF Cn le(1)] counted_assign[OF Cn le(1) d] unfolding n(2) by metis
      ultimately show ?thesis by blast
    qed
  qed
qed

lemma h2_uturn_streams:
  assumes t: "h2_uturn e False l r sid b c s = (Ok (t, u) :: (_, unit) outcome)" and i: "sock_key_try_from e r l = Ok i"
  obtains (same) "h2_streams t = h2_streams s" "h2_conns t = h2_conns s"
  | (linked) k where "Option.bind b (\<lambda>a. uturn_conn e l r sid a s) = Some k" "h2_conns t = (h2_conns s)(k \<mapsto> 1)"
      "h2_streams t = map_update True (map_update True (h2_streams s) \<lparr>ds_conn = i, ds_stream_id = sid\<rparr> \<lparr>ds_conn = k, ds_stream_id = 1\<rparr>)
         \<lparr>ds_conn = k, ds_stream_id = 1\<rparr> \<lparr>ds_conn = i, ds_stream_id = sid\<rparr>"
proof -
  obtain s1 dk tok where t1: "take_token e l r sid s = (Ok (s1, dk, tok) :: (_, unit) outcome)"
    using t by (auto simp: h2_uturn_def and_then_Ok_iff)
  obtain w where s1: "s1 = s\<lparr>utrn_wait_list := w\<rparr>" using take_token_frame[OF t1] by blast
  show ?thesis
  proof (cases "tok = None \<or> b = None")
    case True
    then have "t = s1" using t by (auto simp: h2_uturn_def t1 split: option.splits)
    then show ?thesis by (intro same) (simp_all add: s1)
  next
    case False
    then obtain d a where da: "tok = Some d" "b = Some a" by auto
    obtain k where k: "sock_key_try_from e (addr_key_into_socket_addr e d) a = Ok k"
      using t by (auto simp: h2_uturn_def t1 da and_then_Ok_iff elim!: unwrap.elims)
    have "Option.bind b (\<lambda>a. uturn_conn e l r sid a s) = Some k" by (simp add: da uturn_conn_def t1 k)
    moreover have "h2_conns t = (h2_conns s)(k \<mapsto> 1)" "h2_streams t = (h2_streams s)
        (\<lparr>ds_conn = i, ds_stream_id = sid\<rparr> \<mapsto> \<lparr>ds_conn = k, ds_stream_id = 1\<rparr>, \<lparr>ds_conn = k, ds_stream_id = 1\<rparr> \<mapsto> \<lparr>ds_conn = i, ds_stream_id = sid\<rparr>)"
      using t by (auto simp: h2_uturn_def t1 da k i s1 Let_def and_then_Ok_iff split: if_splits)
    ultimately show ?thesis by (intro linked) (simp_all add: map_update_def)
  qed
qed

lemma dp_step_streams:
  assumes "dp_step C s ev = Some t"
    and "case ev of Ev_msg _ _ \<Rightarrow> False | Ev_skb _ _ \<Rightarrow> False | Ev_parse_skb _ _ \<Rightarrow> False | Ev_h2_uturn _ _ _ _ _ _ \<Rightarrow> False
      | Ev_evict_stream _ \<Rightarrow> False | _ \<Rightarrow> True"
  shows "h2_streams t = h2_streams s \<and> h2_conns t = h2_conns s"
proof (cases ev)
  case (Ev_h1_uturn tls l r b c)
  then obtain u where "h1_uturn (dp_endian C) tls l r b c s = (Ok (t, u) :: (_, unit) outcome)" using assms by auto
  then show ?thesis by (auto dest!: h1_uturn_frame)
next
  case (Ev_sock ok1 ok2 op m)
  then show ?thesis using assms by (auto simp: monitor_sockets_def Let_def split: option.splits sock_map.splits)
next
  case (Ev_remove_tls ok m)
  then show ?thesis using assms by (auto simp: remove_tls_def Let_def split: option.splits)
qed (use assms in \<open>auto simp: h2_finish_def\<close>)

interpretation h2: invariant_system "h2_step C" "h2_inv C" for C
proof
  fix sj ev tj
  assume inv: "h2_inv C sj" and st: "h2_step C sj ev = Some tj"
  obtain s j where sj: "sj = (s, j)" by fastforce
  have j: "j < 2 ^ 31 - 2" using st by (auto simp: sj split: if_splits)
  have dp: "\<exists>t. dp_step C s ev = Some t \<and> tj = (t, j + 1)" using st by (auto simp: sj split: event.splits if_splits)
  then obtain t where t: "dp_step C s ev = Some t" "tj = (t, j + 1)" by blast
  have Q: "queues_ok (dp_ro C) (fib_upstream t)"
    using queues.step_inv[of C s "dom (fib_upstream s)" ev t] inv t(1) by (simp add: h2_inv_def sj)
  have L: "links_ok (dp_ro C) (h2_streams s)" and Cn: "counted (dp_ro C) (h2_streams s) (h2_conns s)"
    and B: "\<forall>k n. h2_conns s k = Some n \<longrightarrow> uint n \<le> 2 * (j + 1) + 1" and j0: "0 \<le> j"
    using inv by (fastforce simp: h2_inv_def sj)+
  have "links_ok (dp_ro C) (h2_streams t) \<and> counted (dp_ro C) (h2_streams t) (h2_conns t) \<and>
    (\<forall>k n. h2_conns t k = Some n \<longrightarrow> uint n \<le> 2 * (j + 1) + 1)"
  proof (cases ev)
    case (Ev_msg K m)
    then show ?thesis using h2_msg_inv[OF inv[unfolded sj] j, of K m t] t(1) by (simp add: prod_eq_iff)
  next
    case (Ev_evict_stream d)
    then show ?thesis using t(1) L Cn B links_evict counted_evict by auto
  next
    case (Ev_h2_uturn tls l r sid b c)
    then have tls: "tls = False" using st by (auto simp: sj split: if_splits)
    obtain i where i: "sock_key_try_from (dp_endian C) r l = Ok i" "cmp_proxy_addr (dp_ro C) (sk_remote i)"
      using st by (auto simp: sj Ev_h2_uturn split: if_splits outcome.splits)
    obtain u where u: "h2_uturn (dp_endian C) False l r sid b c s = (Ok (t, u) :: (_, unit) outcome)"
      using t(1) by (auto simp: Ev_h2_uturn tls)
    have d: "\<not> upstream (dp_ro C) \<lparr>ds_conn = i, ds_stream_id = sid\<rparr>" using i(2) by (simp add: upstream_def)
    show ?thesis
    proof (cases rule: h2_uturn_streams[OF u i(1)])
      case 1
      then show ?thesis using L Cn B by simp
    next
      case (2 k)
      then have k: "\<not> cmp_proxy_addr (dp_ro C) (sk_remote k)" "h2_conns s k = None"
        using st by (auto simp: sj Ev_h2_uturn split: if_splits)
      let ?x = "\<lparr>ds_conn = k, ds_stream_id = 1\<rparr>"
      have x: "upstream (dp_ro C) ?x" using k(1) by (simp add: upstream_def)
      have fresh: "?x \<notin> dom (h2_streams s)" "?x \<notin> ran (h2_streams s)" using counted_fresh[OF Cn x] k(2) by simp_all
      have "n \<le> 1" if "h2_conns s k = Some n" for n using that k(2) by simp
      from counted_assign[OF Cn this d] show ?thesis unfolding 2(2,3) using B j0 links_assign[OF L d x fresh] by simp
    qed
  next
    case (Ev_skb K m)
    then show ?thesis using st by (simp add: sj split: if_splits)
  next
    case (Ev_parse_skb K m)
    then show ?thesis using st by (simp add: sj split: if_splits)
  qed (use dp_step_streams[OF t(1)] L Cn B in simp_all)
  with Q inv show "h2_inv C tj" by (simp add: t(2) sj h2_inv_def)
qed

lemma process_msg_frame:
  assumes "0 \<notin> {pk_local_port m, pk_remote_port m, pk_local_ip4 m, pk_remote_ip4 m}"
    and "h2_conns s (new_sock_key_from_msg e m) \<noteq> None" "pa_h2 P (pk_data m) = (done_idx, pres, frame)" "done_idx > 0"
    and "\<not> is_first_hdr frame" "h2_streams s \<lparr>ds_conn = new_sock_key_from_msg e m, ds_stream_id = fr_sid frame\<rparr> = Some d"
  shows "process_msg e ro P F K m s =
    (s, pass_msg (redirect_hash (msg_sock_map s) (ds_conn d)) (Some (word_of_int done_idx)) (set_h2_stream_id_msg K (pk_data m) (ds_stream_id d)))"
  using assms by (auto simp: process_msg_def parse_packet_def translate_stream_def Let_def)

lemma add_pqueues_frame:
  "add_pqueues e ok as s = Some t \<Longrightarrow> h2_streams t = h2_streams s \<and> h2_conns t = h2_conns s"
  by (induction as arbitrary: s) (auto simp: add_pqueue_to_fib_def bind_eq_Some_conv split: outcome.splits if_splits)

text \<open>A HEADERS frame of an HTTP/2 connection, and what forwarding one of a client leaves.\<close>

definition h2_headers :: "dp_params \<Rightarrow> bpf_maps \<Rightarrow> packet \<Rightarrow> u32 \<Rightarrow> bool" where
  "h2_headers C s m sid \<longleftrightarrow>
     0 \<notin> {pk_local_port m, pk_remote_port m, pk_local_ip4 m, pk_remote_ip4 m} \<and>
     h2_conns s (new_sock_key_from_msg (dp_endian C) m) \<noteq> None \<and>
     (case pa_h2 (dp_parsers C) (pk_data m) of (done_idx, _, frame) \<Rightarrow> done_idx > 0 \<and> is_first_hdr frame \<and> fr_sid frame = sid)"

definition h2_forwards :: "dp_params \<Rightarrow> kenv \<Rightarrow> packet \<Rightarrow> u32 \<Rightarrow> sock_key \<Rightarrow> bpf_maps \<Rightarrow> bpf_maps \<Rightarrow> bool" where
  "h2_forwards C K m sid k s t \<longleftrightarrow>
     h2_headers C s m sid \<and> cmp_proxy_addr (dp_ro C) (sk_remote (new_sock_key_from_msg (dp_endian C) m)) \<and>
     ke_fib K \<and> ke_istream K \<and> ke_estream K \<and>
     (case process_msg (dp_endian C) (dp_ro C) (dp_parsers C) (dp_filters C) K m s of
        (t', v) \<Rightarrow> t' = t \<and> vd_redirect v = Some k)"

lemma h2_request_forwarded:
  assumes "h2_forwards C K m sid k s t" "h2_conns s k = Some n" "\<not> sock_key_is_null k" "ak_ip4 (sk_local k) \<noteq> 0"
  defines "i \<equiv> new_sock_key_from_msg (dp_endian C) m"
  defines "sid' \<equiv> (case h2_streams s \<lparr>ds_conn = i, ds_stream_id = sid\<rparr> of None \<Rightarrow> sid | Some d \<Rightarrow> ds_stream_id d)"
  shows "h2_streams t = (h2_streams s)(\<lparr>ds_conn = i, ds_stream_id = sid'\<rparr> \<mapsto> \<lparr>ds_conn = k, ds_stream_id = n + 2\<rparr>,
      \<lparr>ds_conn = k, ds_stream_id = n + 2\<rparr> \<mapsto> \<lparr>ds_conn = i, ds_stream_id = sid'\<rparr>)"
    "h2_conns t = (h2_conns s)(k \<mapsto> n + 2)" "fib_downstream t (sk_remote k) = Some i" "msg_sock_map t = msg_sock_map s"
proof -
  obtain done_idx pres frame where f: "pa_h2 (dp_parsers C) (pk_data m) = (done_idx, pres, frame)" by (metis prod_cases3)
  obtain data where tr: "translate_stream K (h2_streams s \<lparr>ds_conn = i, ds_stream_id = sid\<rparr>) (pk_data m) sid = (data, sid')"
    by (cases "h2_streams s \<lparr>ds_conn = i, ds_stream_id = sid\<rparr>") (auto simp: translate_stream_def sid'_def)
  obtain v dest d ml where v: "forward_msg K i True True sid' dest d ml s = (t, v)" "vd_redirect v = Some k"
    using assms(1) f tr by (auto simp: h2_forwards_def h2_headers_def process_msg_def parse_packet_def drop_msg_def Let_def
        i_def[symmetric] split: if_splits)
  obtain res k' u where r: "route_conn K i True True True dest s = (res, k', u)" by (metis prod_cases3)
  have k': "k' = k" "res = PR_PASS" "k \<in> msg_sock_map u"
    using v by (auto simp: forward_msg_def r Let_def drop_msg_def pass_msg_def redirect_hash_def split: if_splits prod.splits)
  have u: "h2_streams u = h2_streams s" "h2_conns u = h2_conns s" "msg_sock_map u = msg_sock_map s" by (subst route_conn_frame[OF r], simp)+
  have "fib_downstream u (sk_remote k) = Some i"
    using r assms(1,4) by (auto simp: k' route_conn_def post_forward_ds_conn_def fib_insert_def map_update_def h2_forwards_def split: prod.splits)
  moreover have "t = fst (assign_stream K i sid' k True d u)"
    using v k' assms(3) by (auto simp: forward_msg_def r Let_def redirect_hash_def split: prod.splits)
  ultimately show "h2_streams t = (h2_streams s)(\<lparr>ds_conn = i, ds_stream_id = sid'\<rparr> \<mapsto> \<lparr>ds_conn = k, ds_stream_id = n + 2\<rparr>,
      \<lparr>ds_conn = k, ds_stream_id = n + 2\<rparr> \<mapsto> \<lparr>ds_conn = i, ds_stream_id = sid'\<rparr>)"
    "h2_conns t = (h2_conns s)(k \<mapsto> n + 2)" "fib_downstream t (sk_remote k) = Some i" "msg_sock_map t = msg_sock_map s"
    using assms(1,2) u by (simp_all add: assign_stream_def map_update_def h2_forwards_def Let_def)
qed

lemma process_msg_response_headers:
  assumes "h2_headers C t m sid" "new_sock_key_from_msg (dp_endian C) m = k" "\<not> cmp_proxy_addr (dp_ro C) (sk_remote k)"
    and "fib_downstream t (sk_remote k) = Some c" "c \<in> msg_sock_map t" "h2_streams t \<lparr>ds_conn = k, ds_stream_id = sid\<rparr> = Some a"
  shows "vd_redirect (snd (process_msg (dp_endian C) (dp_ro C) (dp_parsers C) (dp_filters C) K m t)) = Some c"
    "vd_data (snd (process_msg (dp_endian C) (dp_ro C) (dp_parsers C) (dp_filters C) K m t)) = set_h2_stream_id_msg K (pk_data m) (ds_stream_id a)"
  using assms by (auto simp: h2_headers_def process_msg_def parse_packet_def translate_stream_def forward_msg_def run_match_def
      forward_us_conn_def route_conn_def fib_query_def post_forward_us_conn_def fib_insert_def redirect_hash_def pass_msg_def Let_def
      split: prod.splits option.splits)

section \<open>Properties\<close>


text \<open>
  C39. The response HEADERS of a multiplexed connection follow the last request, not the stream. When two clients have each had a request
  forwarded on upstream connection \<open>k\<close>, the first on stream \<open>n + 2\<close>, the connection's next HEADERS frame on stream
  \<open>n + 2\<close> is linked to the first client and gets that client's stream id, but goes to the second client's connection.
\<close>
theorem h2_headers_follow_last_request:
  assumes "h2_forwards C K ma sid k s s'" "h2_forwards C K mb sid' k s' t"
    and "h2_conns s k = Some n" "h2_streams s \<lparr>ds_conn = new_sock_key_from_msg (dp_endian C) ma, ds_stream_id = sid\<rparr> = None"
    and "\<not> cmp_proxy_addr (dp_ro C) (sk_remote k)" "new_sock_key_from_msg (dp_endian C) mb \<in> msg_sock_map s"
    and "h2_headers C t m (n + 2)" "new_sock_key_from_msg (dp_endian C) m = k"
  shows "h2_streams t \<lparr>ds_conn = k, ds_stream_id = n + 2\<rparr> =
      Some \<lparr>ds_conn = new_sock_key_from_msg (dp_endian C) ma, ds_stream_id = sid\<rparr> \<and>
    vd_data (snd (process_msg (dp_endian C) (dp_ro C) (dp_parsers C) (dp_filters C) K m t)) = set_h2_stream_id_msg K (pk_data m) sid \<and>
    vd_redirect (snd (process_msg (dp_endian C) (dp_ro C) (dp_parsers C) (dp_filters C) K m t)) =
      Some (new_sock_key_from_msg (dp_endian C) mb)"
proof -
  have k: "\<not> sock_key_is_null k" "ak_ip4 (sk_local k) \<noteq> 0"
    using assms(7,8) by (auto simp: h2_headers_def new_sock_key_from_msg_def sock_key_is_null_def)
  note a = h2_request_forwarded[OF assms(1,3) k, unfolded assms(4) option.case]
  have n: "h2_conns s' k = Some (n + 2)" by (simp add: a(2))
  note b = h2_request_forwarded[OF assms(2) n k]
  have "new_sock_key_from_msg (dp_endian C) mb \<noteq> k" using assms(2,5) by (auto simp: h2_forwards_def)
  then have "h2_streams t \<lparr>ds_conn = k, ds_stream_id = n + 2\<rparr> =
      Some \<lparr>ds_conn = new_sock_key_from_msg (dp_endian C) ma, ds_stream_id = sid\<rparr>"
    by (simp add: b(1) a(1))
  moreover from process_msg_response_headers[OF assms(7,8,5) b(3) _ this] assms(6) a(4) b(4)
  show ?thesis using calculation by simp
qed

text \<open>Two clients of the sample proxy that speak HTTP/2, on ports 5000 and 5001, and the connection of the sample instance.
  A frame is its nine-byte header, and the preface the single byte 0.\<close>

definition h2_dp :: dp_params where
  "h2_dp = sample_dp\<lparr>dp_ro := sample_rodata\<lparr>ro_h1_preface_mid := 0\<rparr>,
     dp_parsers := \<lparr>pa_h1 = (\<lambda>d. (int (length d), \<lambda>_. \<lparr>hm_idx = 0, hm_len = (if d = [0] then 1 else 0)\<rparr>, 0)),
       pa_h2 = (\<lambda>d. if length d < 9 then (0, \<lambda>_. \<lparr>hm_idx = 0, hm_len = 0\<rparr>, no_frame)
                    else (9, \<lambda>_. \<lparr>hm_idx = 0, hm_len = 0\<rparr>, \<lparr>fr_type = d ! 3, fr_flags = d ! 4, fr_sid = ucast (d ! 8)\<rparr>)),
       pa_max_matches = 32\<rparr>\<rparr>"

definition frame_of :: "packet \<Rightarrow> byte \<Rightarrow> byte \<Rightarrow> byte \<Rightarrow> packet" where
  "frame_of m ty flags sid = m\<lparr>pk_data := [0, 0, 0, ty, flags, 0, 0, 0, sid]\<rparr>"

definition client_b :: packet where
  "client_b = sample_request\<lparr>pk_local_port := 5001\<rparr>"

text \<open>Both clients connect; the first opens a stream by a U-turn, and the response makes the connection available.\<close>

definition h2_opening :: "event list" where
  "h2_opening =
     [Ev_sock True True ACTIVE_ESTABLISHED sample_request, Ev_sock True True ACTIVE_ESTABLISHED client_b,
      Ev_msg all_ok (sample_request\<lparr>pk_data := [0]\<rparr>), Ev_msg all_ok (client_b\<lparr>pk_data := [0]\<rparr>),
      Ev_msg all_ok (frame_of sample_request 1 4 1),
      Ev_h2_uturn False (SockV4 (Ipv4Addr 10 0 0 1) 8080) (SockV4 (Ipv4Addr 10 0 0 9) 5000) 1
        (Some (SockV4 (Ipv4Addr 10 0 0 1) 6000)) True,
      Ev_sock True True PASSIVE_ESTABLISHED sample_response, Ev_msg all_ok (frame_of sample_response 1 4 1)]"

definition stream_a :: data_stream where
  "stream_a = \<lparr>ds_conn = new_sock_key_from_msg BigEndian sample_request, ds_stream_id = 3\<rparr>"

definition stream_up :: data_stream where
  "stream_up = \<lparr>ds_conn = sample_conn, ds_stream_id = 3\<rparr>"

lemma h2_sample_run:
  "\<exists>s t j. listen_pqueues BigEndian True sample_conf empty_maps = Some s \<and>
     run (h2_step h2_dp) (s, 0) (h2_opening @ [Ev_msg all_ok (frame_of sample_request 1 4 3), Ev_msg all_ok (frame_of client_b 1 4 1)]) = Some (t, j) \<and>
     h2_streams t stream_a = Some stream_up \<and> h2_streams t stream_up = Some stream_a \<and>
     ds_conn stream_a \<in> msg_sock_map t"
proof -
  have "map_option (\<lambda>(t, _). (h2_streams t stream_a, h2_streams t stream_up, ds_conn stream_a \<in> msg_sock_map t))
    (Option.bind (listen_pqueues BigEndian True sample_conf empty_maps)
      (\<lambda>s. run (h2_step h2_dp) (s, 0) (h2_opening @ [Ev_msg all_ok (frame_of sample_request 1 4 3), Ev_msg all_ok (frame_of client_b 1 4 1)]))) =
      Some (Some stream_up, Some stream_a, True)" by code_simp
  then show ?thesis by (auto simp: bind_eq_Some_conv)
qed


theorem h2_headers_follow_last_request_witness:
  "\<exists>s s' t. h2_forwards h2_dp all_ok (frame_of sample_request 1 4 3) 3 sample_conn s s' \<and>
     h2_forwards h2_dp all_ok (frame_of client_b 1 4 1) 1 sample_conn s' t \<and>
     h2_streams t stream_up = Some stream_a \<and>
     vd_redirect (snd (process_msg BigEndian (dp_ro h2_dp) (dp_parsers h2_dp) (dp_filters h2_dp) all_ok (frame_of sample_response 1 4 3) t)) =
       Some (new_sock_key_from_msg BigEndian client_b) \<and>
     ds_conn stream_a \<noteq> new_sock_key_from_msg BigEndian client_b"
proof -
  let ?a = "frame_of sample_request 1 4 3" and ?b = "frame_of client_b 1 4 1" and ?m = "frame_of sample_response 1 4 3"
  let ?p = "process_msg BigEndian (dp_ro h2_dp) (dp_parsers h2_dp) (dp_filters h2_dp) all_ok"
  let ?c = "\<lambda>s. let (s', va) = ?p ?a s; (t, vb) = ?p ?b s' in
      (h2_headers h2_dp s ?a 3, vd_redirect va, h2_headers h2_dp s' ?b 1, vd_redirect vb, h2_headers h2_dp t ?m 3,
       h2_conns s sample_conn, h2_streams s stream_a, new_sock_key_from_msg BigEndian client_b \<in> msg_sock_map s)"
  have "map_option (?c \<circ> fst) (Option.bind (listen_pqueues BigEndian True sample_conf empty_maps) (\<lambda>s. run (h2_step h2_dp) (s, 0) h2_opening)) =
      Some (True, Some sample_conn, True, Some sample_conn, True, Some 1, None, True)" by code_simp
  then obtain s where c: "?c s = (True, Some sample_conn, True, Some sample_conn, True, Some 1, None, True)" by fastforce
  obtain s' va where s': "?p ?a s = (s', va)" by fastforce
  obtain t vb where t: "?p ?b s' = (t, vb)" by fastforce
  from c have s: "?p ?a s = (s', va)" "?p ?b s' = (t, vb)" "h2_headers h2_dp s ?a 3" "vd_redirect va = Some sample_conn"
    "h2_headers h2_dp s' ?b 1" "vd_redirect vb = Some sample_conn" "h2_headers h2_dp t ?m 3" "h2_conns s sample_conn = Some 1"
    "h2_streams s stream_a = None" "new_sock_key_from_msg BigEndian client_b \<in> msg_sock_map s"
    by (simp_all add: s' t)
  have e: "dp_endian h2_dp = BigEndian" by code_simp
  have ds: "cmp_proxy_addr (dp_ro h2_dp) (sk_remote (new_sock_key_from_msg BigEndian ?a))"
    "cmp_proxy_addr (dp_ro h2_dp) (sk_remote (new_sock_key_from_msg BigEndian ?b))"
    "\<not> cmp_proxy_addr (dp_ro h2_dp) (sk_remote sample_conn)" by code_simp+
  have k: "new_sock_key_from_msg BigEndian ?a = ds_conn stream_a" "new_sock_key_from_msg BigEndian ?b = new_sock_key_from_msg BigEndian client_b"
    "new_sock_key_from_msg BigEndian ?m = sample_conn" "ds_conn stream_a \<noteq> new_sock_key_from_msg BigEndian client_b"
    "\<lparr>ds_conn = ds_conn stream_a, ds_stream_id = 3\<rparr> = stream_a" by code_simp+
  have f: "h2_forwards h2_dp all_ok ?a 3 sample_conn s s'" "h2_forwards h2_dp all_ok ?b 1 sample_conn s' t"
    using s ds by (simp_all add: h2_forwards_def e) (simp_all add: all_ok_def)
  from h2_headers_follow_last_request[OF f s(8), of ?m, unfolded e k] s ds f k(4)
  show ?thesis by (auto simp: stream_up_def)
qed

end
