(* ===== verification/Dataplane_Limits.thy ===== *)
theory Dataplane_Limits
  imports Dataplane_Correct
begin

text \<open>
  Two places where the data plane does not do what is meant: the address range of the container
  network, and requests on TLS sockets that the filters deny.
\<close>

section \<open>The network range\<close>

lemma be32_sum: "be32 a b c d = ucast a * 2 ^ 24 + ucast b * 2 ^ 16 + ucast c * 2 ^ 8 + ucast d"
proof -
  have "be32 a b c d = push_bit 24 (ucast a) + push_bit 16 (ucast b) + push_bit 8 (ucast c) + ucast d"
    unfolding be32_def
    by (subst disjunctive_add, (auto simp: bit_simps byte_bit_beyond)[1])+ (simp only: or.assoc)
  then show ?thesis by (simp add: push_bit_eq_mult)
qed

lemma ntohl_from_ne_bytes: "bpf_ntohl e (from_ne_bytes e (Ipv4Addr a b c d)) = be32 a b c d"
  by (cases e) (simp_all add: bpf_ntohl_def octets_be32)

lemma ucast_byte_succ:
  assumes "(b :: byte) \<noteq> 255"
  shows "(ucast (b + 1) :: u32) = ucast b + 1"
proof -
  obtain n where b: "b = word_of_nat n" "n < 256"
    by (rule that[of "unat b"]) (use unsigned_less[of b, where ?'a = nat] in simp_all)
  have n: "n \<noteq> 255" using assms b by auto
  have u: "(ucast (word_of_nat k :: byte) :: u32) = word_of_nat k" if "k < 256" for k
  proof -
    have "unat (word_of_nat k :: byte) = k" using that by (simp add: unsigned_of_nat take_bit_nat_eq_self)
    then have "(word_of_nat (unat (word_of_nat k :: byte)) :: u32) = word_of_nat k" by simp
    then show ?thesis by (simp only: of_nat_unat)
  qed
  have "b + 1 = word_of_nat (Suc n)" by (simp add: b)
  then show ?thesis using u[of n] u[of "Suc n"] b n by (simp add: add.commute)
qed

text \<open>Adding a power of 256 to a number that was read in the opposite byte order counts up another octet.\<close>

lemma be32_add:
  "b \<noteq> 255 \<Longrightarrow> be32 d c b a + 256 = be32 d c (b + 1) a" "c \<noteq> 255 \<Longrightarrow> be32 d c b a + 65536 = be32 d (c + 1) b a"
  by (simp_all add: be32_sum ucast_byte_succ distrib_right)



section \<open>Denied requests on TLS sockets\<close>

text \<open>The result of the filters for an HTTP/1 request on a TLS socket.\<close>

definition skb_result :: "dp_params \<Rightarrow> packet \<Rightarrow> match_res" where
  "skb_result C m =
     (let k = new_sock_key_from_skb (dp_endian C) m
      in run_match (dp_filters C) (cmp_proxy_addr (dp_ro C) (sk_remote k))
           \<lparr>fi_key = k, fi_data = pk_data m, fi_pres = fst (snd (pa_h1 (dp_parsers C) (pk_data m))),
            fi_done_idx = word_of_int (fst (pa_h1 (dp_parsers C) (pk_data m))),
            fi_ctx_h2 = False, fi_is_skb = True, fi_is_h2 = False\<rparr>)"

lemma process_skb_verdict:
  assumes "skb_verdict s (new_sock_key_from_skb e m) = Some d" "cmp_proxy_addr ro (sk_remote (new_sock_key_from_skb e m))"
    and "h2_conns s (new_sock_key_from_skb e m) = None"
    and "fib_upstream s (fib_queue_key d False) = Some (k # q)" "sock_key_invert k \<in> skb_sock_map s"
  shows "vd_redirect (snd (process_skb e ro P F K m s)) = Some (sock_key_invert k)"
  using assms by (auto simp: process_skb_def forward_skb_def route_conn_def fib_query_def post_forward_ds_conn_def fib_insert_def
      redirect_hash_def pass_msg_def Let_def)


text \<open>A proxy that denies every request, after the route to the instance.\<close>

definition denying_dp :: dp_params where
  "denying_dp = sample_dp\<lparr>dp_filters := \<lparr>fl_ds = (\<lambda>inp. \<lparr>mr_action = PR_DROP, mr_data = fi_data inp, mr_content_length = 0,
     mr_done_idx = ucast (fi_done_idx inp), mr_dest = sample_instance\<rparr>), fl_content_length = (\<lambda>_. 0)\<rparr>\<rparr>"

definition sample_skb :: packet where
  "sample_skb = \<lparr>pk_local_ip4 = 0x0A000001, pk_local_port = 8080, pk_remote_ip4 = 0x0A000009, pk_remote_port = 5000, pk_data = [1]\<rparr>"

definition skb_maps :: bpf_maps where
  "skb_maps = empty_maps\<lparr>fib_upstream := [fib_queue_key sample_instance False \<mapsto> [sample_conn]],
     skb_sock_map := {sock_key_invert sample_conn}\<rparr>"


end
