(* ===== verification/Spec2Isabelle.thy ===== *)
theory Spec2Isabelle
  imports Flow_Control Stream_State Config Compiler_Sem Settings_Frame Hpack_Decoder_Correct Huffman_Correct Dataplane_Uturn Dataplane_H2 Dataplane_Limits
begin

text \<open>
  Verification of Beeline, a service-mesh data plane: a configuration is compiled to BPF filters
  (\<open>src/common\<close>), BPF programs redirect messages between sockets (\<open>src/beeline/src/bpf\<close>), and a user-space proxy
  opens upstream connections, with an HTTP/2 implementation of its own (\<open>src/beeline/src/http2\<close>).

  \<^bold>\<open>Theories and what they model\<close>

  \<^item> \<open>Prelude\<close>: results of fallible code (\<open>Ok\<close>, \<open>Err\<close>, \<open>Panic\<close>), machine integers, big-endian numbers, and two
    interfaces for invariants of operation sequences.
  \<^item> \<open>Errors\<close>: \<open>proto/error.rs\<close>, \<open>frame/reason.rs\<close>, \<open>codec/error.rs\<close>.
  \<^item> \<open>Flow_Control\<close>: \<open>proto/streams/flow_control.rs\<close>; data sent never exceeds what was granted.
  \<^item> \<open>Stream_State\<close>: \<open>proto/streams/state.rs\<close>; each transition is a path in the RFC 9113 diagram.
  \<^item> \<open>Text\<close>, \<open>Net\<close>, \<open>Config\<close>: string functions of the standard library, \<open>common/src/net.rs\<close> with the address keys of
    \<open>beeline/src/bpf\<close>, and \<open>common/src/config/beeline.rs\<close>.
  \<^item> \<open>Compiler_Vars\<close>, \<open>Compiler_Text\<close>, \<open>Compiler_Sem\<close>: \<open>common/src/compiler.rs\<close>. The second produces the
    generated text character by character; the third gives the conditions and control flow of that
    text a meaning and compares it with the configuration.
  \<^item> \<open>Frames\<close>, \<open>Settings_Frame\<close>: \<open>frame/*.rs\<close> without HEADERS and PUSH_PROMISE. Each frame type is an instance
    of the interface \<open>frame_codec\<close>, from which the round trips of whole frames follow.
  \<^item> \<open>Hpack_Int\<close>, \<open>Hpack_Header\<close>, \<open>Hpack_Decoder\<close>, \<open>Hpack_Decoder_Correct\<close>: \<open>hpack/decoder.rs\<close>,
    \<open>hpack/header.rs\<close> and the integer encoder. The cursor code is compared with a parser on byte lists, on which
    the properties are proved.
  \<^item> \<open>Huffman_Table\<close>, \<open>Huffman\<close>, \<open>Huffman_Check\<close>, \<open>Huffman_Correct\<close>: \<open>hpack/huffman\<close>. The 4096 entries of the decoding table are
    checked against the codes, and the decoder accepts exactly the encodings.
  \<^item> \<open>Bpf_Util\<close>, \<open>Base64_Correct\<close>, \<open>Bpf_Msg\<close>: the helpers of \<open>beeline/src/bpf/base.bpf.c\<close>: base64url, xxHash,
    rewriting of messages, stream ids, TLS records, and the check of JWT signatures.
  \<^item> \<open>Dataplane\<close>: the maps of \<open>base.bpf.c\<close> as a record, its forwarding table, and one definition per BPF program
    (\<open>process_msg\<close>, \<open>parse_skb\<close>, \<open>process_skb\<close>, \<open>remove_tls\<close>, \<open>accelerate_network\<close>, \<open>monitor_sockets\<close>).
  \<^item> \<open>Control_Plane\<close>: the part of \<open>beeline/src/proxy.rs\<close> that shares the maps: read-only data, queues, and the
    upstream connections opened for U-turns.
  \<^item> \<open>Dataplane_Correct\<close>, \<open>Dataplane_H1\<close>, \<open>Dataplane_Uturn\<close>, \<open>Dataplane_H2\<close>, \<open>Dataplane_Limits\<close>: runs of both
    planes as sequences of events, including evictions and failing map updates. The queues are well typed in every run,
    HTTP/1 responses go to the client that asked, a U-turn ends in a connection that serves later requests, HTTP/2
    streams are kept apart, and three cases in which the code does not do what is meant.

  \<^bold>\<open>Conventions\<close>

  A method on \<open>&mut self\<close> that can fail returns the state and the outcome. Overflow of checked arithmetic, failed
  assertions and indexing out of range are \<open>Panic\<close>. \<open>u8\<close>, \<open>u16\<close> and \<open>u32\<close> are words, \<open>i32\<close> is an integer with its range
  written out, \<open>usize\<close> is a natural number. Loops are recursive functions with termination proofs; no
  fuel is used.

  \<^bold>\<open>Parameters\<close>

  The \<open>http\<close> crate (validation of names and values), the Huffman coder, the byte order of the machine, template
  files, the beeper parsers, \<open>httparse\<close>, the addresses sockets are bound to, and whether a BPF helper
  succeeds are arguments of the definitions that use them.

  \<^bold>\<open>Not modelled\<close>

  HEADERS frames (they are built on the header maps of the \<open>http\<close> crate), the HPACK encoder's hash table, the
  stream store and schedulers, the asynchronous codec and connection, the client and
  server interfaces, creating the crypto context, statistics and profiling of the data plane, loading and TLS set-up
  in the user-space proxy, and the layer-4 proxy.
\<close>

section \<open>From the configuration to the socket\<close>

text \<open>The compiled filters as the data plane runs them. What the generated code reads of a request (\<open>view\<close>), the
  outcomes of its helper calls (\<open>env\<close>), and the message and lengths it leaves (\<open>out\<close>) depend on the input; a request
  without a route keeps the zero destination of its context.\<close>

definition compiled_filters ::
  "rbac_rule list \<Rightarrow> groute list \<Rightarrow> (filter_input \<Rightarrow> cenv) \<Rightarrow> (filter_input \<Rightarrow> cview) \<Rightarrow>
   (filter_input \<Rightarrow> byte list \<times> u32 \<times> u32) \<Rightarrow> (filter_input \<Rightarrow> u32) \<Rightarrow> filters" where
  "compiled_filters rules routes env view out cl =
     \<lparr>fl_ds = (\<lambda>inp. case exec_match rules routes (env inp) (view inp) of (action, dest) \<Rightarrow>
        (case out inp of (data, content_length, done_idx) \<Rightarrow>
          \<lparr>mr_action = action, mr_data = data, mr_content_length = content_length, mr_done_idx = done_idx,
           mr_dest = (case dest of None \<Rightarrow> zero_addr | Some (ip, port) \<Rightarrow> \<lparr>ak_ip4 = ip, ak_port = ucast port\<rparr>)\<rparr>)),
      fl_content_length = cl\<rparr>"

lemma compiled_filters_pass:
  assumes "mr_action (fl_ds (compiled_filters rules routes env view out cl) inp) = PR_PASS"
  shows "\<exists>dest. exec_routes (env inp) routes (view inp) = Some dest \<and> exec_rbac rules rules (view inp) = PR_PASS \<and>
    mr_dest (fl_ds (compiled_filters rules routes env view out cl) inp) =
      (case dest of None \<Rightarrow> zero_addr | Some (ip, port) \<Rightarrow> \<lparr>ak_ip4 = ip, ak_port = ucast port\<rparr>)"
  using assms by (auto simp: compiled_filters_def exec_match_def split: option.splits prod.splits)

lemma inst_key_addr: "inst_key e a = Some (ip, port) \<Longrightarrow> addr_key_try_from e a = Ok \<lparr>ak_ip4 = ip, ak_port = ucast port\<rparr>"
  by (cases a) (auto simp: inst_key_def)


text \<open>A route for everything to the sample instance.\<close>

definition routed_conf :: config where
  "routed_conf = sample_conf\<lparr>cfg_routes :=
     [\<lparr>rt_pattern = \<lparr>pat_path = Some ''*'', pat_headers = None\<rparr>, rt_dest = ''a'', rt_filters = []\<rparr>]\<rparr>"

lemma routed_host:
  "resolve_host routed_conf ''a'' =
     Some \<lparr>host_name = ''a'', host_load_balancer = None, host_instances = [SockV4 (Ipv4Addr 10 0 0 2) 80], host_http2 = False\<rparr>"
  by (simp add: resolve_host_def routed_conf_def sample_conf_def eq_ignore_ascii_case_def)

lemma routed_fields:
  "cfg_routes routed_conf = [\<lparr>rt_pattern = \<lparr>pat_path = Some ''*'', pat_headers = None\<rparr>, rt_dest = ''a'', rt_filters = []\<rparr>]"
  "cfg_policies routed_conf = []"
  by (simp_all add: routed_conf_def sample_conf_def)

lemma routed_routes: "generate_ds_routes bare_templates plain_huffman BigEndian routed_conf \<noteq> None"
proof -
  have "\<exists>x. route_dest bare_templates BigEndian routed_conf 0 (cfg_routes routed_conf ! 0) = Some x"
    by (simp add: route_dest_def routed_fields routed_host)
  then obtain x where "route_dest bare_templates BigEndian routed_conf 0 (cfg_routes routed_conf ! 0) = Some x" ..
  then obtain g where "generate_ds_route bare_templates plain_huffman BigEndian routed_conf 0 (cfg_routes routed_conf ! 0) = Some g"
    by (cases x) (simp add: generate_ds_route_def path_condition_def headers_condition_def bare_read_filter routed_fields)
  then have "generate_ds_routes bare_templates plain_huffman BigEndian routed_conf = Some [g]"
    by (simp add: generate_ds_routes_def enumerate_with_nth routed_fields)
  then show ?thesis by simp
qed

text \<open>With this route the compiled filters are constant.\<close>

definition constant_filters :: filters where
  "constant_filters = \<lparr>fl_ds = (\<lambda>inp. \<lparr>mr_action = PR_PASS, mr_data = fi_data inp, mr_content_length = 0, mr_done_idx = 0,
     mr_dest = sample_instance\<rparr>), fl_content_length = (\<lambda>_. 0)\<rparr>"

lemma routed_rings: "rings_of BigEndian routed_conf ring_env"
  by (simp add: rings_of_def routed_fields routed_host)

lemma routed_texts: "\<forall>r \<in> set (cfg_routes routed_conf). \<forall>s \<in> set (route_texts r). no_nul s"
  by (simp add: routed_fields route_texts_def opt_headers_def no_nul_def bytes_of_def)

lemma routed_filters:
  assumes "generate_ds_routes bare_templates plain_huffman BigEndian routed_conf = Some routes"
  shows "compiled_filters [] routes (\<lambda>_. ring_env) (\<lambda>_. put_view) (\<lambda>inp. (fi_data inp, 0, 0)) (\<lambda>_. 0) = constant_filters"
proof -
  have 0: "0 < length (cfg_routes routed_conf)" "\<forall>j < (0 :: nat). \<not> route_matches plain_huffman put_view (cfg_routes routed_conf ! j)"
    "route_matches plain_huffman put_view (cfg_routes routed_conf ! 0)"
    by (simp_all add: routed_fields route_matches_def headers_match_def opt_headers_def)
  note f = exec_routes_first_match[OF assms routed_rings routed_texts 0(1,3,2)]
  have "exec_routes ring_env routes put_view \<noteq> None" using f by (simp add: routed_fields routed_host)
  then obtain d where d: "exec_routes ring_env routes put_view = Some d" by blast
  have "d = Some (from_ne_bytes BigEndian (Ipv4Addr 10 0 0 2), 80)"
    using f d by (auto simp: routed_fields routed_host inst_key_def)
  moreover have "sample_instance = \<lparr>ak_ip4 = from_ne_bytes BigEndian (Ipv4Addr 10 0 0 2), ak_port = 80\<rparr>" by code_simp
  ultimately show ?thesis using d by (simp add: compiled_filters_def constant_filters_def exec_match_def)
qed

definition routed_dp :: dp_params where
  "routed_dp = sample_dp\<lparr>dp_filters := constant_filters\<rparr>"

definition warm_up :: "event list" where
  "warm_up = [Ev_sock True True ACTIVE_ESTABLISHED sample_request, Ev_msg all_ok sample_request,
     Ev_h1_uturn False (SockV4 (Ipv4Addr 10 0 0 1) 8080) (SockV4 (Ipv4Addr 10 0 0 9) 5000)
       (Some (SockV4 (Ipv4Addr 10 0 0 1) 6000)) True,
     Ev_sock True True PASSIVE_ESTABLISHED sample_response, Ev_msg all_ok sample_response]"


end
